(* ===== verification/Tcn_Prelude.thy ===== *)
theory Tcn_Prelude
  imports Main "HOL-Library.Word" "HOL-Library.State_Monad"
begin

text \<open>
  Shared vocabulary of the development.

  \<^item> C results. A C function that may run into undefined behaviour returns a value of the
    sum type \<open>'a cres\<close>: \<open>Inl (UB u)\<close> is undefined behaviour, \<open>Inl (Exn e)\<close> is a Java
    exception raised through JNI followed by an immediate return, \<open>Inr x\<close> is a normal return.
  \<^item> Memory blocks. A C array is the list of its bytes; \<open>mem_read\<close> and \<open>mem_write\<close> are
    \<open>memcpy\<close> out of and into a block with the bounds check the hardware does not make.
  \<^item> Foreign calls. OpenSSL, APR and the JVM are not part of the repository. A handler that
    calls them runs over a \<open>world\<close> that records the calls made so far, and every value such a
    call returns is read from a parameter of type \<open>'f ext\<close> that may depend on the whole history.
  \<^item> The build. The C preprocessor selects code by the TLS library the project is built against;
    the record \<open>build\<close> holds the macros it looks at.
\<close>

named_theorems cres_simps "rules for C results and memory blocks"
named_theorems ffi_simps "rules for running foreign calls"

type_synonym byte = "8 word"

section \<open>C results\<close>

datatype ub = Null_Deref | Out_Of_Bounds | Signed_Overflow | Use_After_Free | No_Return_Value
  | Bad_Jni_Call

datatype jexc =
    NullPointerException string
  | IllegalArgumentException string
  | UnsupportedOperationException string
  | OutOfMemoryError string
  | JException string

datatype failure = UB ub | Exn jexc

type_synonym 'a cres = "failure + 'a"

definition cbind :: "'a cres \<Rightarrow> ('a \<Rightarrow> 'b cres) \<Rightarrow> 'b cres" where
  "cbind m f = (case m of Inl e \<Rightarrow> Inl e | Inr x \<Rightarrow> f x)"

lemma cbind_Inl [simp, cres_simps]: "cbind (Inl e) f = Inl e"
  by (simp add: cbind_def)

lemma cbind_Inr [simp, cres_simps]: "cbind (Inr x) f = f x"
  by (simp add: cbind_def)

lemma cbind_eq_Inr: "cbind m f = Inr y \<longleftrightarrow> (\<exists>x. m = Inr x \<and> f x = Inr y)"
  by (cases m) (auto simp: cbind_def)

lemma cbind_eq_Inl:
  "cbind m f = Inl e \<longleftrightarrow> m = Inl e \<or> (\<exists>x. m = Inr x \<and> f x = Inl e)"
  by (cases m) (auto simp: cbind_def)

definition deref :: "'a option \<Rightarrow> 'a cres" where
  "deref p = (case p of None \<Rightarrow> Inl (UB Null_Deref) | Some x \<Rightarrow> Inr x)"

lemma deref_simps [simp, cres_simps]:
  "deref None = Inl (UB Null_Deref)" "deref (Some x) = Inr x"
  by (simp_all add: deref_def)

section \<open>Machine integers\<close>

text \<open>
  A \<^verbatim>\<open>jint\<close> is a 32-bit signed integer, kept as an \<open>int\<close>; arithmetic on it goes through
  \<open>jint_of\<close>, which reports signed overflow (undefined behaviour in C). The cast of a
  \<^verbatim>\<open>jint\<close> to \<^verbatim>\<open>size_t\<close> wraps modulo \<open>2 ^ 64\<close>.
\<close>

definition jint_range :: "int \<Rightarrow> bool" where
  "jint_range x \<longleftrightarrow> - (2 ^ 31) \<le> x \<and> x < 2 ^ 31"

definition jint_of :: "int \<Rightarrow> int cres" where
  "jint_of x = (if jint_range x then Inr x else Inl (UB Signed_Overflow))"

definition size_t_of :: "int \<Rightarrow> int" where
  "size_t_of n = n mod 2 ^ 64"

definition int_cast :: "int \<Rightarrow> int" where
  "int_cast n = (n + 2 ^ 31) mod 2 ^ 32 - 2 ^ 31"

lemma int_cast_id: "jint_range n \<Longrightarrow> int_cast n = n"
  by (simp add: int_cast_def jint_range_def)

lemma jint_of_in_range [simp, cres_simps]: "jint_range x \<Longrightarrow> jint_of x = Inr x"
  by (simp add: jint_of_def)

lemma jint_of_Inr: "jint_of x = Inr y \<longleftrightarrow> jint_range x \<and> y = x"
  by (auto simp: jint_of_def)

lemma size_t_of_id: "0 \<le> n \<Longrightarrow> jint_range n \<Longrightarrow> size_t_of n = n"
  by (simp add: size_t_of_def jint_range_def)

definition TCN_MIN :: "int \<Rightarrow> int \<Rightarrow> int" where
  "TCN_MIN a b = (if a < b then a else b)"

lemma TCN_MIN_min: "TCN_MIN a b = min a b"
  by (simp add: TCN_MIN_def)

section \<open>Memory blocks\<close>

definition mem_read :: "byte list \<Rightarrow> int \<Rightarrow> int \<Rightarrow> byte list cres" where
  "mem_read blk off n =
     (if 0 \<le> off \<and> 0 \<le> n \<and> off + n \<le> int (length blk)
      then Inr (take (nat n) (drop (nat off) blk)) else Inl (UB Out_Of_Bounds))"

definition mem_write :: "byte list \<Rightarrow> int \<Rightarrow> byte list \<Rightarrow> byte list cres" where
  "mem_write blk off src =
     (if 0 \<le> off \<and> off + int (length src) \<le> int (length blk)
      then Inr (take (nat off) blk @ src @ drop (nat off + length src) blk)
      else Inl (UB Out_Of_Bounds))"

text \<open>\<open>memcpy(&dst[doff], &src[soff], n)\<close> between two different blocks.\<close>

definition memcpy :: "byte list \<Rightarrow> int \<Rightarrow> byte list \<Rightarrow> int \<Rightarrow> int \<Rightarrow> byte list cres" where
  "memcpy dst doff src soff n =
     cbind (mem_read src soff n) (\<lambda>bs. mem_write dst doff bs)"

lemma mem_read_ok [cres_simps]:
  "0 \<le> off \<Longrightarrow> 0 \<le> n \<Longrightarrow> off + n \<le> int (length blk)
   \<Longrightarrow> mem_read blk off n = Inr (take (nat n) (drop (nat off) blk))"
  by (simp add: mem_read_def)

lemma mem_read_length:
  "mem_read blk off n = Inr bs \<Longrightarrow> int (length bs) = n"
  by (auto simp: mem_read_def split: if_splits)

lemma mem_write_length:
  "mem_write blk off src = Inr blk' \<Longrightarrow> length blk' = length blk"
  by (auto simp: mem_write_def split: if_splits)

lemma memcpy_length: "memcpy dst doff src soff n = Inr dst' \<Longrightarrow> length dst' = length dst"
  by (auto simp: memcpy_def cbind_eq_Inr dest: mem_write_length)

lemma memcpy_ok:
  assumes "0 \<le> soff" "0 \<le> n" "soff + n \<le> int (length src)"
    and "0 \<le> doff" "doff + n \<le> int (length dst)"
  shows "memcpy dst doff src soff n =
    Inr (take (nat doff) dst @ take (nat n) (drop (nat soff) src) @ drop (nat doff + nat n) dst)"
proof -
  have len: "length (take (nat n) (drop (nat soff) src)) = nat n"
    using assms(1-3) by auto
  show ?thesis
    using assms by (simp add: memcpy_def mem_read_ok mem_write_def len)
qed

lemma memcpy_out_of_bounds:
  assumes "int (length dst) < doff" "0 \<le> n" "n \<le> int (length src)"
  shows "memcpy dst doff src 0 n = Inl (UB Out_Of_Bounds)"
  using assms by (simp add: memcpy_def mem_read_ok mem_write_def)

lemma memcpy_source_too_short:
  assumes "int (length src) < soff + n"
  shows "memcpy dst doff src soff n = Inl (UB Out_Of_Bounds)"
  using assms by (simp add: memcpy_def mem_read_def)

section \<open>Foreign calls\<close>

text \<open>
  Every C value that crosses the boundary to OpenSSL, APR or the JVM is a number: a flag, a
  length or an address (\<open>0\<close> is \<^verbatim>\<open>NULL\<close>). A call is the function's name, from an
  enumeration \<open>'f\<close> that each component declares, with its arguments.
\<close>

datatype 'f call = Call (callee: 'f) (args: "int list")

record 'f ext =
  ret :: "'f call list \<Rightarrow> 'f call \<Rightarrow> int"
  outp :: "'f call list \<Rightarrow> 'f call \<Rightarrow> nat \<Rightarrow> int"

record 'f world =
  calls :: "'f call list"
  thrown :: "jexc list"

type_synonym ('f, 'a) io = "('f world, 'a) state"

definition ffi :: "'f ext \<Rightarrow> 'f \<Rightarrow> int list \<Rightarrow> ('f, int) io" where
  "ffi x f as = State (\<lambda>w. (ret x (calls w) (Call f as), w\<lparr>calls := calls w @ [Call f as]\<rparr>))"

text \<open>A call with an out-parameter: the returned value and the value stored through the
  \<open>k\<close>-th pointer argument.\<close>

definition ffi_out :: "'f ext \<Rightarrow> 'f \<Rightarrow> int list \<Rightarrow> nat \<Rightarrow> ('f, int \<times> int) io" where
  "ffi_out x f as k = State (\<lambda>w. ((ret x (calls w) (Call f as), outp x (calls w) (Call f as) k),
     w\<lparr>calls := calls w @ [Call f as]\<rparr>))"

definition throw :: "jexc \<Rightarrow> ('f, unit) io" where
  "throw e = State (\<lambda>w. ((), w\<lparr>thrown := thrown w @ [e]\<rparr>))"

definition world_init :: "'f world" where
  "world_init = \<lparr>calls = [], thrown = []\<rparr>"

text \<open>The macros \<^verbatim>\<open>TCN_CHECK_NULL\<close>, \<^verbatim>\<open>TCN_CHECK_POSITIVE_OR_ZERO\<close> and
  \<^verbatim>\<open>TCN_CHECK_POSITIVE\<close> of \<^verbatim>\<open>tcn.h\<close>: throw and return \<open>r\<close>, or go on with \<open>k\<close>.\<close>

definition TCN_CHECK_NULL :: "int \<Rightarrow> string \<Rightarrow> 'a \<Rightarrow> ('f, 'a) io \<Rightarrow> ('f, 'a) io" where
  "TCN_CHECK_NULL v m r k =
     (if v = 0 then do { throw (NullPointerException m); State_Monad.return r } else k)"

definition TCN_CHECK_POSITIVE_OR_ZERO :: "int \<Rightarrow> string \<Rightarrow> 'a \<Rightarrow> ('f, 'a) io \<Rightarrow> ('f, 'a) io" where
  "TCN_CHECK_POSITIVE_OR_ZERO v m r k =
     (if v < 0 then do { throw (IllegalArgumentException m); State_Monad.return r } else k)"

definition TCN_CHECK_POSITIVE :: "int \<Rightarrow> string \<Rightarrow> 'a \<Rightarrow> ('f, 'a) io \<Rightarrow> ('f, 'a) io" where
  "TCN_CHECK_POSITIVE v m r k =
     (if v \<le> 0 then do { throw (IllegalArgumentException m); State_Monad.return r } else k)"

lemma run_ffi [simp, ffi_simps]:
  "run_state (ffi x f as) w = (ret x (calls w) (Call f as), w\<lparr>calls := calls w @ [Call f as]\<rparr>)"
  by (simp add: ffi_def)

lemma run_ffi_out [simp, ffi_simps]:
  "run_state (ffi_out x f as k) w =
     ((ret x (calls w) (Call f as), outp x (calls w) (Call f as) k),
      w\<lparr>calls := calls w @ [Call f as]\<rparr>)"
  by (simp add: ffi_out_def)

lemma run_throw [simp, ffi_simps]:
  "run_state (throw e) w = ((), w\<lparr>thrown := thrown w @ [e]\<rparr>)"
  by (simp add: throw_def)

lemma run_bind [simp, ffi_simps]:
  "run_state (State_Monad.bind m f) w =
     (let (a, w') = run_state m w in run_state (f a) w')"
  by (cases m) (simp add: State_Monad.bind_def Let_def split: prod.split)

lemma run_check_null [simp, ffi_simps]:
  "run_state (TCN_CHECK_NULL v m r k) w =
     (if v = 0 then (r, w\<lparr>thrown := thrown w @ [NullPointerException m]\<rparr>) else run_state k w)"
  by (simp add: TCN_CHECK_NULL_def)

lemma run_check_positive_or_zero [simp, ffi_simps]:
  "run_state (TCN_CHECK_POSITIVE_OR_ZERO v m r k) w =
     (if v < 0 then (r, w\<lparr>thrown := thrown w @ [IllegalArgumentException m]\<rparr>) else run_state k w)"
  by (simp add: TCN_CHECK_POSITIVE_OR_ZERO_def)

lemma run_check_positive [simp, ffi_simps]:
  "run_state (TCN_CHECK_POSITIVE v m r k) w =
     (if v \<le> 0 then (r, w\<lparr>thrown := thrown w @ [IllegalArgumentException m]\<rparr>) else run_state k w)"
  by (simp add: TCN_CHECK_POSITIVE_def)

section \<open>Build configuration\<close>

record build =
  openssl_is_boringssl :: bool
  openssl_is_awslc :: bool
  libressl_version_number :: "nat option"
  openssl_version_number :: nat
  openssl_no_tls1_3 :: bool
  openssl_no_ocsp :: bool
  openssl_no_engine :: bool
  gnuc :: bool

text \<open>\<^verbatim>\<open>defined(OPENSSL_IS_BORINGSSL) || defined(OPENSSL_IS_AWSLC)\<close>, the most frequent guard.\<close>

definition boring :: "build \<Rightarrow> bool" where
  "boring b \<longleftrightarrow> openssl_is_boringssl b \<or> openssl_is_awslc b"

definition libressl_before :: "build \<Rightarrow> nat \<Rightarrow> bool" where
  "libressl_before b v \<longleftrightarrow> (case libressl_version_number b of None \<Rightarrow> False | Some n \<Rightarrow> n < v)"

section \<open>List facts shared by the components\<close>

lemma take_drop_split:
  "n \<le> m \<Longrightarrow> take n xs @ take (m - n) (drop n xs) = take m xs"
  by (metis le_add_diff_inverse take_add)

lemma nth_take_drop_mid:
  "i < n \<Longrightarrow> off + n \<le> length xs \<Longrightarrow> take n (drop off xs) ! i = xs ! (off + i)"
  by simp

lemma map_upt_Cons: "i < n \<Longrightarrow> map f [i..<n] = f i # map f [Suc i..<n]"
  by (simp add: upt_conv_Cons)

section \<open>Runs of operations\<close>

text \<open>
  A component driven by a sequence of operations: \<open>step\<close> is one operation, \<open>taken\<close> the data
  the operation accepts, \<open>given\<close> the data it hands out. \<open>run_io\<close> stops at the first failure
  and otherwise returns all accepted data, all data handed out and the last state.
\<close>

fun run_io :: "('s \<Rightarrow> 'op \<Rightarrow> 'e + 's) \<Rightarrow> ('s \<Rightarrow> 'op \<Rightarrow> 'b list) \<Rightarrow> ('s \<Rightarrow> 'op \<Rightarrow> 's \<Rightarrow> 'b list)
    \<Rightarrow> 's \<Rightarrow> 'op list \<Rightarrow> 'e + ('b list \<times> 'b list \<times> 's)" where
  "run_io step taken given s [] = Inr ([], [], s)"
| "run_io step taken given s (op # ops) =
     (case step s op of Inl e \<Rightarrow> Inl e
      | Inr s' \<Rightarrow>
        (case run_io step taken given s' ops of Inl e \<Rightarrow> Inl e
         | Inr (a, g, t) \<Rightarrow> Inr (taken s op @ a, given s op s' @ g, t)))"

text \<open>The contract of a channel that neither loses nor reorders data, and what follows for runs.\<close>

locale fifo_channel =
  fixes inv :: "'s \<Rightarrow> bool"
    and content :: "'s \<Rightarrow> 'b list"
    and legal :: "'op \<Rightarrow> bool"
    and step :: "'s \<Rightarrow> 'op \<Rightarrow> 'e + 's"
    and taken :: "'s \<Rightarrow> 'op \<Rightarrow> 'b list"
    and given :: "'s \<Rightarrow> 'op \<Rightarrow> 's \<Rightarrow> 'b list"
  assumes keeps: "inv s \<Longrightarrow> legal op \<Longrightarrow> step s op = Inr s' \<Longrightarrow> inv s'"
    and moves: "inv s \<Longrightarrow> legal op \<Longrightarrow> step s op = Inr s' \<Longrightarrow>
                content s @ taken s op = given s op s' @ content s'"
begin

lemma run_conserves:
  "inv s \<Longrightarrow> list_all legal ops \<Longrightarrow> run_io step taken given s ops = Inr (a, g, t) \<Longrightarrow>
   inv t \<and> content s @ a = g @ content t"
proof (induction ops arbitrary: s a g)
  case Nil
  then show ?case by simp
next
  case (Cons op ops)
  then obtain s' a' g' where s': "step s op = Inr s'"
      and r: "run_io step taken given s' ops = Inr (a', g', t)"
      and a: "a = taken s op @ a'" and g: "g = given s op s' @ g'"
    by (auto split: sum.splits)
  have lg: "legal op" "list_all legal ops" using Cons.prems(2) by simp_all
  have IH: "inv t \<and> content s' @ a' = g' @ content t"
    using Cons.IH [OF keeps [OF Cons.prems(1) lg(1) s'] lg(2) r] .
  have "content s @ a = (given s op s' @ content s') @ a'"
    using moves [OF Cons.prems(1) lg(1) s'] by (simp add: a flip: append_assoc)
  with IH show ?case by (simp add: g)
qed

end

locale progressing_channel = fifo_channel +
  fixes safe :: "'a \<Rightarrow> bool" and modest :: "'c \<Rightarrow> bool"
  assumes progress: "inv s \<Longrightarrow> safe s \<Longrightarrow> legal op \<Longrightarrow> modest op \<Longrightarrow> \<exists>s'. step s op = Inr s' \<and> safe s'"
begin

lemma run_never_fails:
  "inv s \<Longrightarrow> safe s \<Longrightarrow> list_all legal ops \<Longrightarrow> list_all modest ops \<Longrightarrow>
   \<exists>a g t. run_io step taken given s ops = Inr (a, g, t) \<and> safe t"
proof (induction ops arbitrary: s)
  case Nil
  then show ?case by simp
next
  case (Cons op ops)
  then obtain s' where s': "step s op = Inr s'" "safe s'"
    using progress [of s op] by auto
  moreover have "inv s'" using keeps [of s op s'] Cons.prems s' by simp
  ultimately obtain a g t where "run_io step taken given s' ops = Inr (a, g, t)" "safe t"
    using Cons.IH [of s'] Cons.prems by auto
  with s' show ?case by auto
qed

end

text \<open>
  The contract of a component that acquires references while it runs: every step returns and
  keeps the invariant, and releasing the component gives back exactly the references that
  were live before it started.
\<close>

fun run_steps :: "('w \<Rightarrow> 'op \<Rightarrow> 'e + 'w) \<Rightarrow> 'w \<Rightarrow> 'op list \<Rightarrow> 'e + 'w" where
  "run_steps step w [] = Inr w"
| "run_steps step w (op # ops) =
     (case step w op of Inl e \<Rightarrow> Inl e | Inr w' \<Rightarrow> run_steps step w' ops)"

lemma run_steps_append:
  "run_steps step w (xs @ ys) = (case run_steps step w xs of Inl e \<Rightarrow> Inl e | Inr w' \<Rightarrow> run_steps step w' ys)"
  by (induction xs arbitrary: w) (simp_all split: sum.split)

locale resource_client =
  fixes inv :: "'r \<Rightarrow> 'w \<Rightarrow> bool"
    and step :: "'w \<Rightarrow> 'op \<Rightarrow> 'e + 'w"
    and release :: "'w \<Rightarrow> 'r"
  assumes step_returns: "inv base w \<Longrightarrow> \<exists>w'. step w op = Inr w' \<and> inv base w'"
    and release_all: "inv base w \<Longrightarrow> release w = base"
begin

lemma run_keeps: "inv base w \<Longrightarrow> \<exists>w'. run_steps step w ops = Inr w' \<and> inv base w'"
proof (induction ops arbitrary: w)
  case Nil
  then show ?case by simp
next
  case (Cons op ops)
  then show ?case using step_returns [OF Cons.prems, of op] by auto
qed

lemma run_releases: "inv base w \<Longrightarrow> \<exists>w'. run_steps step w ops = Inr w' \<and> release w' = base"
  using run_keeps release_all by blast

end

end
