(* ===== verification/Byte_Buffer_Bio.thy ===== *)
theory Byte_Buffer_Bio
  imports Tcn_Prelude
begin

text \<open>
  The custom BIO of \<^verbatim>\<open>ssl.c\<close> that sits between OpenSSL and a Java direct ByteBuffer.

  The struct \<^verbatim>\<open>TCN_bio_bytebuffer\<close> keeps a pointer into memory owned by Java and an
  internal ring buffer for bytes OpenSSL writes while the Java buffer is used for reading.
  The Java memory is a byte list; the pointer \<^verbatim>\<open>buffer\<close> is a position in it
  (\<open>None\<close> is \<^verbatim>\<open>NULL\<close>). Results of \<^verbatim>\<open>OPENSSL_malloc\<close> and \<^verbatim>\<open>BIO_new\<close> are parameters.

  The abstraction function \<open>pending\<close> reads the ring as a queue of bytes. The lemmas show that
  a flush takes bytes from its front, a queued write appends at its end, and every sequence of
  operations moves bytes in order without loss; and they state exactly when the queued write
  leaves the bounds of the ring.
\<close>

section \<open>State\<close>

record TCN_bio_bytebuffer =
  buffer :: "int option"
  nonApplicationBuffer :: "byte list option"
  nonApplicationBufferSize :: int
  nonApplicationBufferOffset :: int
  nonApplicationBufferLength :: int
  bufferLength :: int
  bufferIsSSLWriteSink :: bool

record BIO =
  bio_data :: "TCN_bio_bytebuffer option"
  bio_retry_read :: bool
  bio_retry_write :: bool
  bio_shutdown :: int
  bio_init :: int

definition BIO_clear_retry_flags :: "BIO \<Rightarrow> BIO" where
  "BIO_clear_retry_flags b = b\<lparr>bio_retry_read := False, bio_retry_write := False\<rparr>"

section \<open>Operations\<close>

definition tcn_flush_sslbuffer_to_bytebuffer ::
  "TCN_bio_bytebuffer \<Rightarrow> byte list \<Rightarrow> (int \<times> TCN_bio_bytebuffer \<times> byte list) cres" where
  "tcn_flush_sslbuffer_to_bytebuffer d mem =
   (let writeAmount = TCN_MIN (bufferLength d) (nonApplicationBufferLength d);
        off = nonApplicationBufferOffset d in
    cbind (jint_of (nonApplicationBufferSize d - off)) (\<lambda>writeChunk.
    cbind (deref (buffer d)) (\<lambda>p.
    cbind (deref (nonApplicationBuffer d)) (\<lambda>ring.
    cbind
     (if writeAmount > writeChunk then
        cbind (jint_of (writeAmount - writeChunk)) (\<lambda>newOffset.
        cbind (memcpy mem p ring off (size_t_of writeChunk)) (\<lambda>mem1.
        cbind (memcpy mem1 (p + writeChunk) ring 0 (size_t_of newOffset)) (\<lambda>mem2.
        Inr (newOffset, mem2))))
      else
        cbind (memcpy mem p ring off (size_t_of writeAmount)) (\<lambda>mem1.
        cbind (jint_of (off + writeAmount)) (\<lambda>newOffset.
        Inr (newOffset, mem1))))
     (\<lambda>(newOffset, mem').
    cbind (jint_of (nonApplicationBufferLength d - writeAmount)) (\<lambda>len'.
    cbind (jint_of (bufferLength d - writeAmount)) (\<lambda>bufferLength'.
    Inr (writeAmount,
         d\<lparr>nonApplicationBufferOffset := (if len' = 0 then 0 else newOffset),
           nonApplicationBufferLength := len',
           bufferLength := bufferLength',
           buffer := Some (p + writeAmount)\<rparr>,
         mem'))))))))"

text \<open>The branch of \<^verbatim>\<open>tcn_write_to_bytebuffer\<close> that queues into the ring.\<close>

definition queue_nonApplication ::
  "BIO \<Rightarrow> TCN_bio_bytebuffer \<Rightarrow> byte list \<Rightarrow> int \<Rightarrow> (int \<times> BIO) cres" where
  "queue_nonApplication b d src inl =
   (let sz = nonApplicationBufferSize d; len = nonApplicationBufferLength d in
    cbind (jint_of (sz - len)) (\<lambda>freeSpace.
    if freeSpace = 0 then Inr (-1, b\<lparr>bio_retry_write := True\<rparr>)
    else
     let writeAmount = TCN_MIN freeSpace inl in
     cbind (jint_of (nonApplicationBufferOffset d + len)) (\<lambda>startIndex.
     cbind (jint_of (sz - startIndex)) (\<lambda>writeChunk.
     cbind (deref (nonApplicationBuffer d)) (\<lambda>ring.
     cbind
      (if writeAmount > writeChunk then
         cbind (memcpy ring startIndex src 0 (size_t_of writeChunk)) (\<lambda>ring1.
         memcpy ring1 0 src writeChunk (size_t_of (writeAmount - writeChunk)))
       else memcpy ring startIndex src 0 (size_t_of writeAmount))
      (\<lambda>ring'.
     cbind (jint_of (len + writeAmount)) (\<lambda>len'.
     Inr (writeAmount,
          b\<lparr>bio_data := Some (d\<lparr>nonApplicationBuffer := Some ring',
                                nonApplicationBufferLength := len'\<rparr>)\<rparr>))))))))"

definition tcn_write_to_bytebuffer ::
  "BIO \<Rightarrow> byte list \<Rightarrow> byte list option \<Rightarrow> int \<Rightarrow> (int \<times> BIO \<times> byte list) cres" where
  "tcn_write_to_bytebuffer b mem src inl =
   (if src = None \<or> inl \<le> 0 then Inr (0, b, mem)
    else
     cbind (deref src) (\<lambda>in_blk.
     cbind (deref (bio_data b)) (\<lambda>d.
     if \<not> bufferIsSSLWriteSink d then
       cbind (queue_nonApplication b d in_blk inl) (\<lambda>(r, b'). Inr (r, b', mem))
     else if buffer d = None \<or> bufferLength d = 0 then
       Inr (-1, b\<lparr>bio_retry_write := True\<rparr>, mem)
     else
       cbind (if nonApplicationBufferLength d \<noteq> 0
              then tcn_flush_sslbuffer_to_bytebuffer d mem
              else Inr (0, d, mem)) (\<lambda>(writeAmount, d1, mem1).
       let writeChunk = TCN_MIN (bufferLength d1) inl in
       cbind (deref (buffer d1)) (\<lambda>p.
       cbind (memcpy mem1 p in_blk 0 (size_t_of writeChunk)) (\<lambda>mem2.
       cbind (jint_of (bufferLength d1 - writeChunk)) (\<lambda>bufferLength'.
       cbind (jint_of (writeAmount + writeChunk)) (\<lambda>r.
       Inr (r, b\<lparr>bio_data := Some (d1\<lparr>bufferLength := bufferLength',
                                       buffer := Some (p + writeChunk)\<rparr>)\<rparr>, mem2)))))))))"

text \<open>The destination \<open>dst\<close> is the block \<^verbatim>\<open>out\<close> points at; the new contents are returned.\<close>

definition tcn_read_from_bytebuffer ::
  "BIO \<Rightarrow> byte list \<Rightarrow> byte list option \<Rightarrow> int \<Rightarrow> (int \<times> BIO \<times> byte list option) cres" where
  "tcn_read_from_bytebuffer b mem dst outl =
   (if dst = None \<or> outl \<le> 0 then Inr (0, b, dst)
    else
     cbind (deref dst) (\<lambda>out_blk.
     cbind (deref (bio_data b)) (\<lambda>d.
     if bufferIsSSLWriteSink d \<or> buffer d = None \<or> bufferLength d = 0 then
       Inr (-1, b\<lparr>bio_retry_read := True\<rparr>, dst)
     else
       let readAmount = TCN_MIN (bufferLength d) outl in
       cbind (deref (buffer d)) (\<lambda>p.
       cbind (memcpy out_blk 0 mem p (size_t_of readAmount)) (\<lambda>out'.
       cbind (jint_of (bufferLength d - readAmount)) (\<lambda>bufferLength'.
       Inr (readAmount,
            b\<lparr>bio_data := Some (d\<lparr>bufferLength := bufferLength',
                                  buffer := Some (p + readAmount)\<rparr>)\<rparr>,
            Some out')))))))"

definition bio_java_bytebuffer_create :: "bool \<Rightarrow> BIO \<Rightarrow> int \<times> BIO" where
  "bio_java_bytebuffer_create malloc_ok b =
   (if \<not> malloc_ok then (0, b)
    else (1, b\<lparr>bio_data := Some \<lparr>buffer = None, nonApplicationBuffer = None,
                 nonApplicationBufferSize = 0, nonApplicationBufferOffset = 0,
                 nonApplicationBufferLength = 0, bufferLength = 0,
                 bufferIsSSLWriteSink = False\<rparr>,
               bio_shutdown := 1, bio_init := 1\<rparr>))"

definition bio_java_bytebuffer_destroy :: "BIO option \<Rightarrow> int \<times> BIO option" where
  "bio_java_bytebuffer_destroy bio =
   (case bio of None \<Rightarrow> (0, None)
    | Some b \<Rightarrow> (case bio_data b of None \<Rightarrow> (1, Some b)
                 | Some d \<Rightarrow> (1, Some (b\<lparr>bio_data := None\<rparr>))))"

definition bio_java_bytebuffer_write ::
  "BIO \<Rightarrow> byte list \<Rightarrow> byte list option \<Rightarrow> int \<Rightarrow> (int \<times> BIO \<times> byte list) cres" where
  "bio_java_bytebuffer_write b mem src inl =
     tcn_write_to_bytebuffer (BIO_clear_retry_flags b) mem src inl"

definition bio_java_bytebuffer_read ::
  "BIO \<Rightarrow> byte list \<Rightarrow> byte list option \<Rightarrow> int \<Rightarrow> (int \<times> BIO \<times> byte list option) cres" where
  "bio_java_bytebuffer_read b mem dst outl =
     tcn_read_from_bytebuffer (BIO_clear_retry_flags b) mem dst outl"

text \<open>\<^verbatim>\<open>puts\<close> writes a C string: its length is the position of the terminating zero, converted
  from \<^verbatim>\<open>size_t\<close> to \<^verbatim>\<open>int\<close>.\<close>

definition bio_java_bytebuffer_puts ::
  "BIO \<Rightarrow> byte list \<Rightarrow> byte list \<Rightarrow> (int \<times> BIO \<times> byte list) cres" where
  "bio_java_bytebuffer_puts b mem src =
     (if 0 \<in> set src
      then tcn_write_to_bytebuffer (BIO_clear_retry_flags b) mem (Some src)
             (int_cast (int (length (takeWhile (\<lambda>c. c \<noteq> 0) src))))
      else Inl (UB Out_Of_Bounds))"

definition bio_java_bytebuffer_gets :: "BIO \<Rightarrow> int \<Rightarrow> int" where
  "bio_java_bytebuffer_gets b outl = -2"

datatype bio_ctrl = BIO_CTRL_GET_CLOSE | BIO_CTRL_SET_CLOSE | BIO_CTRL_FLUSH | BIO_C_SET_FD
  | BIO_CTRL_OTHER int

fun bio_java_bytebuffer_ctrl :: "BIO \<Rightarrow> bio_ctrl \<Rightarrow> int \<Rightarrow> int \<times> BIO" where
  "bio_java_bytebuffer_ctrl b BIO_CTRL_GET_CLOSE num = (bio_shutdown b, b)"
| "bio_java_bytebuffer_ctrl b BIO_CTRL_SET_CLOSE num = (1, b\<lparr>bio_shutdown := num\<rparr>)"
| "bio_java_bytebuffer_ctrl b BIO_CTRL_FLUSH num = (1, b)"
| "bio_java_bytebuffer_ctrl b BIO_C_SET_FD num = (1, b)"
| "bio_java_bytebuffer_ctrl b (BIO_CTRL_OTHER c) num = (0, b)"

section \<open>JNI entry points\<close>

definition bioLengthByteBuffer :: "BIO option \<Rightarrow> int cres" where
  "bioLengthByteBuffer bio =
   (case bio of None \<Rightarrow> Inl (Exn (NullPointerException ''bioAddress''))
    | Some b \<Rightarrow> Inr (case bio_data b of None \<Rightarrow> 0 | Some d \<Rightarrow> bufferLength d))"

definition bioLengthNonApplication :: "BIO option \<Rightarrow> int cres" where
  "bioLengthNonApplication bio =
   (case bio of None \<Rightarrow> Inl (Exn (NullPointerException ''bioAddress''))
    | Some b \<Rightarrow> Inr (case bio_data b of None \<Rightarrow> 0 | Some d \<Rightarrow> nonApplicationBufferLength d))"

definition bioSetByteBuffer :: "BIO option \<Rightarrow> int option \<Rightarrow> int \<Rightarrow> bool \<Rightarrow> BIO cres" where
  "bioSetByteBuffer bio bufferAddress maxUsableBytes isSSLWriteSink =
   (case bio of None \<Rightarrow> Inl (Exn (NullPointerException ''bioAddress''))
    | Some b \<Rightarrow>
     (case bufferAddress of None \<Rightarrow> Inl (Exn (NullPointerException ''bufferAddress''))
      | Some p \<Rightarrow>
       if maxUsableBytes < 0
       then Inl (Exn (IllegalArgumentException ''maxUsableBytes must be >= 0''))
       else cbind (deref (bio_data b)) (\<lambda>d.
         Inr (b\<lparr>bio_data := Some (d\<lparr>buffer := Some p, bufferLength := maxUsableBytes,
                                    bufferIsSSLWriteSink := isSSLWriteSink\<rparr>)\<rparr>))))"

definition bioClearByteBuffer :: "BIO option \<Rightarrow> BIO option" where
  "bioClearByteBuffer bio =
   (case bio of None \<Rightarrow> None
    | Some b \<Rightarrow>
     (case bio_data b of None \<Rightarrow> Some b
      | Some d \<Rightarrow> Some (b\<lparr>bio_data := Some (d\<lparr>buffer := None, bufferLength := 0,
                                           bufferIsSSLWriteSink := False\<rparr>)\<rparr>)))"

definition bioFlushByteBuffer ::
  "BIO option \<Rightarrow> byte list \<Rightarrow> (int \<times> BIO option \<times> byte list) cres" where
  "bioFlushByteBuffer bio mem =
   (case bio of None \<Rightarrow> Inr (0, None, mem)
    | Some b \<Rightarrow>
     (case bio_data b of None \<Rightarrow> Inr (0, Some b, mem)
      | Some d \<Rightarrow>
        if nonApplicationBufferLength d = 0 \<or> buffer d = None \<or> \<not> bufferIsSSLWriteSink d
        then Inr (0, Some b, mem)
        else cbind (tcn_flush_sslbuffer_to_bytebuffer d mem) (\<lambda>(n, d', mem').
               Inr (n, Some (b\<lparr>bio_data := Some d'\<rparr>), mem'))))"

text \<open>
  \<open>fresh\<close> is the BIO \<^verbatim>\<open>BIO_new\<close> allocates, with its address, before it calls the method's
  create function (\<open>None\<close> when the allocation fails); \<open>ring0\<close> is the block the second
  allocation returns. The last step attaches the BIO to both sides of the connection.
\<close>

record ssl_bios =
  rbio :: int
  wbio :: int

definition SSL_set_bio :: "ssl_bios \<Rightarrow> int \<Rightarrow> int \<Rightarrow> ssl_bios" where
  "SSL_set_bio c r w = c\<lparr>rbio := r, wbio := w\<rparr>"

definition bioNewByteBuffer ::
  "ssl_bios option \<Rightarrow> int \<Rightarrow> (int \<times> BIO) option \<Rightarrow> bool \<Rightarrow> byte list option
   \<Rightarrow> (int \<times> BIO \<times> ssl_bios) cres" where
  "bioNewByteBuffer ssl nonAppSize fresh create_malloc_ok ring0 =
   (case ssl of None \<Rightarrow> Inl (Exn (NullPointerException ''ssl''))
    | Some c \<Rightarrow>
    if nonAppSize \<le> 0
    then Inl (Exn (IllegalArgumentException ''nonApplicationBufferSize must be > 0''))
    else (case fresh of None \<Rightarrow> Inl (Exn (JException ''BIO_new failed''))
    | Some (addr, b0) \<Rightarrow>
      (let (r, b) = bio_java_bytebuffer_create create_malloc_ok b0 in
       if r = 0 then Inl (Exn (JException ''BIO_new failed''))
       else (case bio_data b of None \<Rightarrow> Inl (Exn (JException ''BIO_get_data failed''))
       | Some d \<Rightarrow>
         (case ring0 of
            None \<Rightarrow> Inl (Exn (JException ''Failed to allocate internal buffer of size %d''))
          | Some ring \<Rightarrow>
            Inr (addr,
                 b\<lparr>bio_data := Some (d\<lparr>nonApplicationBuffer := Some ring,
                                       nonApplicationBufferSize := nonAppSize\<rparr>)\<rparr>,
                 SSL_set_bio c addr addr))))))"

section \<open>Invariant and abstraction\<close>

definition ring_inv :: "TCN_bio_bytebuffer \<Rightarrow> bool" where
  "ring_inv d \<longleftrightarrow>
     (case nonApplicationBuffer d of
        None \<Rightarrow> nonApplicationBufferSize d = 0
      | Some r \<Rightarrow> nonApplicationBufferSize d = int (length r)) \<and>
     0 \<le> nonApplicationBufferOffset d \<and>
     nonApplicationBufferOffset d \<le> nonApplicationBufferSize d \<and>
     0 \<le> nonApplicationBufferLength d \<and>
     nonApplicationBufferLength d \<le> nonApplicationBufferSize d \<and>
     jint_range (nonApplicationBufferSize d)"

definition window_inv :: "byte list \<Rightarrow> TCN_bio_bytebuffer \<Rightarrow> bool" where
  "window_inv mem d \<longleftrightarrow>
     0 \<le> bufferLength d \<and> jint_range (bufferLength d) \<and>
     (case buffer d of None \<Rightarrow> bufferLength d = 0
      | Some p \<Rightarrow> 0 \<le> p \<and> p + bufferLength d \<le> int (length mem))"

definition pending :: "TCN_bio_bytebuffer \<Rightarrow> byte list" where
  "pending d = (case nonApplicationBuffer d of None \<Rightarrow> []
     | Some r \<Rightarrow> take (nat (nonApplicationBufferLength d))
                     (drop (nat (nonApplicationBufferOffset d)) r @ r))"

definition wrapped :: "TCN_bio_bytebuffer \<Rightarrow> bool" where
  "wrapped d \<longleftrightarrow>
     nonApplicationBufferSize d < nonApplicationBufferOffset d + nonApplicationBufferLength d"

lemma ring_invD:
  assumes "ring_inv d"
  obtains ofs len where
    "nonApplicationBufferOffset d = int ofs" "nonApplicationBufferLength d = int len"
    "int ofs \<le> nonApplicationBufferSize d" "int len \<le> nonApplicationBufferSize d"
    "jint_range (nonApplicationBufferSize d)"
  using assms unfolding ring_inv_def
  by (metis zero_le_imp_eq_int)

lemma length_pending:
  "ring_inv d \<Longrightarrow> length (pending d) = nat (nonApplicationBufferLength d)"
  by (auto simp: ring_inv_def pending_def split: option.splits)

lemma jint_range_nonneg_le: "0 \<le> x \<Longrightarrow> x \<le> y \<Longrightarrow> jint_range y \<Longrightarrow> jint_range x"
  by (simp add: jint_range_def)

lemma flush_linear:
  fixes ofs n :: nat
  assumes "ofs + n \<le> length r" "p + n \<le> length mem"
  shows "memcpy mem (int p) r (int ofs) (int n) =
    Inr (take p mem @ take n (drop ofs r) @ drop (p + n) mem)"
  using assms by (simp add: memcpy_ok)

lemma flush_ring:
  assumes "ofs \<le> length r" "length r < ofs + n" "n \<le> length r" "p + n \<le> length mem"
  shows "cbind (memcpy mem (int p) r (int ofs) (int (length r - ofs))) (\<lambda>m1.
           memcpy m1 (int p + int (length r - ofs)) r 0 (int (n - (length r - ofs))))
       = Inr (take p mem @ take n (drop ofs r @ r) @ drop (p + n) mem)"
proof -
  let ?c = "length r - ofs"
  have c: "?c \<le> n" "p + ?c \<le> length mem" using assms by auto
  have m1: "memcpy mem (int p) r (int ofs) (int ?c) =
      Inr (take p mem @ drop ofs r @ drop (p + ?c) mem)"
    using flush_linear [of ofs ?c r p mem] assms(1) c(2) by simp
  have "memcpy (take p mem @ drop ofs r @ drop (p + ?c) mem) (int (p + ?c)) r (int 0) (int (n - ?c))
     = Inr (take (p + ?c) (take p mem @ drop ofs r @ drop (p + ?c) mem)
            @ take (n - ?c) (drop 0 r)
            @ drop (p + ?c + (n - ?c)) (take p mem @ drop ofs r @ drop (p + ?c) mem))"
    by (rule flush_linear) (use assms in auto)
  also have "\<dots> = Inr (take p mem @ (drop ofs r @ take (n - ?c) r) @ drop (p + n) mem)"
    using assms c by (simp add: add.commute)
  also have "drop ofs r @ take (n - ?c) r = take n (drop ofs r @ r)"
    using c by simp
  finally show ?thesis by (simp add: m1)
qed

definition flushed :: "TCN_bio_bytebuffer \<Rightarrow> nat \<Rightarrow> TCN_bio_bytebuffer" where
  "flushed d n =
     (let len' = nonApplicationBufferLength d - int n;
          ofs = nonApplicationBufferOffset d + int n;
          c = nonApplicationBufferSize d
      in d\<lparr>nonApplicationBufferOffset := (if len' = 0 then 0 else if ofs > c then ofs - c else ofs),
           nonApplicationBufferLength := len',
           bufferLength := bufferLength d - int n,
           buffer := map_option (\<lambda>p. p + int n) (buffer d)\<rparr>)"

lemma size_t_of_int [simp]: "int n \<le> m \<Longrightarrow> jint_range m \<Longrightarrow> size_t_of (int n) = int n"
  by (rule size_t_of_id) (auto simp: jint_range_def)

lemma flush_eq:
  assumes inv: "ring_inv d" "window_inv mem d"
    and p: "buffer d = Some p" and r: "nonApplicationBuffer d = Some r"
  defines "n \<equiv> nat (min (bufferLength d) (nonApplicationBufferLength d))"
  shows "tcn_flush_sslbuffer_to_bytebuffer d mem =
    Inr (int n, flushed d n, take (nat p) mem @ take n (pending d) @ drop (nat p + n) mem)"
proof -
  obtain ofs len where ol: "nonApplicationBufferOffset d = int ofs"
      "nonApplicationBufferLength d = int len" "int ofs \<le> nonApplicationBufferSize d"
      "int len \<le> nonApplicationBufferSize d" and sr: "jint_range (nonApplicationBufferSize d)"
    using inv(1) by (rule ring_invD)
  have sz: "nonApplicationBufferSize d = int (length r)"
    using inv(1) r by (simp add: ring_inv_def)
  obtain bl where bl: "bufferLength d = int bl" and blr: "jint_range (int bl)"
    using inv(2) unfolding window_inv_def by (metis zero_le_imp_eq_int)
  obtain q where q: "p = int q"
    using inv(2) p unfolding window_inv_def by (auto dest: zero_le_imp_eq_int)
  have n: "n = min bl len" by (simp add: n_def ol bl)
  have le: "ofs \<le> length r" "len \<le> length r" "q + n \<le> length mem" "n \<le> len" "n \<le> bl"
    using ol sz inv(2) p q bl n by (auto simp: window_inv_def)
  have rng: "\<And>k. k \<le> length r \<Longrightarrow> jint_range (int k)" "\<And>k. k \<le> bl \<Longrightarrow> jint_range (int k)"
    using sr sz blr by (auto simp: jint_range_def)
  have st: "\<And>k. k \<le> length r \<Longrightarrow> size_t_of (int k) = int k"
    by (rule size_t_of_id) (auto intro: rng)
  have pend: "take n (pending d) = take n (drop ofs r @ r)"
    using le by (simp add: pending_def r ol min_absorb1 del: take_append)
  have amt: "TCN_MIN (bufferLength d) (nonApplicationBufferLength d) = int n"
    by (simp add: TCN_MIN_min n bl ol)
  obtain c where c: "length r = ofs + c" using le(1) le_Suc_ex by blast
  have chunk: "nonApplicationBufferSize d - nonApplicationBufferOffset d = int c"
    by (simp add: sz ol c)
  have jr: "jint_range 0" "jint_range (int c)" "jint_range (int len - int n)" "jint_range (int bl - int n)"
    using rng(1) [of c] rng(1) [of "len - n"] rng(2) [of "bl - n"] le c by (auto simp: jint_range_def)
  show ?thesis
  proof (cases "c < n")
    case True
    then obtain k where k: "n = c + k" using less_imp_add_positive by blast
    then have k0: "int ofs + int n - int (ofs + c) = int k" by simp
    have "cbind (memcpy mem (int q) r (int ofs) (int c)) (\<lambda>m1. memcpy m1 (int q + int c) r 0 (int k))
       = Inr (take q mem @ take n (drop ofs r @ r) @ drop (q + n) mem)"
      using flush_ring [of ofs r n q mem] True le k c by auto
    then obtain m1 where m1: "memcpy mem (int q) r (int ofs) (int c) = Inr m1"
        "memcpy m1 (int q + int c) r 0 (int k)
           = Inr (take q mem @ take n (drop ofs r @ r) @ drop (q + n) mem)"
      by (auto simp: cbind_eq_Inr)
    have "jint_range (int k)" "size_t_of (int c) = int c" "size_t_of (int k) = int k"
      using rng(1) [of k] st [of c] st [of k] le c k by auto
    moreover have "int n - int c = int k" using k by simp
    ultimately show ?thesis
      using True unfolding tcn_flush_sslbuffer_to_bytebuffer_def Let_def amt chunk
      by (simp add: p r q pend flushed_def Let_def sz ol bl jr m1 c k0)
  next
    case False
    then have "size_t_of (int n) = int n" "jint_range (int ofs + int n)"
      "memcpy mem (int q) r (int ofs) (int n) =
         Inr (take q mem @ take n (drop ofs r @ r) @ drop (q + n) mem)"
      using st [of n] rng(1) [of "ofs + n"] flush_linear [of ofs n r q mem] le c by auto
    with False show ?thesis
      unfolding tcn_flush_sslbuffer_to_bytebuffer_def Let_def amt chunk
      by (simp add: p r q pend flushed_def Let_def sz ol bl jr c)
  qed
qed

section \<open>The ring as a queue\<close>

lemma ring_inv_flushed:
  assumes "ring_inv d" "int n \<le> nonApplicationBufferLength d"
  shows "ring_inv (flushed d n)"
  using assms by (auto simp: ring_inv_def flushed_def Let_def split: option.splits)

lemma window_inv_flushed:
  assumes "window_inv mem d" "int n \<le> bufferLength d" "length mem' = length mem"
  shows "window_inv mem' (flushed d n)"
  using assms by (auto simp: window_inv_def flushed_def Let_def jint_range_def split: option.splits)

lemma pending_flushed:
  assumes "ring_inv d" "int n \<le> nonApplicationBufferLength d"
  shows "pending (flushed d n) = drop n (pending d)"
proof (cases "nonApplicationBuffer d")
  case None
  then show ?thesis by (simp add: pending_def flushed_def Let_def)
next
  case (Some r)
  obtain ofs len where ol: "nonApplicationBufferOffset d = int ofs"
      "nonApplicationBufferLength d = int len" "int ofs \<le> nonApplicationBufferSize d"
      "int len \<le> nonApplicationBufferSize d"
    using assms(1) by (rule ring_invD)
  have sz: "nonApplicationBufferSize d = int (length r)"
    using assms(1) Some by (simp add: ring_inv_def)
  have le: "ofs \<le> length r" "len \<le> length r" "n \<le> len" using ol sz assms by auto
  show ?thesis
  proof (cases "length r < ofs + n")
    case True
    have "take (len - n) (drop (ofs + n - length r) r @ r) = drop n (take len (drop ofs r @ r))"
      using True le by (subst drop_take) (simp add: add.commute)
    moreover have "nat (int ofs + int n - int (length r)) = ofs + n - length r" by simp
    ultimately show ?thesis
      using True le by (simp add: pending_def flushed_def Let_def Some ol sz nat_diff_distrib
          del: take_append)
  next
    case False
    have "take (len - n) (drop (ofs + n) r @ r) = drop n (take len (drop ofs r @ r))"
      using False le by (simp add: drop_take add.commute del: take_append)
    then show ?thesis
      using False le by (simp add: pending_def flushed_def Let_def Some ol sz nat_diff_distrib
          nat_add_distrib del: take_append)
  qed
qed

lemma queue_full:
  assumes "ring_inv d" "nonApplicationBufferLength d = nonApplicationBufferSize d"
  shows "queue_nonApplication b d src inl = Inr (-1, b\<lparr>bio_retry_write := True\<rparr>)"
proof -
  have "jint_range 0" by (simp add: jint_range_def)
  with assms show ?thesis by (simp add: queue_nonApplication_def Let_def)
qed

definition queued :: "TCN_bio_bytebuffer \<Rightarrow> byte list \<Rightarrow> TCN_bio_bytebuffer" where
  "queued d bs =
     (let ofs = nat (nonApplicationBufferOffset d); len = nat (nonApplicationBufferLength d);
          k = ofs + len; n = length bs
      in d\<lparr>nonApplicationBuffer := map_option (\<lambda>r.
             drop (length r - k) bs @ drop (length (drop (length r - k) bs)) (take k r)
             @ take (length r - k) bs @ drop (k + n) r) (nonApplicationBuffer d),
           nonApplicationBufferLength := nonApplicationBufferLength d + int n\<rparr>)"

lemma queue_append:
  assumes inv: "ring_inv d" and nw: "\<not> wrapped d"
    and free: "nonApplicationBufferLength d < nonApplicationBufferSize d"
    and src: "0 < inl" "jint_range inl" "inl \<le> int (length src)"
  defines "n \<equiv> nat (min (nonApplicationBufferSize d - nonApplicationBufferLength d) inl)"
  shows "queue_nonApplication b d src inl =
    Inr (int n, b\<lparr>bio_data := Some (queued d (take n src))\<rparr>)"
proof -
  obtain ofs len where ol: "nonApplicationBufferOffset d = int ofs"
      "nonApplicationBufferLength d = int len" "int ofs \<le> nonApplicationBufferSize d"
      "int len \<le> nonApplicationBufferSize d" and sr: "jint_range (nonApplicationBufferSize d)"
    using inv by (rule ring_invD)
  obtain r where r: "nonApplicationBuffer d = Some r"
    using inv free ol by (auto simp: ring_inv_def split: option.splits)
  have sz: "nonApplicationBufferSize d = int (length r)"
    using inv r by (simp add: ring_inv_def)
  have k: "ofs + len \<le> length r" using nw by (simp add: wrapped_def ol sz)
  then obtain c where c: "length r = ofs + len + c" using le_Suc_ex by blast
  have n: "int n = min (int (length r) - int len) inl" "n \<le> length src" "0 < n"
      "len + n \<le> length r"
    using free src ol sz by (auto simp: n_def)
  have rng: "\<And>x. x \<le> length r \<Longrightarrow> jint_range (int x)"
    using sr sz by (auto simp: jint_range_def)
  have st: "\<And>x. x \<le> length r \<Longrightarrow> size_t_of (int x) = int x"
    by (rule size_t_of_id) (auto intro: rng)
  have eqs: "int (length r) - int len = int (ofs + c)" "int (length r) - int (ofs + len) = int c"
    using c by auto
  have jr: "jint_range (int (ofs + c))" "jint_range (int (ofs + len))" "jint_range (int c)"
      "jint_range (int len + int n)" "ofs + c \<noteq> 0"
    using rng [of "ofs + c"] rng [of "ofs + len"] rng [of c] rng [of "len + n"] c n free
    by (auto simp: sz ol)
  have "TCN_MIN (int (ofs + c)) inl = int n" using n(1) eqs by (simp add: TCN_MIN_min)
  then have amt: "TCN_MIN (int (ofs + c)) inl = int n" .
  have copy: "memcpy r (int (ofs + len)) src 0 (int x) =
      Inr (take (ofs + len) r @ take x src @ drop (ofs + len + x) r)" if "x \<le> c" "x \<le> n" for x
    using memcpy_ok [of 0 "int x" src "int (ofs + len)" r] that c n
    by (simp add: nat_add_distrib)
  show ?thesis
  proof (cases "c < n")
    case True
    then obtain m where m: "n = c + m" using less_imp_add_positive by blast
    have mo: "m \<le> ofs" using n(4) c m by simp
    let ?r1 = "take (ofs + len) r @ take c src"
    have c1: "memcpy r (int (ofs + len)) src 0 (int c) = Inr ?r1"
      using copy [of c] True c by simp
    have c2: "memcpy ?r1 0 src (int c) (int m) =
        Inr (take m (drop c src) @ drop m (take (ofs + len) r) @ take c src)"
      using memcpy_ok [of "int c" "int m" src 0 ?r1] m n mo c by simp
    have q: "queued d (take n src) =
        d\<lparr>nonApplicationBuffer := Some (take m (drop c src) @ drop m (take (ofs + len) r) @ take c src),
          nonApplicationBufferLength := int len + int n\<rparr>"
      using n m c mo by (simp add: queued_def Let_def r ol drop_take min_absorb2)
    have "int n - int c = int m" "size_t_of (int c) = int c" "size_t_of (int m) = int m"
      using m st [of c] st [of m] c mo by auto
    then show ?thesis
      using True jr c1 c2
      unfolding queue_nonApplication_def Let_def sz ol eqs q
      by (simp add: r amt eqs flip: of_nat_add)
  next
    case False
    have q: "queued d (take n src) =
        d\<lparr>nonApplicationBuffer := Some (take (ofs + len) r @ take n src @ drop (ofs + len + n) r),
          nonApplicationBufferLength := int len + int n\<rparr>"
      using n c False by (simp add: queued_def Let_def r ol min_absorb2)
    have "size_t_of (int n) = int n" using n(4) st [of n] by simp
    then show ?thesis
      using False jr copy [of n]
      unfolding queue_nonApplication_def Let_def sz ol eqs q
      by (simp add: r amt eqs flip: of_nat_add)
  qed
qed

lemma ring_inv_queued:
  assumes "ring_inv d" "\<not> wrapped d"
    and "int (length bs) \<le> nonApplicationBufferSize d - nonApplicationBufferLength d"
  shows "ring_inv (queued d bs)"
  using assms
  by (auto simp: ring_inv_def queued_def Let_def wrapped_def nat_add_distrib split: option.splits)

lemma pending_queued:
  assumes inv: "ring_inv d" and nw: "\<not> wrapped d"
    and fit: "int (length bs) \<le> nonApplicationBufferSize d - nonApplicationBufferLength d"
  shows "pending (queued d bs) = pending d @ bs"
proof (cases "nonApplicationBuffer d")
  case None
  then have "nonApplicationBufferSize d = 0" "0 \<le> nonApplicationBufferLength d"
    using inv by (simp_all add: ring_inv_def)
  then have "length bs = 0" using fit by linarith
  with None show ?thesis by (simp add: pending_def queued_def Let_def)
next
  case (Some r)
  obtain ofs len where ol: "nonApplicationBufferOffset d = int ofs"
      "nonApplicationBufferLength d = int len"
    using inv by (rule ring_invD)
  have sz: "nonApplicationBufferSize d = int (length r)"
    using inv Some by (simp add: ring_inv_def)
  have k: "ofs + len \<le> length r" "len + length bs \<le> length r"
    using nw fit by (auto simp: wrapped_def ol sz)
  define c where "c = length r - (ofs + len)"
  have dc: "length (drop c bs) \<le> ofs" using k by (simp add: c_def)
  let ?r = "drop c bs @ drop (length (drop c bs)) (take (ofs + len) r) @ take c bs
            @ drop (ofs + len + length bs) r"
  have dr: "drop ofs ?r = take len (drop ofs r) @ take c bs @ drop (ofs + len + length bs) r"
    using dc k by (simp add: drop_take)
  have "take (len + length bs) (drop ofs ?r @ ?r) = take len (drop ofs r) @ bs"
  proof (cases "c < length bs")
    case True
    then show ?thesis using k unfolding dr by (simp add: c_def)
  next
    case False
    then show ?thesis using k unfolding dr by simp
  qed
  then show ?thesis
    using k by (simp add: pending_def queued_def Let_def Some ol c_def nat_add_distrib)
qed

lemma queue_wrapped_out_of_bounds:
  assumes inv: "ring_inv d" and w: "wrapped d"
    and free: "nonApplicationBufferLength d < nonApplicationBufferSize d"
    and src: "0 < inl" "jint_range inl"
  shows "queue_nonApplication b d src inl =
    Inl (UB (if jint_range (nonApplicationBufferOffset d + nonApplicationBufferLength d)
             then Out_Of_Bounds else Signed_Overflow))"
proof -
  obtain ofs len where ol: "nonApplicationBufferOffset d = int ofs"
      "nonApplicationBufferLength d = int len" "int ofs \<le> nonApplicationBufferSize d"
      "int len \<le> nonApplicationBufferSize d" and sr: "jint_range (nonApplicationBufferSize d)"
    using inv by (rule ring_invD)
  obtain r where r: "nonApplicationBuffer d = Some r"
    using inv free ol by (auto simp: ring_inv_def split: option.splits)
  have sz: "nonApplicationBufferSize d = int (length r)"
    using inv r by (simp add: ring_inv_def)
  have jr: "jint_range (int (length r) - int len)"
      "jint_range (int (length r) - (int ofs + int len))"
    using ol sz sr by (auto simp: jint_range_def)
  have neg: "int (length r) - (int ofs + int len) < 0" using w by (simp add: wrapped_def ol sz)
  have amt: "0 < TCN_MIN (int (length r) - int len) inl"
    using free src by (simp add: TCN_MIN_min ol sz)
  have "memcpy r (int ofs + int len) src 0 m = Inl (UB Out_Of_Bounds)" for m
    using neg by (auto simp: memcpy_def mem_read_def mem_write_def)
  then show ?thesis
    using free neg amt jr unfolding queue_nonApplication_def Let_def sz ol
    by (simp add: r jint_of_def)
qed

section \<open>Whole operations\<close>

definition conn_inv :: "BIO \<times> byte list \<Rightarrow> bool" where
  "conn_inv s = (case bio_data (fst s) of None \<Rightarrow> False
     | Some d \<Rightarrow> ring_inv d \<and> window_inv (snd s) d)"

definition conn_pending :: "BIO \<times> byte list \<Rightarrow> byte list" where
  "conn_pending s = (case bio_data (fst s) of None \<Rightarrow> [] | Some d \<Rightarrow> pending d)"

definition conn_pos :: "BIO \<times> byte list \<Rightarrow> int" where
  "conn_pos s = (case bio_data (fst s) of None \<Rightarrow> 0
     | Some d \<Rightarrow> (case buffer d of None \<Rightarrow> 0 | Some p \<Rightarrow> p))"

datatype bio_op =
    Op_Set "byte list" int int bool
  | Op_Clear
  | Op_Flush
  | Op_Write "byte list"
  | Op_Read int

fun legal_op :: "bio_op \<Rightarrow> bool" where
  "legal_op (Op_Set mem p n sink) \<longleftrightarrow> 0 \<le> p \<and> jint_range n \<and> p + n \<le> int (length mem)"
| "legal_op (Op_Write bs) \<longleftrightarrow> jint_range (int (length bs))"
| "legal_op (Op_Read n) \<longleftrightarrow> jint_range n"
| "legal_op op \<longleftrightarrow> True"

fun bio_step :: "BIO \<times> byte list \<Rightarrow> bio_op \<Rightarrow> (BIO \<times> byte list) cres" where
  "bio_step (b, mem) (Op_Set mem' p n sink) =
     cbind (bioSetByteBuffer (Some b) (Some p) n sink) (\<lambda>b'. Inr (b', mem'))"
| "bio_step (b, mem) Op_Clear =
     (case bioClearByteBuffer (Some b) of None \<Rightarrow> Inr (b, mem) | Some b' \<Rightarrow> Inr (b', mem))"
| "bio_step (b, mem) Op_Flush =
     cbind (bioFlushByteBuffer (Some b) mem) (\<lambda>(r, b', mem').
       case b' of None \<Rightarrow> Inr (b, mem') | Some b1 \<Rightarrow> Inr (b1, mem'))"
| "bio_step (b, mem) (Op_Write bs) =
     cbind (bio_java_bytebuffer_write b mem (Some bs) (int (length bs))) (\<lambda>(r, b', mem').
       Inr (b', mem'))"
| "bio_step (b, mem) (Op_Read n) =
     cbind (bio_java_bytebuffer_read b mem (Some (replicate (nat n) 0)) n) (\<lambda>(r, b', out).
       Inr (b', mem))"

text \<open>How many of \<open>n\<close> input bytes a write copies, in terms of the state before it.\<close>

definition write_consumed :: "TCN_bio_bytebuffer \<Rightarrow> nat \<Rightarrow> nat" where
  "write_consumed d n =
     (if \<not> bufferIsSSLWriteSink d
      then min (nat (nonApplicationBufferSize d - nonApplicationBufferLength d)) n
      else if buffer d = None then 0
      else min (nat (bufferLength d - nonApplicationBufferLength d)) n)"

fun taken_by :: "BIO \<times> byte list \<Rightarrow> bio_op \<Rightarrow> byte list" where
  "taken_by s (Op_Write bs) =
     (case bio_data (fst s) of None \<Rightarrow> [] | Some d \<Rightarrow> take (write_consumed d (length bs)) bs)"
| "taken_by s op = []"

text \<open>The bytes an operation put into the Java memory: what lies between the old and the new
  position of the window.\<close>

definition window :: "BIO \<times> byte list \<Rightarrow> BIO \<times> byte list \<Rightarrow> byte list" where
  "window s t = take (nat (conn_pos t - conn_pos s)) (drop (nat (conn_pos s)) (snd t))"

fun given_by :: "BIO \<times> byte list \<Rightarrow> bio_op \<Rightarrow> BIO \<times> byte list \<Rightarrow> byte list" where
  "given_by s (Op_Write bs) t = window s t"
| "given_by s Op_Flush t = window s t"
| "given_by s op t = []"

lemma conn_invE:
  assumes "conn_inv (b, mem)"
  obtains d where "bio_data b = Some d" "ring_inv d" "window_inv mem d"
  using assms by (auto simp: conn_inv_def split: option.splits)

lemma ring_inv_update_window [simp]:
  "ring_inv (d\<lparr>buffer := p, bufferLength := n, bufferIsSSLWriteSink := k\<rparr>) = ring_inv d"
  "ring_inv (d\<lparr>bufferLength := n, buffer := p\<rparr>) = ring_inv d"
  "pending (d\<lparr>buffer := p, bufferLength := n, bufferIsSSLWriteSink := k\<rparr>) = pending d"
  "pending (d\<lparr>bufferLength := n, buffer := p\<rparr>) = pending d"
  by (simp_all add: ring_inv_def pending_def cong: option.case_cong)

lemma flushed_fields [simp]:
  "buffer (flushed d n) = map_option (\<lambda>p. p + int n) (buffer d)"
  "bufferLength (flushed d n) = bufferLength d - int n"
  "nonApplicationBufferLength (flushed d n) = nonApplicationBufferLength d - int n"
  "nonApplicationBufferSize (flushed d n) = nonApplicationBufferSize d"
  "bufferIsSSLWriteSink (flushed d n) = bufferIsSSLWriteSink d"
  "nonApplicationBuffer (flushed d n) = nonApplicationBuffer d"
  by (simp_all add: flushed_def Let_def)

lemma queued_fields [simp]:
  "buffer (queued d bs) = buffer d"
  "bufferLength (queued d bs) = bufferLength d"
  "bufferIsSSLWriteSink (queued d bs) = bufferIsSSLWriteSink d"
  "nonApplicationBufferSize (queued d bs) = nonApplicationBufferSize d"
  "nonApplicationBufferOffset (queued d bs) = nonApplicationBufferOffset d"
  "nonApplicationBufferLength (queued d bs) = nonApplicationBufferLength d + int (length bs)"
  by (simp_all add: queued_def Let_def)

lemma window_inv_queued [simp]: "window_inv mem (queued d bs) = window_inv mem d"
  by (simp add: window_inv_def cong: option.case_cong)

text \<open>Writing into the Java window after the queue was drained.\<close>

definition stored :: "TCN_bio_bytebuffer \<Rightarrow> nat \<Rightarrow> TCN_bio_bytebuffer" where
  "stored d n = d\<lparr>bufferLength := bufferLength d - int n,
                  buffer := map_option (\<lambda>p. p + int n) (buffer d)\<rparr>"

lemma ring_exists:
  "ring_inv d \<Longrightarrow> nonApplicationBufferLength d \<noteq> 0 \<Longrightarrow> \<exists>r. nonApplicationBuffer d = Some r"
  by (auto simp: ring_inv_def split: option.splits)

lemma flushed_0_eq: "ring_inv d \<Longrightarrow> nonApplicationBufferLength d = 0 \<Longrightarrow> buffer d = Some p \<Longrightarrow>
   flushed d 0 = d\<lparr>nonApplicationBufferOffset := 0\<rparr>"
  by (simp add: flushed_def Let_def)

text \<open>A write into the sink: the queue goes first, then the input, as far as the window reaches.\<close>

lemma write_sink:
  assumes inv: "ring_inv d" "window_inv mem d" and b: "bio_data b = Some d"
    and sink: "bufferIsSSLWriteSink d" and p: "buffer d = Some p" and bl: "bufferLength d \<noteq> 0"
    and src: "0 < inl" "jint_range inl" "inl \<le> int (length src)"
  defines "n \<equiv> nat (min (bufferLength d) (nonApplicationBufferLength d))"
    and "m \<equiv> nat (min (bufferLength d - min (bufferLength d) (nonApplicationBufferLength d)) inl)"
  shows "\<exists>d1. tcn_write_to_bytebuffer b mem (Some src) inl =
      Inr (int n + int m, b\<lparr>bio_data := Some (stored d1 m)\<rparr>,
           take (nat p) mem @ take n (pending d) @ take m src @ drop (nat p + n + m) mem)
    \<and> ring_inv d1 \<and> pending d1 = drop n (pending d) \<and> buffer d1 = Some (p + int n)
    \<and> bufferLength d1 = bufferLength d - int n
    \<and> nonApplicationBufferLength d1 = nonApplicationBufferLength d - int n
    \<and> nonApplicationBufferSize d1 = nonApplicationBufferSize d
    \<and> bufferIsSSLWriteSink d1
    \<and> (nonApplicationBufferOffset d = 0 \<longrightarrow> nonApplicationBufferLength d \<le> bufferLength d \<longrightarrow>
         nonApplicationBufferOffset d1 = 0)"
proof -
  define d1 where "d1 = (if nonApplicationBufferLength d \<noteq> 0 then flushed d n else d)"
  define mem1 where "mem1 = take (nat p) mem @ take n (pending d) @ drop (nat p + n) mem"
  have w: "0 \<le> p" "p + bufferLength d \<le> int (length mem)" "0 \<le> bufferLength d"
      "jint_range (bufferLength d)" and l0: "0 \<le> nonApplicationBufferLength d"
    using inv p by (auto simp: window_inv_def ring_inv_def)
  have n: "int n = min (bufferLength d) (nonApplicationBufferLength d)"
      "int m = min (bufferLength d - int n) inl" "m \<le> length src"
    using w l0 src by (auto simp: n_def m_def)
  have lp: "length (pending d) = nat (nonApplicationBufferLength d)" using inv(1) by (rule length_pending)
  have flush: "(if nonApplicationBufferLength d \<noteq> 0 then tcn_flush_sslbuffer_to_bytebuffer d mem
      else Inr (0, d, mem)) = Inr (int n, d1, mem1)"
  proof (cases "nonApplicationBufferLength d = 0")
    case True
    then show ?thesis using n w by (simp add: d1_def mem1_def)
  next
    case False
    then obtain r where "nonApplicationBuffer d = Some r" using ring_exists inv(1) by blast
    from flush_eq [OF inv p this] show ?thesis using False by (simp add: d1_def mem1_def n_def)
  qed
  define A where "A = take (nat p) mem @ take n (pending d)"
  have lm: "length A = nat p + n" using w n(1) lp by (auto simp: A_def)
  have m1: "mem1 = A @ drop (nat p + n) mem" by (simp add: mem1_def A_def)
  have np: "nat (p + int n) = nat p + n" using w by simp
  have t1: "take (nat p + n) mem1 = A" and t2: "drop (nat p + n + m) mem1 = drop (nat p + n + m) mem"
    and t3: "length mem1 = length mem"
    using lm w n(1) by (auto simp: m1 add.commute)
  have cp: "memcpy mem1 (p + int n) src 0 (int m) =
      Inr (take (nat p) mem @ take n (pending d) @ take m src @ drop (nat p + n + m) mem)"
  proof -
    have le: "int m \<le> int (length src)" "0 \<le> p + int n" "p + int n + int m \<le> int (length mem1)"
      using w n src t3 by auto
    show ?thesis
      using memcpy_ok [of 0 "int m" src "p + int n" mem1] le by (simp add: np t1 t2 A_def)
  qed
  have f: "buffer d1 = Some (p + int n)" "bufferLength d1 = bufferLength d - int n"
      "nonApplicationBufferLength d1 = nonApplicationBufferLength d - int n"
      "nonApplicationBufferSize d1 = nonApplicationBufferSize d" "bufferIsSSLWriteSink d1"
    using p sink n w by (auto simp: d1_def)
  have "ring_inv d1" "pending d1 = drop n (pending d)"
    using inv(1) n ring_inv_flushed [of d n] pending_flushed [of d n] w by (auto simp: d1_def)
  moreover have "nonApplicationBufferOffset d = 0 \<longrightarrow> nonApplicationBufferLength d \<le> bufferLength d
      \<longrightarrow> nonApplicationBufferOffset d1 = 0"
    using n by (auto simp: d1_def flushed_def Let_def)
  moreover have "TCN_MIN (bufferLength d1) inl = int m"
    using n by (simp add: TCN_MIN_min f)
  moreover have "jint_range (bufferLength d1 - int m)" "jint_range (int n + int m)"
      "size_t_of (int m) = int m"
    using n w f src by (auto simp: jint_range_def intro!: size_t_of_id)
  ultimately show ?thesis
    using f src sink p bl b cp flush unfolding tcn_write_to_bytebuffer_def
    by (intro exI [of _ d1]) (simp add: stored_def Let_def)
qed

lemma stored_fields [simp]:
  "ring_inv (stored d n) = ring_inv d" "pending (stored d n) = pending d"
  "buffer (stored d n) = map_option (\<lambda>p. p + int n) (buffer d)"
  "bufferLength (stored d n) = bufferLength d - int n"
  "bufferIsSSLWriteSink (stored d n) = bufferIsSSLWriteSink d"
  "nonApplicationBufferSize (stored d n) = nonApplicationBufferSize d"
  "nonApplicationBufferOffset (stored d n) = nonApplicationBufferOffset d"
  "nonApplicationBufferLength (stored d n) = nonApplicationBufferLength d"
  by (simp_all add: stored_def)

lemma conn_simps [simp]:
  "bio_data b = Some d \<Longrightarrow> conn_inv (b, mem) = (ring_inv d \<and> window_inv mem d)"
  "bio_data b = Some d \<Longrightarrow> conn_pending (b, mem) = pending d"
  "bio_data b = Some d \<Longrightarrow> conn_pos (b, mem) = (case buffer d of None \<Rightarrow> 0 | Some p \<Rightarrow> p)"
  by (simp_all add: conn_inv_def conn_pending_def conn_pos_def)

lemma bio_data_clear_retry [simp]: "bio_data (BIO_clear_retry_flags b) = bio_data b"
  by (simp add: BIO_clear_retry_flags_def)

text \<open>Reading consumes from the window and leaves the ring alone.\<close>

lemma read_window:
  assumes inv: "window_inv mem d" and b: "bio_data b = Some d"
    and src: "\<not> bufferIsSSLWriteSink d" and p: "buffer d = Some p" and bl: "bufferLength d \<noteq> 0"
    and out: "0 < outl" "jint_range outl" "outl \<le> int (length out)"
  defines "n \<equiv> nat (min (bufferLength d) outl)"
  shows "tcn_read_from_bytebuffer b mem (Some out) outl =
    Inr (int n, b\<lparr>bio_data := Some (stored d n)\<rparr>,
         Some (take n (drop (nat p) mem) @ drop n out))"
proof -
  have w: "0 \<le> p" "p + bufferLength d \<le> int (length mem)" "0 \<le> bufferLength d"
      "jint_range (bufferLength d)"
    using inv p by (auto simp: window_inv_def)
  have n: "int n = min (bufferLength d) outl" using w out by (simp add: n_def)
  then have amt: "TCN_MIN (bufferLength d) outl = int n" by (simp add: TCN_MIN_min)
  have le: "p + int n \<le> int (length mem)" "int n \<le> int (length out)" "int n \<le> bufferLength d"
    using n w out by auto
  have "size_t_of (int n) = int n" using le(3) w by simp
  moreover have "jint_range (bufferLength d - int n)" using le w by (simp add: jint_range_def)
  moreover have "memcpy out 0 mem p (int n) = Inr (take n (drop (nat p) mem) @ drop n out)"
    using memcpy_ok [of p "int n" mem 0 out] w le by simp
  ultimately show ?thesis
    using src p bl b out amt by (simp add: tcn_read_from_bytebuffer_def stored_def Let_def)
qed

lemma window_inv_stored:
  assumes "window_inv mem d" "int n \<le> bufferLength d" "length mem' = length mem" "buffer d = Some p"
  shows "window_inv mem' (stored d n)"
  using assms by (auto simp: window_inv_def stored_def jint_range_def)

lemma read_step:
  assumes inv: "conn_inv s" and lg: "legal_op (Op_Read n)"
  shows "\<exists>s'. bio_step s (Op_Read n) = Inr s' \<and> conn_inv s' \<and> conn_pending s' = conn_pending s"
proof -
  obtain b mem where s: "s = (b, mem)" by (cases s)
  obtain d where d: "bio_data b = Some d" "ring_inv d" "window_inv mem d"
    using inv unfolding s by (rule conn_invE)
  show ?thesis
  proof (cases "n \<le> 0 \<or> bufferIsSSLWriteSink d \<or> buffer d = None \<or> bufferLength d = 0")
    case True
    then show ?thesis
      using d by (auto simp: s bio_java_bytebuffer_read_def tcn_read_from_bytebuffer_def
          BIO_clear_retry_flags_def)
  next
    case False
    then obtain p where p: "buffer d = Some p" by auto
    have "int (nat (min (bufferLength d) n)) \<le> bufferLength d"
      using d(3) by (simp add: window_inv_def)
    with False lg d p show ?thesis
      using read_window [of mem d "BIO_clear_retry_flags b" p n "replicate (nat n) 0"]
        window_inv_stored [of mem d "nat (min (bufferLength d) n)" mem p]
      by (simp add: s bio_java_bytebuffer_read_def)
  qed
qed

lemma set_step:
  assumes inv: "conn_inv s" and lg: "legal_op (Op_Set mem' p n sink)"
    and st: "bio_step s (Op_Set mem' p n sink) = Inr s'"
  shows "conn_inv s' \<and> conn_pending s' = conn_pending s"
proof -
  obtain b mem where s: "s = (b, mem)" by (cases s)
  obtain d where d: "bio_data b = Some d" "ring_inv d" "window_inv mem d"
    using inv unfolding s by (rule conn_invE)
  show ?thesis
    using st lg d by (auto simp: s bioSetByteBuffer_def window_inv_def split: if_splits)
qed

lemma clear_step:
  assumes "conn_inv s"
  shows "\<exists>s'. bio_step s Op_Clear = Inr s' \<and> conn_inv s' \<and> conn_pending s' = conn_pending s"
proof -
  obtain b mem where s: "s = (b, mem)" by (cases s)
  obtain d where "bio_data b = Some d" "ring_inv d" "window_inv mem d"
    using assms unfolding s by (rule conn_invE)
  then show ?thesis
    by (auto simp: s bioClearByteBuffer_def window_inv_def jint_range_def)
qed

lemma window_append:
  assumes "nat (conn_pos s) \<le> length mem" "conn_pos t = conn_pos s + int (length xs)" "0 \<le> conn_pos s"
    and "snd t = take (nat (conn_pos s)) mem @ xs @ ys"
  shows "window s t = xs"
  using assms by (simp add: window_def min_absorb2)

lemma flush_step:
  assumes inv: "conn_inv s"
  shows "\<exists>s'. bio_step s Op_Flush = Inr s' \<and> conn_inv s' \<and> conn_pending s = window s s' @ conn_pending s'"
proof -
  obtain b mem where s: "s = (b, mem)" by (cases s)
  obtain d where d: "bio_data b = Some d" "ring_inv d" "window_inv mem d"
    using inv unfolding s by (rule conn_invE)
  show ?thesis
  proof (cases "nonApplicationBufferLength d = 0 \<or> buffer d = None \<or> \<not> bufferIsSSLWriteSink d")
    case True
    then have "bio_step s Op_Flush = Inr s" using d by (auto simp: s bioFlushByteBuffer_def)
    then show ?thesis using inv by (simp add: window_def)
  next
    case False
    then obtain p r where p: "buffer d = Some p" and r: "nonApplicationBuffer d = Some r"
      using ring_exists [OF d(2)] by auto
    define n where "n = nat (min (bufferLength d) (nonApplicationBufferLength d))"
    have n: "int n \<le> bufferLength d" "int n \<le> nonApplicationBufferLength d"
      using d by (auto simp: n_def window_inv_def ring_inv_def)
    define mem' where "mem' = take (nat p) mem @ take n (pending d) @ drop (nat p + n) mem"
    define b' where "b' = b\<lparr>bio_data := Some (flushed d n)\<rparr>"
    have w: "0 \<le> p" "p + bufferLength d \<le> int (length mem)" using d(3) p by (auto simp: window_inv_def)
    have l: "length (take n (pending d)) = n" using n(2) length_pending [OF d(2)] by simp
    have l': "length mem' = length mem" using l w n by (simp add: mem'_def)
    have st: "bio_step s Op_Flush = Inr (b', mem')"
      using False flush_eq [OF d(2,3) p r] d(1) p
      by (simp add: s bioFlushByteBuffer_def n_def mem'_def b'_def)
    have "window s (b', mem') = take n (pending d)"
      by (rule window_append [where mem = mem]) (use w p d(1) n l in \<open>auto simp: s mem'_def b'_def\<close>)
    then show ?thesis
      using st d n l' ring_inv_flushed [OF d(2) n(2)] window_inv_flushed [OF d(3) n(1) l']
        pending_flushed [OF d(2) n(2)]
      by (simp add: s b'_def)
  qed
qed


text \<open>A write that hands its input to the ring.\<close>

lemma write_queue_step:
  assumes d: "bio_data b = Some d" "ring_inv d" "window_inv mem d"
    and ns: "\<not> bufferIsSSLWriteSink d" and bs: "bs \<noteq> []" "jint_range (int (length bs))"
  defines "s \<equiv> (b, mem)"
  shows "if wrapped d \<and> nonApplicationBufferLength d < nonApplicationBufferSize d
    then \<exists>u. bio_step s (Op_Write bs) = Inl (UB u)
    else \<exists>s'. bio_step s (Op_Write bs) = Inr s' \<and> conn_inv s' \<and> window s s' = []
           \<and> conn_pending s' = conn_pending s @ taken_by s (Op_Write bs)"
proof -
  let ?b = "BIO_clear_retry_flags b" and ?n = "int (length bs)"
  let ?k = "nat (min (nonApplicationBufferSize d - nonApplicationBufferLength d) ?n)"
  have st: "bio_step s (Op_Write bs) =
      cbind (queue_nonApplication ?b d bs ?n) (\<lambda>(r, b'). Inr (b', mem))"
    using ns bs d(1) by (auto simp: s_def bio_java_bytebuffer_write_def tcn_write_to_bytebuffer_def
        cbind_def split: sum.splits prod.splits)
  have le: "0 \<le> nonApplicationBufferLength d"
      "nonApplicationBufferLength d \<le> nonApplicationBufferSize d"
    using d(2) by (auto simp: ring_inv_def)
  consider (full) "nonApplicationBufferLength d = nonApplicationBufferSize d"
    | (wrap) "wrapped d" "nonApplicationBufferLength d < nonApplicationBufferSize d"
    | (free) "\<not> wrapped d" "nonApplicationBufferLength d < nonApplicationBufferSize d"
    using le by linarith
  then show ?thesis
  proof cases
    case full
    then show ?thesis
      using queue_full [OF d(2), of ?b bs ?n] st d ns
      by (simp add: s_def window_def write_consumed_def)
  next
    case wrap
    then show ?thesis
      using queue_wrapped_out_of_bounds [OF d(2), of ?n ?b bs] st bs by simp
  next
    case free
    have k: "int (length (take ?k bs)) \<le> nonApplicationBufferSize d - nonApplicationBufferLength d"
      using free by simp
    have c: "write_consumed d (length bs) = ?k" using ns free by (simp add: write_consumed_def)
    show ?thesis
      using queue_append [OF d(2) free, of ?n bs ?b] st bs d free
        ring_inv_queued [OF d(2) free(1) k] pending_queued [OF d(2) free(1) k]
      by (simp add: s_def c window_def)
  qed
qed

lemma write_sink_step:
  assumes d: "bio_data b = Some d" "ring_inv d" "window_inv mem d"
    and sink: "bufferIsSSLWriteSink d" and p: "buffer d = Some p" "bufferLength d \<noteq> 0"
    and bs: "bs \<noteq> []" "jint_range (int (length bs))"
  defines "s \<equiv> (b, mem)"
  shows "\<exists>s'. bio_step s (Op_Write bs) = Inr s' \<and> conn_inv s'
     \<and> conn_pending s @ taken_by s (Op_Write bs) = window s s' @ conn_pending s'"
proof -
  let ?b = "BIO_clear_retry_flags b" and ?l = "int (length bs)"
  define n where "n = nat (min (bufferLength d) (nonApplicationBufferLength d))"
  define m where "m = nat (min (bufferLength d - min (bufferLength d) (nonApplicationBufferLength d)) ?l)"
  define mem' where "mem' = take (nat p) mem @ take n (pending d) @ take m bs @ drop (nat p + n + m) mem"
  obtain d1 where d1: "tcn_write_to_bytebuffer ?b mem (Some bs) ?l =
      Inr (int n + int m, ?b\<lparr>bio_data := Some (stored d1 m)\<rparr>, mem')"
      "ring_inv d1" "pending d1 = drop n (pending d)" "buffer d1 = Some (p + int n)"
      "bufferLength d1 = bufferLength d - int n"
    using write_sink [of d mem ?b p ?l bs] d sink p bs by (auto simp: n_def m_def mem'_def)
  define s' where "s' = (?b\<lparr>bio_data := Some (stored d1 m)\<rparr>, mem')"
  have st: "bio_step s (Op_Write bs) = Inr s'"
    using d1(1) by (simp add: s_def s'_def bio_java_bytebuffer_write_def)
  have w: "0 \<le> p" "p + bufferLength d \<le> int (length mem)" "jint_range (bufferLength d)"
      "0 \<le> bufferLength d" "0 \<le> nonApplicationBufferLength d"
    using d p by (auto simp: window_inv_def ring_inv_def)
  have n: "int n = min (bufferLength d) (nonApplicationBufferLength d)"
      "int m = min (bufferLength d - int n) ?l" "m \<le> length bs"
    using w by (auto simp: n_def m_def)
  have l: "length (take n (pending d)) = n" using n(1) length_pending [OF d(2)] by simp
  have l': "length mem' = length mem" using l w n by (auto simp: mem'_def)
  have win: "window s s' = take n (pending d) @ take m bs"
    by (rule window_append [where mem = mem])
      (use w p d(1) n l d1(4) in \<open>auto simp: s_def s'_def mem'_def\<close>)
  have "window_inv mem' (stored d1 m)"
    using w n d1(4,5) l' by (auto simp: window_inv_def jint_range_def)
  then have "conn_inv s'" using d1(2) by (simp add: s'_def)
  moreover have c: "write_consumed d (length bs) = m"
    using sink p n by (simp add: write_consumed_def)
  have "pending d @ take m bs = (take n (pending d) @ take m bs) @ drop n (pending d)"
  proof (cases "m = 0")
    case True
    then show ?thesis by simp
  next
    case False
    then have "nonApplicationBufferLength d \<le> int n" using n by auto
    then have "length (pending d) \<le> n" using length_pending [OF d(2)] by simp
    then show ?thesis by simp
  qed
  ultimately show ?thesis
    using st win d(1) c d1(3) by (simp add: s_def s'_def)
qed

lemma write_idle_step:
  assumes "bio_data b = Some d" "ring_inv d" "window_inv mem d"
    and "bs = [] \<or> bufferIsSSLWriteSink d \<and> (buffer d = None \<or> bufferLength d = 0)"
  defines "s \<equiv> (b, mem)"
  shows "\<exists>s'. bio_step s (Op_Write bs) = Inr s' \<and> conn_inv s'
     \<and> conn_pending s @ taken_by s (Op_Write bs) = window s s' @ conn_pending s'"
  using assms
  by (auto simp: bio_java_bytebuffer_write_def tcn_write_to_bytebuffer_def window_def
      write_consumed_def ring_inv_def)

text \<open>The write step in one statement: it fails exactly on a wrapped ring with free space.\<close>

definition overruns :: "BIO \<times> byte list \<Rightarrow> bool" where
  "overruns s = (case bio_data (fst s) of None \<Rightarrow> False
     | Some d \<Rightarrow> \<not> bufferIsSSLWriteSink d \<and> wrapped d
                 \<and> nonApplicationBufferLength d < nonApplicationBufferSize d)"

lemma write_step:
  assumes inv: "conn_inv s" and lg: "legal_op (Op_Write bs)"
  shows "if bs \<noteq> [] \<and> overruns s then \<exists>u. bio_step s (Op_Write bs) = Inl (UB u)
    else \<exists>s'. bio_step s (Op_Write bs) = Inr s' \<and> conn_inv s'
       \<and> conn_pending s @ taken_by s (Op_Write bs) = window s s' @ conn_pending s'"
proof -
  obtain b mem where s: "s = (b, mem)" by (cases s)
  obtain d where d: "bio_data b = Some d" "ring_inv d" "window_inv mem d"
    using inv unfolding s by (rule conn_invE)
  show ?thesis
  proof (cases "bs = [] \<or> bufferIsSSLWriteSink d \<and> (buffer d = None \<or> bufferLength d = 0)")
    case True
    then show ?thesis using write_idle_step [OF d True] d(1) by (auto simp: s overruns_def)
  next
    case busy: False
    show ?thesis
    proof (cases "bufferIsSSLWriteSink d")
      case True
      then obtain p where "buffer d = Some p" using busy by auto
      with True show ?thesis
        using write_sink_step [OF d, of p bs] busy lg d(1) by (auto simp: s overruns_def)
    next
      case False
      then show ?thesis
        using write_queue_step [OF d False, of bs] busy lg d(1)
        by (auto simp: s overruns_def split: if_splits)
    qed
  qed
qed

interpretation bio: fifo_channel conn_inv conn_pending legal_op bio_step taken_by given_by
proof
  fix s op s' assume inv: "conn_inv s" and lg: "legal_op op" and st: "bio_step s op = Inr s'"
  have "conn_inv s' \<and> conn_pending s @ taken_by s op = given_by s op s' @ conn_pending s'"
  proof (cases op)
    case (Op_Set mem' p n sink)
    then show ?thesis using set_step [of s mem' p n sink s'] inv lg st by simp
  next
    case Op_Clear
    then show ?thesis using clear_step [OF inv] st by auto
  next
    case Op_Flush
    then show ?thesis using flush_step [OF inv] st by auto
  next
    case (Op_Write bs)
    then show ?thesis using write_step [of s bs] inv lg st by (auto split: if_splits)
  next
    case (Op_Read n)
    then show ?thesis using read_step [of s n] inv lg st by auto
  qed
  then show "conn_inv s'" "conn_pending s @ taken_by s op = given_by s op s' @ conn_pending s'"
    by auto
qed

section \<open>When the ring cannot overrun\<close>

definition safe_ring :: "int \<Rightarrow> BIO \<times> byte list \<Rightarrow> bool" where
  "safe_ring sz s = (case bio_data (fst s) of None \<Rightarrow> False
     | Some d \<Rightarrow> nonApplicationBufferSize d = sz \<and> nonApplicationBufferOffset d = 0
                 \<and> (bufferIsSSLWriteSink d \<longrightarrow> buffer d \<noteq> None
                     \<longrightarrow> nonApplicationBufferLength d \<le> bufferLength d))"

text \<open>Every window given to \<^verbatim>\<open>SSL_write\<close> can hold the whole ring.\<close>

fun modest_op :: "int \<Rightarrow> bio_op \<Rightarrow> bool" where
  "modest_op sz (Op_Set mem p n sink) \<longleftrightarrow> 0 \<le> n \<and> (sink \<longrightarrow> sz \<le> n)"
| "modest_op sz op \<longleftrightarrow> True"

lemma safe_not_overruns: "conn_inv s \<Longrightarrow> safe_ring sz s \<Longrightarrow> \<not> overruns s"
  by (auto simp: safe_ring_def overruns_def wrapped_def conn_inv_def ring_inv_def split: option.splits)

lemma flush_safe:
  assumes inv: "conn_inv s" and safe: "safe_ring sz s" and st: "bio_step s Op_Flush = Inr s'"
  shows "safe_ring sz s'"
proof -
  obtain b mem where s: "s = (b, mem)" by (cases s)
  obtain d where d: "bio_data b = Some d" "ring_inv d" "window_inv mem d"
    using inv unfolding s by (rule conn_invE)
  show ?thesis
  proof (cases "nonApplicationBufferLength d = 0 \<or> buffer d = None \<or> \<not> bufferIsSSLWriteSink d")
    case True
    then show ?thesis using st safe d(1) by (auto simp: s bioFlushByteBuffer_def)
  next
    case False
    then obtain p r where p: "buffer d = Some p" and r: "nonApplicationBuffer d = Some r"
      using ring_exists [OF d(2)] by auto
    have "nonApplicationBufferLength d \<le> bufferLength d" "0 \<le> nonApplicationBufferLength d"
      using safe d False p by (auto simp: s safe_ring_def ring_inv_def)
    then show ?thesis
      using st safe False flush_eq [OF d(2,3) p r] d(1) p
      by (auto simp: s bioFlushByteBuffer_def safe_ring_def flushed_def Let_def)
  qed
qed

lemma write_safe:
  assumes inv: "conn_inv s" and safe: "safe_ring sz s" and lg: "legal_op (Op_Write bs)"
    and st: "bio_step s (Op_Write bs) = Inr s'"
  shows "safe_ring sz s'"
proof -
  obtain b mem where s: "s = (b, mem)" by (cases s)
  obtain d where d: "bio_data b = Some d" "ring_inv d" "window_inv mem d"
    using inv unfolding s by (rule conn_invE)
  let ?b = "BIO_clear_retry_flags b" and ?n = "int (length bs)"
  have sf: "nonApplicationBufferSize d = sz" "nonApplicationBufferOffset d = 0"
    using safe d(1) by (auto simp: s safe_ring_def)
  have lens: "0 \<le> nonApplicationBufferLength d"
      "nonApplicationBufferLength d \<le> nonApplicationBufferSize d"
    using d(2) by (auto simp: ring_inv_def)
  consider (idle) "bs = [] \<or> bufferIsSSLWriteSink d \<and> (buffer d = None \<or> bufferLength d = 0)"
    | (sink) p where "bs \<noteq> []" "bufferIsSSLWriteSink d" "buffer d = Some p" "bufferLength d \<noteq> 0"
    | (full) "bs \<noteq> []" "\<not> bufferIsSSLWriteSink d"
        "nonApplicationBufferLength d = nonApplicationBufferSize d"
    | (free) "bs \<noteq> []" "\<not> bufferIsSSLWriteSink d"
        "nonApplicationBufferLength d < nonApplicationBufferSize d"
    using lens by fastforce
  then show ?thesis
  proof cases
    case idle
    then show ?thesis
      using st safe d(1)
      by (cases "bs = []")
        (auto simp: s bio_java_bytebuffer_write_def tcn_write_to_bytebuffer_def safe_ring_def)
  next
    case (sink p)
    have le: "nonApplicationBufferLength d \<le> bufferLength d"
      using safe d(1) sink by (simp add: s safe_ring_def)
    have "0 < ?n" "jint_range ?n" using sink lg by auto
    from write_sink [OF d(2,3) _ sink(2-4) this order_refl, of ?b]
    show ?thesis
      using st d(1) sf le lens d(3) by (auto simp: s bio_java_bytebuffer_write_def safe_ring_def window_inv_def)
  next
    case full
    then show ?thesis
      using st queue_full [OF d(2) full(3), of ?b bs ?n] sf d(1)
      by (auto simp: s bio_java_bytebuffer_write_def tcn_write_to_bytebuffer_def safe_ring_def)
  next
    case free
    have "\<not> wrapped d" using sf lens by (simp add: wrapped_def)
    then show ?thesis
      using st queue_append [OF d(2) _ free(3), of ?n bs ?b] free lg sf d(1)
      by (auto simp: s bio_java_bytebuffer_write_def tcn_write_to_bytebuffer_def safe_ring_def)
  qed
qed

lemma read_safe:
  assumes inv: "conn_inv s" and safe: "safe_ring sz s" and lg: "legal_op (Op_Read n)"
    and st: "bio_step s (Op_Read n) = Inr s'"
  shows "safe_ring sz s'"
proof -
  obtain b mem where s: "s = (b, mem)" by (cases s)
  obtain d where d: "bio_data b = Some d" "ring_inv d" "window_inv mem d"
    using inv unfolding s by (rule conn_invE)
  show ?thesis
    using st safe d(1)
    by (auto simp: s bio_java_bytebuffer_read_def tcn_read_from_bytebuffer_def safe_ring_def
        cbind_eq_Inr Let_def jint_of_Inr split: if_splits)
qed

interpretation bio_safe: progressing_channel conn_inv conn_pending legal_op bio_step taken_by given_by
  "safe_ring sz" "modest_op sz" for sz
proof
  fix s op assume inv: "conn_inv s" and safe: "safe_ring sz s" and lg: "legal_op op"
    and mo: "modest_op sz op"
  show "\<exists>s'. bio_step s op = Inr s' \<and> safe_ring sz s'"
  proof (cases op)
    case (Op_Set mem' p n sink)
    obtain b mem where s: "s = (b, mem)" by (cases s)
    obtain d where d: "bio_data b = Some d" "ring_inv d" "window_inv mem d"
      using inv unfolding s by (rule conn_invE)
    then show ?thesis
      using mo safe by (auto simp: s Op_Set bioSetByteBuffer_def safe_ring_def ring_inv_def)
  next
    case Op_Clear
    obtain b mem where s: "s = (b, mem)" by (cases s)
    obtain d where "bio_data b = Some d" "ring_inv d" "window_inv mem d"
      using inv unfolding s by (rule conn_invE)
    then show ?thesis
      using safe by (simp add: s Op_Clear bioClearByteBuffer_def safe_ring_def)
  next
    case Op_Flush
    then show ?thesis using flush_step [OF inv] flush_safe [OF inv safe] by auto
  next
    case (Op_Write bs)
    then show ?thesis
      using write_step [of s bs] write_safe [OF inv safe, of bs] safe_not_overruns [OF inv safe] inv lg
      by auto
  next
    case (Op_Read n)
    then show ?thesis using read_step [of s n] read_safe [OF inv safe, of n] inv lg by auto
  qed
qed


section \<open>Properties\<close>

definition run_bio :: "BIO \<times> byte list \<Rightarrow> bio_op list \<Rightarrow>
    failure + (byte list \<times> byte list \<times> BIO \<times> byte list)" where
  "run_bio s ops = run_io bio_step taken_by given_by s ops"

definition bio_fresh :: BIO where
  "bio_fresh = \<lparr>bio_data = None, bio_retry_read = False, bio_retry_write = False,
                bio_shutdown = 0, bio_init = 0\<rparr>"

definition ssl_fresh :: ssl_bios where
  "ssl_fresh = \<lparr>rbio = 0, wbio = 0\<rparr>"


definition demo_ops :: "bio_op list" where
  "demo_ops = [Op_Write [1, 2, 3], Op_Set [0, 0, 0, 0] 0 2 True, Op_Flush,
               Op_Set [9, 9] 0 2 False, Op_Read 2, Op_Write [4],
               Op_Set [0, 0, 0, 0] 1 3 True, Op_Write [5, 6]]"


text \<open>
  C2. If every window handed out for writing can hold the whole ring, no sequence of operations
  ever leaves the bounds of a buffer, overflows an integer or dereferences a null pointer.
\<close>

theorem bio_never_fails:
  assumes new: "bioNewByteBuffer (Some c) (int sz) (Some (addr, b0)) ok (Some ring) = Inr (addr, b, c')"
    and ring: "length ring = sz" "jint_range (int sz)"
    and ops: "list_all legal_op ops" "list_all (modest_op (int sz)) ops"
  shows "\<exists>accepted delivered t. run_bio (b, mem) ops = Inr (accepted, delivered, t)"
proof -
  have "conn_inv (b, mem)" "safe_ring (int sz) (b, mem)"
    using new ring by (auto simp: bioNewByteBuffer_def bio_java_bytebuffer_create_def conn_inv_def
        safe_ring_def ring_inv_def window_inv_def jint_range_def split: if_splits)
  from bio_safe.run_never_fails [OF this ops] show ?thesis
    unfolding run_bio_def by blast
qed

definition modest_ops :: "bio_op list" where
  "modest_ops = [Op_Write [1, 2, 3], Op_Set (replicate 8 0) 2 6 True, Op_Flush, Op_Write [4],
                 Op_Set [9, 9] 0 2 False, Op_Read 1, Op_Write [5, 6, 7, 8, 9], Op_Clear]"

theorem bio_never_fails_witness:
  "\<exists>b c' acc del t. bioNewByteBuffer (Some ssl_fresh) (int 4) (Some (16, bio_fresh)) True (Some (replicate 4 0)) = Inr (16, b, c')
     \<and> run_bio (b, []) modest_ops = Inr (acc, del, t)"
proof -
  obtain b c' where b: "bioNewByteBuffer (Some ssl_fresh) (int 4) (Some (16, bio_fresh)) True (Some (replicate 4 0)) = Inr (16, b, c')"
    by (simp add: bioNewByteBuffer_def bio_java_bytebuffer_create_def ssl_fresh_def SSL_set_bio_def)
  have "list_all legal_op modest_ops" "list_all (modest_op (int 4)) modest_ops"
    by (simp_all add: modest_ops_def jint_range_def)
  then show ?thesis
    using bio_never_fails [OF b, of modest_ops "[]"] b by (auto simp: jint_range_def)
qed

text \<open>
  C3. The only undefined behaviour of the BIO operations is a non-empty write that is queued
  into a ring whose contents wrap around its end while it still has free space.
\<close>

theorem bio_undefined_iff_overruns:
  assumes inv: "conn_inv s" and lg: "legal_op op"
  shows "(\<exists>u. bio_step s op = Inl (UB u)) \<longleftrightarrow> (\<exists>bs. op = Op_Write bs \<and> bs \<noteq> [] \<and> overruns s)"
proof (cases op)
  case (Op_Set mem p n sink)
  obtain b m where s: "s = (b, m)" by (cases s)
  obtain d where d: "bio_data b = Some d" using inv unfolding s by (rule conn_invE)
  then show ?thesis by (simp add: Op_Set s bioSetByteBuffer_def)
next
  case Op_Clear
  then show ?thesis using clear_step [OF inv] by auto
next
  case Op_Flush
  then show ?thesis using flush_step [OF inv] by auto
next
  case (Op_Write bs)
  then show ?thesis using write_step [of s bs] inv lg by (auto split: if_splits)
next
  case (Op_Read n)
  then show ?thesis using read_step [of s n] inv lg by auto
qed

definition wrapped_conn :: "BIO \<times> byte list" where
  "wrapped_conn =
    (bio_fresh\<lparr>bio_data := Some \<lparr>buffer = None, nonApplicationBuffer = Some [5, 2, 3, 4],
       nonApplicationBufferSize = 4, nonApplicationBufferOffset = 2,
       nonApplicationBufferLength = 3, bufferLength = 0, bufferIsSSLWriteSink = False\<rparr>\<rparr>, [])"

theorem bio_undefined_iff_overruns_witness:
  "conn_inv wrapped_conn \<and> legal_op (Op_Write [6]) \<and> overruns wrapped_conn
   \<and> (\<exists>u. bio_step wrapped_conn (Op_Write [6]) = Inl (UB u))"
proof -
  have i: "conn_inv wrapped_conn" "legal_op (Op_Write [6])" "overruns wrapped_conn" by code_simp+
  then have "\<exists>u. bio_step wrapped_conn (Op_Write [6]) = Inl (UB u)"
    using bio_undefined_iff_overruns [OF i(1,2)] by blast
  with i show ?thesis by blast
qed

definition overrun_ops :: "bio_op list" where
  "overrun_ops = [Op_Write [1, 2, 3, 4], Op_Set [0, 0] 0 2 True, Op_Flush,
                  Op_Set [9] 0 1 False, Op_Write [5], Op_Write [6]]"

text \<open>
  That state is reachable: on a ring of four bytes, after four bytes were queued, two of them
  flushed into a two-byte window and one more byte queued while the Java buffer is a read
  source, the next queued byte is copied outside the ring.
\<close>

theorem bio_overrun_reachable:
  "list_all legal_op overrun_ops
   \<and> (case bioNewByteBuffer (Some ssl_fresh) 4 (Some (16, bio_fresh)) True (Some (replicate 4 0)) of
        Inl _ \<Rightarrow> False | Inr (_, b, _) \<Rightarrow> run_bio (b, []) overrun_ops = Inl (UB Out_Of_Bounds))"
  by code_simp

text \<open>
  A write into a Java window copies the pending ring bytes first and then as much of the
  input as fits, right behind them; the value it returns counts both parts.
\<close>

theorem write_sink_result:
  assumes inv: "conn_inv (b, mem)" and b: "bio_data b = Some d"
    and sink: "bufferIsSSLWriteSink d" "buffer d = Some p" "bufferLength d \<noteq> 0"
    and src: "src \<noteq> []" "jint_range (int (length src))"
  shows "\<exists>b' mem' n m. bio_java_bytebuffer_write b mem (Some src) (int (length src)) =
      Inr (int n + int m, b', mem')
    \<and> int n = min (bufferLength d) (nonApplicationBufferLength d) \<and> m = write_consumed d (length src)
    \<and> mem' = take (nat p) mem @ take n (pending d) @ take m src @ drop (nat p + n + m) mem
    \<and> conn_pending (b', mem') = drop n (pending d) \<and> conn_pos (b', mem') = p + int n + int m"
proof -
  let ?b = "BIO_clear_retry_flags b" and ?l = "int (length src)"
  define n where "n = nat (min (bufferLength d) (nonApplicationBufferLength d))"
  define m where "m = nat (min (bufferLength d - min (bufferLength d) (nonApplicationBufferLength d)) ?l)"
  have d: "ring_inv d" "window_inv mem d" "0 \<le> bufferLength d" "0 \<le> nonApplicationBufferLength d"
    using inv b by (auto simp: ring_inv_def window_inv_def)
  obtain d1 where d1: "tcn_write_to_bytebuffer ?b mem (Some src) ?l =
      Inr (int n + int m, ?b\<lparr>bio_data := Some (stored d1 m)\<rparr>,
        take (nat p) mem @ take n (pending d) @ take m src @ drop (nat p + n + m) mem)"
      "pending d1 = drop n (pending d)" "buffer d1 = Some (p + int n)"
    using write_sink [of d mem ?b p ?l src] d b sink src by (auto simp: n_def m_def)
  have "int n = min (bufferLength d) (nonApplicationBufferLength d)" "m = write_consumed d (length src)"
    using sink d by (auto simp: n_def m_def write_consumed_def)
  with d1 show ?thesis
    unfolding bio_java_bytebuffer_write_def
    by (intro exI [of _ "?b\<lparr>bio_data := Some (stored d1 m)\<rparr>"] exI [of _ n] exI [of _ m] exI conjI)
      (rule d1(1) | simp)+
qed

definition sink_bio :: BIO where
  "sink_bio = bio_fresh\<lparr>bio_data := Some \<lparr>buffer = Some 0, nonApplicationBuffer = Some [1, 2, 3, 4],
     nonApplicationBufferSize = 4, nonApplicationBufferOffset = 1,
     nonApplicationBufferLength = 2, bufferLength = 3, bufferIsSSLWriteSink = True\<rparr>\<rparr>"

theorem write_sink_result_witness:
  "conn_inv (sink_bio, [0, 0, 0]) \<and>
   (\<exists>b'. bio_java_bytebuffer_write sink_bio [0, 0, 0] (Some [7]) 1 = Inr (3, b', [2, 3, 7]))"
proof -
  obtain d where d: "bio_data sink_bio = Some d" "bufferIsSSLWriteSink d" "buffer d = Some 0"
      "bufferLength d = 3" "nonApplicationBufferLength d = 2" "pending d = [2, 3]"
    by (simp add: sink_bio_def pending_def)
  have inv: "conn_inv (sink_bio, [0, 0, 0])" by code_simp
  have c: "write_consumed d 1 = 1" using d by (simp add: write_consumed_def)
  obtain b' mem' n m where r: "bio_java_bytebuffer_write sink_bio [0, 0, 0] (Some [7]) 1 =
      Inr (int n + int m, b', mem')" "int n = 2" "m = 1"
      "mem' = take n [2, 3] @ take m [7] @ drop (n + m) [0, 0, 0]"
    using write_sink_result [OF inv d(1-3), of "[7]"] d c by (auto simp: jint_range_def)
  have "n = 2" using r(2) by simp
  with r inv show ?thesis by simp
qed

text \<open>
  A read takes the next bytes of the Java window, as many as both sides allow, and moves the
  window forward; with no window, an empty one or a window meant for writing it asks for a retry
  and changes nothing else.
\<close>

theorem read_result:
  assumes inv: "conn_inv (b, mem)" and b: "bio_data b = Some d"
    and out: "0 < outl" "jint_range outl" "outl \<le> int (length out)"
  shows "bio_java_bytebuffer_read b mem (Some out) outl =
    (case buffer d of
       None \<Rightarrow> Inr (-1, (BIO_clear_retry_flags b)\<lparr>bio_retry_read := True\<rparr>, Some out)
     | Some p \<Rightarrow>
       if bufferIsSSLWriteSink d \<or> bufferLength d = 0
       then Inr (-1, (BIO_clear_retry_flags b)\<lparr>bio_retry_read := True\<rparr>, Some out)
       else let n = nat (min (bufferLength d) outl) in
         Inr (int n,
              (BIO_clear_retry_flags b)\<lparr>bio_data := Some (d\<lparr>bufferLength := bufferLength d - int n,
                                                          buffer := Some (p + int n)\<rparr>)\<rparr>,
              Some (take n (drop (nat p) mem) @ drop n out)))"
proof (cases "bufferIsSSLWriteSink d \<or> buffer d = None \<or> bufferLength d = 0")
  case True
  then show ?thesis
    using b out by (auto simp: bio_java_bytebuffer_read_def tcn_read_from_bytebuffer_def
        split: option.split)
next
  case False
  then obtain p where p: "buffer d = Some p" by auto
  have "window_inv mem d" using inv b by simp
  from read_window [OF this _ _ p _ out, of "BIO_clear_retry_flags b"] False b show ?thesis
    by (simp add: p bio_java_bytebuffer_read_def stored_def Let_def)
qed

definition source_bio :: BIO where
  "source_bio = bio_fresh\<lparr>bio_data := Some \<lparr>buffer = Some 1, nonApplicationBuffer = None,
     nonApplicationBufferSize = 0, nonApplicationBufferOffset = 0,
     nonApplicationBufferLength = 0, bufferLength = 2, bufferIsSSLWriteSink = False\<rparr>\<rparr>"

theorem read_result_witness:
  "\<exists>b'. bio_java_bytebuffer_read source_bio [7, 8, 9] (Some [0, 0, 0]) 3 = Inr (2, b', Some [8, 9, 0])"
proof -
  obtain d where d: "bio_data source_bio = Some d" "\<not> bufferIsSSLWriteSink d" "buffer d = Some 1"
      "bufferLength d = 2"
    by (simp add: source_bio_def)
  have "conn_inv (source_bio, [7, 8, 9])" by code_simp
  from read_result [OF this d(1), of 3 "[0, 0, 0]"] d show ?thesis
    by (simp add: jint_range_def Let_def)
qed

end
