(* ===== verification/Ssl_Types.thy ===== *)
theory Ssl_Types
  imports Tcn_Prelude
begin

text \<open>
  The data model of \<^verbatim>\<open>ssl_private.h\<close>: the structs that the native code keeps for an
  \<^verbatim>\<open>SSL_CTX\<close> and for an \<^verbatim>\<open>SSL\<close>, with the constants that go with them.

  Java objects (global references), method identifiers, APR pools and locks, and OpenSSL objects
  are addresses (\<open>0\<close> is \<^verbatim>\<open>NULL\<close>). Heap blocks that the native code reads and writes itself
  (the protocol lists, the password) are lists, \<open>None\<close> being \<^verbatim>\<open>NULL\<close>; the array of ticket keys,
  which threads share, is an address in a \<open>key_heap\<close>.
\<close>

section \<open>Constants\<close>

definition SSL_PROTOCOL_NONE :: int where "SSL_PROTOCOL_NONE = 0"
definition SSL_PROTOCOL_SSLV2 :: int where "SSL_PROTOCOL_SSLV2 = 1"
definition SSL_PROTOCOL_SSLV3 :: int where "SSL_PROTOCOL_SSLV3 = 2"
definition SSL_PROTOCOL_TLSV1 :: int where "SSL_PROTOCOL_TLSV1 = 4"
definition SSL_PROTOCOL_TLSV1_1 :: int where "SSL_PROTOCOL_TLSV1_1 = 8"
definition SSL_PROTOCOL_TLSV1_2 :: int where "SSL_PROTOCOL_TLSV1_2 = 16"

definition SSL_MODE_CLIENT :: int where "SSL_MODE_CLIENT = 0"
definition SSL_MODE_SERVER :: int where "SSL_MODE_SERVER = 1"
definition SSL_MODE_COMBINED :: int where "SSL_MODE_COMBINED = 2"

definition SSL_CVERIFY_IGNORED :: int where "SSL_CVERIFY_IGNORED = -1"
definition SSL_CVERIFY_NONE :: int where "SSL_CVERIFY_NONE = 0"
definition SSL_CVERIFY_OPTIONAL :: int where "SSL_CVERIFY_OPTIONAL = 1"
definition SSL_CVERIFY_REQUIRED :: int where "SSL_CVERIFY_REQUIRED = 2"

lemmas ssl_mode_defs = SSL_MODE_CLIENT_def SSL_MODE_SERVER_def SSL_MODE_COMBINED_def

lemmas cverify_defs =
  SSL_CVERIFY_IGNORED_def SSL_CVERIFY_NONE_def SSL_CVERIFY_OPTIONAL_def SSL_CVERIFY_REQUIRED_def

section \<open>Session ticket keys and verification settings\<close>

definition SSL_SESSION_TICKET_KEY_NAME_LEN :: nat where "SSL_SESSION_TICKET_KEY_NAME_LEN = 16"
definition SSL_SESSION_TICKET_AES_KEY_LEN :: nat where "SSL_SESSION_TICKET_AES_KEY_LEN = 16"
definition SSL_SESSION_TICKET_HMAC_KEY_LEN :: nat where "SSL_SESSION_TICKET_HMAC_KEY_LEN = 16"
definition SSL_SESSION_TICKET_KEY_SIZE :: nat where "SSL_SESSION_TICKET_KEY_SIZE = 48"

lemmas ticket_len_defs =
  SSL_SESSION_TICKET_KEY_NAME_LEN_def SSL_SESSION_TICKET_AES_KEY_LEN_def
  SSL_SESSION_TICKET_HMAC_KEY_LEN_def SSL_SESSION_TICKET_KEY_SIZE_def

text \<open>
  \<open>mac_params\<close> (OpenSSL 3 and later) is built by \<^verbatim>\<open>OSSL_PARAM_construct_octet_string\<close>, which keeps
  the address of the key bytes: the block and the index of the array element they belong to.
\<close>

record tcn_ssl_ticket_key =
  key_name :: "byte list"
  hmac_key :: "byte list"
  mac_params :: "(int \<times> nat) option"
  aes_key :: "byte list"

text \<open>The heap blocks that hold arrays of ticket keys.\<close>

type_synonym key_heap = "int \<Rightarrow> tcn_ssl_ticket_key list option"

record tcn_ssl_verify_config =
  verify_depth :: int
  verify_mode :: int

section \<open>The context\<close>

record tcn_ssl_ctxt =
  pool :: int
  ctx :: int
  alpn_proto_data :: "byte list option"
  next_proto_data :: "byte list option"
  password :: "byte list option"
  mutex :: int
  ticket_keys :: int
  verifier :: int
  verifier_method :: int
  cert_requested_callback :: int
  cert_requested_callback_method :: int
  certificate_callback :: int
  certificate_callback_method :: int
  sni_hostname_matcher :: int
  sni_hostname_matcher_method :: int
  ssl_session_cache :: int
  ssl_session_cache_creation_method :: int
  ssl_session_cache_get_method :: int
  ssl_private_key_method :: int
  ssl_private_key_sign_method :: int
  ssl_private_key_decrypt_method :: int
  ssl_cert_compression_zlib_algorithm :: int
  ssl_cert_compression_zlib_compress_method :: int
  ssl_cert_compression_zlib_decompress_method :: int
  ssl_cert_compression_brotli_algorithm :: int
  ssl_cert_compression_brotli_compress_method :: int
  ssl_cert_compression_brotli_decompress_method :: int
  ssl_cert_compression_zstd_algorithm :: int
  ssl_cert_compression_zstd_compress_method :: int
  ssl_cert_compression_zstd_decompress_method :: int
  keylog_callback :: int
  keylog_callback_method :: int
  verify_config :: tcn_ssl_verify_config
  protocol :: int
  mode :: int
  next_proto_len :: int
  next_selector_failure_behavior :: int
  alpn_proto_len :: int
  alpn_selector_failure_behavior :: int
  ticket_keys_len :: nat
  ticket_keys_new :: "32 word"
  ticket_keys_resume :: "32 word"
  ticket_keys_renew :: "32 word"
  ticket_keys_fail :: "32 word"
  context_id :: "byte list"
  use_tasks :: bool

text \<open>\<^verbatim>\<open>apr_pcalloc\<close> in \<^verbatim>\<open>SSLContext.make\<close> clears the whole struct.\<close>

definition ctxt_zero :: tcn_ssl_ctxt where
  "ctxt_zero = \<lparr>pool = 0, ctx = 0, alpn_proto_data = None, next_proto_data = None,
     password = None, mutex = 0, ticket_keys = 0, verifier = 0, verifier_method = 0,
     cert_requested_callback = 0, cert_requested_callback_method = 0,
     certificate_callback = 0, certificate_callback_method = 0,
     sni_hostname_matcher = 0, sni_hostname_matcher_method = 0,
     ssl_session_cache = 0, ssl_session_cache_creation_method = 0, ssl_session_cache_get_method = 0,
     ssl_private_key_method = 0, ssl_private_key_sign_method = 0,
     ssl_private_key_decrypt_method = 0,
     ssl_cert_compression_zlib_algorithm = 0, ssl_cert_compression_zlib_compress_method = 0,
     ssl_cert_compression_zlib_decompress_method = 0,
     ssl_cert_compression_brotli_algorithm = 0, ssl_cert_compression_brotli_compress_method = 0,
     ssl_cert_compression_brotli_decompress_method = 0,
     ssl_cert_compression_zstd_algorithm = 0, ssl_cert_compression_zstd_compress_method = 0,
     ssl_cert_compression_zstd_decompress_method = 0,
     keylog_callback = 0, keylog_callback_method = 0,
     verify_config = \<lparr>verify_depth = 0, verify_mode = 0\<rparr>, protocol = 0, mode = 0,
     next_proto_len = 0, next_selector_failure_behavior = 0,
     alpn_proto_len = 0, alpn_selector_failure_behavior = 0, ticket_keys_len = 0,
     ticket_keys_new = 0, ticket_keys_resume = 0, ticket_keys_renew = 0, ticket_keys_fail = 0,
     context_id = replicate 20 0, use_tasks = False\<rparr>"

text \<open>\<^verbatim>\<open>TCN_CHECK_NULL(c, ctx, R)\<close> on the address of a context, followed by code that reads the struct.\<close>

definition CHECK_CTX :: "tcn_ssl_ctxt option \<Rightarrow> 'a \<Rightarrow> (tcn_ssl_ctxt \<Rightarrow> ('f, 'a) io) \<Rightarrow> ('f, 'a) io" where
  "CHECK_CTX cp r k =
   (case cp of None \<Rightarrow> do { throw (NullPointerException ''ctx''); State_Monad.return r }
    | Some c \<Rightarrow> k c)"

lemma run_check_ctx [simp, ffi_simps]:
  "run_state (CHECK_CTX None r k) w = (r, w\<lparr>thrown := thrown w @ [NullPointerException ''ctx'']\<rparr>)"
  "run_state (CHECK_CTX (Some c) r k) w = run_state (k c) w"
  by (simp_all add: CHECK_CTX_def)

section \<open>The connection\<close>

record tcn_ssl_task =
  consumed :: bool
  task :: int

record tcn_ssl_state =
  handshakeCount :: int
  state_ctx :: int
  ssl_task :: "tcn_ssl_task option"
  state_verify_config :: tcn_ssl_verify_config
  task_array_len :: int
  task_chain_num :: int

end
