(* ===== verification/Alpn_Select.thy ===== *)
theory Alpn_Select
  imports Ssl_Types
begin

text \<open>
  Protocol negotiation: the wire format built by \<^verbatim>\<open>SSLContext.protocolsToWireFormat\<close>, the
  setters \<^verbatim>\<open>setNpnProtos0\<close> and \<^verbatim>\<open>setAlpnProtos0\<close> of \<^verbatim>\<open>sslcontext.c\<close>, and the selection loop
  \<^verbatim>\<open>select_next_proto\<close> of \<^verbatim>\<open>sslutils.c\<close> with its three callbacks.

  Pointers into the peer's list and into our own list are positions in the two blocks. The
  lemmas compare the loop with the reference definition \<open>first_common\<close>, and state what it
  does when the two lists have no protocol in common.
\<close>

section \<open>Wire format\<close>

definition MAX_ALPN_NPN_PROTO_SIZE :: nat where
  "MAX_ALPN_NPN_PROTO_SIZE = 65535"

text \<open>\<^verbatim>\<open>ByteArrayOutputStream.write(int)\<close> keeps the low eight bits of the length.\<close>

definition wire_entry :: "byte list \<Rightarrow> byte list" where
  "wire_entry p = (if length p \<le> MAX_ALPN_NPN_PROTO_SIZE then word_of_nat (length p) # p else [])"

definition protocolsToWireFormat :: "byte list list \<Rightarrow> byte list" where
  "protocolsToWireFormat ps = concat (map wire_entry ps)"

section \<open>The setters\<close>

datatype proto_reg =
    SSL_CTX_set_next_proto_select_cb int
  | SSL_CTX_set_next_protos_advertised_cb int
  | SSL_CTX_set_alpn_protos int "byte list" int
  | SSL_CTX_set_alpn_select_cb int

text \<open>
  \<open>c\<close> is the struct the Java side passes, \<open>malloc_ok\<close> the outcome of \<^verbatim>\<open>OPENSSL_malloc\<close>. The result
  is the struct afterwards, the registration made with OpenSSL, and the exception thrown.
\<close>

definition setNpnProtos0 ::
  "tcn_ssl_ctxt option \<Rightarrow> byte list option \<Rightarrow> bool \<Rightarrow> int
   \<Rightarrow> tcn_ssl_ctxt option \<times> proto_reg option \<times> jexc option" where
  "setNpnProtos0 cp next_protos malloc_ok selectorFailureBehavior =
   (case cp of None \<Rightarrow> (None, None, Some (NullPointerException ''ctx''))
    | Some c \<Rightarrow>
     (case next_protos of None \<Rightarrow> (Some c, None, None)
      | Some bs \<Rightarrow>
        if \<not> malloc_ok
        then (Some (c\<lparr>next_proto_data := None\<rparr>), None,
              Some (OutOfMemoryError ''OPENSSL_malloc failed''))
        else (Some (c\<lparr>next_proto_data := Some bs, next_proto_len := int (length bs)\<rparr>),
              Some (if mode c = SSL_MODE_CLIENT then SSL_CTX_set_next_proto_select_cb (ctx c)
                    else SSL_CTX_set_next_protos_advertised_cb (ctx c)), None)))"

text \<open>\<open>linked\<close>: the weak symbols \<^verbatim>\<open>SSL_CTX_set_alpn_protos\<close> and \<^verbatim>\<open>SSL_CTX_set_alpn_select_cb\<close> are present.\<close>

definition setAlpnProtos0 ::
  "build \<Rightarrow> bool \<Rightarrow> tcn_ssl_ctxt option \<Rightarrow> byte list option \<Rightarrow> bool \<Rightarrow> int
   \<Rightarrow> tcn_ssl_ctxt option \<times> proto_reg option \<times> jexc option" where
  "setAlpnProtos0 b linked cp alpn_protos malloc_ok selectorFailureBehavior =
   (if \<not> boring b \<and> gnuc b \<and> \<not> linked then (cp, None, None)
    else if \<not> (openssl_version_number b \<ge> 0x10002000 \<or> gnuc b) then (cp, None, None)
    else (case cp of None \<Rightarrow> (None, None, Some (NullPointerException ''ctx''))
    | Some c \<Rightarrow>
     (case alpn_protos of None \<Rightarrow> (Some c, None, None)
      | Some bs \<Rightarrow>
        if \<not> malloc_ok
        then (Some (c\<lparr>alpn_proto_data := None\<rparr>), None,
              Some (OutOfMemoryError ''OPENSSL_malloc failed''))
        else (Some (c\<lparr>alpn_proto_data := Some bs, alpn_proto_len := int (length bs)\<rparr>),
              Some (if mode c = SSL_MODE_CLIENT
                    then SSL_CTX_set_alpn_protos (ctx c) bs (int (length bs))
                    else SSL_CTX_set_alpn_select_cb (ctx c)), None))))"

section \<open>The selection loop\<close>

datatype proto_ptr = In_Ptr nat | Supported_Ptr nat

datatype select_result = SSL_TLSEXT_ERR_OK proto_ptr nat | SSL_TLSEXT_ERR_NOACK

definition SSL_SELECTOR_FAILURE_NO_ADVERTISE :: int where
  "SSL_SELECTOR_FAILURE_NO_ADVERTISE = 0"

definition SSL_SELECTOR_FAILURE_CHOOSE_MY_LAST_PROTOCOL :: int where
  "SSL_SELECTOR_FAILURE_CHOOSE_MY_LAST_PROTOCOL = 1"

text \<open>
  The inner loop: \<open>p\<close> walks over the peer's list \<open>inb\<close>; \<open>sp\<close> and \<open>target_proto_len\<close> are our
  current protocol. \<^verbatim>\<open>memcmp\<close> reads \<open>target_proto_len\<close> bytes of our block.
\<close>

function match_in :: "byte list \<Rightarrow> byte list \<Rightarrow> nat \<Rightarrow> nat \<Rightarrow> nat \<Rightarrow> (nat \<times> nat) option cres" where
  "match_in inb own sp target_proto_len p =
   (if p < length inb then
      let proto_len = unat (inb ! p); proto = Suc p in
      if proto + proto_len \<le> length inb \<and> target_proto_len = proto_len then
        cbind (mem_read own (int sp) (int proto_len)) (\<lambda>cand.
          if cand = take proto_len (drop proto inb) then Inr (Some (proto, proto_len))
          else match_in inb own sp target_proto_len (proto + proto_len))
      else match_in inb own sp target_proto_len (proto + proto_len)
    else Inr None)"
  by pat_completeness auto
termination by (relation "measure (\<lambda>(inb, own, sp, t, p). length inb - p)") auto

text \<open>
  The outer loop: \<open>i\<close> is the counter compared with \<^verbatim>\<open>supported_protos_len\<close>, \<open>sp\<close> the pointer
  into the block \<open>own\<close>. It ends because \<open>sp\<close> grows and reading at the end of the block is
  out of bounds.
\<close>

function select_loop ::
  "byte list \<Rightarrow> byte list \<Rightarrow> nat \<Rightarrow> int \<Rightarrow> nat \<Rightarrow> nat \<Rightarrow> (nat \<times> nat) option \<Rightarrow> select_result cres" where
  "select_loop inb own supported_protos_len failure_behavior i sp last_own =
   (if i < supported_protos_len then
      if length own \<le> sp then Inl (UB Out_Of_Bounds)
      else
        let target_proto_len = unat (own ! sp); sp1 = Suc sp in
        cbind (match_in inb own sp1 target_proto_len 0) (\<lambda>m.
        case m of
          Some (proto, proto_len) \<Rightarrow> Inr (SSL_TLSEXT_ERR_OK (In_Ptr proto) proto_len)
        | None \<Rightarrow>
          select_loop inb own supported_protos_len failure_behavior
            (i + target_proto_len) (sp1 + target_proto_len) (Some (sp1, target_proto_len)))
    else
      (case last_own of
         Some (q, n) \<Rightarrow>
           if failure_behavior = SSL_SELECTOR_FAILURE_CHOOSE_MY_LAST_PROTOCOL
           then Inr (SSL_TLSEXT_ERR_OK (Supported_Ptr q) n)
           else Inr SSL_TLSEXT_ERR_NOACK
       | None \<Rightarrow> Inr SSL_TLSEXT_ERR_NOACK))"
  by pat_completeness auto
termination
  by (relation "measure (\<lambda>(inb, own, len, f, i, sp, last_own). length own - sp)") auto

declare match_in.simps [simp del] select_loop.simps [simp del]

definition select_next_proto ::
  "byte list \<Rightarrow> byte list option \<Rightarrow> nat \<Rightarrow> int \<Rightarrow> select_result cres" where
  "select_next_proto inb supported_protos supported_protos_len failure_behavior =
   (if supported_protos_len = 0 then Inr SSL_TLSEXT_ERR_NOACK
    else cbind (deref supported_protos) (\<lambda>own.
      select_loop inb own supported_protos_len failure_behavior 0 0 None))"

definition tcn_SSL_callback_next_protos :: "tcn_ssl_ctxt \<Rightarrow> byte list option \<times> int" where
  "tcn_SSL_callback_next_protos c = (next_proto_data c, next_proto_len c)"

definition tcn_SSL_callback_select_next_proto :: "tcn_ssl_ctxt \<Rightarrow> byte list \<Rightarrow> select_result cres" where
  "tcn_SSL_callback_select_next_proto c inb =
     select_next_proto inb (next_proto_data c) (nat (next_proto_len c))
       (next_selector_failure_behavior c)"

definition tcn_SSL_callback_alpn_select_proto :: "tcn_ssl_ctxt \<Rightarrow> byte list \<Rightarrow> select_result cres" where
  "tcn_SSL_callback_alpn_select_proto c inb =
     select_next_proto inb (alpn_proto_data c) (nat (alpn_proto_len c))
       (alpn_selector_failure_behavior c)"

section \<open>Well-formed lists\<close>

definition wf_protos :: "byte list list \<Rightarrow> bool" where
  "wf_protos ps \<longleftrightarrow> list_all (\<lambda>p. length p \<le> 255) ps"

lemma wire_Nil [simp]: "protocolsToWireFormat [] = []"
  by (simp add: protocolsToWireFormat_def)

lemma wire_Cons [simp]:
  "length p \<le> 255 \<Longrightarrow>
   protocolsToWireFormat (p # ps) = word_of_nat (length p) # p @ protocolsToWireFormat ps"
  by (simp add: protocolsToWireFormat_def wire_entry_def MAX_ALPN_NPN_PROTO_SIZE_def)

lemma wf_protos_simps [simp]:
  "wf_protos []" "wf_protos (p # ps) \<longleftrightarrow> length p \<le> 255 \<and> wf_protos ps"
  by (simp_all add: wf_protos_def)

lemma unat_byte_length [simp]: "n \<le> 255 \<Longrightarrow> unat (word_of_nat n :: byte) = n"
  by (simp add: unsigned_of_nat take_bit_eq_mod)

text \<open>The reader of the wire format, which the peer's parser and \<open>match_in\<close> share.\<close>

fun parse_wire :: "nat \<Rightarrow> byte list \<Rightarrow> byte list list option" where
  "parse_wire k [] = Some []"
| "parse_wire 0 (b # bs) = None"
| "parse_wire (Suc k) (b # bs) =
     (if length bs < unat b then None
      else map_option ((#) (take (unat b) bs)) (parse_wire k (drop (unat b) bs)))"

text \<open>Where a protocol starts in the wire form of a list.\<close>

fun wire_pos :: "byte list \<Rightarrow> byte list list \<Rightarrow> nat" where
  "wire_pos t [] = 0"
| "wire_pos t (c # cs) = (if c = t then 1 else Suc (length c) + wire_pos t cs)"

lemma wire_pos_reads:
  "wf_protos cs \<Longrightarrow> t \<in> set cs \<Longrightarrow>
   take (length t) (drop (wire_pos t cs) (protocolsToWireFormat cs)) = t"
  by (induction cs) auto

lemma match_in_wire:
  assumes "wf_protos cs" "sp + t \<le> length own"
  shows "match_in (pre @ protocolsToWireFormat cs) own sp t (length pre) =
    Inr (if take t (drop sp own) \<in> set cs
         then Some (length pre + wire_pos (take t (drop sp own)) cs, t) else None)"
  using assms(1)
proof (induction cs arbitrary: pre)
  case Nil
  then show ?case by (simp add: match_in.simps)
next
  case (Cons c cs)
  let ?w = "pre @ protocolsToWireFormat (c # cs)" and ?t = "take t (drop sp own)"
  have c: "length c \<le> 255" "wf_protos cs" using Cons.prems by auto
  have lt: "length ?t = t" using assms(2) by simp
  have nth: "unat (?w ! length pre) = length c" using c by simp
  have tk: "take (length c) (drop (Suc (length pre)) ?w) = c" using c by simp
  have le: "length pre < length ?w" "Suc (length pre + length c) \<le> length ?w" using c by auto
  have IH: "match_in ?w own sp t (Suc (length pre + length c)) =
      Inr (if ?t \<in> set cs then Some (Suc (length pre + length c) + wire_pos ?t cs, t) else None)"
    using Cons.IH [of "pre @ word_of_nat (length c) # c"] c by simp
  have rd: "mem_read own (int sp) (int t) = Inr ?t"
    using assms(2) by (simp add: mem_read_ok)
  show ?case
  proof (cases "c = ?t")
    case True
    then have "length c = t" using lt by metis
    then show ?thesis
      using le tk rd nth True by (subst match_in.simps) (simp add: Let_def)
  next
    case False
    show ?thesis
    proof (cases "length c = t")
      case True
      then show ?thesis
        using le tk rd nth False IH by (subst match_in.simps) (auto simp: Let_def)
    next
      case len: False
      then show ?thesis
        using le nth False IH by (subst match_in.simps) (auto simp: Let_def)
    qed
  qed
qed

text \<open>The reference: our most preferred protocol that the peer offers.\<close>

definition first_common :: "byte list list \<Rightarrow> byte list list \<Rightarrow> byte list option" where
  "first_common ps cs = find (\<lambda>p. p \<in> set cs) ps"

lemma first_common_simps [simp]:
  "first_common [] cs = None"
  "first_common (p # ps) cs = (if p \<in> set cs then Some p else first_common ps cs)"
  by (simp_all add: first_common_def)

text \<open>One round of the outer loop on a well-formed list.\<close>

lemma select_loop_round:
  fixes pre ps
  assumes wf: "wf_protos cs" "length p \<le> 255" and i: "i < len"
  defines "own \<equiv> pre @ protocolsToWireFormat (p # ps)"
  shows "select_loop (protocolsToWireFormat cs) own len fb i (length pre) lst =
    (if p \<in> set cs
     then Inr (SSL_TLSEXT_ERR_OK (In_Ptr (wire_pos p cs)) (length p))
     else select_loop (protocolsToWireFormat cs) own len fb (i + length p)
            (length (pre @ word_of_nat (length p) # p)) (Some (Suc (length pre), length p)))"
proof -
  have o: "length pre < length own" "unat (own ! length pre) = length p"
      "Suc (length pre) + length p \<le> length own"
    using wf(2) by (auto simp: own_def)
  have t: "take (length p) (drop (Suc (length pre)) own) = p" using wf(2) by (simp add: own_def)
  have m: "match_in (protocolsToWireFormat cs) own (Suc (length pre)) (length p) 0 =
      Inr (if p \<in> set cs then Some (wire_pos p cs, length p) else None)"
    using match_in_wire [OF wf(1) o(3), of "[]"] by (simp add: t)
  show ?thesis
    using i o(1) by (subst select_loop.simps) (simp add: Let_def o(2) m)
qed

lemma select_loop_match:
  assumes "wf_protos cs" "wf_protos ps" "first_common ps cs = Some q" "i \<le> length pre"
    and "len = length pre + length (protocolsToWireFormat ps)"
  shows "select_loop (protocolsToWireFormat cs) (pre @ protocolsToWireFormat ps) len fb i (length pre) lst
    = Inr (SSL_TLSEXT_ERR_OK (In_Ptr (wire_pos q cs)) (length q))"
  using assms
proof (induction ps arbitrary: pre i lst)
  case Nil
  then show ?case by simp
next
  case (Cons p ps)
  have p: "length p \<le> 255" "wf_protos ps" using Cons.prems by auto
  have i: "i < len" using Cons.prems p by simp
  show ?case
  proof (cases "p \<in> set cs")
    case True
    then show ?thesis using select_loop_round [OF Cons.prems(1) p(1) i] Cons.prems(3) by simp
  next
    case False
    let ?pre = "pre @ word_of_nat (length p) # p"
    have "select_loop (protocolsToWireFormat cs) (?pre @ protocolsToWireFormat ps) len fb (i + length p)
        (length ?pre) (Some (Suc (length pre), length p))
      = Inr (SSL_TLSEXT_ERR_OK (In_Ptr (wire_pos q cs)) (length q))"
      by (rule Cons.IH) (use Cons.prems p False in auto)
    then show ?thesis
      using select_loop_round [OF Cons.prems(1) p(1) i, of pre ps fb lst] False p by simp
  qed
qed

lemma select_loop_no_match:
  assumes "wf_protos cs" "wf_protos ps" "first_common ps cs = None"
    and "i < length pre \<or> (i \<le> length pre \<and> ps \<noteq> [])"
    and "len = length pre + length (protocolsToWireFormat ps)"
  shows "select_loop (protocolsToWireFormat cs) (pre @ protocolsToWireFormat ps) len fb i (length pre) lst
    = Inl (UB Out_Of_Bounds)"
  using assms
proof (induction ps arbitrary: pre i lst)
  case Nil
  then show ?case by (simp add: select_loop.simps)
next
  case (Cons p ps)
  have p: "length p \<le> 255" "wf_protos ps" "p \<notin> set cs" "first_common ps cs = None"
    using Cons.prems by (auto split: if_splits)
  have i: "i < len" using Cons.prems p by auto
  let ?pre = "pre @ word_of_nat (length p) # p"
  have "select_loop (protocolsToWireFormat cs) (?pre @ protocolsToWireFormat ps) len fb (i + length p)
      (length ?pre) (Some (Suc (length pre), length p)) = Inl (UB Out_Of_Bounds)"
    by (rule Cons.IH) (use Cons.prems p in auto)
  then show ?case
    using select_loop_round [OF Cons.prems(1) p(1) i, of pre ps fb lst] p by simp
qed

lemma parse_wire_wire:
  "wf_protos ps \<Longrightarrow> length ps \<le> k \<Longrightarrow> parse_wire k (protocolsToWireFormat ps) = Some ps"
proof (induction ps arbitrary: k)
  case Nil
  then show ?case by simp
next
  case (Cons p ps)
  then obtain k' where "k = Suc k'" by (cases k) auto
  with Cons show ?case by simp
qed

lemma length_wire: "wf_protos ps \<Longrightarrow> length ps \<le> length (protocolsToWireFormat ps)"
  by (induction ps) auto

text \<open>Whatever bytes the peer sends, a match lies inside its list and equals our protocol.\<close>

lemma match_in_total:
  "sp + t \<le> length own \<Longrightarrow> \<exists>m. match_in inb own sp t p = Inr m \<and>
     (\<forall>k n. m = Some (k, n) \<longrightarrow>
        n = t \<and> k + n \<le> length inb \<and> take n (drop k inb) = take t (drop sp own))"
proof (induction inb own sp t p rule: match_in.induct)
  case (1 inb own sp t p)
  let ?l = "unat (inb ! p)"
  have rd: "mem_read own (int sp) (int t) = Inr (take t (drop sp own))"
    using 1(3) by (simp add: mem_read_ok)
  show ?case
  proof (cases "p < length inb")
    case False
    then show ?thesis by (simp add: match_in.simps)
  next
    case p: True
    show ?thesis
    proof (cases "Suc p + ?l \<le> length inb \<and> t = ?l")
      case True
      then have rd': "mem_read own (int sp) (int ?l) = Inr (take t (drop sp own))" using rd by simp
      show ?thesis
      proof (cases "take t (drop sp own) = take ?l (drop (Suc p) inb)")
        case eq: True
        then show ?thesis using p True rd' by (subst match_in.simps) (auto simp: Let_def)
      next
        case ne: False
        from 1(1) [OF p refl refl True, of "take t (drop sp own)"] ne 1(3) show ?thesis
          using p True rd' by (subst match_in.simps) (auto simp: Let_def)
      qed
    next
      case False
      from 1(2) [OF p refl refl False 1(3)] show ?thesis
        using p False by (subst match_in.simps) (auto simp: Let_def)
    qed
  qed
qed

lemma select_loop_sound:
  assumes "wf_protos ps"
    and "select_loop inb (pre @ protocolsToWireFormat ps) len fb i (length pre) lst =
           Inr (SSL_TLSEXT_ERR_OK (In_Ptr k) n)"
  shows "k + n \<le> length inb \<and> take n (drop k inb) \<in> set ps"
  using assms
proof (induction ps arbitrary: pre i lst)
  case Nil
  then show ?case by (auto simp: select_loop.simps split: if_splits option.splits)
next
  case (Cons p ps)
  let ?own = "pre @ protocolsToWireFormat (p # ps)"
  let ?pre = "pre @ word_of_nat (length p) # p"
  have p: "length p \<le> 255" "wf_protos ps" using Cons.prems(1) by auto
  have o: "\<not> length ?own \<le> length pre" "unat (?own ! length pre) = length p"
      "Suc (length pre) + length p \<le> length ?own"
      "take (length p) (drop (Suc (length pre)) ?own) = p"
    using p by auto
  have i: "i < len"
  proof (rule ccontr)
    assume "\<not> i < len"
    then show False
      using Cons.prems(2) by (auto simp: select_loop.simps split: if_splits option.splits)
  qed
  obtain m where m: "match_in inb ?own (Suc (length pre)) (length p) 0 = Inr m"
      "\<And>k n. m = Some (k, n) \<Longrightarrow> n = length p \<and> k + n \<le> length inb \<and> take n (drop k inb) = p"
    using match_in_total [OF o(3), of inb 0] o(4) by auto
  show ?case
  proof (cases m)
    case None
    then have "select_loop inb (?pre @ protocolsToWireFormat ps) len fb (i + length p) (length ?pre)
        (Some (Suc (length pre), length p)) = Inr (SSL_TLSEXT_ERR_OK (In_Ptr k) n)"
      using Cons.prems(2) i o(1,2) m(1) p
      by (subst (asm) select_loop.simps) (simp add: Let_def)
    from Cons.IH [OF p(2) this] show ?thesis by simp
  next
    case (Some kn)
    then obtain k' n' where "m = Some (k', n')" by (cases kn) auto
    moreover from this have "k' = k \<and> n' = n"
      using Cons.prems(2) i o(1,2) m(1) by (subst (asm) select_loop.simps) (simp add: Let_def)
    ultimately show ?thesis using m(2) by auto
  qed
qed


section \<open>Properties\<close>

definition server_build :: build where
  "server_build = \<lparr>openssl_is_boringssl = True, openssl_is_awslc = False,
     libressl_version_number = None, openssl_version_number = 0x1010107f,
     openssl_no_tls1_3 = False, openssl_no_ocsp = False, openssl_no_engine = True, gnuc = True\<rparr>"

definition server_ctxt :: tcn_ssl_ctxt where
  "server_ctxt = ctxt_zero\<lparr>mode := SSL_MODE_SERVER, ctx := 7\<rparr>"

definition h2 :: "byte list" where "h2 = [104, 50]"
definition http11 :: "byte list" where "http11 = [104, 116, 116, 112, 47, 49, 46, 49]"

lemma setAlpn_ok:
  assumes "setAlpnProtos0 b True (Some c) (Some bs) True fb = (Some c', reg, exc)"
    and "gnuc b \<or> openssl_version_number b \<ge> 0x10002000"
  shows "c' = c\<lparr>alpn_proto_data := Some bs, alpn_proto_len := int (length bs)\<rparr>" "exc = None"
    "reg = Some (if mode c = SSL_MODE_CLIENT then SSL_CTX_set_alpn_protos (ctx c) bs (int (length bs))
                 else SSL_CTX_set_alpn_select_cb (ctx c))"
  using assms by (auto simp: setAlpnProtos0_def split: if_splits)

lemma alpn_callback_unfold:
  "alpn_proto_data c = Some bs \<Longrightarrow> alpn_proto_len c = int (length bs) \<Longrightarrow>
   tcn_SSL_callback_alpn_select_proto c inb =
     (if bs = [] then Inr SSL_TLSEXT_ERR_NOACK
      else select_loop inb bs (length bs) (alpn_selector_failure_behavior c) 0 0 None)"
  by (simp add: tcn_SSL_callback_alpn_select_proto_def select_next_proto_def)

text \<open>
  C4. After \<^verbatim>\<open>setAlpnProtos\<close> with a list of protocols of at most 255 bytes, the select callback
  answers a well-formed list of the peer with our most preferred protocol that the peer offers:
  the pointer and length it returns delimit exactly that protocol in the peer's list.
\<close>

theorem alpn_selects_first_common:
  assumes set: "setAlpnProtos0 b True (Some c) (Some (protocolsToWireFormat ps)) True fb = (Some c', reg, exc)"
    and bld: "gnuc b \<or> openssl_version_number b \<ge> 0x10002000"
    and wf: "wf_protos ps" "wf_protos cs" and q: "first_common ps cs = Some q"
  shows "\<exists>k. tcn_SSL_callback_alpn_select_proto c' (protocolsToWireFormat cs) =
      Inr (SSL_TLSEXT_ERR_OK (In_Ptr k) (length q))
    \<and> take (length q) (drop k (protocolsToWireFormat cs)) = q"
proof -
  have ne: "protocolsToWireFormat ps \<noteq> []" using q wf(1) by (cases ps) auto
  have "q \<in> set cs" using q by (auto simp: first_common_def find_Some_iff)
  moreover have "tcn_SSL_callback_alpn_select_proto c' (protocolsToWireFormat cs) =
      Inr (SSL_TLSEXT_ERR_OK (In_Ptr (wire_pos q cs)) (length q))"
    using select_loop_match [OF wf(2,1) q, of 0 "[]"] ne
    by (simp add: setAlpn_ok(1) [OF set bld] alpn_callback_unfold)
  ultimately show ?thesis using wire_pos_reads [OF wf(2)] by blast
qed

theorem alpn_selects_first_common_witness:
  "\<exists>c'. fst (setAlpnProtos0 server_build True (Some server_ctxt)
            (Some (protocolsToWireFormat [h2, http11])) True 0) = Some c'
     \<and> first_common [h2, http11] [http11, h2] = Some h2
     \<and> (\<exists>k. tcn_SSL_callback_alpn_select_proto c' (protocolsToWireFormat [http11, h2]) =
              Inr (SSL_TLSEXT_ERR_OK (In_Ptr k) 2)
            \<and> take 2 (drop k (protocolsToWireFormat [http11, h2])) = h2)"
proof -
  obtain c' reg exc where s: "setAlpnProtos0 server_build True (Some server_ctxt)
      (Some (protocolsToWireFormat [h2, http11])) True 0 = (Some c', reg, exc)"
    by (simp add: setAlpnProtos0_def server_build_def)
  have q: "first_common [h2, http11] [http11, h2] = Some h2" by simp
  have "gnuc server_build \<or> openssl_version_number server_build \<ge> 0x10002000"
      "wf_protos [h2, http11]" "wf_protos [http11, h2]" "length h2 = 2"
    by (simp_all add: server_build_def h2_def http11_def)
  from alpn_selects_first_common [OF s this(1-3) q] this(4) s q show ?thesis by auto
qed



text \<open>
  When the peer offers none of our protocols the callback does not return: the counter leaves
  out the length bytes, so the loop goes on past the last protocol and reads behind the block.
\<close>

theorem alpn_no_common_overreads:
  assumes set: "setAlpnProtos0 b True (Some c) (Some (protocolsToWireFormat ps)) True fb = (Some c', reg, exc)"
    and bld: "gnuc b \<or> openssl_version_number b \<ge> 0x10002000"
    and wf: "wf_protos ps" "wf_protos cs" and none: "ps \<noteq> []" "first_common ps cs = None"
  shows "tcn_SSL_callback_alpn_select_proto c' (protocolsToWireFormat cs) = Inl (UB Out_Of_Bounds)"
proof -
  have "protocolsToWireFormat ps \<noteq> []" using none(1) wf(1) by (cases ps) auto
  then show ?thesis
    using select_loop_no_match [OF wf(2,1) none(2), of 0 "[]"] none(1)
    by (simp add: setAlpn_ok(1) [OF set bld] alpn_callback_unfold)
qed

theorem alpn_no_common_overreads_witness:
  "\<exists>c'. fst (setAlpnProtos0 server_build True (Some server_ctxt)
            (Some (protocolsToWireFormat [h2])) True 0) = Some c'
     \<and> first_common [h2] [http11] = None
     \<and> tcn_SSL_callback_alpn_select_proto c' (protocolsToWireFormat [http11]) = Inl (UB Out_Of_Bounds)"
proof -
  obtain c' reg exc where s: "setAlpnProtos0 server_build True (Some server_ctxt)
      (Some (protocolsToWireFormat [h2])) True 0 = (Some c', reg, exc)"
    by (simp add: setAlpnProtos0_def server_build_def)
  have h: "gnuc server_build \<or> openssl_version_number server_build \<ge> 0x10002000"
      "wf_protos [h2]" "wf_protos [http11]" "[h2] \<noteq> []" "first_common [h2] [http11] = None"
    by (simp_all add: server_build_def h2_def http11_def)
  from alpn_no_common_overreads [OF s h] s h(5) show ?thesis by auto
qed

lemma select_loop_no_advertise:
  "fb \<noteq> SSL_SELECTOR_FAILURE_CHOOSE_MY_LAST_PROTOCOL \<Longrightarrow>
   select_loop inb own len fb i sp lst \<noteq> Inr (SSL_TLSEXT_ERR_OK (Supported_Ptr q) n)"
proof (induction inb own len fb i sp lst rule: select_loop.induct)
  case (1 inb own len fb i sp lst)
  show ?case
  proof (cases "i < len \<and> \<not> length own \<le> sp")
    case False
    then show ?thesis using 1(2) by (auto simp: select_loop.simps split: if_splits option.splits)
  next
    case True
    then have t: "i < len" "\<not> length own \<le> sp" by auto
    show ?thesis
    proof (cases "match_in inb own (Suc sp) (unat (own ! sp)) 0")
      case (Inl e)
      then show ?thesis using t by (subst select_loop.simps) (simp add: Let_def)
    next
      case (Inr m)
      with 1 t show ?thesis
        by (subst select_loop.simps) (auto simp: Let_def split: option.splits)
    qed
  qed
qed

text \<open>
  The argument \<open>selectorFailureBehavior\<close> has no effect: for every value of it, a context
  created with the default behaviour never answers with our last protocol.
\<close>

theorem alpn_failure_behavior_ignored:
  assumes set: "setAlpnProtos0 b linked (Some c) protos ok fb = (Some c', reg, exc)"
    and new: "alpn_selector_failure_behavior c = SSL_SELECTOR_FAILURE_NO_ADVERTISE"
  shows "tcn_SSL_callback_alpn_select_proto c' inb \<noteq> Inr (SSL_TLSEXT_ERR_OK (Supported_Ptr q) n)"
proof -
  have "alpn_selector_failure_behavior c' = alpn_selector_failure_behavior c"
    using set by (auto simp: setAlpnProtos0_def split: if_splits option.splits)
  then have "alpn_selector_failure_behavior c' \<noteq> SSL_SELECTOR_FAILURE_CHOOSE_MY_LAST_PROTOCOL"
    using new by (simp add: SSL_SELECTOR_FAILURE_NO_ADVERTISE_def
        SSL_SELECTOR_FAILURE_CHOOSE_MY_LAST_PROTOCOL_def)
  from select_loop_no_advertise [OF this] show ?thesis
    by (auto simp: tcn_SSL_callback_alpn_select_proto_def select_next_proto_def deref_def cbind_def
        split: option.splits)
qed

theorem alpn_failure_behavior_ignored_witness:
  "\<exists>c'. fst (setAlpnProtos0 server_build True (Some server_ctxt) (Some (protocolsToWireFormat [h2]))
            True SSL_SELECTOR_FAILURE_CHOOSE_MY_LAST_PROTOCOL) = Some c'
     \<and> tcn_SSL_callback_alpn_select_proto c' (protocolsToWireFormat [http11])
         \<noteq> Inr (SSL_TLSEXT_ERR_OK (Supported_Ptr 1) 2)"
proof -
  obtain c' reg exc where s: "setAlpnProtos0 server_build True (Some server_ctxt)
      (Some (protocolsToWireFormat [h2])) True SSL_SELECTOR_FAILURE_CHOOSE_MY_LAST_PROTOCOL
      = (Some c', reg, exc)"
    by (simp add: setAlpnProtos0_def server_build_def)
  have "alpn_selector_failure_behavior server_ctxt = SSL_SELECTOR_FAILURE_NO_ADVERTISE"
    by (simp add: server_ctxt_def ctxt_zero_def SSL_SELECTOR_FAILURE_NO_ADVERTISE_def)
  from alpn_failure_behavior_ignored [OF s this] s show ?thesis by simp
qed

text \<open>
  When the allocation for a new protocol list fails, the old list is gone but its length
  stays: the next negotiation dereferences a null pointer.
\<close>

theorem alpn_malloc_failure_dangles:
  assumes set: "setAlpnProtos0 b True (Some c) (Some bs) False fb = (Some c', reg, exc)"
    and bld: "gnuc b \<or> openssl_version_number b \<ge> 0x10002000" and old: "0 < alpn_proto_len c"
  shows "exc = Some (OutOfMemoryError ''OPENSSL_malloc failed'')
    \<and> tcn_SSL_callback_alpn_select_proto c' inb = Inl (UB Null_Deref)"
  using set bld old
  by (auto simp: setAlpnProtos0_def tcn_SSL_callback_alpn_select_proto_def select_next_proto_def
      split: if_splits)

theorem alpn_malloc_failure_dangles_witness:
  "\<exists>c'. fst (setAlpnProtos0 server_build True
             (Some (server_ctxt\<lparr>alpn_proto_data := Some [2, 104, 50], alpn_proto_len := 3\<rparr>))
             (Some [1, 65]) False 0) = Some c'
     \<and> tcn_SSL_callback_alpn_select_proto c' [2, 104, 50] = Inl (UB Null_Deref)"
proof -
  let ?c = "server_ctxt\<lparr>alpn_proto_data := Some [2, 104, 50], alpn_proto_len := 3\<rparr>"
  obtain c' reg exc where s: "setAlpnProtos0 server_build True (Some ?c) (Some [1, 65]) False 0
      = (Some c', reg, exc)"
    by (simp add: setAlpnProtos0_def server_build_def)
  from alpn_malloc_failure_dangles [OF s] s show ?thesis by (simp add: server_build_def)
qed

text \<open>
  Round trip of the wire format: a reader that follows the length bytes recovers the list of
  protocols, as long as each has at most 255 bytes.
\<close>

theorem wire_format_round_trip:
  assumes "wf_protos ps"
  shows "parse_wire (length (protocolsToWireFormat ps)) (protocolsToWireFormat ps) = Some ps"
  using parse_wire_wire [OF assms length_wire [OF assms]] .

theorem wire_format_round_trip_witness:
  "wf_protos [h2, http11] \<and>
   parse_wire (length (protocolsToWireFormat [h2, http11])) (protocolsToWireFormat [h2, http11])
     = Some [h2, http11]"
  using wire_format_round_trip [of "[h2, http11]"] by (simp add: h2_def http11_def)

text \<open>
  The Java guard admits protocols of up to 65535 bytes, but a name of exactly 256 bytes gets
  the length byte 0: the reader sees an empty protocol and then the bytes of the name as lengths.
\<close>

theorem wire_format_truncates_length:
  assumes "length p = 256"
  shows "protocolsToWireFormat (p # ps) = 0 # p @ protocolsToWireFormat ps
    \<and> parse_wire (Suc k) (protocolsToWireFormat (p # ps)) =
        map_option ((#) []) (parse_wire k (p @ protocolsToWireFormat ps))"
proof -
  have "protocolsToWireFormat (p # ps) = 0 # p @ protocolsToWireFormat ps"
    using assms by (simp add: protocolsToWireFormat_def wire_entry_def MAX_ALPN_NPN_PROTO_SIZE_def)
  then show ?thesis by simp
qed

theorem wire_format_truncates_length_witness:
  "length (replicate 256 (65 :: byte)) = 256 \<and>
   protocolsToWireFormat [replicate 256 65] = 0 # replicate 256 65"
  using wire_format_truncates_length [of "replicate 256 65" "[]" 0]
  by simp

end
