(* ===== verification/Ticket_Keys.thy ===== *)
theory Ticket_Keys
  imports Ssl_Types
begin

text \<open>
  Session ticket keys of \<^verbatim>\<open>sslcontext.c\<close>: installing a list of keys, looking one up, and the
  callback by which OpenSSL seals and opens tickets, with the resumption counters.

  The array of keys lives in a \<open>key_heap\<close>; the read-write lock is shown by splitting the
  callback at the point where it releases the lock. The lemmas relate the callback to the list
  of keys that was installed, and follow a rotation that happens between the two halves.
\<close>

section \<open>Looking up keys\<close>

text \<open>Reading the array: \<^verbatim>\<open>NULL\<close>, a freed block and an index behind the end are undefined.\<close>

definition read_keys :: "key_heap \<Rightarrow> int \<Rightarrow> nat \<Rightarrow> tcn_ssl_ticket_key cres" where
  "read_keys h a i =
     (if a = 0 then Inl (UB Null_Deref)
      else (case h a of None \<Rightarrow> Inl (UB Use_After_Free)
            | Some ks \<Rightarrow> if i < length ks then Inr (ks ! i) else Inl (UB Out_Of_Bounds)))"

definition current_session_key ::
  "key_heap \<Rightarrow> tcn_ssl_ctxt \<Rightarrow> tcn_ssl_ticket_key option cres" where
  "current_session_key h c =
     (if ticket_keys_len c > 0 then cbind (read_keys h (ticket_keys c) 0) (\<lambda>k. Inr (Some k))
      else Inr None)"

function find_session_key_from ::
  "key_heap \<Rightarrow> tcn_ssl_ctxt \<Rightarrow> byte list \<Rightarrow> nat \<Rightarrow> (tcn_ssl_ticket_key \<times> bool) option cres" where
  "find_session_key_from h c name i =
     (if i < ticket_keys_len c then
        cbind (read_keys h (ticket_keys c) i) (\<lambda>k.
          if key_name k = name then Inr (Some (k, i = 0))
          else find_session_key_from h c name (Suc i))
      else Inr None)"
  by pat_completeness auto
termination by (relation "measure (\<lambda>(h, c, name, i). ticket_keys_len c - i)") auto

declare find_session_key_from.simps [simp del]

definition find_session_key ::
  "key_heap \<Rightarrow> tcn_ssl_ctxt \<Rightarrow> byte list \<Rightarrow> (tcn_ssl_ticket_key \<times> bool) option cres" where
  "find_session_key h c name = find_session_key_from h c name 0"

section \<open>The ticket callback\<close>

datatype crypto_op =
    EVP_EncryptInit "byte list" "byte list"
  | EVP_DecryptInit "byte list" "byte list"
  | HMAC_Init "byte list"

text \<open>
  \<^verbatim>\<open>HMAC_Init_ex\<close> gets the copied key; from OpenSSL 3 on \<^verbatim>\<open>EVP_MAC_CTX_set_params\<close> follows the
  pointer in \<open>mac_params\<close> into the heap of that moment.
\<close>

definition mac_init :: "build \<Rightarrow> key_heap \<Rightarrow> tcn_ssl_ticket_key \<Rightarrow> crypto_op cres" where
  "mac_init b h key =
     (if openssl_version_number b < 0x30000000 then Inr (HMAC_Init (hmac_key key))
      else cbind (deref (mac_params key)) (\<lambda>(a, i).
           cbind (read_keys h a i) (\<lambda>k. Inr (HMAC_Init (hmac_key k)))))"

text \<open>The part of the callback after the lock was released; \<open>rand\<close> is the outcome of \<^verbatim>\<open>RAND_bytes\<close>
  and the bytes it wrote. The result is the return value, the ticket's key name, its IV, the
  cipher operations and the context.\<close>

type_synonym ticket_cb_result = "int \<times> byte list \<times> byte list \<times> crypto_op list \<times> tcn_ssl_ctxt"

definition ticket_seal ::
  "build \<Rightarrow> key_heap \<Rightarrow> tcn_ssl_ctxt \<Rightarrow> byte list \<Rightarrow> byte list \<Rightarrow> int \<times> byte list
   \<Rightarrow> tcn_ssl_ticket_key option \<Rightarrow> ticket_cb_result cres" where
  "ticket_seal b h c name iv rand found =
     (case found of None \<Rightarrow> Inr (0, name, iv, [], c)
      | Some key \<Rightarrow>
        if fst rand \<le> 0 then Inr (-1, name, snd rand, [], c)
        else cbind (mac_init b h key) (\<lambda>mac.
          Inr (1, key_name key, snd rand, [EVP_EncryptInit (aes_key key) (snd rand), mac],
               c\<lparr>ticket_keys_new := ticket_keys_new c + 1\<rparr>)))"

definition ticket_open ::
  "build \<Rightarrow> key_heap \<Rightarrow> tcn_ssl_ctxt \<Rightarrow> byte list \<Rightarrow> byte list
   \<Rightarrow> (tcn_ssl_ticket_key \<times> bool) option \<Rightarrow> ticket_cb_result cres" where
  "ticket_open b h c name iv found =
     (case found of None \<Rightarrow> Inr (0, name, iv, [], c\<lparr>ticket_keys_fail := ticket_keys_fail c + 1\<rparr>)
      | Some (key, is_current_key) \<Rightarrow>
        cbind (mac_init b h key) (\<lambda>mac.
          let ops = [mac, EVP_DecryptInit (aes_key key) iv] in
          if \<not> is_current_key
          then Inr (2, name, iv, ops, c\<lparr>ticket_keys_renew := ticket_keys_renew c + 1\<rparr>)
          else Inr (1, name, iv, ops, c\<lparr>ticket_keys_resume := ticket_keys_resume c + 1\<rparr>)))"

definition ssl_tlsext_ticket_key_cb ::
  "build \<Rightarrow> key_heap \<Rightarrow> tcn_ssl_ctxt option \<Rightarrow> byte list \<Rightarrow> byte list \<Rightarrow> int \<times> byte list \<Rightarrow> bool
   \<Rightarrow> (int \<times> byte list \<times> byte list \<times> crypto_op list \<times> tcn_ssl_ctxt option) cres" where
  "ssl_tlsext_ticket_key_cb b h cp name iv rand enc =
     (case cp of None \<Rightarrow> Inr (0, name, iv, [], None)
      | Some c \<Rightarrow>
        cbind (if enc then cbind (current_session_key h c) (ticket_seal b h c name iv rand)
               else cbind (find_session_key h c name) (ticket_open b h c name iv))
          (\<lambda>(r, name', iv', ops, c'). Inr (r, name', iv', ops, Some c')))"

section \<open>Installing keys\<close>

text \<open>The loop body: the array element built from the 48 bytes at \<open>b + 48 * i\<close>.\<close>

definition ticket_key_at :: "build \<Rightarrow> int \<Rightarrow> byte list \<Rightarrow> nat \<Rightarrow> tcn_ssl_ticket_key" where
  "ticket_key_at b a bytes i =
     (let key = drop (SSL_SESSION_TICKET_KEY_SIZE * i) bytes in
      \<lparr>key_name = take 16 key, hmac_key = take 16 (drop 16 key),
       mac_params = (if openssl_version_number b \<ge> 0x30000000 then Some (a, i) else None),
       aes_key = take 16 (drop 32 key)\<rparr>)"

text \<open>
  \<open>a\<close> is the block \<^verbatim>\<open>OPENSSL_malloc\<close> returns (\<open>0\<close> on failure), \<open>pinned\<close> the success of
  \<^verbatim>\<open>GetByteArrayElements\<close>. The last component says whether the callback was registered.
\<close>

definition setSessionTicketKeys0 ::
  "build \<Rightarrow> key_heap \<Rightarrow> tcn_ssl_ctxt option \<Rightarrow> byte list \<Rightarrow> int \<Rightarrow> bool
   \<Rightarrow> key_heap \<times> tcn_ssl_ctxt option \<times> jexc option \<times> bool" where
  "setSessionTicketKeys0 b h cp keys a pinned =
     (case cp of None \<Rightarrow> (h, None, Some (NullPointerException ''ctx''), False)
      | Some c \<Rightarrow>
        let cnt = length keys div SSL_SESSION_TICKET_KEY_SIZE in
        if a = 0 then (h, Some c, Some (JException ''OPENSSL_malloc() returned null''), False)
        else if \<not> pinned
        then (h, Some c, Some (JException ''GetByteArrayElements() returned null''), False)
        else
          let arr = map (ticket_key_at b a keys) [0..<cnt];
              h1 = h(a \<mapsto> arr);
              h2 = (if ticket_keys c \<noteq> 0 then h1(ticket_keys c := None) else h1)
          in (h2, Some (c\<lparr>ticket_keys_len := cnt, ticket_keys := a\<rparr>), None, True))"

section \<open>Counters\<close>

definition sessionTicketKeyNew :: "tcn_ssl_ctxt option \<Rightarrow> jexc + int" where
  "sessionTicketKeyNew cp = (case cp of None \<Rightarrow> Inl (NullPointerException ''ctx'')
     | Some c \<Rightarrow> Inr (uint (ticket_keys_new c)))"

definition sessionTicketKeyResume :: "tcn_ssl_ctxt option \<Rightarrow> jexc + int" where
  "sessionTicketKeyResume cp = (case cp of None \<Rightarrow> Inl (NullPointerException ''ctx'')
     | Some c \<Rightarrow> Inr (uint (ticket_keys_resume c)))"

definition sessionTicketKeyRenew :: "tcn_ssl_ctxt option \<Rightarrow> jexc + int" where
  "sessionTicketKeyRenew cp = (case cp of None \<Rightarrow> Inl (NullPointerException ''ctx'')
     | Some c \<Rightarrow> Inr (uint (ticket_keys_renew c)))"

definition sessionTicketKeyFail :: "tcn_ssl_ctxt option \<Rightarrow> jexc + int" where
  "sessionTicketKeyFail cp = (case cp of None \<Rightarrow> Inl (NullPointerException ''ctx'')
     | Some c \<Rightarrow> Inr (uint (ticket_keys_fail c)))"

section \<open>Invariant\<close>

text \<open>\<open>ks\<close> is the array the context points at, and every element points at its own key bytes.\<close>

definition tk_inv :: "build \<Rightarrow> key_heap \<Rightarrow> tcn_ssl_ctxt \<Rightarrow> tcn_ssl_ticket_key list \<Rightarrow> bool" where
  "tk_inv b h c ks \<longleftrightarrow> ticket_keys_len c = length ks
     \<and> (if ticket_keys c = 0 then ks = [] else h (ticket_keys c) = Some ks)
     \<and> (openssl_version_number b \<ge> 0x30000000 \<longrightarrow>
          list_all (\<lambda>i. mac_params (ks ! i) = Some (ticket_keys c, i)) [0..<length ks])"

lemma read_keys_inv:
  assumes "tk_inv b h c ks" "i < length ks"
  shows "read_keys h (ticket_keys c) i = Inr (ks ! i)"
  using assms by (auto simp: tk_inv_def read_keys_def split: if_splits)

lemma mac_init_inv:
  assumes "tk_inv b h c ks" "i < length ks"
  shows "mac_init b h (ks ! i) = Inr (HMAC_Init (hmac_key (ks ! i)))"
  using assms read_keys_inv [OF assms]
  by (auto simp: tk_inv_def mac_init_def list_all_iff)

lemma current_session_key_inv:
  assumes "tk_inv b h c ks"
  shows "current_session_key h c = Inr (if ks = [] then None else Some (hd ks))"
proof (cases ks)
  case Nil
  then show ?thesis using assms by (simp add: current_session_key_def tk_inv_def)
next
  case (Cons k ks')
  then have "ticket_keys_len c > 0" using assms by (simp add: tk_inv_def)
  then show ?thesis
    using read_keys_inv [OF assms, of 0] Cons by (simp add: current_session_key_def)
qed

lemma find_session_key_from_inv:
  assumes inv: "tk_inv b h c ks" and i: "i \<le> length ks"
  shows "find_session_key_from h c name i =
    Inr (map_option (\<lambda>j. (ks ! j, j = 0)) (find (\<lambda>j. key_name (ks ! j) = name) [i..<length ks]))"
  using i
proof (induction i rule: inc_induct)
  case base
  then show ?case using inv by (simp add: find_session_key_from.simps tk_inv_def)
next
  case (step i)
  have "i < ticket_keys_len c" using inv step by (simp add: tk_inv_def)
  moreover have "read_keys h (ticket_keys c) i = Inr (ks ! i)" using read_keys_inv inv step by simp
  ultimately show ?case
    using step by (subst find_session_key_from.simps) (simp add: upt_conv_Cons)
qed

text \<open>The specification of the lookup: the first key with the name of the ticket.\<close>

definition key_for :: "tcn_ssl_ticket_key list \<Rightarrow> byte list \<Rightarrow> tcn_ssl_ticket_key option" where
  "key_for ks name = find (\<lambda>k. key_name k = name) ks"

lemma find_session_key_inv:
  assumes "tk_inv b h c ks"
  shows "case key_for ks name of
      None \<Rightarrow> find_session_key h c name = Inr None
    | Some k \<Rightarrow> find_session_key h c name = Inr (Some (k, key_name (hd ks) = name))
        \<and> (\<exists>i<length ks. k = ks ! i)"
proof (cases "find (\<lambda>j. key_name (ks ! j) = name) [0..<length ks]")
  case None
  then have "key_for ks name = None"
    by (auto simp: key_for_def find_None_iff in_set_conv_nth)
  then show ?thesis
    using None find_session_key_from_inv [OF assms, of 0 name] by (simp add: find_session_key_def)
next
  case (Some j)
  then obtain n where n: "n < length ks" "j = n" "key_name (ks ! n) = name"
      "\<And>m. m < n \<Longrightarrow> key_name (ks ! m) \<noteq> name"
    by (auto simp: find_Some_iff)
  then have k: "key_for ks name = Some (ks ! n)"
    by (auto simp: key_for_def find_Some_iff)
  have "key_name (hd ks) = name \<longleftrightarrow> n = 0"
    using n by (metis hd_conv_nth length_greater_0_conv gr_zeroI length_0_conv not_less_zero)
  then show ?thesis
    using Some n k find_session_key_from_inv [OF assms, of 0 name] by (auto simp: find_session_key_def)
qed

section \<open>Behaviour of the callback\<close>

lemma ticket_seal_inv:
  assumes inv: "tk_inv b h c ks"
  shows "ssl_tlsext_ticket_key_cb b h (Some c) name iv rand True =
    Inr (case ks of [] \<Rightarrow> (0, name, iv, [], Some c)
      | key # _ \<Rightarrow>
        if fst rand \<le> 0 then (-1, name, snd rand, [], Some c)
        else (1, key_name key, snd rand,
              [EVP_EncryptInit (aes_key key) (snd rand), HMAC_Init (hmac_key key)],
              Some (c\<lparr>ticket_keys_new := ticket_keys_new c + 1\<rparr>)))"
proof (cases ks)
  case Nil
  then show ?thesis
    using current_session_key_inv [OF inv] by (simp add: ssl_tlsext_ticket_key_cb_def ticket_seal_def)
next
  case (Cons k ks')
  then have "mac_init b h k = Inr (HMAC_Init (hmac_key k))" using mac_init_inv [OF inv, of 0] by simp
  then show ?thesis
    using current_session_key_inv [OF inv] Cons
    by (simp add: ssl_tlsext_ticket_key_cb_def ticket_seal_def)
qed

lemma ticket_open_inv:
  assumes inv: "tk_inv b h c ks"
  shows "ssl_tlsext_ticket_key_cb b h (Some c) name iv rand False =
    Inr (case key_for ks name of
        None \<Rightarrow> (0, name, iv, [], Some (c\<lparr>ticket_keys_fail := ticket_keys_fail c + 1\<rparr>))
      | Some k \<Rightarrow>
        if key_name (hd ks) = name
        then (1, name, iv, [HMAC_Init (hmac_key k), EVP_DecryptInit (aes_key k) iv],
              Some (c\<lparr>ticket_keys_resume := ticket_keys_resume c + 1\<rparr>))
        else (2, name, iv, [HMAC_Init (hmac_key k), EVP_DecryptInit (aes_key k) iv],
              Some (c\<lparr>ticket_keys_renew := ticket_keys_renew c + 1\<rparr>)))"
proof (cases "key_for ks name")
  case None
  then show ?thesis
    using find_session_key_inv [OF inv, of name] by (simp add: ssl_tlsext_ticket_key_cb_def ticket_open_def)
next
  case (Some k)
  then obtain i where i: "i < length ks" "k = ks ! i"
      and f: "find_session_key h c name = Inr (Some (k, key_name (hd ks) = name))"
    using find_session_key_inv [OF inv, of name] by auto
  then have "mac_init b h k = Inr (HMAC_Init (hmac_key k))" using mac_init_inv [OF inv] by simp
  then show ?thesis
    using f Some by (simp add: ssl_tlsext_ticket_key_cb_def ticket_open_def Let_def)
qed

text \<open>Installing keys establishes the invariant for the parsed list.\<close>

definition parsed_keys :: "build \<Rightarrow> int \<Rightarrow> byte list \<Rightarrow> tcn_ssl_ticket_key list" where
  "parsed_keys b a keys = map (ticket_key_at b a keys) [0..<length keys div SSL_SESSION_TICKET_KEY_SIZE]"

lemma set_ticket_keys_inv:
  assumes inv: "tk_inv b h c ks" and fresh: "a \<noteq> 0" "h a = None"
    and set: "setSessionTicketKeys0 b h (Some c) keys a True = (h', cp', exc, reg)"
  shows "exc = None" "reg" "\<exists>c'. cp' = Some c' \<and> tk_inv b h' c' (parsed_keys b a keys)
    \<and> c' = c\<lparr>ticket_keys_len := length keys div SSL_SESSION_TICKET_KEY_SIZE, ticket_keys := a\<rparr>
    \<and> (ticket_keys c \<noteq> 0 \<longrightarrow> h' (ticket_keys c) = None)"
proof -
  have ne: "ticket_keys c \<noteq> a" using inv fresh by (auto simp: tk_inv_def split: if_splits)
  show "exc = None" "reg" using set fresh by (auto simp: setSessionTicketKeys0_def Let_def)
  show "\<exists>c'. cp' = Some c' \<and> tk_inv b h' c' (parsed_keys b a keys)
    \<and> c' = c\<lparr>ticket_keys_len := length keys div SSL_SESSION_TICKET_KEY_SIZE, ticket_keys := a\<rparr>
    \<and> (ticket_keys c \<noteq> 0 \<longrightarrow> h' (ticket_keys c) = None)"
    using set fresh ne
    by (auto simp: setSessionTicketKeys0_def Let_def tk_inv_def parsed_keys_def ticket_key_at_def
        list_all_iff)
qed


section \<open>Reachable states\<close>

inductive tk_reach :: "build \<Rightarrow> key_heap \<Rightarrow> tcn_ssl_ctxt \<Rightarrow> bool" for b where
  tk_start: "ticket_keys c = 0 \<Longrightarrow> ticket_keys_len c = 0 \<Longrightarrow> tk_reach b (\<lambda>_. None) c"
| tk_install: "tk_reach b h c \<Longrightarrow> h a = None \<Longrightarrow>
    setSessionTicketKeys0 b h (Some c) keys a pinned = (h', Some c', exc, reg) \<Longrightarrow> tk_reach b h' c'"
| tk_callback: "tk_reach b h c \<Longrightarrow>
    ssl_tlsext_ticket_key_cb b h (Some c) name iv rand enc = Inr (r, name', iv', ops, Some c') \<Longrightarrow>
    tk_reach b h c'"

lemma tk_inv_counters [simp]:
  "tk_inv b h (c\<lparr>ticket_keys_new := n\<rparr>) ks = tk_inv b h c ks"
  "tk_inv b h (c\<lparr>ticket_keys_resume := n\<rparr>) ks = tk_inv b h c ks"
  "tk_inv b h (c\<lparr>ticket_keys_renew := n\<rparr>) ks = tk_inv b h c ks"
  "tk_inv b h (c\<lparr>ticket_keys_fail := n\<rparr>) ks = tk_inv b h c ks"
  by (simp_all add: tk_inv_def)

lemma callback_keeps_inv:
  assumes inv: "tk_inv b h c ks"
    and cb: "ssl_tlsext_ticket_key_cb b h (Some c) name iv rand enc = Inr (r, name', iv', ops, Some c')"
  shows "tk_inv b h c' ks"
  using cb inv ticket_seal_inv [OF inv, of name iv rand] ticket_open_inv [OF inv, of name iv rand]
  by (cases enc) (auto split: list.splits if_splits option.splits)

lemma tk_reach_inv: "tk_reach b h c \<Longrightarrow> \<exists>ks. tk_inv b h c ks"
proof (induction rule: tk_reach.induct)
  case (tk_start c)
  then show ?case by (auto simp: tk_inv_def)
next
  case (tk_install h c a keys pinned h' c' exc reg)
  then obtain ks where inv: "tk_inv b h c ks" by blast
  show ?case
  proof (cases "a \<noteq> 0 \<and> pinned")
    case True
    then show ?thesis using set_ticket_keys_inv(3) [OF inv, of a keys] tk_install by auto
  next
    case False
    then have "h' = h \<and> c' = c"
      using tk_install(3) by (auto simp: setSessionTicketKeys0_def Let_def split: if_splits)
    then show ?thesis using inv by auto
  qed
next
  case (tk_callback h c name iv rand enc r name' iv' ops c')
  then show ?case using callback_keeps_inv by blast
qed

section \<open>Properties\<close>

text \<open>
  C6. In every state reached by installing keys and running the callback, the callback reads only
  live array elements: it never has undefined behaviour.
\<close>

theorem ticket_callback_safe:
  assumes "tk_reach b h c"
  shows "\<exists>res. ssl_tlsext_ticket_key_cb b h (Some c) name iv rand enc = Inr res"
proof -
  obtain ks where inv: "tk_inv b h c ks" using tk_reach_inv [OF assms] by blast
  show ?thesis
  proof (cases enc)
    case True
    show ?thesis using ticket_seal_inv [OF inv, of name iv rand] True by (simp only:) (rule exI, rule refl)
  next
    case False
    show ?thesis using ticket_open_inv [OF inv, of name iv rand] False by (simp only:) (rule exI, rule refl)
  qed
qed

definition ossl3_build :: build where
  "ossl3_build = \<lparr>openssl_is_boringssl = False, openssl_is_awslc = False,
     libressl_version_number = None, openssl_version_number = 0x30000000,
     openssl_no_tls1_3 = False, openssl_no_ocsp = False, openssl_no_engine = True, gnuc = True\<rparr>"

theorem ticket_callback_safe_witness:
  "\<exists>h c res. tk_reach ossl3_build h c \<and> ticket_keys_len c = 1
     \<and> ssl_tlsext_ticket_key_cb ossl3_build h (Some c) (replicate 16 1) [] (1, []) False = Inr res"
proof -
  obtain h c exc reg where s: "setSessionTicketKeys0 ossl3_build (\<lambda>_. None) (Some ctxt_zero)
      (replicate 48 1) 5 True = (h, Some c, exc, reg)" "ticket_keys_len c = 1"
    by (simp add: setSessionTicketKeys0_def Let_def ticket_len_defs)
  have "tk_reach ossl3_build (\<lambda>_. None) ctxt_zero" by (rule tk_start) (simp_all add: ctxt_zero_def)
  then have "tk_reach ossl3_build h c" by (rule tk_install) (use s in auto)
  from ticket_callback_safe [OF this] this s show ?thesis by blast
qed

text \<open>
  Opening a ticket: the callback picks the first key whose name is the ticket's, sets up the
  MAC and the cipher with that key, returns 1 for the primary key, 2 for an older one and 0 for
  an unknown one, and counts exactly the matching outcome.
\<close>

theorem ticket_open_result:
  assumes "tk_inv b h c ks"
  shows "ssl_tlsext_ticket_key_cb b h (Some c) name iv rand False =
    Inr (case key_for ks name of
        None \<Rightarrow> (0, name, iv, [], Some (c\<lparr>ticket_keys_fail := ticket_keys_fail c + 1\<rparr>))
      | Some k \<Rightarrow>
        if key_name (hd ks) = name
        then (1, name, iv, [HMAC_Init (hmac_key k), EVP_DecryptInit (aes_key k) iv],
              Some (c\<lparr>ticket_keys_resume := ticket_keys_resume c + 1\<rparr>))
        else (2, name, iv, [HMAC_Init (hmac_key k), EVP_DecryptInit (aes_key k) iv],
              Some (c\<lparr>ticket_keys_renew := ticket_keys_renew c + 1\<rparr>)))"
  by (rule ticket_open_inv [OF assms])

definition two_keys :: "tcn_ssl_ticket_key list" where
  "two_keys = [\<lparr>key_name = [1], hmac_key = [2], mac_params = Some (5, 0), aes_key = [3]\<rparr>,
               \<lparr>key_name = [4], hmac_key = [5], mac_params = Some (5, 1), aes_key = [6]\<rparr>]"

theorem ticket_open_result_witness:
  "tk_inv ossl3_build ((\<lambda>_. None)(5 \<mapsto> two_keys)) (ctxt_zero\<lparr>ticket_keys := 5, ticket_keys_len := 2\<rparr>) two_keys
   \<and> ssl_tlsext_ticket_key_cb ossl3_build ((\<lambda>_. None)(5 \<mapsto> two_keys))
       (Some (ctxt_zero\<lparr>ticket_keys := 5, ticket_keys_len := 2\<rparr>)) [4] [9] (1, []) False
     = Inr (2, [4], [9], [HMAC_Init [5], EVP_DecryptInit [6] [9]],
            Some (ctxt_zero\<lparr>ticket_keys := 5, ticket_keys_len := 2, ticket_keys_renew := 1\<rparr>))"
proof -
  let ?h = "(\<lambda>_. None)(5 \<mapsto> two_keys)" and ?c = "ctxt_zero\<lparr>ticket_keys := 5, ticket_keys_len := 2\<rparr>"
  have inv: "tk_inv ossl3_build ?h ?c two_keys"
    by (simp add: tk_inv_def two_keys_def ossl3_build_def upt_rec)
  show ?thesis
    using ticket_open_result [OF inv, of "[4]" "[9]" "(1, [])"] inv
    by (simp add: two_keys_def key_for_def ctxt_zero_def)
qed


text \<open>
  C7. Round trip: a ticket sealed with the primary key is opened by the next callback with the
  same AES and HMAC keys, as a resumption with the primary key, and the two counters move by one.
\<close>

theorem ticket_round_trip:
  assumes inv: "tk_inv b h c ks"
    and seal: "ssl_tlsext_ticket_key_cb b h (Some c) name iv rand True = Inr (1, name', iv', ops, Some c')"
  shows "\<exists>aes mac. ops = [EVP_EncryptInit aes iv', HMAC_Init mac]
    \<and> ssl_tlsext_ticket_key_cb b h (Some c') name' iv' rand2 False =
        Inr (1, name', iv', [HMAC_Init mac, EVP_DecryptInit aes iv'],
             Some (c\<lparr>ticket_keys_new := ticket_keys_new c + 1,
                     ticket_keys_resume := ticket_keys_resume c + 1\<rparr>))"
proof -
  obtain k ks' where ks: "ks = k # ks'" "fst rand > 0"
    using seal ticket_seal_inv [OF inv, of name iv rand] by (auto split: list.splits if_splits)
  have s: "name' = key_name k" "ops = [EVP_EncryptInit (aes_key k) iv', HMAC_Init (hmac_key k)]"
      "c' = c\<lparr>ticket_keys_new := ticket_keys_new c + 1\<rparr>"
    using seal ticket_seal_inv [OF inv, of name iv rand] ks by auto
  have "tk_inv b h c' ks" using inv s(3) by simp
  from ticket_open_inv [OF this, of name' iv' rand2] show ?thesis
    using s ks by (simp add: key_for_def)
qed

theorem ticket_round_trip_witness:
  "\<exists>c'. ssl_tlsext_ticket_key_cb ossl3_build ((\<lambda>_. None)(5 \<mapsto> two_keys))
         (Some (ctxt_zero\<lparr>ticket_keys := 5, ticket_keys_len := 2\<rparr>)) [0] [0] (1, [7]) True
       = Inr (1, [1], [7], [EVP_EncryptInit [3] [7], HMAC_Init [2]], Some c')
     \<and> (\<exists>c''. ssl_tlsext_ticket_key_cb ossl3_build ((\<lambda>_. None)(5 \<mapsto> two_keys)) (Some c') [1] [7] (1, []) False
       = Inr (1, [1], [7], [HMAC_Init [2], EVP_DecryptInit [3] [7]], Some c''))"
proof -
  let ?h = "(\<lambda>_. None)(5 \<mapsto> two_keys)" and ?c = "ctxt_zero\<lparr>ticket_keys := 5, ticket_keys_len := 2\<rparr>"
  have inv: "tk_inv ossl3_build ?h ?c two_keys"
    by (simp add: tk_inv_def two_keys_def ossl3_build_def upt_rec)
  have s: "ssl_tlsext_ticket_key_cb ossl3_build ?h (Some ?c) [0] [0] (1, [7]) True =
      Inr (1, [1], [7], [EVP_EncryptInit [3] [7], HMAC_Init [2]],
           Some (?c\<lparr>ticket_keys_new := ticket_keys_new ?c + 1\<rparr>))"
    using ticket_seal_inv [OF inv, of "[0]" "[0]" "(1, [7])"] by (simp add: two_keys_def)
  from ticket_round_trip [OF inv s, of "(1, [])"] s show ?thesis by auto
qed

lemma ticket_key_at_shift:
  assumes "length newkey = 48"
  shows "key_name (ticket_key_at b a (newkey @ old) (Suc i)) = key_name (ticket_key_at b' a' old i)"
    "hmac_key (ticket_key_at b a (newkey @ old) (Suc i)) = hmac_key (ticket_key_at b' a' old i)"
    "aes_key (ticket_key_at b a (newkey @ old) (Suc i)) = aes_key (ticket_key_at b' a' old i)"
  using assms by (simp_all add: ticket_key_at_def Let_def ticket_len_defs)

lemma parsed_keys_Cons:
  assumes "length newkey = 48" "48 \<le> length old"
  shows "\<exists>rest. parsed_keys b a (newkey @ old) =
    ticket_key_at b a (newkey @ old) 0 # ticket_key_at b a (newkey @ old) 1 # rest"
proof -
  have "(48 + length old) div 48 = Suc (Suc (length old div 48 - 1))"
    using assms(2) by (simp add: div_add_self1 Suc_diff_Suc)
  then show ?thesis
    using assms by (simp add: parsed_keys_def ticket_len_defs map_upt_Cons del: upt_Suc)
qed

text \<open>
  C8. Key rotation: when a new key is put in front of the installed keys, a ticket sealed with
  the former primary key is still opened with the same AES and HMAC keys, and reported as
  needing renewal, provided the new key has another name.
\<close>

theorem ticket_survives_rotation:
  assumes inv: "tk_inv b h c (parsed_keys b a old)" and old: "48 \<le> length old"
    and seal: "ssl_tlsext_ticket_key_cb b h (Some c) name iv rand True =
                 Inr (1, name', iv', [EVP_EncryptInit aes iv', HMAC_Init mac], Some c1)"
    and rotate: "a' \<noteq> 0" "h a' = None" "length newkey = 48" "take 16 newkey \<noteq> name'"
      "setSessionTicketKeys0 b h (Some c1) (newkey @ old) a' True = (h', Some c2, exc, reg)"
  shows "\<exists>c3. ssl_tlsext_ticket_key_cb b h' (Some c2) name' iv' rand2 False =
      Inr (2, name', iv', [HMAC_Init mac, EVP_DecryptInit aes iv'], Some c3)
    \<and> ticket_keys_renew c3 = ticket_keys_renew c2 + 1"
proof -
  let ?k = "ticket_key_at b a old 0"
  let ?n = "ticket_key_at b a' (newkey @ old)"
  obtain n where "length old div 48 = Suc n" using old by (metis div_greater_zero_iff gr0_conv_Suc zero_less_numeral)
  then obtain ks' where ks: "parsed_keys b a old = ?k # ks'"
    by (simp add: parsed_keys_def ticket_len_defs map_upt_Cons del: upt_Suc)
  have s: "name' = key_name ?k" "aes = aes_key ?k" "mac = hmac_key ?k"
      "c1 = c\<lparr>ticket_keys_new := ticket_keys_new c + 1\<rparr>"
    using seal ticket_seal_inv [OF inv, of name iv rand] by (auto simp: ks split: if_splits)
  have inv1: "tk_inv b h c1 (parsed_keys b a old)" using inv s(4) by simp
  have inv2: "tk_inv b h' c2 (parsed_keys b a' (newkey @ old))"
    using set_ticket_keys_inv(3) [OF inv1 rotate(1,2,5)] by auto
  obtain rest where ks2: "parsed_keys b a' (newkey @ old) = ?n 0 # ?n 1 # rest"
    using parsed_keys_Cons [OF rotate(3) old] by blast
  have "key_name (?n 0) = take 16 newkey" using rotate(3) by (simp add: ticket_key_at_def Let_def)
  with ticket_key_at_shift [OF rotate(3), of b a' old 0 b a] show ?thesis
    using ticket_open_inv [OF inv2, of name' iv' rand2] rotate(4) s(1-3)
    by (simp add: ks2 key_for_def)
qed


theorem ticket_survives_rotation_witness:
  "\<exists>h c c1 h' c2 c3 exc reg.
     setSessionTicketKeys0 ossl3_build (\<lambda>_. None) (Some ctxt_zero) (replicate 48 1) 5 True = (h, Some c, exc, reg)
   \<and> ssl_tlsext_ticket_key_cb ossl3_build h (Some c) [0] [0] (1, [7]) True =
       Inr (1, replicate 16 1, [7], [EVP_EncryptInit (replicate 16 1) [7], HMAC_Init (replicate 16 1)], Some c1)
   \<and> setSessionTicketKeys0 ossl3_build h (Some c1) (replicate 48 2 @ replicate 48 1) 6 True = (h', Some c2, exc, reg)
   \<and> ssl_tlsext_ticket_key_cb ossl3_build h' (Some c2) (replicate 16 1) [7] (1, []) False =
       Inr (2, replicate 16 1, [7], [HMAC_Init (replicate 16 1), EVP_DecryptInit (replicate 16 1) [7]], Some c3)"
proof -
  obtain h c exc reg where s: "setSessionTicketKeys0 ossl3_build (\<lambda>_. None) (Some ctxt_zero)
      (replicate 48 1) 5 True = (h, Some c, exc, reg)"
    by (simp add: setSessionTicketKeys0_def Let_def)
  have i0: "tk_inv ossl3_build (\<lambda>_. None) ctxt_zero []" by (simp add: tk_inv_def ctxt_zero_def)
  have inv: "tk_inv ossl3_build h c (parsed_keys ossl3_build 5 (replicate 48 1))"
    using set_ticket_keys_inv(3) [OF i0 _ _ s] by auto
  have h6: "h 6 = None" and er: "exc = None" "reg"
    using s by (auto simp: setSessionTicketKeys0_def Let_def ctxt_zero_def)
  let ?c1 = "c\<lparr>ticket_keys_new := ticket_keys_new c + 1\<rparr>"
  have pk: "parsed_keys ossl3_build 5 (replicate 48 1) =
      [\<lparr>key_name = replicate 16 1, hmac_key = replicate 16 1, mac_params = Some (5, 0),
        aes_key = replicate 16 1\<rparr>]"
    by (simp add: parsed_keys_def ticket_key_at_def ticket_len_defs ossl3_build_def Let_def)
  have seal: "ssl_tlsext_ticket_key_cb ossl3_build h (Some c) [0] [0] (1, [7]) True =
      Inr (1, replicate 16 1, [7], [EVP_EncryptInit (replicate 16 1) [7], HMAC_Init (replicate 16 1)], Some ?c1)"
    using ticket_seal_inv [OF inv, of "[0]" "[0]" "(1, [7])"] by (simp only: pk list.case) simp
  obtain h' c2 exc2 reg2 where r: "setSessionTicketKeys0 ossl3_build h (Some ?c1)
      (replicate 48 2 @ replicate 48 1) 6 True = (h', Some c2, exc2, reg2)"
    by (simp add: setSessionTicketKeys0_def Let_def)
  have "exc2 = exc" "reg2 = reg" using r er by (auto simp: setSessionTicketKeys0_def Let_def)
  moreover have "take 16 (replicate 48 (2 :: byte)) \<noteq> replicate 16 1" by simp
  ultimately show ?thesis
    using ticket_survives_rotation [OF inv _ seal _ h6 _ _ r, of "(1, [])"] s seal r by auto
qed

text \<open>
  The callback copies a key under the read lock but uses the copy after releasing it. If a
  rotation happens in between, a build against OpenSSL before 3 goes on with the copied keys; a
  build against OpenSSL 3 follows \<^verbatim>\<open>mac_params\<close> into the array that was freed.
\<close>

theorem ticket_rotation_race:
  assumes inv: "tk_inv b h c ks" and found: "find_session_key h c name = Inr (Some (key, cur))"
    and rotate: "a \<noteq> 0" "h a = None"
      "setSessionTicketKeys0 b h (Some c) keys a True = (h', Some c', exc, reg)"
  shows "if openssl_version_number b < 0x30000000
    then \<exists>c''. ticket_open b h' c' name iv (Some (key, cur)) =
           Inr (if cur then 1 else 2, name, iv,
                [HMAC_Init (hmac_key key), EVP_DecryptInit (aes_key key) iv], c'')
    else ticket_open b h' c' name iv (Some (key, cur)) = Inl (UB Use_After_Free)"
proof (cases "openssl_version_number b < 0x30000000")
  case True
  then show ?thesis by (cases cur) (simp_all add: ticket_open_def mac_init_def)
next
  case False
  obtain i where i: "i < length ks" "key = ks ! i"
    using found find_session_key_inv [OF inv, of name] by (auto split: option.splits)
  then have "ticket_keys c \<noteq> 0" "mac_params key = Some (ticket_keys c, i)"
    using inv False by (auto simp: tk_inv_def list_all_iff split: if_splits)
  moreover have "h' (ticket_keys c) = None"
    using set_ticket_keys_inv(3) [OF inv rotate] calculation by auto
  ultimately show ?thesis using False by (simp add: ticket_open_def mac_init_def read_keys_def)
qed

theorem ticket_rotation_race_witness:
  "\<exists>h' c'. fst (setSessionTicketKeys0 ossl3_build ((\<lambda>_. None)(5 \<mapsto> two_keys))
        (Some (ctxt_zero\<lparr>ticket_keys := 5, ticket_keys_len := 2\<rparr>)) (replicate 48 1) 6 True) = h'
     \<and> find_session_key ((\<lambda>_. None)(5 \<mapsto> two_keys)) (ctxt_zero\<lparr>ticket_keys := 5, ticket_keys_len := 2\<rparr>) [4]
         = Inr (Some (two_keys ! 1, False))
     \<and> ticket_open ossl3_build h' c' [4] [9] (Some (two_keys ! 1, False)) = Inl (UB Use_After_Free)"
proof -
  let ?h = "(\<lambda>_. None)(5 \<mapsto> two_keys)" and ?c = "ctxt_zero\<lparr>ticket_keys := 5, ticket_keys_len := 2\<rparr>"
  have inv: "tk_inv ossl3_build ?h ?c two_keys"
    by (simp add: tk_inv_def two_keys_def ossl3_build_def upt_rec)
  have f: "find_session_key ?h ?c [4] = Inr (Some (two_keys ! 1, False))"
    using find_session_key_inv [OF inv, of "[4]"] by (simp add: key_for_def two_keys_def)
  obtain h' c' exc reg where r: "setSessionTicketKeys0 ossl3_build ?h (Some ?c) (replicate 48 1) 6 True
      = (h', Some c', exc, reg)"
    by (simp add: setSessionTicketKeys0_def Let_def)
  from ticket_rotation_race [OF inv f _ _ r, of "[9]"] f r show ?thesis
    by (auto simp: ossl3_build_def)
qed

end
