(* ===== verification/Dh_Params.thy ===== *)
theory Dh_Params
  imports Ssl_Types
begin

text \<open>
  The temporary Diffie-Hellman parameters of \<^verbatim>\<open>sslutils.c\<close> and \<^verbatim>\<open>ssl.c\<close>: the four moduli, the
  construction of a \<^verbatim>\<open>DH\<close> object with its error path, and the callbacks that hand out the
  parameters made at start-up. Used in builds against OpenSSL before version 3.

  The lemmas show that every modulus has exactly the advertised number of bits and is odd, that
  the error path frees whatever was allocated, and that each callback returns a group of the
  length it stands for.
\<close>

section \<open>Moduli\<close>

definition dh0512_p :: "byte list" where
  "dh0512_p = [
    0xD9, 0xBA, 0xBF, 0xFD, 0x69, 0x38, 0xC9, 0x51, 0x2D, 0x19, 0x37, 0x39,
    0xD7, 0x7D, 0x7E, 0x3E, 0x25, 0x58, 0x55, 0x94, 0x90, 0x60, 0x93, 0x7A,
    0xF2, 0xD5, 0x61, 0x5F, 0x06, 0xE8, 0x08, 0xB4, 0x57, 0xF4, 0xCF, 0xB4,
    0x41, 0xCC, 0xC4, 0xAC, 0xD4, 0xF0, 0x45, 0x88, 0xC9, 0xD1, 0x21, 0x4C,
    0xB6, 0x72, 0x48, 0xBD, 0x73, 0x80, 0xE0, 0xDD, 0x88, 0x41, 0xA0, 0xF1,
    0xEA, 0x4B, 0x71, 0x13]"

definition dh1024_p :: "byte list" where
  "dh1024_p = [
    0xA2, 0x95, 0x7E, 0x7C, 0xA9, 0xD5, 0x55, 0x1D, 0x7C, 0x77, 0x11, 0xAC,
    0xFD, 0x48, 0x8C, 0x3B, 0x94, 0x1B, 0xC5, 0xC0, 0x99, 0x93, 0xB5, 0xDC,
    0xDC, 0x06, 0x76, 0x9E, 0xED, 0x1E, 0x3D, 0xBB, 0x9A, 0x29, 0xD6, 0x8B,
    0x1F, 0xF6, 0xDA, 0xC9, 0xDF, 0xD5, 0x02, 0x4F, 0x09, 0xDE, 0xEC, 0x2C,
    0x59, 0x1E, 0x82, 0x32, 0x80, 0x9B, 0xED, 0x51, 0x68, 0xD2, 0xFB, 0x1E,
    0x25, 0xDB, 0xDF, 0x9C, 0x11, 0x70, 0xDF, 0xCA, 0x19, 0x03, 0x3D, 0x3D,
    0xC1, 0xAC, 0x28, 0x88, 0x4F, 0x13, 0xAF, 0x16, 0x60, 0x6B, 0x5B, 0x2F,
    0x56, 0xC7, 0x5B, 0x5D, 0xDE, 0x8F, 0x50, 0x08, 0xEC, 0xB1, 0xB9, 0x29,
    0xAA, 0x54, 0xF4, 0x05, 0xC9, 0xDF, 0x95, 0x9D, 0x79, 0xC6, 0xEA, 0x3F,
    0xC9, 0x70, 0x42, 0xDA, 0x90, 0xC7, 0xCC, 0x12, 0xB9, 0x87, 0x86, 0x39,
    0x1E, 0x1A, 0xCE, 0xF7, 0x3F, 0x15, 0xB5, 0x2B]"

definition dh2048_p :: "byte list" where
  "dh2048_p = [
    0xF2, 0x4A, 0xFC, 0x7E, 0x73, 0x48, 0x21, 0x03, 0xD1, 0x1D, 0xA8, 0x16,
    0x87, 0xD0, 0xD2, 0xDC, 0x42, 0xA8, 0xD2, 0x73, 0xE3, 0xA9, 0x21, 0x31,
    0x70, 0x5D, 0x69, 0xC7, 0x8F, 0x95, 0x0C, 0x9F, 0xB8, 0x0E, 0x37, 0xAE,
    0xD1, 0x6F, 0x36, 0x1C, 0x26, 0x63, 0x2A, 0x36, 0xBA, 0x0D, 0x2A, 0xF5,
    0x1A, 0x0F, 0xE8, 0xC0, 0xEA, 0xD1, 0xB5, 0x52, 0x47, 0x1F, 0x9A, 0x0C,
    0x0F, 0xED, 0x71, 0x51, 0xED, 0xE6, 0x62, 0xD5, 0xF8, 0x81, 0x93, 0x55,
    0xC1, 0x0F, 0xB4, 0x72, 0x64, 0xB3, 0x73, 0xAA, 0x90, 0x9A, 0x81, 0xCE,
    0x03, 0xFD, 0x6D, 0xB1, 0x27, 0x7D, 0xE9, 0x90, 0x5E, 0xE2, 0x10, 0x74,
    0x4F, 0x94, 0xC3, 0x05, 0x21, 0x73, 0xA9, 0x12, 0x06, 0x9B, 0x0E, 0x20,
    0xD1, 0x5F, 0xF7, 0xC9, 0x4C, 0x9D, 0x4F, 0xFA, 0xCA, 0x4D, 0xFD, 0xFF,
    0x6A, 0x62, 0x9F, 0xF0, 0x0F, 0x3B, 0xA9, 0x1D, 0xF2, 0x69, 0x29, 0x00,
    0xBD, 0xE9, 0xB0, 0x9D, 0x88, 0xC7, 0x4A, 0xAE, 0xB0, 0x53, 0xAC, 0xA2,
    0x27, 0x40, 0x88, 0x58, 0x8F, 0x26, 0xB2, 0xC2, 0x34, 0x7D, 0xA2, 0xCF,
    0x92, 0x60, 0x9B, 0x35, 0xF6, 0xF3, 0x3B, 0xC3, 0xAA, 0xD8, 0x58, 0x9C,
    0xCF, 0x5D, 0x9F, 0xDB, 0x14, 0x93, 0xFA, 0xA3, 0xFA, 0x44, 0xB1, 0xB2,
    0x4B, 0x0F, 0x08, 0x70, 0x44, 0x71, 0x3A, 0x73, 0x45, 0x8E, 0x6D, 0x9C,
    0x56, 0xBC, 0x9A, 0xB5, 0xB1, 0x3D, 0x8B, 0x1F, 0x1E, 0x2B, 0x0E, 0x93,
    0xC2, 0x9B, 0x84, 0xE2, 0xE8, 0xFC, 0x29, 0x85, 0x83, 0x8D, 0x2E, 0x5C,
    0xDD, 0x9A, 0xBB, 0xFD, 0xF0, 0x87, 0xBF, 0xAF, 0xC4, 0xB6, 0x1D, 0xE7,
    0xF9, 0x46, 0x50, 0x7F, 0xC3, 0xAC, 0xFD, 0xC9, 0x8C, 0x9D, 0x66, 0x6B,
    0x4C, 0x6A, 0xC9, 0x3F, 0x0C, 0x0A, 0x74, 0x94, 0x41, 0x85, 0x26, 0x8F,
    0x9F, 0xF0, 0x7C, 0x0B]"

definition dh4096_p :: "byte list" where
  "dh4096_p = [
    0x8D, 0xD3, 0x8F, 0x77, 0x6F, 0x6F, 0xB0, 0x74, 0x3F, 0x22, 0xE9, 0xD1,
    0x17, 0x15, 0x69, 0xD8, 0x24, 0x85, 0xCD, 0xC4, 0xE4, 0x0E, 0xF6, 0x52,
    0x40, 0xF7, 0x1C, 0x34, 0xD0, 0xA5, 0x20, 0x77, 0xE2, 0xFC, 0x7D, 0xA1,
    0x82, 0xF1, 0xF3, 0x78, 0x95, 0x05, 0x5B, 0xB8, 0xDB, 0xB3, 0xE4, 0x17,
    0x93, 0xD6, 0x68, 0xA7, 0x0A, 0x0C, 0xC5, 0xBB, 0x9C, 0x5E, 0x1E, 0x83,
    0x72, 0xB3, 0x12, 0x81, 0xA2, 0xF5, 0xCD, 0x44, 0x67, 0xAA, 0xE8, 0xAD,
    0x1E, 0x8F, 0x26, 0x25, 0xF2, 0x8A, 0xA0, 0xA5, 0xF4, 0xFB, 0x95, 0xAE,
    0x06, 0x50, 0x4B, 0xD0, 0xE7, 0x0C, 0x55, 0x88, 0xAA, 0xE6, 0xB8, 0xF6,
    0xE9, 0x2F, 0x8D, 0xA7, 0xAD, 0x84, 0xBC, 0x8D, 0x4C, 0xFE, 0x76, 0x60,
    0xCD, 0xC8, 0xED, 0x7C, 0xBF, 0xF3, 0xC1, 0xF8, 0x6A, 0xED, 0xEC, 0xE9,
    0x13, 0x7D, 0x4E, 0x72, 0x20, 0x77, 0x06, 0xA4, 0x12, 0xF8, 0xD2, 0x34,
    0x6F, 0xDC, 0x97, 0xAB, 0xD3, 0xA0, 0x45, 0x8E, 0x7D, 0x21, 0xA9, 0x35,
    0x6E, 0xE4, 0xC9, 0xC4, 0x53, 0xFF, 0xE5, 0xD9, 0x72, 0x61, 0xC4, 0x8A,
    0x75, 0x78, 0x36, 0x97, 0x1A, 0xAB, 0x92, 0x85, 0x74, 0x61, 0x7B, 0xE0,
    0x92, 0xB8, 0xC6, 0x12, 0xA1, 0x72, 0xBB, 0x5B, 0x61, 0xAA, 0xE6, 0x2C,
    0x2D, 0x9F, 0x45, 0x79, 0x9E, 0xF4, 0x41, 0x93, 0x93, 0xEF, 0x8B, 0xEF,
    0xB7, 0xBF, 0x6D, 0xF0, 0x91, 0x11, 0x4F, 0x7C, 0x71, 0x84, 0xB5, 0x88,
    0xA3, 0x8C, 0x1A, 0xD5, 0xD0, 0x81, 0x9C, 0x50, 0xAC, 0xA9, 0x2B, 0xE9,
    0x92, 0x2D, 0x73, 0x7C, 0x0A, 0xA3, 0xFA, 0xD3, 0x6C, 0x91, 0x43, 0xA6,
    0x80, 0x7F, 0xD7, 0xC4, 0xD8, 0x6F, 0x85, 0xF8, 0x15, 0xFD, 0x08, 0xA6,
    0xF8, 0x7B, 0x3A, 0xF4, 0xD3, 0x50, 0xB4, 0x2F, 0x75, 0xC8, 0x48, 0xB8,
    0xA8, 0xFD, 0xCA, 0x8F, 0x62, 0xF1, 0x4C, 0x89, 0xB7, 0x18, 0x67, 0xB2,
    0x93, 0x2C, 0xC4, 0xD4, 0x71, 0x29, 0xA9, 0x26, 0x20, 0xED, 0x65, 0x37,
    0x06, 0x87, 0xFC, 0xFB, 0x65, 0x02, 0x1B, 0x3C, 0x52, 0x03, 0xA1, 0xBB,
    0xCF, 0xE7, 0x1B, 0xA4, 0x1A, 0xE3, 0x94, 0x97, 0x66, 0x06, 0xBF, 0xA9,
    0xCE, 0x1B, 0x07, 0x10, 0xBA, 0xF8, 0xD4, 0xD4, 0x05, 0xCF, 0x53, 0x47,
    0x16, 0x2C, 0xA1, 0xFC, 0x6B, 0xEF, 0xF8, 0x6C, 0x23, 0x34, 0xEF, 0xB7,
    0xD3, 0x3F, 0xC2, 0x42, 0x5C, 0x53, 0x9A, 0x00, 0x52, 0xCF, 0xAC, 0x42,
    0xD3, 0x3B, 0x2E, 0xB6, 0x04, 0x32, 0xE1, 0x09, 0xED, 0x64, 0xCD, 0x6A,
    0x63, 0x58, 0xB8, 0x43, 0x56, 0x5A, 0xBE, 0xA4, 0x9F, 0x68, 0xD4, 0xF7,
    0xC9, 0x04, 0xDF, 0xCD, 0xE5, 0x93, 0xB0, 0x2F, 0x06, 0x19, 0x3E, 0xB8,
    0xAB, 0x7E, 0xF8, 0xE7, 0xE7, 0xC8, 0x53, 0xA2, 0x06, 0xC3, 0xC7, 0xF9,
    0x18, 0x3B, 0x51, 0xC3, 0x9B, 0xFF, 0x8F, 0x00, 0x0E, 0x87, 0x19, 0x68,
    0x2F, 0x40, 0xC0, 0x68, 0xFA, 0x12, 0xAE, 0x57, 0xB5, 0xF0, 0x97, 0xCA,
    0x78, 0x23, 0x31, 0xAB, 0x67, 0x7B, 0x10, 0x6B, 0x59, 0x32, 0x9C, 0x64,
    0x20, 0x38, 0x1F, 0xC5, 0x07, 0x84, 0x9E, 0xC4, 0x49, 0xB1, 0xDF, 0xED,
    0x7A, 0x8A, 0xC3, 0xE0, 0xDD, 0x30, 0x55, 0xFF, 0x95, 0x45, 0xA6, 0xEE,
    0xCB, 0xE4, 0x26, 0xB9, 0x8E, 0x89, 0x37, 0x63, 0xD4, 0x02, 0x3D, 0x5B,
    0x4F, 0xE5, 0x90, 0xF6, 0x72, 0xF8, 0x10, 0xEE, 0x31, 0x04, 0x54, 0x17,
    0xE3, 0xD5, 0x63, 0x84, 0x80, 0x62, 0x54, 0x46, 0x85, 0x6C, 0xD2, 0xC1,
    0x3E, 0x19, 0xBD, 0xE2, 0x80, 0x11, 0x86, 0xC7, 0x4B, 0x7F, 0x67, 0x86,
    0x47, 0xD2, 0x38, 0xCD, 0x8F, 0xFE, 0x65, 0x3C, 0x11, 0xCD, 0x96, 0x99,
    0x4E, 0x45, 0xEB, 0xEC, 0x1D, 0x94, 0x8C, 0x53]"

definition dhxxx2_g :: "byte list" where
  "dhxxx2_g = [
    0x02]"

section \<open>Building a DH object\<close>

definition SSL_TMP_KEY_DH_512 :: int where "SSL_TMP_KEY_DH_512 = 1"
definition SSL_TMP_KEY_DH_1024 :: int where "SSL_TMP_KEY_DH_1024 = 2"
definition SSL_TMP_KEY_DH_2048 :: int where "SSL_TMP_KEY_DH_2048 = 3"
definition SSL_TMP_KEY_DH_4096 :: int where "SSL_TMP_KEY_DH_4096 = 4"

lemmas tmp_key_defs = SSL_TMP_KEY_DH_512_def SSL_TMP_KEY_DH_1024_def SSL_TMP_KEY_DH_2048_def
  SSL_TMP_KEY_DH_4096_def

text \<open>Which of the allocating calls succeed.\<close>

record dh_env =
  dh_new_ok :: bool
  bn_p_ok :: bool
  bn_g_ok :: bool
  set0_pqg_ok :: bool

record DH =
  dh_p :: "byte list"
  dh_g :: "byte list"

datatype dh_obj = Obj_DH | Obj_P | Obj_G

definition dh_modulus :: "int \<Rightarrow> byte list option" where
  "dh_modulus idx =
     (if idx = SSL_TMP_KEY_DH_512 then Some dh0512_p
      else if idx = SSL_TMP_KEY_DH_1024 then Some dh1024_p
      else if idx = SSL_TMP_KEY_DH_2048 then Some dh2048_p
      else if idx = SSL_TMP_KEY_DH_4096 then Some dh4096_p
      else None)"

text \<open>The result, the objects allocated and the objects freed (freeing \<^verbatim>\<open>NULL\<close> does nothing).\<close>

definition get_dh :: "build \<Rightarrow> dh_env \<Rightarrow> int \<Rightarrow> DH option \<times> dh_obj list \<times> dh_obj list" where
  "get_dh b env idx =
     (if \<not> dh_new_ok env then (None, [], [])
      else
       (case dh_modulus idx of
          None \<Rightarrow> (None, [Obj_DH], [Obj_DH])
        | Some p \<Rightarrow>
          if \<not> bn_p_ok env then (None, [Obj_DH], [Obj_DH])
          else if \<not> bn_g_ok env then (None, [Obj_DH, Obj_P], [Obj_DH, Obj_P])
          else if openssl_version_number b \<ge> 0x10100000
                  \<and> \<not> libressl_before b 0x20700000
                  \<and> \<not> set0_pqg_ok env
          then (None, [Obj_DH, Obj_P, Obj_G], [Obj_DH, Obj_P, Obj_G])
          else (Some \<lparr>dh_p = p, dh_g = dhxxx2_g\<rparr>, [Obj_DH, Obj_P, Obj_G], [])))"

definition tcn_SSL_dh_get_tmp_param :: "build \<Rightarrow> dh_env \<Rightarrow> int \<Rightarrow> DH option" where
  "tcn_SSL_dh_get_tmp_param b env key_len =
     fst (if key_len = 512 then get_dh b env SSL_TMP_KEY_DH_512
          else if key_len = 1024 then get_dh b env SSL_TMP_KEY_DH_1024
          else if key_len = 2048 then get_dh b env SSL_TMP_KEY_DH_2048
          else if key_len = 4096 then get_dh b env SSL_TMP_KEY_DH_4096
          else get_dh b env SSL_TMP_KEY_DH_1024)"

section \<open>The parameters made at start-up\<close>

text \<open>\<^verbatim>\<open>SSL_temp_keys\<close> is an array of five pointers.\<close>

type_synonym temp_keys = "int \<Rightarrow> DH option"

definition ssl_tmp_key_init_dh ::
  "build \<Rightarrow> dh_env \<Rightarrow> temp_keys \<Rightarrow> int \<Rightarrow> int \<Rightarrow> temp_keys \<times> bool" where
  "ssl_tmp_key_init_dh b env ks bits idx =
     (let d = tcn_SSL_dh_get_tmp_param b env bits in (ks(idx := d), d = None))"

text \<open>\<^verbatim>\<open>SSL_TMP_KEYS_INIT\<close>: the four calls, with one outcome record each; the flag collects failures.\<close>

definition SSL_TMP_KEYS_INIT ::
  "build \<Rightarrow> dh_env \<times> dh_env \<times> dh_env \<times> dh_env \<Rightarrow> temp_keys \<Rightarrow> temp_keys \<times> bool" where
  "SSL_TMP_KEYS_INIT b envs ks =
     (let (e1, e2, e3, e4) = envs;
          (k1, r1) = ssl_tmp_key_init_dh b e1 ks 512 SSL_TMP_KEY_DH_512;
          (k2, r2) = ssl_tmp_key_init_dh b e2 k1 1024 SSL_TMP_KEY_DH_1024;
          (k3, r3) = ssl_tmp_key_init_dh b e3 k2 2048 SSL_TMP_KEY_DH_2048;
          (k4, r4) = ssl_tmp_key_init_dh b e4 k3 4096 SSL_TMP_KEY_DH_4096
      in (k4, r1 \<or> r2 \<or> r3 \<or> r4))"

definition tcn_SSL_callback_tmp_DH :: "temp_keys \<Rightarrow> int \<Rightarrow> DH option" where
  "tcn_SSL_callback_tmp_DH ks keylen =
     ks (if keylen = 512 then SSL_TMP_KEY_DH_512
         else if keylen = 2048 then SSL_TMP_KEY_DH_2048
         else if keylen = 4096 then SSL_TMP_KEY_DH_4096
         else SSL_TMP_KEY_DH_1024)"

definition tcn_SSL_callback_tmp_DH_512 :: "temp_keys \<Rightarrow> int \<Rightarrow> DH option" where
  "tcn_SSL_callback_tmp_DH_512 ks keylen = ks SSL_TMP_KEY_DH_512"

definition tcn_SSL_callback_tmp_DH_1024 :: "temp_keys \<Rightarrow> int \<Rightarrow> DH option" where
  "tcn_SSL_callback_tmp_DH_1024 ks keylen = ks SSL_TMP_KEY_DH_1024"

definition tcn_SSL_callback_tmp_DH_2048 :: "temp_keys \<Rightarrow> int \<Rightarrow> DH option" where
  "tcn_SSL_callback_tmp_DH_2048 ks keylen = ks SSL_TMP_KEY_DH_2048"

definition tcn_SSL_callback_tmp_DH_4096 :: "temp_keys \<Rightarrow> int \<Rightarrow> DH option" where
  "tcn_SSL_callback_tmp_DH_4096 ks keylen = ks SSL_TMP_KEY_DH_4096"

section \<open>Choosing a length\<close>

datatype dh_callback = Callback_DH_512 | Callback_DH_1024 | Callback_DH_2048 | Callback_DH_4096

fun dh_callback_fun :: "dh_callback \<Rightarrow> temp_keys \<Rightarrow> int \<Rightarrow> DH option" where
  "dh_callback_fun Callback_DH_512 = tcn_SSL_callback_tmp_DH_512"
| "dh_callback_fun Callback_DH_1024 = tcn_SSL_callback_tmp_DH_1024"
| "dh_callback_fun Callback_DH_2048 = tcn_SSL_callback_tmp_DH_2048"
| "dh_callback_fun Callback_DH_4096 = tcn_SSL_callback_tmp_DH_4096"

text \<open>The callback that \<^verbatim>\<open>setTmpDHLength\<close> registers, or the exception it throws.\<close>

definition setTmpDHLength ::
  "build \<Rightarrow> tcn_ssl_ctxt option \<Rightarrow> int \<Rightarrow> dh_callback option \<times> jexc option" where
  "setTmpDHLength b cp len =
     (if openssl_version_number b < 0x30000000 then
        (case cp of None \<Rightarrow> (None, Some (NullPointerException ''ctx''))
         | Some c \<Rightarrow>
           if len = 512 then (Some Callback_DH_512, None)
           else if len = 1024 then (Some Callback_DH_1024, None)
           else if len = 2048 then (Some Callback_DH_2048, None)
           else if len = 4096 then (Some Callback_DH_4096, None)
           else (None, Some (JException ''Unsupported length %d'')))
      else (None, None))"

section \<open>Sizes\<close>

text \<open>\<^verbatim>\<open>BN_bin2bn\<close> reads the bytes as a big-endian number.\<close>

definition bn :: "byte list \<Rightarrow> nat" where
  "bn bs = foldl (\<lambda>a x. a * 256 + unat x) 0 bs"

lemma bn_foldl: "foldl (\<lambda>a x. a * 256 + unat (x :: byte)) a bs = a * 256 ^ length bs + bn bs"
proof (induction bs arbitrary: a)
  case Nil
  then show ?case by (simp add: bn_def)
next
  case (Cons x bs)
  have "bn (x # bs) = unat x * 256 ^ length bs + bn bs"
    using Cons.IH [of "unat x"] by (simp add: bn_def)
  then show ?case using Cons.IH [of "a * 256 + unat x"] by (simp add: algebra_simps)
qed

lemma bn_Cons: "bn (x # bs) = unat x * 256 ^ length bs + bn bs"
  using bn_foldl [of "unat x" bs] by (simp add: bn_def)

lemma bn_snoc: "bn (bs @ [x]) = bn bs * 256 + unat x"
  by (simp add: bn_def)

lemma bn_less: "bn bs < 256 ^ length bs"
proof (induction bs)
  case Nil
  then show ?case by (simp add: bn_def)
next
  case (Cons x bs)
  have "unat x < 2 ^ LENGTH(8)" by (rule unsigned_less)
  then have "unat x + 1 \<le> 256" by simp
  then have "(unat x + 1) * 256 ^ length bs \<le> 256 * 256 ^ length bs" by (rule mult_right_mono) simp
  moreover have "bn (x # bs) < (unat x + 1) * 256 ^ length bs" using Cons by (simp add: bn_Cons)
  ultimately have "bn (x # bs) < 256 * 256 ^ length bs" by (rule less_le_trans [rotated])
  then show ?case by simp
qed

lemma bn_bits:
  assumes "bs \<noteq> []" "128 \<le> unat (hd bs)" "8 * length bs = n"
  shows "2 ^ (n - 1) \<le> bn bs" "bn bs < 2 ^ n"
proof -
  have pow: "(256 :: nat) ^ k = 2 ^ (8 * k)" for k by (simp add: power_mult)
  obtain x xs where bs: "bs = x # xs" using assms(1) by (cases bs) auto
  have n: "n - 1 = 7 + 8 * length xs" using assms(3) bs by simp
  have "(2 :: nat) ^ (n - 1) = 128 * 256 ^ length xs" unfolding n power_add pow by simp
  also have "\<dots> \<le> unat x * 256 ^ length xs" using assms(2) bs by simp
  also have "\<dots> \<le> bn bs" by (simp add: bs bn_Cons)
  finally show "2 ^ (n - 1) \<le> bn bs" .
  show "bn bs < 2 ^ n" using bn_less [of bs] assms(3) by (simp add: pow)
qed

lemma bn_odd: "bs \<noteq> [] \<Longrightarrow> odd (unat (last bs)) \<Longrightarrow> odd (bn bs)"
  by (cases bs rule: rev_cases) (auto simp: bn_snoc)

definition dh_bits :: "byte list \<Rightarrow> nat \<Rightarrow> bool" where
  "dh_bits p n \<longleftrightarrow> p \<noteq> [] \<and> 128 \<le> unat (hd p) \<and> odd (unat (last p)) \<and> 8 * length p = n"

lemma dh_moduli_bits:
  "dh_bits dh0512_p 512" "dh_bits dh1024_p 1024" "dh_bits dh2048_p 2048" "dh_bits dh4096_p 4096"
  by code_simp+

lemma dh_bits_bn: "dh_bits p n \<Longrightarrow> 2 ^ (n - 1) \<le> bn p \<and> bn p < 2 ^ n \<and> odd (bn p)"
  using bn_bits [of p n] bn_odd [of p] by (simp add: dh_bits_def)

lemma get_tmp_param_some:
  "tcn_SSL_dh_get_tmp_param b env len = Some d \<Longrightarrow> len \<in> {512, 1024, 2048, 4096} \<Longrightarrow>
   dh_bits (dh_p d) (nat len)"
  using dh_moduli_bits
  by (auto simp: tcn_SSL_dh_get_tmp_param_def get_dh_def dh_modulus_def tmp_key_defs split: if_splits)

section \<open>Properties\<close>

text \<open>
  Once the start-up initialisation reports no failure, the callback that \<^verbatim>\<open>setTmpDHLength\<close>
  registers for a supported length always hands out a group whose modulus is odd and has exactly
  that many bits.
\<close>

theorem tmp_dh_has_requested_length:
  assumes init: "SSL_TMP_KEYS_INIT b envs ks = (ks', False)"
    and set: "setTmpDHLength b (Some c) len = (Some cb, exc)"
  shows "\<exists>d. dh_callback_fun cb ks' keylen = Some d
    \<and> 2 ^ (nat len - 1) \<le> bn (dh_p d) \<and> bn (dh_p d) < 2 ^ nat len \<and> odd (bn (dh_p d))"
proof -
  obtain e1 e2 e3 e4 where e: "envs = (e1, e2, e3, e4)" by (cases envs)
  obtain d1 d2 d3 d4 where d: "tcn_SSL_dh_get_tmp_param b e1 512 = Some d1"
      "tcn_SSL_dh_get_tmp_param b e2 1024 = Some d2"
      "tcn_SSL_dh_get_tmp_param b e3 2048 = Some d3"
      "tcn_SSL_dh_get_tmp_param b e4 4096 = Some d4"
    using init by (auto simp: e SSL_TMP_KEYS_INIT_def ssl_tmp_key_init_dh_def Let_def)
  have ks: "ks' SSL_TMP_KEY_DH_512 = Some d1" "ks' SSL_TMP_KEY_DH_1024 = Some d2"
      "ks' SSL_TMP_KEY_DH_2048 = Some d3" "ks' SSL_TMP_KEY_DH_4096 = Some d4"
    using init d
    by (auto simp: e SSL_TMP_KEYS_INIT_def ssl_tmp_key_init_dh_def Let_def tmp_key_defs)
  have bits: "dh_bits (dh_p d1) 512" "dh_bits (dh_p d2) 1024" "dh_bits (dh_p d3) 2048"
      "dh_bits (dh_p d4) 4096"
    using d [THEN get_tmp_param_some] by simp_all
  consider "len = 512" "cb = Callback_DH_512" | "len = 1024" "cb = Callback_DH_1024"
    | "len = 2048" "cb = Callback_DH_2048" | "len = 4096" "cb = Callback_DH_4096"
    using set by (auto simp: setTmpDHLength_def split: if_splits)
  then have "\<exists>d. dh_callback_fun cb ks' keylen = Some d \<and> dh_bits (dh_p d) (nat len)"
    using ks bits
    by cases (simp_all add: tcn_SSL_callback_tmp_DH_512_def tcn_SSL_callback_tmp_DH_1024_def
        tcn_SSL_callback_tmp_DH_2048_def tcn_SSL_callback_tmp_DH_4096_def)
  then show ?thesis using dh_bits_bn by blast
qed

definition dh_all_ok :: dh_env where
  "dh_all_ok = \<lparr>dh_new_ok = True, bn_p_ok = True, bn_g_ok = True, set0_pqg_ok = True\<rparr>"

definition ossl102_build :: build where
  "ossl102_build = \<lparr>openssl_is_boringssl = False, openssl_is_awslc = False,
     libressl_version_number = None, openssl_version_number = 0x1000200f,
     openssl_no_tls1_3 = True, openssl_no_ocsp = False, openssl_no_engine = False, gnuc = True\<rparr>"

theorem tmp_dh_has_requested_length_witness:
  "\<exists>ks' d. SSL_TMP_KEYS_INIT ossl102_build (dh_all_ok, dh_all_ok, dh_all_ok, dh_all_ok) (\<lambda>_. None)
       = (ks', False)
     \<and> fst (setTmpDHLength ossl102_build (Some ctxt_zero) 2048) = Some Callback_DH_2048
     \<and> dh_callback_fun Callback_DH_2048 ks' 512 = Some d \<and> bn (dh_p d) < 2 ^ 2048"
proof -
  have s: "setTmpDHLength ossl102_build (Some ctxt_zero) 2048 = (Some Callback_DH_2048, None)"
    by (simp add: setTmpDHLength_def ossl102_build_def)
  have some: "tcn_SSL_dh_get_tmp_param ossl102_build dh_all_ok n \<noteq> None" for n
    by (simp add: tcn_SSL_dh_get_tmp_param_def get_dh_def dh_all_ok_def dh_modulus_def tmp_key_defs)
  obtain ks' where i: "SSL_TMP_KEYS_INIT ossl102_build (dh_all_ok, dh_all_ok, dh_all_ok, dh_all_ok)
      (\<lambda>_. None) = (ks', False)"
    using some by (simp add: SSL_TMP_KEYS_INIT_def ssl_tmp_key_init_dh_def Let_def)
  from tmp_dh_has_requested_length [OF i s, of 512] i s show ?thesis by auto
qed

text \<open>
  \<^verbatim>\<open>get_dh\<close> does not leak: when it fails, it has freed exactly the objects it allocated, and
  when it succeeds it has freed none of them and the DH object owns the modulus and generator.
\<close>

theorem get_dh_frees_on_failure:
  "case get_dh b env idx of
     (None, allocated, freed) \<Rightarrow> freed = allocated
   | (Some d, allocated, freed) \<Rightarrow> freed = [] \<and> dh_modulus idx = Some (dh_p d) \<and> dh_g d = [2]"
  by (simp add: get_dh_def dhxxx2_g_def split: option.split)

end
