(* ===== verification/Cipher_Auth.thy ===== *)
theory Cipher_Auth
  imports Ssl_Types
begin

text \<open>
  The authentication method that the native code reports to the Java trust manager:
  \<^verbatim>\<open>tcn_SSL_cipher_authentication_method\<close> of \<^verbatim>\<open>sslutils.c\<close> in its three variants (BoringSSL and
  AWS-LC, OpenSSL 1.1 and later, older libraries) and \<^verbatim>\<open>authentication_method\<close> of
  \<^verbatim>\<open>sslcontext.c\<close>. The properties of an \<^verbatim>\<open>SSL_CIPHER\<close> that OpenSSL reports are a record.
\<close>

datatype kx_nid = NID_kx_rsa | NID_kx_dhe | NID_kx_ecdhe | NID_kx_any | NID_kx_other int

datatype auth_nid =
    NID_auth_rsa | NID_auth_dss | NID_auth_ecdsa | NID_auth_null | NID_auth_other int

record SSL_CIPHER =
  kx_name :: string
  cipher_kx_nid :: kx_nid
  cipher_auth_nid :: auth_nid
  algorithm_mkey :: int
  algorithm_auth :: int

section \<open>Bits of the older struct\<close>

definition SSL_kRSA :: int where "SSL_kRSA = 0x00000001"
definition SSL_kDHr :: int where "SSL_kDHr = 0x00000002"
definition SSL_kDHd :: int where "SSL_kDHd = 0x00000004"
definition SSL_kEDH :: int where "SSL_kEDH = 0x00000008"
definition SSL_kKRB5 :: int where "SSL_kKRB5 = 0x00000010"
definition SSL_kECDHr :: int where "SSL_kECDHr = 0x00000020"
definition SSL_kECDHe :: int where "SSL_kECDHe = 0x00000040"
definition SSL_kEECDH :: int where "SSL_kEECDH = 0x00000080"
definition SSL_aRSA :: int where "SSL_aRSA = 0x00000001"
definition SSL_aDSS :: int where "SSL_aDSS = 0x00000002"
definition SSL_aNULL :: int where "SSL_aNULL = 0x00000004"
definition SSL_aECDSA :: int where "SSL_aECDSA = 0x00000040"

lemmas cipher_bit_defs = SSL_kRSA_def SSL_kDHr_def SSL_kDHd_def SSL_kEDH_def SSL_kKRB5_def
  SSL_kECDHr_def SSL_kECDHe_def SSL_kEECDH_def SSL_aRSA_def SSL_aDSS_def SSL_aNULL_def
  SSL_aECDSA_def

section \<open>The method\<close>

definition TCN_UNKNOWN_AUTH_METHOD :: string where
  "TCN_UNKNOWN_AUTH_METHOD = ''UNKNOWN''"

definition auth_method_boring :: "SSL_CIPHER \<Rightarrow> string" where
  "auth_method_boring c = (if kx_name c = ''GENERIC'' then TCN_UNKNOWN_AUTH_METHOD else kx_name c)"

definition auth_method_nid :: "build \<Rightarrow> SSL_CIPHER \<Rightarrow> string" where
  "auth_method_nid b c =
   (case cipher_kx_nid c of
      NID_kx_rsa \<Rightarrow> ''RSA''
    | NID_kx_dhe \<Rightarrow>
      (case cipher_auth_nid c of
         NID_auth_dss \<Rightarrow> if libressl_version_number b = None then ''DHE_DSS'' else TCN_UNKNOWN_AUTH_METHOD
       | NID_auth_rsa \<Rightarrow> ''DHE_RSA''
       | NID_auth_null \<Rightarrow> ''DH_anon''
       | _ \<Rightarrow> TCN_UNKNOWN_AUTH_METHOD)
    | NID_kx_ecdhe \<Rightarrow>
      (case cipher_auth_nid c of
         NID_auth_ecdsa \<Rightarrow> ''ECDHE_ECDSA''
       | NID_auth_rsa \<Rightarrow> ''ECDHE_RSA''
       | NID_auth_null \<Rightarrow> ''ECDH_anon''
       | _ \<Rightarrow> TCN_UNKNOWN_AUTH_METHOD)
    | NID_kx_any \<Rightarrow>
      if \<not> openssl_no_tls1_3 b \<and> libressl_version_number b = None then ''ECDHE_RSA''
      else TCN_UNKNOWN_AUTH_METHOD
    | NID_kx_other _ \<Rightarrow> TCN_UNKNOWN_AUTH_METHOD)"

definition auth_method_bits :: "SSL_CIPHER \<Rightarrow> string" where
  "auth_method_bits c =
   (let k = algorithm_mkey c; a = algorithm_auth c in
    if k = SSL_kRSA then ''RSA''
    else if k = SSL_kDHr then ''DH_RSA''
    else if k = SSL_kDHd then ''DH_DSS''
    else if k = SSL_kEDH then
      (if a = SSL_aDSS then ''DHE_DSS''
       else if a = SSL_aRSA then ''DHE_RSA''
       else if a = SSL_aNULL then ''DH_anon''
       else TCN_UNKNOWN_AUTH_METHOD)
    else if k = SSL_kKRB5 then ''KRB5''
    else if k = SSL_kECDHr then ''ECDH_RSA''
    else if k = SSL_kECDHe then ''ECDH_ECDSA''
    else if k = SSL_kEECDH then
      (if a = SSL_aECDSA then ''ECDHE_ECDSA''
       else if a = SSL_aRSA then ''ECDHE_RSA''
       else if a = SSL_aNULL then ''ECDH_anon''
       else TCN_UNKNOWN_AUTH_METHOD)
    else TCN_UNKNOWN_AUTH_METHOD)"

definition tcn_SSL_cipher_authentication_method :: "build \<Rightarrow> SSL_CIPHER \<Rightarrow> string" where
  "tcn_SSL_cipher_authentication_method b c =
   (if boring b then auth_method_boring c
    else if openssl_version_number b \<ge> 0x10100000 \<and> \<not> libressl_before b 0x2070000f
    then auth_method_nid b c
    else auth_method_bits c)"

text \<open>
  \<open>cipher\<close> is the current cipher of the connection (\<open>None\<close>: not negotiated yet), \<open>ssl2\<close> says that
  \<^verbatim>\<open>SSL_version\<close> is \<^verbatim>\<open>SSL2_VERSION\<close>.
\<close>

definition authentication_method :: "build \<Rightarrow> bool \<Rightarrow> SSL_CIPHER option \<Rightarrow> string" where
  "authentication_method b ssl2 cipher =
   (if ssl2 then ''RSA''
    else (case cipher of None \<Rightarrow> TCN_UNKNOWN_AUTH_METHOD
          | Some c \<Rightarrow> tcn_SSL_cipher_authentication_method b c))"

section \<open>Properties\<close>

text \<open>How the two ways in which a library describes an ephemeral cipher suite correspond.\<close>

fun kx_matches :: "kx_nid \<Rightarrow> int \<Rightarrow> bool" where
  "kx_matches NID_kx_rsa k = (k = SSL_kRSA)"
| "kx_matches NID_kx_dhe k = (k = SSL_kEDH)"
| "kx_matches NID_kx_ecdhe k = (k = SSL_kEECDH)"
| "kx_matches NID_kx_any k = False"
| "kx_matches (NID_kx_other n) k =
     (k \<notin> {SSL_kRSA, SSL_kDHr, SSL_kDHd, SSL_kEDH, SSL_kKRB5, SSL_kECDHr, SSL_kECDHe, SSL_kEECDH})"

fun auth_matches :: "auth_nid \<Rightarrow> int \<Rightarrow> bool" where
  "auth_matches NID_auth_rsa a = (a = SSL_aRSA)"
| "auth_matches NID_auth_dss a = (a = SSL_aDSS)"
| "auth_matches NID_auth_ecdsa a = (a = SSL_aECDSA)"
| "auth_matches NID_auth_null a = (a = SSL_aNULL)"
| "auth_matches (NID_auth_other n) a = (a \<notin> {SSL_aRSA, SSL_aDSS, SSL_aECDSA, SSL_aNULL})"

definition cipher_consistent :: "SSL_CIPHER \<Rightarrow> bool" where
  "cipher_consistent c \<longleftrightarrow> kx_matches (cipher_kx_nid c) (algorithm_mkey c)
     \<and> auth_matches (cipher_auth_nid c) (algorithm_auth c)"

definition ecdhe_rsa :: SSL_CIPHER where
  "ecdhe_rsa = \<lparr>kx_name = ''ECDHE_RSA'', cipher_kx_nid = NID_kx_ecdhe, cipher_auth_nid = NID_auth_rsa,
                algorithm_mkey = SSL_kEECDH, algorithm_auth = SSL_aRSA\<rparr>"

text \<open>
  C9. The authentication method does not depend on which OpenSSL the code is built against: on
  every cipher suite that both libraries can describe, the variant for OpenSSL 1.1 and the one
  for older versions report the same string.
\<close>

theorem auth_method_version_independent:
  assumes consistent: "cipher_consistent c"
    and new: "\<not> boring b" "openssl_version_number b \<ge> 0x10100000" "libressl_version_number b = None"
    and old: "\<not> boring b'" "openssl_version_number b' < 0x10100000"
  shows "tcn_SSL_cipher_authentication_method b c = tcn_SSL_cipher_authentication_method b' c"
proof -
  have "tcn_SSL_cipher_authentication_method b c = auth_method_nid b c"
    using new by (simp add: tcn_SSL_cipher_authentication_method_def libressl_before_def)
  moreover have "tcn_SSL_cipher_authentication_method b' c = auth_method_bits c"
    using old by (simp add: tcn_SSL_cipher_authentication_method_def)
  moreover have "auth_method_nid b c = auth_method_bits c"
    using consistent new(3) unfolding cipher_consistent_def auth_method_nid_def auth_method_bits_def
    by (cases "cipher_kx_nid c"; cases "cipher_auth_nid c") (auto simp: Let_def cipher_bit_defs)
  ultimately show ?thesis by simp
qed

theorem auth_method_version_independent_witness:
  "cipher_consistent ecdhe_rsa \<and>
   (\<exists>b b'. openssl_version_number b = 0x10101000 \<and> openssl_version_number b' = 0x1000200f
     \<and> tcn_SSL_cipher_authentication_method b ecdhe_rsa = tcn_SSL_cipher_authentication_method b' ecdhe_rsa)"
proof -
  let ?b = "\<lambda>v. \<lparr>openssl_is_boringssl = False, openssl_is_awslc = False, libressl_version_number = None,
    openssl_version_number = v, openssl_no_tls1_3 = False, openssl_no_ocsp = False,
    openssl_no_engine = True, gnuc = True\<rparr>"
  have c: "cipher_consistent ecdhe_rsa" by (simp add: cipher_consistent_def ecdhe_rsa_def)
  from auth_method_version_independent [OF c, of "?b 0x10101000" "?b 0x1000200f"]
  have "tcn_SSL_cipher_authentication_method (?b 0x10101000) ecdhe_rsa =
      tcn_SSL_cipher_authentication_method (?b 0x1000200f) ecdhe_rsa"
    by (simp add: boring_def)
  with c show ?thesis by (intro conjI exI [of _ "?b 0x10101000"] exI [of _ "?b 0x1000200f"]) simp_all
qed

end
