(* ===== verification/Verify.thy ===== *)
theory Verify
  imports Cipher_Auth
begin

text \<open>
  Certificate verification: the settings (\<^verbatim>\<open>tcn_set_verify_config\<close>), the per-connection state and
  its asynchronous task (\<^verbatim>\<open>ssl.c\<close>, \<^verbatim>\<open>sslcontext.c\<close>, \<^verbatim>\<open>SSLTask.java\<close>), the two verification
  callbacks \<^verbatim>\<open>SSL_cert_verify\<close> (OpenSSL) and \<^verbatim>\<open>tcn_SSL_cert_custom_verify\<close> (BoringSSL, AWS-LC), and
  the setters that install them.

  A Java task object is a record \<open>jtask\<close>; \<open>refs\<close> is the list of live JNI global references.
  Outcomes of foreign calls are a record \<open>verify_env\<close>. The Java verifier is a function that
  returns a verdict or throws (\<open>None\<close>). The lemmas show that a peer is accepted only when the
  verifier said so, that suspending and resuming a handshake gives the verdict of the direct
  call, and that references to tasks are neither leaked nor used after deletion.
\<close>

section \<open>Settings\<close>

definition SSL_VERIFY_NONE :: int where "SSL_VERIFY_NONE = 0"
definition SSL_VERIFY_PEER :: int where "SSL_VERIFY_PEER = 1"
definition SSL_VERIFY_FAIL_IF_NO_PEER_CERT :: int where "SSL_VERIFY_FAIL_IF_NO_PEER_CERT = 2"

lemmas ssl_verify_defs =
  SSL_VERIFY_NONE_def SSL_VERIFY_PEER_def SSL_VERIFY_FAIL_IF_NO_PEER_CERT_def

definition tcn_set_verify_config ::
  "tcn_ssl_verify_config \<Rightarrow> int \<Rightarrow> int \<Rightarrow> tcn_ssl_verify_config \<times> int" where
  "tcn_set_verify_config c0 tcn_mode depth =
   (let c = (if depth \<ge> 0 then c0\<lparr>verify_depth := depth\<rparr> else c0) in
    if tcn_mode = SSL_CVERIFY_IGNORED then
      (if verify_mode c = SSL_CVERIFY_NONE then (c, SSL_VERIFY_NONE)
       else if verify_mode c = SSL_CVERIFY_OPTIONAL then (c, SSL_VERIFY_PEER)
       else (c, SSL_VERIFY_PEER + SSL_VERIFY_FAIL_IF_NO_PEER_CERT))
    else if tcn_mode = SSL_CVERIFY_NONE then
      (c\<lparr>verify_mode := SSL_CVERIFY_NONE\<rparr>, SSL_VERIFY_NONE)
    else if tcn_mode = SSL_CVERIFY_OPTIONAL then
      (c\<lparr>verify_mode := SSL_CVERIFY_OPTIONAL\<rparr>, SSL_VERIFY_PEER)
    else
      (c\<lparr>verify_mode := SSL_CVERIFY_REQUIRED\<rparr>,
       SSL_VERIFY_PEER + SSL_VERIFY_FAIL_IF_NO_PEER_CERT))"

section \<open>Tasks\<close>

text \<open>\<open>task_obj\<close> is the local reference, \<open>newref\<close> what \<^verbatim>\<open>NewGlobalRef\<close> returns.\<close>

definition tcn_ssl_task_new ::
  "int \<Rightarrow> bool \<Rightarrow> int \<Rightarrow> int list \<Rightarrow> tcn_ssl_task option \<times> int list" where
  "tcn_ssl_task_new task_obj malloc_ok newref refs =
   (if task_obj = 0 then (None, refs)
    else if \<not> malloc_ok then (None, refs)
    else if newref = 0 then (None, refs)
    else (Some \<lparr>consumed = False, task = newref\<rparr>, newref # refs))"

definition tcn_ssl_task_free :: "tcn_ssl_task option \<Rightarrow> int list \<Rightarrow> int list" where
  "tcn_ssl_task_free t refs =
   (case t of None \<Rightarrow> refs
    | Some s \<Rightarrow> if task s \<noteq> 0 then remove1 (task s) refs else refs)"

section \<open>The state of a connection\<close>

definition new_ssl_state :: "tcn_ssl_ctxt option \<Rightarrow> int \<Rightarrow> bool \<Rightarrow> tcn_ssl_state option" where
  "new_ssl_state cp caddr malloc_ok =
   (case cp of None \<Rightarrow> None
    | Some c \<Rightarrow>
      if \<not> malloc_ok then None
      else Some \<lparr>handshakeCount = 0, state_ctx = caddr, ssl_task = None,
                 state_verify_config = verify_config c,
                 task_array_len = 0, task_chain_num = 0\<rparr>)"

definition free_ssl_state :: "tcn_ssl_state option \<Rightarrow> int list \<Rightarrow> int list" where
  "free_ssl_state sp refs =
   (case sp of None \<Rightarrow> refs | Some s \<Rightarrow> tcn_ssl_task_free (ssl_task s) refs)"

text \<open>What Java holds after \<^verbatim>\<open>newSSL\<close>: the OpenSSL object, its application state and its role.\<close>

record SSL_obj =
  ssl_addr :: int
  app_state :: "tcn_ssl_state option"
  accept_state :: bool

definition newSSL ::
  "tcn_ssl_ctxt option \<Rightarrow> int \<Rightarrow> int \<Rightarrow> bool \<Rightarrow> bool \<Rightarrow> jexc + SSL_obj" where
  "newSSL cp caddr SSL_new malloc_ok server =
   (case cp of None \<Rightarrow> Inl (NullPointerException ''ctx'')
    | Some c \<Rightarrow>
      if SSL_new = 0 then Inl (JException ''cannot create new ssl'')
      else (case new_ssl_state cp caddr malloc_ok of
              None \<Rightarrow> Inl (JException ''cannot create new ssl state struct'')
            | Some s \<Rightarrow> Inr \<lparr>ssl_addr = SSL_new, app_state = Some s, accept_state = server\<rparr>))"

text \<open>\<^verbatim>\<open>SSL.getTask\<close>: the task object handed to Java (\<open>0\<close>: none) and the state afterwards.\<close>

definition getTask :: "tcn_ssl_state option \<Rightarrow> int \<times> tcn_ssl_state option" where
  "getTask sp =
   (case sp of None \<Rightarrow> (0, None)
    | Some s \<Rightarrow>
      (case ssl_task s of None \<Rightarrow> (0, Some s)
       | Some t \<Rightarrow>
         if consumed t then (0, Some s)
         else (task t, Some (s\<lparr>ssl_task := Some (t\<lparr>consumed := True\<rparr>)\<rparr>))))"

definition freeSSL :: "SSL_obj option \<Rightarrow> int list \<Rightarrow> jexc + int list" where
  "freeSSL sp refs =
   (case sp of None \<Rightarrow> Inl (NullPointerException ''ssl'')
    | Some s \<Rightarrow> Inr (free_ssl_state (app_state s) refs))"

section \<open>Verdicts and Java tasks\<close>

datatype x509_result =
    X509_V_OK | X509_V_ERR_UNSPECIFIED | X509_V_ERR_UNABLE_TO_GET_ISSUER_CERT_LOCALLY
  | X509_V_ERR_CERT_REJECTED | X509_V_CODE int

type_synonym java_verifier = "byte list list \<Rightarrow> string \<Rightarrow> x509_result option"

record jtask =
  returnValue :: x509_result
  complete :: bool
  didRun :: bool
  jt_x509 :: "byte list list"
  jt_authAlgorithm :: string

text \<open>The Java field \<^verbatim>\<open>returnValue\<close> starts as the integer 0, which is \<^verbatim>\<open>X509_V_OK\<close>.\<close>

definition CertificateVerifierTask :: "byte list list \<Rightarrow> string \<Rightarrow> jtask" where
  "CertificateVerifierTask x509 auth =
     \<lparr>returnValue = X509_V_OK, complete = False, didRun = False,
      jt_x509 = x509, jt_authAlgorithm = auth\<rparr>"

text \<open>\<^verbatim>\<open>SSLTask.run\<close> with \<^verbatim>\<open>CertificateVerifierTask.runTask\<close>: a verifier that throws leaves the
  task incomplete.\<close>

definition run_verifier_task :: "java_verifier \<Rightarrow> jtask \<Rightarrow> jtask" where
  "run_verifier_task v t =
   (if didRun t then t
    else (case v (jt_x509 t) (jt_authAlgorithm t) of
            None \<Rightarrow> t\<lparr>didRun := True\<rparr>
          | Some r \<Rightarrow> t\<lparr>didRun := True, returnValue := r, complete := True\<rparr>))"

section \<open>The certificate chain for Java\<close>

text \<open>The loop: \<open>elem_ok i\<close> is the success of \<^verbatim>\<open>NewByteArray\<close> for the \<open>i\<close>-th certificate; a
  certificate without bytes stands for one that cannot be encoded.\<close>

fun get_certs_loop :: "(nat \<Rightarrow> bool) \<Rightarrow> nat \<Rightarrow> byte list list \<Rightarrow> byte list list option" where
  "get_certs_loop elem_ok i [] = Some []"
| "get_certs_loop elem_ok i (c # cs) =
     (if length c \<le> 0 \<or> \<not> elem_ok i then None
      else map_option ((#) c) (get_certs_loop elem_ok (Suc i) cs))"

definition get_certs ::
  "int \<Rightarrow> byte list list \<Rightarrow> bool \<Rightarrow> (nat \<Rightarrow> bool) \<Rightarrow> byte list list option" where
  "get_certs depth chain array_ok elem_ok =
   (let len = TCN_MIN depth (int (length chain)) in
    if len < 0 \<or> \<not> array_ok then None
    else get_certs_loop elem_ok 0 (take (nat len) chain))"

section \<open>The verification callbacks\<close>

record verify_env =
  java_env_ok :: bool
  peer_chain :: "byte list list option"
  array_ok :: bool
  elem_ok :: "nat \<Rightarrow> bool"
  auth_string_ok :: bool
  task_class_ok :: bool
  new_task_obj :: int
  task_malloc_ok :: bool
  new_task_ref :: int
  java_verify :: java_verifier
  env_ssl2 :: bool
  env_cipher :: "SSL_CIPHER option"

text \<open>The last step of both variants for an unspecified failure on a truncated chain.\<close>

definition issuer_if_truncated :: "x509_result \<Rightarrow> nat \<Rightarrow> nat \<Rightarrow> x509_result" where
  "issuer_if_truncated result len n =
   (if result = X509_V_ERR_UNSPECIFIED \<and> len < n
    then X509_V_ERR_UNABLE_TO_GET_ISSUER_CERT_LOCALLY else result)"

text \<open>
  \<open>has_unspecified\<close>: the library defines \<^verbatim>\<open>X509_V_ERR_UNSPECIFIED\<close>. The result is the return
  value and the error stored in the \<^verbatim>\<open>X509_STORE_CTX\<close>.
\<close>

definition SSL_cert_verify ::
  "build \<Rightarrow> bool \<Rightarrow> verify_env \<Rightarrow> int \<Rightarrow> int \<times> x509_result" where
  "SSL_cert_verify b has_unspecified env depth =
   (let failed = (if has_unspecified then X509_V_ERR_UNSPECIFIED else X509_V_ERR_CERT_REJECTED);
        result =
          (if \<not> java_env_ok env then failed
           else (case peer_chain env of None \<Rightarrow> failed
           | Some chain \<Rightarrow>
             (case get_certs depth chain (array_ok env) (elem_ok env) of None \<Rightarrow> failed
              | Some arr \<Rightarrow>
                if \<not> auth_string_ok env then failed
                else (case java_verify env arr (authentication_method b (env_ssl2 env) (env_cipher env)) of
                  None \<Rightarrow> failed
                | Some r \<Rightarrow>
                  if has_unspecified then issuer_if_truncated r (length arr) (length chain)
                  else if r = X509_V_CODE 99999
                  then (if length arr < length chain
                        then X509_V_ERR_UNABLE_TO_GET_ISSUER_CERT_LOCALLY
                        else X509_V_ERR_CERT_REJECTED)
                  else r))))
    in (if result = X509_V_OK then 1 else 0, result))"

datatype ssl_verify_result = ssl_verify_ok | ssl_verify_invalid | ssl_verify_retry

text \<open>Everything the callback can change: the state, the live references, the Java tasks, the alert.\<close>

record verify_world =
  vw_state :: "tcn_ssl_state option"
  vw_refs :: "int list"
  vw_tasks :: "int \<Rightarrow> jtask option"
  vw_alert :: "int option"

text \<open>The label \<^verbatim>\<open>complete\<close>: \<open>alert\<close> is \<^verbatim>\<open>SSL_alert_from_verify_result\<close>.\<close>

definition verify_finish ::
  "(x509_result \<Rightarrow> int) \<Rightarrow> x509_result \<Rightarrow> verify_world \<Rightarrow> ssl_verify_result \<times> verify_world" where
  "verify_finish alert result w =
   (if result = X509_V_OK then (ssl_verify_ok, w)
    else (ssl_verify_invalid, w\<lparr>vw_alert := Some (alert result)\<rparr>))"

definition tcn_SSL_cert_custom_verify ::
  "build \<Rightarrow> (x509_result \<Rightarrow> int) \<Rightarrow> verify_env \<Rightarrow> tcn_ssl_ctxt option \<Rightarrow> verify_world
   \<Rightarrow> (ssl_verify_result \<times> verify_world) cres" where
  "tcn_SSL_cert_custom_verify b alert env cp w =
   (case vw_state w of None \<Rightarrow> Inr (verify_finish alert X509_V_ERR_UNSPECIFIED w)
    | Some s \<Rightarrow>
    (case cp of None \<Rightarrow> Inr (verify_finish alert X509_V_ERR_UNSPECIFIED w)
    | Some c \<Rightarrow>
    if \<not> java_env_ok env then Inr (verify_finish alert X509_V_ERR_UNSPECIFIED w)
    else (case ssl_task s of
      Some t \<Rightarrow>
        (case vw_tasks w (task t) of None \<Rightarrow> Inl (UB Use_After_Free)
         | Some jt \<Rightarrow>
           if \<not> complete jt then Inr (ssl_verify_retry, w)
           else
             let w1 = w\<lparr>vw_refs := tcn_ssl_task_free (Some t) (vw_refs w),
                        vw_tasks := (vw_tasks w)(task t := None),
                        vw_state := Some (s\<lparr>ssl_task := None\<rparr>)\<rparr>;
                 result = (if returnValue jt = X509_V_ERR_UNSPECIFIED
                              \<and> task_array_len s < task_chain_num s
                           then X509_V_ERR_UNABLE_TO_GET_ISSUER_CERT_LOCALLY else returnValue jt)
             in Inr (verify_finish alert result w1))
    | None \<Rightarrow>
      (case peer_chain env of None \<Rightarrow> Inr (verify_finish alert X509_V_ERR_UNSPECIFIED w)
       | Some chain \<Rightarrow>
       (case get_certs (verify_depth (state_verify_config s)) chain (array_ok env) (elem_ok env) of
          None \<Rightarrow> Inr (verify_finish alert X509_V_ERR_UNSPECIFIED w)
        | Some arr \<Rightarrow>
          if \<not> auth_string_ok env then Inr (verify_finish alert X509_V_ERR_UNSPECIFIED w)
          else if verifier c = 0
          then Inr (verify_finish alert
                 (issuer_if_truncated X509_V_ERR_UNSPECIFIED (length arr) (length chain)) w)
          else
            let auth = authentication_method b (env_ssl2 env) (env_cipher env) in
            if use_tasks c then
              (if \<not> task_class_ok env then Inr (verify_finish alert X509_V_ERR_UNSPECIFIED w)
               else
                 let (t, refs') = tcn_ssl_task_new (new_task_obj env) (task_malloc_ok env)
                                    (new_task_ref env) (vw_refs w) in
                 (case t of None \<Rightarrow> Inr (verify_finish alert X509_V_ERR_UNSPECIFIED w)
                  | Some tk \<Rightarrow>
                    Inr (ssl_verify_retry,
                         w\<lparr>vw_refs := refs',
                           vw_tasks := (vw_tasks w)(task tk \<mapsto> CertificateVerifierTask arr auth),
                           vw_state := Some (s\<lparr>ssl_task := Some tk,
                                              task_array_len := int (length arr),
                                              task_chain_num := int (length chain)\<rparr>)\<rparr>)))
            else
              (case java_verify env arr auth of
                 None \<Rightarrow> Inr (verify_finish alert X509_V_ERR_UNSPECIFIED w)
               | Some r \<Rightarrow>
                 Inr (verify_finish alert (issuer_if_truncated r (length arr) (length chain)) w)))))))"

section \<open>Installing the callbacks\<close>

datatype verify_reg =
    SSL_CTX_set_custom_verify int bool
  | SSL_CTX_set_verify int
  | SSL_CTX_set_verify_depth int
  | SSL_CTX_set_cert_verify_callback bool
  | SSL_set_custom_verify int bool
  | SSL_set_verify int
  | SSL_set_verify_depth int

definition SSLContext_setVerify ::
  "build \<Rightarrow> tcn_ssl_ctxt option \<Rightarrow> int \<Rightarrow> int \<Rightarrow> tcn_ssl_ctxt option \<times> verify_reg list \<times> jexc option" where
  "SSLContext_setVerify b cp level depth =
   (case cp of None \<Rightarrow> (None, [], Some (NullPointerException ''ctx''))
    | Some c \<Rightarrow>
      let (vc, m) = tcn_set_verify_config (verify_config c) level depth;
          c' = c\<lparr>verify_config := vc\<rparr> in
      if boring b
      then (Some c', if verifier c \<noteq> 0 then [SSL_CTX_set_custom_verify m True] else [], None)
      else (Some c', [SSL_CTX_set_verify m, SSL_CTX_set_verify_depth (verify_depth vc)], None))"

text \<open>\<open>None\<close> is a null connection, \<open>Some None\<close> a connection without application state.\<close>

definition SSL_setVerify ::
  "build \<Rightarrow> tcn_ssl_state option option \<Rightarrow> int \<Rightarrow> int \<Rightarrow> (tcn_ssl_state \<times> verify_reg list) cres" where
  "SSL_setVerify b sslp level depth =
   (case sslp of None \<Rightarrow> Inl (Exn (NullPointerException ''ssl''))
    | Some sp \<Rightarrow>
      cbind (deref sp) (\<lambda>s.
        let (vc, m) = tcn_set_verify_config (state_verify_config s) level depth;
            s' = s\<lparr>state_verify_config := vc\<rparr> in
        if boring b then Inr (s', [SSL_set_custom_verify m True])
        else Inr (s', [SSL_set_verify m, SSL_set_verify_depth (verify_depth vc)])))"

text \<open>\<open>method\<close> is what \<^verbatim>\<open>GetMethodID\<close> finds, \<open>newref\<close> what \<^verbatim>\<open>NewGlobalRef\<close> returns.\<close>

definition setCertVerifyCallback ::
  "build \<Rightarrow> tcn_ssl_ctxt option \<Rightarrow> int \<Rightarrow> int \<Rightarrow> int \<Rightarrow> int list
   \<Rightarrow> tcn_ssl_ctxt option \<times> verify_reg list \<times> int list \<times> jexc option" where
  "setCertVerifyCallback b cp v method newref refs =
   (case cp of None \<Rightarrow> (None, [], refs, Some (NullPointerException ''ctx''))
    | Some c \<Rightarrow>
      let drop_old = (\<lambda>rs. if verifier c \<noteq> 0 then remove1 (verifier c) rs else rs) in
      if v = 0 then
        (Some (c\<lparr>verifier := 0, verifier_method := 0\<rparr>),
         [if boring b then SSL_CTX_set_custom_verify SSL_VERIFY_NONE False
          else SSL_CTX_set_cert_verify_callback False], drop_old refs, None)
      else if method = 0 then
        (Some c, [], refs, Some (IllegalArgumentException ''Unable to retrieve verify method''))
      else if newref = 0 then
        (Some c, [], refs, Some (OutOfMemoryError ''Unable to allocate memory for global reference''))
      else
        let c1 = c\<lparr>verifier := newref, verifier_method := method\<rparr>;
            (vc, m) = tcn_set_verify_config (verify_config c1) (verify_mode (verify_config c1))
                        (verify_depth (verify_config c1)) in
        if boring b
        then (Some (c1\<lparr>verify_config := vc\<rparr>), [SSL_CTX_set_custom_verify m True],
              drop_old (newref # refs), None)
        else (Some c1, [SSL_CTX_set_cert_verify_callback True], drop_old (newref # refs), None))"

section \<open>Lemmas\<close>

lemma get_certs_loop_Some: "get_certs_loop ok i cs = Some arr \<Longrightarrow> arr = cs"
  by (induction ok i cs arbitrary: arr rule: get_certs_loop.induct) (auto split: if_splits)

lemma get_certs_prefix:
  "get_certs depth chain aok eok = Some arr \<Longrightarrow> arr = take (nat (min depth (int (length chain)))) chain"
  by (auto simp: get_certs_def Let_def TCN_MIN_min dest: get_certs_loop_Some split: if_splits)

lemma verify_finish_ok:
  "verify_finish alert r w = (ssl_verify_ok, w') \<longleftrightarrow> r = X509_V_OK \<and> w' = w"
  by (auto simp: verify_finish_def)

lemma verify_finish_not_retry [simp]: "verify_finish alert r w \<noteq> (ssl_verify_retry, w')"
  by (simp add: verify_finish_def)

lemma issuer_if_truncated_ok [simp]: "issuer_if_truncated r l n = X509_V_OK \<longleftrightarrow> r = X509_V_OK"
  by (auto simp: issuer_if_truncated_def)

section \<open>Properties\<close>

text \<open>
  C10. Verification fails closed: the BoringSSL callback accepts the peer only if the Java verifier
  returned \<^verbatim>\<open>X509_V_OK\<close>, either just now for a prefix of the peer's chain or earlier in a
  completed task of this connection. Every other path, including a missing state, failed
  allocations, exceptions and a missing verifier, rejects or suspends.
\<close>

theorem custom_verify_fails_closed:
  assumes "tcn_SSL_cert_custom_verify b alert env cp w = Inr (ssl_verify_ok, w')"
  shows "\<exists>s. vw_state w = Some s \<and>
    (case ssl_task s of
       Some t \<Rightarrow> \<exists>jt. vw_tasks w (task t) = Some jt \<and> complete jt \<and> returnValue jt = X509_V_OK
     | None \<Rightarrow> \<exists>chain n auth. peer_chain env = Some chain
                 \<and> java_verify env (take n chain) auth = Some X509_V_OK)"
proof -
  obtain s c where s: "vw_state w = Some s" and c: "cp = Some c" and e: "java_env_ok env"
    using assms by (auto simp: tcn_SSL_cert_custom_verify_def verify_finish_ok
        split: option.splits if_splits)
  show ?thesis
  proof (cases "ssl_task s")
    case (Some t)
    then show ?thesis
      using assms s c e by (auto simp: tcn_SSL_cert_custom_verify_def verify_finish_ok Let_def
          split: option.splits if_splits)
  next
    case None
    then obtain chain arr where ch: "peer_chain env = Some chain"
        "get_certs (verify_depth (state_verify_config s)) chain (array_ok env) (elem_ok env) = Some arr"
      using assms s c e by (auto simp: tcn_SSL_cert_custom_verify_def verify_finish_ok
          split: option.splits if_splits)
    have "java_verify env arr (authentication_method b (env_ssl2 env) (env_cipher env)) = Some X509_V_OK"
      using assms s c e None ch
      by (auto simp: tcn_SSL_cert_custom_verify_def verify_finish_ok Let_def
          split: option.splits if_splits prod.splits)
    then show ?thesis using s None ch(1) get_certs_prefix [OF ch(2)] by auto
  qed
qed


definition demo_state :: tcn_ssl_state where
  "demo_state = \<lparr>handshakeCount = 0, state_ctx = 9, ssl_task = None,
     state_verify_config = \<lparr>verify_depth = 1, verify_mode = SSL_CVERIFY_REQUIRED\<rparr>,
     task_array_len = 0, task_chain_num = 0\<rparr>"

definition demo_world :: verify_world where
  "demo_world = \<lparr>vw_state = Some demo_state, vw_refs = [3], vw_tasks = (\<lambda>_. None), vw_alert = None\<rparr>"

definition demo_env :: "java_verifier \<Rightarrow> verify_env" where
  "demo_env v = \<lparr>java_env_ok = True, peer_chain = Some [[1], [2]], array_ok = True,
     elem_ok = (\<lambda>_. True), auth_string_ok = True, task_class_ok = True, new_task_obj = 11,
     task_malloc_ok = True, new_task_ref = 12, java_verify = v, env_ssl2 = False, env_cipher = None\<rparr>"

definition demo_ctxt :: "bool \<Rightarrow> tcn_ssl_ctxt" where
  "demo_ctxt tasks = ctxt_zero\<lparr>verifier := 3, use_tasks := tasks\<rparr>"

definition demo_build :: build where
  "demo_build = \<lparr>openssl_is_boringssl = True, openssl_is_awslc = False,
     libressl_version_number = None, openssl_version_number = 0x1010107f,
     openssl_no_tls1_3 = False, openssl_no_ocsp = False, openssl_no_engine = True, gnuc = True\<rparr>"

lemmas demo_defs = demo_state_def demo_world_def demo_env_def demo_ctxt_def demo_build_def

theorem custom_verify_fails_closed_witness:
  "tcn_SSL_cert_custom_verify demo_build (\<lambda>_. 40) (demo_env (\<lambda>_ _. Some X509_V_OK))
      (Some (demo_ctxt False)) demo_world = Inr (ssl_verify_ok, demo_world)
   \<and> (\<exists>s. vw_state demo_world = Some s)"
proof -
  have "tcn_SSL_cert_custom_verify demo_build (\<lambda>_. 40) (demo_env (\<lambda>_ _. Some X509_V_OK))
      (Some (demo_ctxt False)) demo_world = Inr (ssl_verify_ok, demo_world)"
    by (simp add: tcn_SSL_cert_custom_verify_def demo_defs get_certs_def TCN_MIN_def Let_def
        issuer_if_truncated_def verify_finish_def)
  with custom_verify_fails_closed [OF this] show ?thesis by blast
qed



text \<open>
  A verifier that throws is treated differently: the direct call rejects the peer, but a task
  whose verifier throws never completes, so every retry suspends the handshake again, however
  often the task is run.
\<close>

theorem throwing_task_never_completes:
  assumes st: "vw_state w = Some s" "ssl_task s = Some t" "vw_tasks w (task t) = Some jt"
    and fresh: "\<not> complete jt" and env: "java_env_ok env2" and throws: "\<And>x a. v x a = None"
  shows "tcn_SSL_cert_custom_verify b alert env2 (Some c)
      (w\<lparr>vw_tasks := (vw_tasks w)(task t \<mapsto> (run_verifier_task v ^^ n) jt)\<rparr>)
    = Inr (ssl_verify_retry, w\<lparr>vw_tasks := (vw_tasks w)(task t \<mapsto> (run_verifier_task v ^^ n) jt)\<rparr>)"
proof -
  have "\<not> complete ((run_verifier_task v ^^ n) jt)"
    by (induction n) (auto simp: fresh run_verifier_task_def throws)
  then show ?thesis using st env by (simp add: tcn_SSL_cert_custom_verify_def)
qed

theorem throwing_task_never_completes_witness:
  "\<exists>w1 jt. tcn_SSL_cert_custom_verify demo_build (\<lambda>_. 40) (demo_env (\<lambda>_ _. None))
        (Some (demo_ctxt True)) demo_world = Inr (ssl_verify_retry, w1)
     \<and> (\<exists>w2. tcn_SSL_cert_custom_verify demo_build (\<lambda>_. 40) (demo_env (\<lambda>_ _. None)) (Some (demo_ctxt True))
            (w1\<lparr>vw_tasks := (vw_tasks w1)(12 \<mapsto> (run_verifier_task (\<lambda>_ _. None) ^^ 1) jt)\<rparr>)
          = Inr (ssl_verify_retry, w2))
     \<and> tcn_SSL_cert_custom_verify demo_build (\<lambda>_. 40) (demo_env (\<lambda>_ _. None))
        (Some (demo_ctxt False)) demo_world
       = Inr (ssl_verify_invalid, demo_world\<lparr>vw_alert := Some 40\<rparr>)"
proof -
  let ?t = "\<lparr>consumed = False, task = 12\<rparr>"
  let ?jt = "CertificateVerifierTask [[1]] ''UNKNOWN''"
  let ?s = "demo_state\<lparr>ssl_task := Some ?t, task_array_len := 1, task_chain_num := 2\<rparr>"
  let ?w = "demo_world\<lparr>vw_refs := [12, 3], vw_tasks := (\<lambda>_. None)(12 \<mapsto> ?jt), vw_state := Some ?s\<rparr>"
  have f: "tcn_SSL_cert_custom_verify demo_build (\<lambda>_. 40) (demo_env (\<lambda>_ _. None))
      (Some (demo_ctxt True)) demo_world = Inr (ssl_verify_retry, ?w)"
    by (simp add: tcn_SSL_cert_custom_verify_def demo_defs get_certs_def TCN_MIN_def Let_def
        tcn_ssl_task_new_def authentication_method_def TCN_UNKNOWN_AUTH_METHOD_def)
  have d: "tcn_SSL_cert_custom_verify demo_build (\<lambda>_. 40) (demo_env (\<lambda>_ _. None))
      (Some (demo_ctxt False)) demo_world
     = Inr (ssl_verify_invalid, demo_world\<lparr>vw_alert := Some 40\<rparr>)"
    by (simp add: tcn_SSL_cert_custom_verify_def demo_defs get_certs_def TCN_MIN_def Let_def
        verify_finish_def)
  have e: "java_env_ok (demo_env (\<lambda>_ _. None))" by (simp add: demo_env_def)
  have "vw_state ?w = Some ?s" "ssl_task ?s = Some ?t" "vw_tasks ?w (task ?t) = Some ?jt" "\<not> complete ?jt"
    by (simp_all add: CertificateVerifierTask_def)
  from throwing_task_never_completes [OF this e, of "\<lambda>_ _. None" demo_build "\<lambda>_. 40" "demo_ctxt True" 1]
  show ?thesis using f d by (intro exI [of _ ?w] exI [of _ ?jt] conjI exI) auto
qed

text \<open>
  The verification settings: an ignored level keeps the mode, a negative depth keeps the depth,
  any level but the four known ones means \<^verbatim>\<open>SSL_CVERIFY_REQUIRED\<close>, and the OpenSSL flags are always
  those of the mode that is stored afterwards.
\<close>

theorem set_verify_config_result:
  assumes valid: "verify_mode c \<in> {SSL_CVERIFY_NONE, SSL_CVERIFY_OPTIONAL, SSL_CVERIFY_REQUIRED}"
    and set: "tcn_set_verify_config c level depth = (c', flags)"
  shows "verify_depth c' = (if depth \<ge> 0 then depth else verify_depth c)
    \<and> verify_mode c' = (if level = SSL_CVERIFY_IGNORED then verify_mode c
         else if level \<in> {SSL_CVERIFY_NONE, SSL_CVERIFY_OPTIONAL} then level else SSL_CVERIFY_REQUIRED)
    \<and> (flags = SSL_VERIFY_NONE \<longleftrightarrow> verify_mode c' = SSL_CVERIFY_NONE)
    \<and> (flags = SSL_VERIFY_PEER \<longleftrightarrow> verify_mode c' = SSL_CVERIFY_OPTIONAL)
    \<and> (flags = SSL_VERIFY_PEER + SSL_VERIFY_FAIL_IF_NO_PEER_CERT \<longleftrightarrow> verify_mode c' = SSL_CVERIFY_REQUIRED)"
  using assms
  by (auto simp: tcn_set_verify_config_def Let_def cverify_defs ssl_verify_defs split: if_splits)

theorem set_verify_config_result_witness:
  "tcn_set_verify_config \<lparr>verify_depth = 4, verify_mode = SSL_CVERIFY_OPTIONAL\<rparr> SSL_CVERIFY_IGNORED (-1)
     = (\<lparr>verify_depth = 4, verify_mode = SSL_CVERIFY_OPTIONAL\<rparr>, SSL_VERIFY_PEER)
   \<and> (SSL_VERIFY_PEER = SSL_VERIFY_NONE \<longleftrightarrow> SSL_CVERIFY_OPTIONAL = SSL_CVERIFY_NONE)"
proof -
  have s: "tcn_set_verify_config \<lparr>verify_depth = 4, verify_mode = SSL_CVERIFY_OPTIONAL\<rparr>
      SSL_CVERIFY_IGNORED (-1)
     = (\<lparr>verify_depth = 4, verify_mode = SSL_CVERIFY_OPTIONAL\<rparr>, SSL_VERIFY_PEER)"
    by (simp add: tcn_set_verify_config_def Let_def cverify_defs ssl_verify_defs)
  with set_verify_config_result [OF _ s] show ?thesis by simp
qed

section \<open>Life of a task\<close>

text \<open>What happens to a connection: its callback runs, Java fetches the task, Java runs a task.\<close>

datatype verify_op =
    Handshake verify_env
  | Fetch_Task
  | Run_Task java_verifier int

definition verify_step ::
  "build \<Rightarrow> (x509_result \<Rightarrow> int) \<Rightarrow> tcn_ssl_ctxt \<Rightarrow> verify_world \<Rightarrow> verify_op \<Rightarrow> verify_world cres" where
  "verify_step b alert c w op =
   (case op of
      Handshake env \<Rightarrow> cbind (tcn_SSL_cert_custom_verify b alert env (Some c) w) (\<lambda>(r, w'). Inr w')
    | Fetch_Task \<Rightarrow> Inr (w\<lparr>vw_state := snd (getTask (vw_state w))\<rparr>)
    | Run_Task v obj \<Rightarrow>
        Inr (w\<lparr>vw_tasks := (vw_tasks w)(obj := map_option (run_verifier_task v) (vw_tasks w obj))\<rparr>))"

definition slot_inv :: "int list \<Rightarrow> verify_world \<Rightarrow> bool" where
  "slot_inv base w \<longleftrightarrow>
   (case vw_state w of None \<Rightarrow> False
    | Some s \<Rightarrow>
      (case ssl_task s of
         None \<Rightarrow> vw_refs w = base
       | Some t \<Rightarrow> task t \<noteq> 0 \<and> vw_refs w = task t # base \<and> vw_tasks w (task t) \<noteq> None))"

definition release_slot :: "verify_world \<Rightarrow> int list" where
  "release_slot w = free_ssl_state (vw_state w) (vw_refs w)"

lemma slot_inv_alert [simp]: "slot_inv base (w\<lparr>vw_alert := a\<rparr>) = slot_inv base w"
  by (simp add: slot_inv_def cong: option.case_cong)

lemma slot_inv_finish: "slot_inv base w \<Longrightarrow> slot_inv base (snd (verify_finish alert r w))"
  by (simp add: verify_finish_def)

lemma custom_verify_keeps_slot:
  assumes inv: "slot_inv base w"
  shows "\<exists>r w'. tcn_SSL_cert_custom_verify b alert env (Some c) w = Inr (r, w') \<and> slot_inv base w'"
proof -
  obtain s where s: "vw_state w = Some s" using inv by (auto simp: slot_inv_def split: option.splits)
  have fin: "\<exists>r w'. Inr (verify_finish alert x w) = (Inr (r, w') :: _ cres) \<and> slot_inv base w'" for x
    using slot_inv_finish [OF inv, of alert x] by (cases "verify_finish alert x w") auto
  show ?thesis
  proof (cases "ssl_task s")
    case None
    show ?thesis
      using fin inv s None
      by (auto simp: tcn_SSL_cert_custom_verify_def Let_def tcn_ssl_task_new_def slot_inv_def
          split: option.split)
  next
    case (Some t)
    then obtain jt where jt: "vw_tasks w (task t) = Some jt" "task t \<noteq> 0" "vw_refs w = task t # base"
      using inv s by (auto simp: slot_inv_def)
    let ?w1 = "w\<lparr>vw_refs := base, vw_tasks := (vw_tasks w)(task t := None),
                vw_state := Some (s\<lparr>ssl_task := None\<rparr>)\<rparr>"
    have "slot_inv base ?w1" by (simp add: slot_inv_def)
    then have fin1: "\<exists>r w'. Inr (verify_finish alert x ?w1) = (Inr (r, w') :: _ cres) \<and> slot_inv base w'" for x
      using slot_inv_finish [of base ?w1 alert x] by (cases "verify_finish alert x ?w1") auto
    show ?thesis
      using fin fin1 inv s Some jt
      by (simp add: tcn_SSL_cert_custom_verify_def Let_def tcn_ssl_task_free_def)
  qed
qed

interpretation verify_slot: resource_client slot_inv "verify_step b alert c" release_slot
  for b alert c
proof
  fix base w op assume inv: "slot_inv base w"
  show "\<exists>w'. verify_step b alert c w op = Inr w' \<and> slot_inv base w'"
  proof (cases op)
    case (Handshake env)
    then show ?thesis using custom_verify_keeps_slot [OF inv, of b alert env c]
      by (auto simp: verify_step_def)
  next
    case Fetch_Task
    then show ?thesis using inv
      by (auto simp: verify_step_def slot_inv_def getTask_def split: option.splits)
  next
    case (Run_Task v obj)
    then show ?thesis using inv by (auto simp: verify_step_def slot_inv_def split: option.splits)
  qed
next
  fix base w assume "slot_inv base w"
  then show "release_slot w = base"
    by (auto simp: slot_inv_def release_slot_def free_ssl_state_def tcn_ssl_task_free_def
        split: option.splits)
qed

text \<open>
  Whatever the order in which a connection is retried, its task is fetched and tasks are run,
  the callback never touches a deleted task object, and freeing the connection leaves exactly the
  global references that were live when it was created.
\<close>

theorem verify_task_lifecycle:
  assumes new: "newSSL (Some c) caddr ssl malloc_ok server = Inr conn"
    and w: "vw_state w = app_state conn" "vw_refs w = base"
  shows "\<exists>w'. run_steps (verify_step b alert c) w ops = Inr w'
    \<and> freeSSL (Some (conn\<lparr>app_state := vw_state w'\<rparr>)) (vw_refs w') = Inr base"
proof -
  have "slot_inv base w"
    using new w by (auto simp: newSSL_def new_ssl_state_def slot_inv_def split: if_splits)
  from verify_slot.run_releases [OF this] show ?thesis
    by (simp add: freeSSL_def release_slot_def)
qed

theorem verify_task_lifecycle_witness:
  "\<exists>conn w'. newSSL (Some (demo_ctxt True)) 9 5 True False = Inr conn
     \<and> run_steps (verify_step demo_build (\<lambda>_. 40) (demo_ctxt True))
          (demo_world\<lparr>vw_state := app_state conn\<rparr>)
          [Handshake (demo_env (\<lambda>_ _. None)), Fetch_Task, Run_Task (\<lambda>_ _. Some X509_V_OK) 12] = Inr w'
     \<and> freeSSL (Some (conn\<lparr>app_state := vw_state w'\<rparr>)) (vw_refs w') = Inr [3]"
proof -
  obtain conn where n: "newSSL (Some (demo_ctxt True)) 9 5 True False = Inr conn"
    by (simp add: newSSL_def new_ssl_state_def)
  have "vw_state (demo_world\<lparr>vw_state := app_state conn\<rparr>) = app_state conn"
      "vw_refs (demo_world\<lparr>vw_state := app_state conn\<rparr>) = [3]"
    by (simp_all add: demo_world_def)
  from verify_task_lifecycle [OF n this] n show ?thesis by blast
qed

end
