(* ===== verification/Context.thy ===== *)
theory Context
  imports Verify Alpn_Select Dh_Params "HOL-Library.Multiset"
begin

text \<open>
  The \<^verbatim>\<open>SSLContext\<close> part of \<^verbatim>\<open>sslcontext.c\<close>: creating a context (\<^verbatim>\<open>make\<close>), the setters that keep a
  JNI global reference to a Java callback, and the cleanup that runs when the context's pool is
  destroyed.

  Calls that configure the \<^verbatim>\<open>SSL_CTX\<close> are collected in order as values of \<open>ctx_call\<close>; \<open>refs\<close> is the
  list of live global references. The lemmas show that a context owns exactly the references in
  its fields, whatever the order of the setters and their failures, and that cleanup gives them
  all back.
\<close>

unbundle bit_operations_syntax

section \<open>Choosing the TLS method\<close>

datatype role = Role_Client | Role_Server | Role_Any

datatype ssl_method =
    TLS_with_buffers_method | TLS_method role | SSLv23_method role | TLSv1_2_method role
  | TLSv1_1_method role | TLSv1_method role | SSLv3_method role | SSLv2_method role

text \<open>Protocols the TLS library leaves out (\<^verbatim>\<open>OPENSSL_NO_TLS1\<close> and so on).\<close>

record proto_build =
  no_tls1 :: bool
  no_ssl3 :: bool
  no_ssl2 :: bool
  have_ecc :: bool
  has_op_no_tlsv1_1 :: bool
  has_op_no_tlsv1_2 :: bool

definition SSL_PROTOCOL_TLS :: int where
  "SSL_PROTOCOL_TLS =
     SSL_PROTOCOL_SSLV3 OR SSL_PROTOCOL_TLSV1 OR SSL_PROTOCOL_TLSV1_1 OR SSL_PROTOCOL_TLSV1_2"

definition SSL_PROTOCOL_ALL :: int where
  "SSL_PROTOCOL_ALL = SSL_PROTOCOL_SSLV2 OR SSL_PROTOCOL_TLS"

definition role_of :: "int \<Rightarrow> role" where
  "role_of m = (if m = SSL_MODE_CLIENT then Role_Client
                else if m = SSL_MODE_SERVER then Role_Server else Role_Any)"

text \<open>\<open>Inl ()\<close>: unsupported protocol; \<open>Inr None\<close>: the method is compiled out and no context is made.\<close>

definition choose_method ::
  "build \<Rightarrow> proto_build \<Rightarrow> int \<Rightarrow> int \<Rightarrow> unit + ssl_method option" where
  "choose_method b pb prot m =
   (let r = role_of m in
    if boring b then Inr (Some TLS_with_buffers_method)
    else if openssl_version_number b \<ge> 0x10100000 \<and> libressl_version_number b = None
    then Inr (Some (TLS_method r))
    else if prot = SSL_PROTOCOL_TLS \<or> prot = SSL_PROTOCOL_ALL then Inr (Some (SSLv23_method r))
    else if prot = SSL_PROTOCOL_TLSV1_2 then Inr (if no_tls1 pb then None else Some (TLSv1_2_method r))
    else if prot = SSL_PROTOCOL_TLSV1_1 then Inr (if no_tls1 pb then None else Some (TLSv1_1_method r))
    else if prot = SSL_PROTOCOL_TLSV1 then Inr (if no_tls1 pb then None else Some (TLSv1_method r))
    else if prot = SSL_PROTOCOL_SSLV3 then Inr (if no_ssl3 pb then None else Some (SSLv3_method r))
    else if prot = SSL_PROTOCOL_SSLV2 then Inr (if no_ssl2 pb then None else Some (SSLv2_method r))
    else if \<not> no_tls1 pb \<and> prot AND SSL_PROTOCOL_TLSV1_2 \<noteq> 0 then Inr (Some (TLSv1_2_method r))
    else if \<not> no_tls1 pb \<and> prot AND SSL_PROTOCOL_TLSV1_1 \<noteq> 0 then Inr (Some (TLSv1_1_method r))
    else if \<not> no_tls1 pb \<and> prot AND SSL_PROTOCOL_TLSV1 \<noteq> 0 then Inr (Some (TLSv1_method r))
    else if \<not> no_ssl3 pb \<and> prot AND SSL_PROTOCOL_SSLV3 \<noteq> 0 then Inr (Some (SSLv3_method r))
    else if \<not> no_ssl2 pb \<and> prot AND SSL_PROTOCOL_SSLV2 \<noteq> 0 then Inr (Some (SSLv2_method r))
    else Inl ())"

section \<open>Configuration calls\<close>

datatype ssl_op =
    SSL_OP_NO_SSLv2 | SSL_OP_NO_SSLv3 | SSL_OP_NO_TLSv1 | SSL_OP_NO_TLSv1_1 | SSL_OP_NO_TLSv1_2
  | SSL_OP_SINGLE_DH_USE | SSL_OP_SINGLE_ECDH_USE | SSL_OP_NO_COMPRESSION
  | SSL_OP_NO_SESSION_RESUMPTION_ON_RENEGOTIATION
  | SSL_OP_ALLOW_UNSAFE_LEGACY_RENEGOTIATION | SSL_OP_LEGACY_SERVER_CONNECT

datatype ctx_call =
    CTX_new ssl_method
  | CTX_set_min_proto_TLS1
  | CTX_set_max_proto_TLS1_3
  | CTX_set_options ssl_op
  | CTX_clear_options "ssl_op list"
  | CTX_set_mode_release_buffers_auto_retry
  | CTX_sess_set_cache_size int
  | CTX_session_cache_off
  | CTX_set_timeout int
  | CTX_set_tmp_ecdh_prime256v1
  | CTX_set_tmp_dh_callback
  | CTX_set_dh_auto
  | CTX_set_default_passwd_cb
  | CTX_set_default_passwd_cb_userdata "byte list option"
  | CTX_set_info_callback
  | CTX_set_allow_unknown_alpn_protos
  | CTX_set_client_cert_cb bool
  | CTX_set_cert_cb bool
  | CTX_set_private_key_method bool
  | CTX_sess_set_new_cb bool
  | CTX_sess_set_remove_cb_null
  | CTX_sess_set_get_cb bool
  | CTX_set_servername_callback bool
  | CTX_set_servername_arg bool
  | CTX_set_keylog_callback bool
  | CTX_add_cert_compression_alg int bool bool
  | CTX_verify verify_reg

section \<open>Creating a context\<close>

text \<open>Outcomes of the foreign calls of \<^verbatim>\<open>make\<close>: addresses are \<open>0\<close> on failure.\<close>

record make_env =
  env_ctx :: int
  env_pool :: int
  pcalloc_ok :: bool
  env_lock :: int
  env_digest :: "byte list"

datatype make_res = Res_SSL_CTX | Res_Pool | Res_Lock

definition proto_options :: "proto_build \<Rightarrow> int \<Rightarrow> ctx_call list" where
  "proto_options pb prot =
     (if prot AND SSL_PROTOCOL_SSLV2 = 0 then [CTX_set_options SSL_OP_NO_SSLv2] else []) @
     (if prot AND SSL_PROTOCOL_SSLV3 = 0 then [CTX_set_options SSL_OP_NO_SSLv3] else []) @
     (if prot AND SSL_PROTOCOL_TLSV1 = 0 then [CTX_set_options SSL_OP_NO_TLSv1] else []) @
     (if has_op_no_tlsv1_1 pb \<and> prot AND SSL_PROTOCOL_TLSV1_1 = 0
      then [CTX_set_options SSL_OP_NO_TLSv1_1] else []) @
     (if has_op_no_tlsv1_2 pb \<and> prot AND SSL_PROTOCOL_TLSV1_2 = 0
      then [CTX_set_options SSL_OP_NO_TLSv1_2] else [])"

definition make_configuration :: "build \<Rightarrow> proto_build \<Rightarrow> tcn_ssl_ctxt \<Rightarrow> ctx_call list" where
  "make_configuration b pb c =
     proto_options pb (protocol c) @
     [CTX_set_options SSL_OP_SINGLE_DH_USE] @
     (if have_ecc pb then [CTX_set_options SSL_OP_SINGLE_ECDH_USE] else []) @
     [CTX_set_options SSL_OP_NO_COMPRESSION,
      CTX_set_options SSL_OP_NO_SESSION_RESUMPTION_ON_RENEGOTIATION,
      CTX_clear_options [SSL_OP_ALLOW_UNSAFE_LEGACY_RENEGOTIATION, SSL_OP_LEGACY_SERVER_CONNECT],
      CTX_set_mode_release_buffers_auto_retry,
      CTX_sess_set_cache_size 256, CTX_session_cache_off, CTX_set_timeout 14400] @
     (if mode c \<noteq> 0 then
        (if have_ecc pb \<and> (openssl_version_number b < 0x10100000 \<or> libressl_version_number b \<noteq> None)
         then [CTX_set_tmp_ecdh_prime256v1] else []) @
        (if openssl_version_number b < 0x30000000 then [CTX_set_tmp_dh_callback] else [CTX_set_dh_auto])
      else []) @
     [CTX_set_default_passwd_cb, CTX_set_default_passwd_cb_userdata (password c), CTX_set_info_callback] @
     (if boring b \<and> mode c \<noteq> SSL_MODE_SERVER then [CTX_set_allow_unknown_alpn_protos] else [])"

definition make_start :: "build \<Rightarrow> ssl_method option \<Rightarrow> ctx_call list" where
  "make_start b meth =
     (case meth of None \<Rightarrow> [] | Some x \<Rightarrow> [CTX_new x]) @
     (if boring b then [CTX_set_min_proto_TLS1, CTX_set_max_proto_TLS1_3] else [])"

text \<open>
  The result: the context or the exception, the configuration calls, and the resources that were
  acquired and released on the way.
\<close>

definition finish_make ::
  "build \<Rightarrow> proto_build \<Rightarrow> make_env \<Rightarrow> int \<Rightarrow> int \<Rightarrow> ssl_method option
   \<Rightarrow> (jexc + tcn_ssl_ctxt) \<times> ctx_call list \<times> make_res list \<times> make_res list" where
  "finish_make b pb env prot m meth =
   (let addr = (case meth of None \<Rightarrow> 0 | Some _ \<Rightarrow> env_ctx env);
        calls0 = make_start b meth
    in
    if addr = 0 then (Inl (JException ''Failed to initialize SSL_CTX (%s)''), calls0, [], [])
    else if env_pool env = 0
    then (Inl (JException ''apr_pool_create''), calls0, [Res_SSL_CTX], [Res_SSL_CTX])
    else if \<not> pcalloc_ok env
    then (Inl (JException ''Unable to allocate memory for tcn_ssl_ctxt_t via apr_pcalloc(...) (%s)''),
          calls0, [Res_SSL_CTX, Res_Pool], [Res_Pool, Res_SSL_CTX])
    else
      let c0 = ctxt_zero\<lparr>protocol := prot, mode := m, ctx := addr, pool := env_pool env\<rparr>;
          c = c0\<lparr>context_id := env_digest env,
                 verify_config := \<lparr>verify_depth = 100, verify_mode = SSL_CVERIFY_NONE\<rparr>\<rparr>;
          calls = calls0 @ make_configuration b pb c0
      in
      if env_lock env = 0
      then (Inl (JException ''Unable to create lock via to apr_thread_rwlock_create(...) (%s)''),
            calls, [Res_SSL_CTX, Res_Pool], [Res_Pool, Res_SSL_CTX])
      else (Inr (c\<lparr>mutex := env_lock env\<rparr>), calls, [Res_SSL_CTX, Res_Pool, Res_Lock], []))"

definition SSLContext_make ::
  "build \<Rightarrow> proto_build \<Rightarrow> make_env \<Rightarrow> int \<Rightarrow> int
   \<Rightarrow> (jexc + tcn_ssl_ctxt) \<times> ctx_call list \<times> make_res list \<times> make_res list" where
  "SSLContext_make b pb env prot m =
   (case choose_method b pb prot m of
      Inl _ \<Rightarrow> (Inl (JException ''Unsupported SSL protocol (%d)''), [], [], [])
    | Inr meth \<Rightarrow> finish_make b pb env prot m meth)"

section \<open>Cleanup\<close>

datatype cleanup_event =
    Ev_SSL_CTX_free int | Ev_free_next_protos | Ev_free_alpn_protos | Ev_rwlock_destroy int
  | Ev_free_ticket_keys int | Ev_free_password

definition delete_ref :: "bool \<Rightarrow> int \<Rightarrow> int list \<Rightarrow> int list" where
  "delete_ref env_ok r refs = (if r \<noteq> 0 \<and> env_ok then remove1 r refs else refs)"

definition ssl_context_cleanup ::
  "build \<Rightarrow> bool \<Rightarrow> tcn_ssl_ctxt option \<Rightarrow> int list \<Rightarrow> tcn_ssl_ctxt option \<times> int list \<times> cleanup_event list" where
  "ssl_context_cleanup b env_ok cp refs =
   (case cp of None \<Rightarrow> (None, refs, [])
    | Some c \<Rightarrow>
      let boring_refs =
            (if boring b then [ssl_private_key_method c, ssl_cert_compression_zlib_algorithm c,
               ssl_cert_compression_brotli_algorithm c, ssl_cert_compression_zstd_algorithm c,
               keylog_callback c] else []);
          refs' = fold (delete_ref env_ok)
                    (boring_refs @ [ssl_session_cache c, verifier c, cert_requested_callback c,
                                    certificate_callback c, sni_hostname_matcher c]) refs;
          c1 = (if boring b
                then c\<lparr>ssl_private_key_method := 0, ssl_cert_compression_zlib_algorithm := 0,
                       ssl_cert_compression_brotli_algorithm := 0,
                       ssl_cert_compression_zstd_algorithm := 0,
                       keylog_callback := 0, keylog_callback_method := 0\<rparr>
                else c);
          c2 = c1\<lparr>ctx := 0, ssl_session_cache := 0, ssl_session_cache_creation_method := 0,
                 ssl_session_cache_get_method := 0, verifier := 0, verifier_method := 0,
                 cert_requested_callback := 0, cert_requested_callback_method := 0,
                 certificate_callback := 0, certificate_callback_method := 0,
                 sni_hostname_matcher := 0, sni_hostname_matcher_method := 0,
                 next_proto_data := None, next_proto_len := 0,
                 alpn_proto_data := None, alpn_proto_len := 0,
                 ticket_keys := 0, ticket_keys_len := 0, password := None\<rparr>
      in (Some c2, refs',
          [Ev_SSL_CTX_free (ctx c)] @
          (if next_proto_data c \<noteq> None then [Ev_free_next_protos] else []) @
          (if alpn_proto_data c \<noteq> None then [Ev_free_alpn_protos] else []) @
          (if mutex c \<noteq> 0 then [Ev_rwlock_destroy (mutex c)] else []) @
          (if ticket_keys c \<noteq> 0 then [Ev_free_ticket_keys (ticket_keys c)] else []) @
          (if password c \<noteq> None then [Ev_free_password] else [])))"

text \<open>\<^verbatim>\<open>SSLContext.free\<close> runs the registered cleanup once and destroys the pool.\<close>

definition SSLContext_free ::
  "build \<Rightarrow> bool \<Rightarrow> tcn_ssl_ctxt option \<Rightarrow> int list
   \<Rightarrow> jexc + (int list \<times> cleanup_event list \<times> int)" where
  "SSLContext_free b env_ok cp refs =
   (case cp of None \<Rightarrow> Inl (NullPointerException ''ctx'')
    | Some c \<Rightarrow>
      (let (c', refs', evs) = ssl_context_cleanup b env_ok (Some c) refs in
       Inr (refs', evs, pool c)))"

section \<open>Setters that keep a Java callback\<close>

text \<open>
  What the JVM answers: the class of the callback (for the setters that look at it), up to two
  method identifiers, and the new global reference; \<open>0\<close> stands for \<^verbatim>\<open>NULL\<close>.
\<close>

record ref_env =
  obj_class :: int
  method1 :: int
  method2 :: int
  newref :: int

type_synonym setter_result = "tcn_ssl_ctxt option \<times> ctx_call list \<times> int list \<times> jexc option"

definition no_memory :: jexc where
  "no_memory = OutOfMemoryError ''Unable to allocate memory for global reference''"

definition setCertRequestedCallback ::
  "build \<Rightarrow> ref_env \<Rightarrow> tcn_ssl_ctxt option \<Rightarrow> int \<Rightarrow> int list \<Rightarrow> setter_result" where
  "setCertRequestedCallback b env cp callback refs =
   (case cp of None \<Rightarrow> (None, [], refs, Some (NullPointerException ''ctx''))
    | Some c \<Rightarrow>
      if openssl_is_boringssl b
      then (cp, [], refs, Some (JException ''Not supported using BoringSSL''))
      else if openssl_is_awslc b
      then (cp, [], refs, Some (JException ''Not supported using AWS-LC''))
      else if callback = 0 then
        (Some (c\<lparr>cert_requested_callback := 0, cert_requested_callback_method := 0\<rparr>),
         [CTX_set_client_cert_cb False], delete_ref True (cert_requested_callback c) refs, None)
      else if method1 env = 0
      then (cp, [], refs, Some (IllegalArgumentException ''Unable to retrieve requested method''))
      else if newref env = 0 then (cp, [], refs, Some no_memory)
      else
        (Some (c\<lparr>cert_requested_callback := newref env,
                 cert_requested_callback_method := method1 env\<rparr>),
         [CTX_set_client_cert_cb True],
         delete_ref True (cert_requested_callback c) (newref env # refs), None))"

text \<open>\<open>linked\<close>: the weak symbol \<^verbatim>\<open>SSL_CTX_set_cert_cb\<close> is present.\<close>

definition setCertificateCallback ::
  "build \<Rightarrow> bool \<Rightarrow> ref_env \<Rightarrow> tcn_ssl_ctxt option \<Rightarrow> int \<Rightarrow> int list \<Rightarrow> setter_result" where
  "setCertificateCallback b linked env cp callback refs =
   (case cp of None \<Rightarrow> (None, [], refs, Some (NullPointerException ''ctx''))
    | Some c \<Rightarrow>
      if libressl_version_number b \<noteq> None
      then (cp, [], refs, Some (JException ''Not supported with LibreSSL''))
      else if \<not> boring b \<and> gnuc b \<and> \<not> linked
      then (cp, [], refs, Some (JException ''Requires OpenSSL 1.0.2+''))
      else if \<not> (openssl_version_number b \<ge> 0x10002000 \<or> gnuc b) then (cp, [], refs, None)
      else if callback = 0 then
        (Some (c\<lparr>certificate_callback := 0, certificate_callback_method := 0\<rparr>),
         [CTX_set_cert_cb False], delete_ref True (certificate_callback c) refs, None)
      else if obj_class env = 0
      then (cp, [], refs, Some (JException ''Unable to retrieve callback class''))
      else if method1 env = 0
      then (cp, [], refs, Some (IllegalArgumentException ''Unable to retrieve handle method''))
      else if newref env = 0 then (cp, [], refs, Some no_memory)
      else
        (Some (c\<lparr>certificate_callback := newref env, certificate_callback_method := method1 env\<rparr>),
         [CTX_set_cert_cb True], delete_ref True (certificate_callback c) (newref env # refs), None))"

text \<open>\<open>names_ok\<close>: the four \<^verbatim>\<open>NETTY_JNI_UTIL_PREPEND\<close> calls succeed; the first failure jumps to the end
  without an exception.\<close>

definition setPrivateKeyMethod0 ::
  "build \<Rightarrow> bool \<times> bool \<Rightarrow> ref_env \<Rightarrow> tcn_ssl_ctxt option \<Rightarrow> int \<Rightarrow> int list \<Rightarrow> setter_result" where
  "setPrivateKeyMethod0 b names_ok env cp meth refs =
   (case cp of None \<Rightarrow> (None, [], refs, Some (NullPointerException ''ctx''))
    | Some c \<Rightarrow>
      if \<not> boring b then (cp, [], refs, Some (JException ''Requires BoringSSL''))
      else if meth = 0 then
        (Some (c\<lparr>ssl_private_key_method := 0, ssl_private_key_sign_method := 0,
                 ssl_private_key_decrypt_method := 0\<rparr>),
         [CTX_set_private_key_method False], delete_ref True (ssl_private_key_method c) refs, None)
      else if obj_class env = 0
      then (cp, [], refs, Some (JException ''Unable to retrieve method class''))
      else if \<not> fst names_ok then (cp, [], refs, None)
      else if method1 env = 0
      then (cp, [], refs, Some (IllegalArgumentException ''Unable to retrieve sign method''))
      else if \<not> snd names_ok then (cp, [], refs, None)
      else if method2 env = 0
      then (cp, [], refs, Some (IllegalArgumentException ''Unable to retrieve decrypt method''))
      else if newref env = 0 then (cp, [], refs, Some no_memory)
      else
        (Some (c\<lparr>ssl_private_key_method := newref env, ssl_private_key_sign_method := method1 env,
                 ssl_private_key_decrypt_method := method2 env\<rparr>),
         [CTX_set_private_key_method True],
         delete_ref True (ssl_private_key_method c) (newref env # refs), None))"

definition setSSLSessionCache ::
  "ref_env \<Rightarrow> tcn_ssl_ctxt option \<Rightarrow> int \<Rightarrow> int list \<Rightarrow> setter_result" where
  "setSSLSessionCache env cp cache refs =
   (case cp of None \<Rightarrow> (None, [], refs, Some (NullPointerException ''ctx''))
    | Some c \<Rightarrow>
      if cache = 0 then
        (Some (c\<lparr>ssl_session_cache := 0, ssl_session_cache_creation_method := 0,
                 ssl_session_cache_get_method := 0\<rparr>),
         [CTX_sess_set_new_cb False, CTX_sess_set_remove_cb_null, CTX_sess_set_get_cb False],
         delete_ref True (ssl_session_cache c) refs, None)
      else if obj_class env = 0
      then (cp, [], refs, Some (JException ''Unable to retrieve cache class''))
      else if method1 env = 0
      then (cp, [], refs, Some (IllegalArgumentException ''Unable to retrieve sessionCreated method''))
      else if method2 env = 0
      then (cp, [], refs, Some (IllegalArgumentException ''Unable to retrieve getSession method''))
      else if newref env = 0 then (cp, [], refs, Some no_memory)
      else
        (Some (c\<lparr>ssl_session_cache := newref env, ssl_session_cache_creation_method := method1 env,
                 ssl_session_cache_get_method := method2 env\<rparr>),
         [CTX_sess_set_new_cb True, CTX_sess_set_get_cb True],
         delete_ref True (ssl_session_cache c) (newref env # refs), None))"

definition setSniHostnameMatcher ::
  "ref_env \<Rightarrow> tcn_ssl_ctxt option \<Rightarrow> int \<Rightarrow> int list \<Rightarrow> setter_result" where
  "setSniHostnameMatcher env cp matcher refs =
   (case cp of None \<Rightarrow> (None, [], refs, Some (NullPointerException ''ctx''))
    | Some c \<Rightarrow>
      if matcher = 0 then
        (Some (c\<lparr>sni_hostname_matcher := 0, sni_hostname_matcher_method := 0\<rparr>),
         [CTX_set_servername_callback False, CTX_set_servername_arg False],
         delete_ref True (sni_hostname_matcher c) refs, None)
      else if method1 env = 0
      then (cp, [], refs, Some (IllegalArgumentException ''Unable to retrieve match method''))
      else if newref env = 0 then (cp, [], refs, Some no_memory)
      else
        (Some (c\<lparr>sni_hostname_matcher := newref env, sni_hostname_matcher_method := method1 env\<rparr>),
         [CTX_set_servername_callback True, CTX_set_servername_arg True],
         delete_ref True (sni_hostname_matcher c) (newref env # refs), None))"

text \<open>The boolean is the return value.\<close>

definition setKeyLogCallback ::
  "build \<Rightarrow> ref_env \<Rightarrow> tcn_ssl_ctxt option \<Rightarrow> int \<Rightarrow> int list \<Rightarrow> bool \<times> setter_result" where
  "setKeyLogCallback b env cp callback refs =
   (case cp of None \<Rightarrow> (False, None, [], refs, Some (NullPointerException ''ctx''))
    | Some c \<Rightarrow>
      if \<not> boring b then (False, cp, [], refs, None)
      else if callback = 0 then
        (True, Some (c\<lparr>keylog_callback := 0, keylog_callback_method := 0\<rparr>),
         [CTX_set_keylog_callback False], delete_ref True (keylog_callback c) refs, None)
      else if method1 env = 0
      then (False, cp, [], refs, Some (IllegalArgumentException ''Unable to retrieve handle method''))
      else if newref env = 0 then (False, cp, [], refs, Some no_memory)
      else
        (True, Some (c\<lparr>keylog_callback := newref env, keylog_callback_method := method1 env\<rparr>),
         [CTX_set_keylog_callback True],
         delete_ref True (keylog_callback c) (newref env # refs), None))"

section \<open>Certificate compression algorithms\<close>

definition SSL_CERT_COMPRESSION_DIRECTION_COMPRESS :: int where
  "SSL_CERT_COMPRESSION_DIRECTION_COMPRESS = 1"

definition SSL_CERT_COMPRESSION_DIRECTION_DECOMPRESS :: int where
  "SSL_CERT_COMPRESSION_DIRECTION_DECOMPRESS = 2"

definition TLSEXT_cert_compression_zlib :: int where "TLSEXT_cert_compression_zlib = 1"
definition TLSEXT_cert_compression_brotli :: int where "TLSEXT_cert_compression_brotli = 2"
definition TLSEXT_cert_compression_zstd :: int where "TLSEXT_cert_compression_zstd = 3"

lemmas compression_id_defs = TLSEXT_cert_compression_zlib_def TLSEXT_cert_compression_brotli_def
  TLSEXT_cert_compression_zstd_def

text \<open>\<open>added\<close> is the result of \<^verbatim>\<open>SSL_CTX_add_cert_compression_alg\<close>; the integer is the return value.\<close>

definition addCertificateCompressionAlgorithm0 ::
  "build \<Rightarrow> ref_env \<Rightarrow> int \<Rightarrow> tcn_ssl_ctxt option \<Rightarrow> int \<Rightarrow> int \<Rightarrow> int \<Rightarrow> int list
   \<Rightarrow> int \<times> setter_result" where
  "addCertificateCompressionAlgorithm0 b env added cp direction algorithmId algorithm refs =
   (case cp of None \<Rightarrow> (0, None, [], refs, Some (NullPointerException ''ctx''))
    | Some c \<Rightarrow>
      let comp = direction AND SSL_CERT_COMPRESSION_DIRECTION_COMPRESS \<noteq> 0;
          decomp = direction AND SSL_CERT_COMPRESSION_DIRECTION_DECOMPRESS \<noteq> 0;
          call = [CTX_add_cert_compression_alg algorithmId comp decomp];
          failed = (0, cp, call, delete_ref True (newref env) (newref env # refs),
                    Some (JException ''Failed trying to add certificate compression algorithm''))
      in
      if algorithm = 0
      then (0, cp, [], refs, Some (IllegalArgumentException ''Compression algorithm may not be null''))
      else if \<not> comp \<and> \<not> decomp
      then (0, cp, [], refs, Some (IllegalArgumentException ''Invalid direction specified''))
      else if \<not> boring b
      then (0, cp, [], refs, Some (JException ''TLS Cert Compression only supported by BoringSSL''))
      else if obj_class env = 0
      then (0, cp, [], refs, Some (JException ''Unable to retrieve cert compression algorithm class''))
      else if method1 env = 0
      then (0, cp, [], refs, Some (IllegalArgumentException ''Unable to retrieve compress method''))
      else if method2 env = 0
      then (0, cp, [], refs, Some (IllegalArgumentException ''Unable to retrieve decompress method''))
      else if newref env = 0
      then (0, cp, [], refs, Some (OutOfMemoryError
             ''Unable to allocate memory for global cert compression algorithm reference''))
      else if algorithmId = TLSEXT_cert_compression_zlib then
        (if added = 0 then failed
         else (added,
               Some (c\<lparr>ssl_cert_compression_zlib_algorithm := newref env,
                       ssl_cert_compression_zlib_compress_method := method1 env,
                       ssl_cert_compression_zlib_decompress_method := method2 env\<rparr>),
               call, delete_ref True (ssl_cert_compression_zlib_algorithm c) (newref env # refs), None))
      else if algorithmId = TLSEXT_cert_compression_brotli then
        (if added = 0 then failed
         else (added,
               Some (c\<lparr>ssl_cert_compression_brotli_algorithm := newref env,
                       ssl_cert_compression_brotli_compress_method := method1 env,
                       ssl_cert_compression_brotli_decompress_method := method2 env\<rparr>),
               call, delete_ref True (ssl_cert_compression_brotli_algorithm c) (newref env # refs), None))
      else if algorithmId = TLSEXT_cert_compression_zstd then
        (if added = 0 then failed
         else (added,
               Some (c\<lparr>ssl_cert_compression_zstd_algorithm := newref env,
                       ssl_cert_compression_zstd_compress_method := method1 env,
                       ssl_cert_compression_zstd_decompress_method := method2 env\<rparr>),
               call, delete_ref True (ssl_cert_compression_zstd_algorithm c) (newref env # refs), None))
      else (0, cp, [], delete_ref True (newref env) (newref env # refs),
            Some (JException ''Unrecognized certificate compression algorithm'')))"

definition setUseTasks :: "tcn_ssl_ctxt option \<Rightarrow> bool \<Rightarrow> tcn_ssl_ctxt option \<times> jexc option" where
  "setUseTasks cp useTasks =
   (case cp of None \<Rightarrow> (None, Some (NullPointerException ''ctx''))
    | Some c \<Rightarrow> (Some (c\<lparr>use_tasks := useTasks\<rparr>), None))"

section \<open>Ownership of global references\<close>

text \<open>The references a context holds. The BoringSSL fields stay zero in other builds.\<close>

definition held_refs :: "tcn_ssl_ctxt \<Rightarrow> int multiset" where
  "held_refs c = filter_mset (\<lambda>r. r \<noteq> 0)
     (mset [ssl_private_key_method c, ssl_cert_compression_zlib_algorithm c,
            ssl_cert_compression_brotli_algorithm c, ssl_cert_compression_zstd_algorithm c,
            keylog_callback c, ssl_session_cache c, verifier c, cert_requested_callback c,
            certificate_callback c, sni_hostname_matcher c])"

definition boring_fields_zero :: "tcn_ssl_ctxt \<Rightarrow> bool" where
  "boring_fields_zero c \<longleftrightarrow> ssl_private_key_method c = 0 \<and> ssl_cert_compression_zlib_algorithm c = 0
     \<and> ssl_cert_compression_brotli_algorithm c = 0 \<and> ssl_cert_compression_zstd_algorithm c = 0
     \<and> keylog_callback c = 0"

definition ref_inv :: "build \<Rightarrow> int multiset \<Rightarrow> tcn_ssl_ctxt \<times> int list \<Rightarrow> bool" where
  "ref_inv b base w \<longleftrightarrow> mset (snd w) = base + held_refs (fst w)
     \<and> (\<not> boring b \<longrightarrow> boring_fields_zero (fst w))"

datatype ctx_op =
    Op_setCertVerifyCallback int int int
  | Op_setCertRequestedCallback ref_env int
  | Op_setCertificateCallback bool ref_env int
  | Op_setPrivateKeyMethod "bool \<times> bool" ref_env int
  | Op_setSSLSessionCache ref_env int
  | Op_setSniHostnameMatcher ref_env int
  | Op_setKeyLogCallback ref_env int
  | Op_addCertificateCompressionAlgorithm ref_env int int int int
  | Op_setVerify int int
  | Op_setUseTasks bool

definition kept :: "tcn_ssl_ctxt \<Rightarrow> tcn_ssl_ctxt option \<Rightarrow> tcn_ssl_ctxt" where
  "kept c cp = (case cp of None \<Rightarrow> c | Some c' \<Rightarrow> c')"

fun ctx_step :: "build \<Rightarrow> tcn_ssl_ctxt \<times> int list \<Rightarrow> ctx_op \<Rightarrow> (tcn_ssl_ctxt \<times> int list) cres" where
  "ctx_step b (c, refs) (Op_setCertVerifyCallback v m r) =
     (let (cp, regs, refs', exc) = setCertVerifyCallback b (Some c) v m r refs in Inr (kept c cp, refs'))"
| "ctx_step b (c, refs) (Op_setCertRequestedCallback env ob) =
     (let (cp, calls, refs', exc) = setCertRequestedCallback b env (Some c) ob refs in Inr (kept c cp, refs'))"
| "ctx_step b (c, refs) (Op_setCertificateCallback linked env ob) =
     (let (cp, calls, refs', exc) = setCertificateCallback b linked env (Some c) ob refs in Inr (kept c cp, refs'))"
| "ctx_step b (c, refs) (Op_setPrivateKeyMethod names env ob) =
     (let (cp, calls, refs', exc) = setPrivateKeyMethod0 b names env (Some c) ob refs in Inr (kept c cp, refs'))"
| "ctx_step b (c, refs) (Op_setSSLSessionCache env ob) =
     (let (cp, calls, refs', exc) = setSSLSessionCache env (Some c) ob refs in Inr (kept c cp, refs'))"
| "ctx_step b (c, refs) (Op_setSniHostnameMatcher env ob) =
     (let (cp, calls, refs', exc) = setSniHostnameMatcher env (Some c) ob refs in Inr (kept c cp, refs'))"
| "ctx_step b (c, refs) (Op_setKeyLogCallback env ob) =
     (let (r, cp, calls, refs', exc) = setKeyLogCallback b env (Some c) ob refs in Inr (kept c cp, refs'))"
| "ctx_step b (c, refs) (Op_addCertificateCompressionAlgorithm env added dir aid ob) =
     (let (r, cp, calls, refs', exc) =
        addCertificateCompressionAlgorithm0 b env added (Some c) dir aid ob refs in Inr (kept c cp, refs'))"
| "ctx_step b (c, refs) (Op_setVerify level depth) =
     (let (cp, regs, exc) = SSLContext_setVerify b (Some c) level depth in Inr (kept c cp, refs))"
| "ctx_step b (c, refs) (Op_setUseTasks u) =
     (let (cp, exc) = setUseTasks (Some c) u in Inr (kept c cp, refs))"

definition release_ctx :: "build \<Rightarrow> tcn_ssl_ctxt \<times> int list \<Rightarrow> int multiset" where
  "release_ctx b w = mset (fst (snd (ssl_context_cleanup b True (Some (fst w)) (snd w))))"

definition held1 :: "int \<Rightarrow> int multiset" where
  "held1 r = (if r \<noteq> 0 then {#r#} else {#})"

lemma held1_zero [simp]: "held1 0 = {#}" and held1_nonzero: "r \<noteq> 0 \<Longrightarrow> held1 r = {#r#}"
  by (simp_all add: held1_def)

lemma held_refs_sum:
  "held_refs c = held1 (ssl_private_key_method c) + held1 (ssl_cert_compression_zlib_algorithm c)
     + held1 (ssl_cert_compression_brotli_algorithm c) + held1 (ssl_cert_compression_zstd_algorithm c)
     + held1 (keylog_callback c) + held1 (ssl_session_cache c) + held1 (verifier c)
     + held1 (cert_requested_callback c) + held1 (certificate_callback c)
     + held1 (sni_hostname_matcher c)"
  by (simp add: held_refs_def held1_def)

lemma mset_delete_ref: "mset (delete_ref True r refs) = mset refs - held1 r"
  by (simp add: delete_ref_def held1_def)

text \<open>Replacing one reference by another: the old one is deleted after the new one was made.\<close>

lemma mset_swap:
  assumes "mset refs = base + (held1 old + R)"
  shows "mset (delete_ref True old refs) = base + R"
    and "n \<noteq> 0 \<Longrightarrow> mset (delete_ref True old (n # refs)) = base + (held1 n + R)"
proof -
  have "base + (held1 old + R) - held1 old = base + R" by (simp add: add.left_commute)
  then show "mset (delete_ref True old refs) = base + R" by (simp add: mset_delete_ref assms)
  have "add_mset n (base + (held1 old + R)) - held1 old = add_mset n (base + R)"
    by (metis add.left_commute add_diff_cancel_left' add_mset_add_single union_mset_add_mset_right
        union_mset_add_mset_left)
  then show "n \<noteq> 0 \<Longrightarrow> mset (delete_ref True old (n # refs)) = base + (held1 n + R)"
    by (simp add: mset_delete_ref assms held1_nonzero)
qed

lemma mset_undo: "n \<noteq> 0 \<Longrightarrow> mset (delete_ref True n (n # refs)) = mset refs"
  by (simp add: delete_ref_def)

text \<open>Setting one field, with the others kept.\<close>

lemma held_refs_split:
  "held_refs c = held1 (ssl_private_key_method c) + held_refs (c\<lparr>ssl_private_key_method := 0\<rparr>)"
  "held_refs c = held1 (ssl_cert_compression_zlib_algorithm c) + held_refs (c\<lparr>ssl_cert_compression_zlib_algorithm := 0\<rparr>)"
  "held_refs c = held1 (ssl_cert_compression_brotli_algorithm c) + held_refs (c\<lparr>ssl_cert_compression_brotli_algorithm := 0\<rparr>)"
  "held_refs c = held1 (ssl_cert_compression_zstd_algorithm c) + held_refs (c\<lparr>ssl_cert_compression_zstd_algorithm := 0\<rparr>)"
  "held_refs c = held1 (keylog_callback c) + held_refs (c\<lparr>keylog_callback := 0\<rparr>)"
  "held_refs c = held1 (ssl_session_cache c) + held_refs (c\<lparr>ssl_session_cache := 0\<rparr>)"
  "held_refs c = held1 (verifier c) + held_refs (c\<lparr>verifier := 0\<rparr>)"
  "held_refs c = held1 (cert_requested_callback c) + held_refs (c\<lparr>cert_requested_callback := 0\<rparr>)"
  "held_refs c = held1 (certificate_callback c) + held_refs (c\<lparr>certificate_callback := 0\<rparr>)"
  "held_refs c = held1 (sni_hostname_matcher c) + held_refs (c\<lparr>sni_hostname_matcher := 0\<rparr>)"
  by (simp_all add: held_refs_sum ac_simps)

lemma held_refs_set:
  "n \<noteq> 0 \<Longrightarrow> held_refs (c\<lparr>ssl_private_key_method := n\<rparr>) = held1 n + held_refs (c\<lparr>ssl_private_key_method := 0\<rparr>)"
  "n \<noteq> 0 \<Longrightarrow> held_refs (c\<lparr>ssl_cert_compression_zlib_algorithm := n\<rparr>) = held1 n + held_refs (c\<lparr>ssl_cert_compression_zlib_algorithm := 0\<rparr>)"
  "n \<noteq> 0 \<Longrightarrow> held_refs (c\<lparr>ssl_cert_compression_brotli_algorithm := n\<rparr>) = held1 n + held_refs (c\<lparr>ssl_cert_compression_brotli_algorithm := 0\<rparr>)"
  "n \<noteq> 0 \<Longrightarrow> held_refs (c\<lparr>ssl_cert_compression_zstd_algorithm := n\<rparr>) = held1 n + held_refs (c\<lparr>ssl_cert_compression_zstd_algorithm := 0\<rparr>)"
  "n \<noteq> 0 \<Longrightarrow> held_refs (c\<lparr>keylog_callback := n\<rparr>) = held1 n + held_refs (c\<lparr>keylog_callback := 0\<rparr>)"
  "n \<noteq> 0 \<Longrightarrow> held_refs (c\<lparr>ssl_session_cache := n\<rparr>) = held1 n + held_refs (c\<lparr>ssl_session_cache := 0\<rparr>)"
  "n \<noteq> 0 \<Longrightarrow> held_refs (c\<lparr>verifier := n\<rparr>) = held1 n + held_refs (c\<lparr>verifier := 0\<rparr>)"
  "n \<noteq> 0 \<Longrightarrow> held_refs (c\<lparr>cert_requested_callback := n\<rparr>) = held1 n + held_refs (c\<lparr>cert_requested_callback := 0\<rparr>)"
  "n \<noteq> 0 \<Longrightarrow> held_refs (c\<lparr>certificate_callback := n\<rparr>) = held1 n + held_refs (c\<lparr>certificate_callback := 0\<rparr>)"
  "n \<noteq> 0 \<Longrightarrow> held_refs (c\<lparr>sni_hostname_matcher := n\<rparr>) = held1 n + held_refs (c\<lparr>sni_hostname_matcher := 0\<rparr>)"
  by (simp_all add: held_refs_sum ac_simps)

lemma held_refs_other [simp]:
  "held_refs (c\<lparr>verifier_method := m\<rparr>) = held_refs c"
  "held_refs (c\<lparr>cert_requested_callback_method := m\<rparr>) = held_refs c"
  "held_refs (c\<lparr>certificate_callback_method := m\<rparr>) = held_refs c"
  "held_refs (c\<lparr>sni_hostname_matcher_method := m\<rparr>) = held_refs c"
  "held_refs (c\<lparr>ssl_session_cache_creation_method := m\<rparr>) = held_refs c"
  "held_refs (c\<lparr>ssl_session_cache_get_method := m\<rparr>) = held_refs c"
  "held_refs (c\<lparr>ssl_private_key_sign_method := m\<rparr>) = held_refs c"
  "held_refs (c\<lparr>ssl_private_key_decrypt_method := m\<rparr>) = held_refs c"
  "held_refs (c\<lparr>ssl_cert_compression_zlib_compress_method := m\<rparr>) = held_refs c"
  "held_refs (c\<lparr>ssl_cert_compression_zlib_decompress_method := m\<rparr>) = held_refs c"
  "held_refs (c\<lparr>ssl_cert_compression_brotli_compress_method := m\<rparr>) = held_refs c"
  "held_refs (c\<lparr>ssl_cert_compression_brotli_decompress_method := m\<rparr>) = held_refs c"
  "held_refs (c\<lparr>ssl_cert_compression_zstd_compress_method := m\<rparr>) = held_refs c"
  "held_refs (c\<lparr>ssl_cert_compression_zstd_decompress_method := m\<rparr>) = held_refs c"
  "held_refs (c\<lparr>keylog_callback_method := m\<rparr>) = held_refs c"
  "held_refs (c\<lparr>verify_config := v\<rparr>) = held_refs c"
  "held_refs (c\<lparr>use_tasks := u\<rparr>) = held_refs c"
  by (simp_all add: held_refs_def)

lemma drop_field:
  "mset refs = base + held_refs c \<Longrightarrow> held_refs c = held1 old + R \<Longrightarrow>
   mset (delete_ref True old refs) = base + R"
  by (simp add: mset_swap)

lemma replace_field:
  "mset refs = base + held_refs c \<Longrightarrow> held_refs c = held1 old + R \<Longrightarrow>
   held_refs c' = held1 n + R \<Longrightarrow> n \<noteq> 0 \<Longrightarrow>
   mset (delete_ref True old (n # refs)) = base + held_refs c'"
  by (simp add: mset_swap)

lemma swap_field:
  assumes "mset refs = base + held_refs c"
  shows
    "mset (delete_ref True (ssl_private_key_method c) refs) = base + held_refs (c\<lparr>ssl_private_key_method := 0\<rparr>)"
    "n \<noteq> 0 \<Longrightarrow> mset (delete_ref True (ssl_private_key_method c) (n # refs)) = base + held_refs (c\<lparr>ssl_private_key_method := n\<rparr>)"
    "mset (delete_ref True (ssl_cert_compression_zlib_algorithm c) refs) = base + held_refs (c\<lparr>ssl_cert_compression_zlib_algorithm := 0\<rparr>)"
    "n \<noteq> 0 \<Longrightarrow> mset (delete_ref True (ssl_cert_compression_zlib_algorithm c) (n # refs)) = base + held_refs (c\<lparr>ssl_cert_compression_zlib_algorithm := n\<rparr>)"
    "mset (delete_ref True (ssl_cert_compression_brotli_algorithm c) refs) = base + held_refs (c\<lparr>ssl_cert_compression_brotli_algorithm := 0\<rparr>)"
    "n \<noteq> 0 \<Longrightarrow> mset (delete_ref True (ssl_cert_compression_brotli_algorithm c) (n # refs)) = base + held_refs (c\<lparr>ssl_cert_compression_brotli_algorithm := n\<rparr>)"
    "mset (delete_ref True (ssl_cert_compression_zstd_algorithm c) refs) = base + held_refs (c\<lparr>ssl_cert_compression_zstd_algorithm := 0\<rparr>)"
    "n \<noteq> 0 \<Longrightarrow> mset (delete_ref True (ssl_cert_compression_zstd_algorithm c) (n # refs)) = base + held_refs (c\<lparr>ssl_cert_compression_zstd_algorithm := n\<rparr>)"
    "mset (delete_ref True (keylog_callback c) refs) = base + held_refs (c\<lparr>keylog_callback := 0\<rparr>)"
    "n \<noteq> 0 \<Longrightarrow> mset (delete_ref True (keylog_callback c) (n # refs)) = base + held_refs (c\<lparr>keylog_callback := n\<rparr>)"
    "mset (delete_ref True (ssl_session_cache c) refs) = base + held_refs (c\<lparr>ssl_session_cache := 0\<rparr>)"
    "n \<noteq> 0 \<Longrightarrow> mset (delete_ref True (ssl_session_cache c) (n # refs)) = base + held_refs (c\<lparr>ssl_session_cache := n\<rparr>)"
    "mset (delete_ref True (verifier c) refs) = base + held_refs (c\<lparr>verifier := 0\<rparr>)"
    "n \<noteq> 0 \<Longrightarrow> mset (delete_ref True (verifier c) (n # refs)) = base + held_refs (c\<lparr>verifier := n\<rparr>)"
    "mset (delete_ref True (cert_requested_callback c) refs) = base + held_refs (c\<lparr>cert_requested_callback := 0\<rparr>)"
    "n \<noteq> 0 \<Longrightarrow> mset (delete_ref True (cert_requested_callback c) (n # refs)) = base + held_refs (c\<lparr>cert_requested_callback := n\<rparr>)"
    "mset (delete_ref True (certificate_callback c) refs) = base + held_refs (c\<lparr>certificate_callback := 0\<rparr>)"
    "n \<noteq> 0 \<Longrightarrow> mset (delete_ref True (certificate_callback c) (n # refs)) = base + held_refs (c\<lparr>certificate_callback := n\<rparr>)"
    "mset (delete_ref True (sni_hostname_matcher c) refs) = base + held_refs (c\<lparr>sni_hostname_matcher := 0\<rparr>)"
    "n \<noteq> 0 \<Longrightarrow> mset (delete_ref True (sni_hostname_matcher c) (n # refs)) = base + held_refs (c\<lparr>sni_hostname_matcher := n\<rparr>)"
  by (rule drop_field [OF assms], rule held_refs_split
      | rule replace_field [OF assms], rule held_refs_split, rule held_refs_set, assumption, assumption)+



lemma ref_invD: "ref_inv b base (c, refs) \<Longrightarrow> mset refs = base + held_refs c"
  by (simp add: ref_inv_def)

lemma boring_fields_zeroD:
  "ref_inv b base (c, refs) \<Longrightarrow> \<not> boring b \<Longrightarrow> boring_fields_zero c"
  by (simp add: ref_inv_def)

lemma boringE: "\<not> boring b \<Longrightarrow> \<not> openssl_is_boringssl b \<and> \<not> openssl_is_awslc b"
  by (simp add: boring_def)

text \<open>Every setter keeps the invariant, on success and on every failure.\<close>

lemma keeps_setCertVerifyCallback:
  assumes "ref_inv b base (c, refs)"
  shows "\<exists>w'. ctx_step b (c, refs) (Op_setCertVerifyCallback v meth r) = Inr w' \<and> ref_inv b base w'"
  using swap_field(13,14) [OF ref_invD [OF assms]] ref_invD [OF assms] boring_fields_zeroD [OF assms]
  by (auto simp: setCertVerifyCallback_def kept_def ref_inv_def Let_def delete_ref_def
      boring_fields_zero_def tcn_set_verify_config_def)

lemma keeps_setCertRequestedCallback:
  assumes "ref_inv b base (c, refs)"
  shows "\<exists>w'. ctx_step b (c, refs) (Op_setCertRequestedCallback env ob) = Inr w' \<and> ref_inv b base w'"
  using swap_field(15,16) [OF ref_invD [OF assms]] ref_invD [OF assms] boring_fields_zeroD [OF assms]
  by (auto simp: setCertRequestedCallback_def kept_def ref_inv_def boring_fields_zero_def)

lemma keeps_setCertificateCallback:
  assumes "ref_inv b base (c, refs)"
  shows "\<exists>w'. ctx_step b (c, refs) (Op_setCertificateCallback linked env ob) = Inr w' \<and> ref_inv b base w'"
  using swap_field(17,18) [OF ref_invD [OF assms]] ref_invD [OF assms] boring_fields_zeroD [OF assms]
  by (auto simp: setCertificateCallback_def kept_def ref_inv_def boring_fields_zero_def)

lemma keeps_setPrivateKeyMethod:
  assumes "ref_inv b base (c, refs)"
  shows "\<exists>w'. ctx_step b (c, refs) (Op_setPrivateKeyMethod names env ob) = Inr w' \<and> ref_inv b base w'"
  using swap_field(1,2) [OF ref_invD [OF assms]] ref_invD [OF assms] boring_fields_zeroD [OF assms]
  by (auto simp: setPrivateKeyMethod0_def kept_def ref_inv_def boring_fields_zero_def)

lemma keeps_setSSLSessionCache:
  assumes "ref_inv b base (c, refs)"
  shows "\<exists>w'. ctx_step b (c, refs) (Op_setSSLSessionCache env ob) = Inr w' \<and> ref_inv b base w'"
  using swap_field(11,12) [OF ref_invD [OF assms]] ref_invD [OF assms] boring_fields_zeroD [OF assms]
  by (auto simp: setSSLSessionCache_def kept_def ref_inv_def boring_fields_zero_def)

lemma keeps_setSniHostnameMatcher:
  assumes "ref_inv b base (c, refs)"
  shows "\<exists>w'. ctx_step b (c, refs) (Op_setSniHostnameMatcher env ob) = Inr w' \<and> ref_inv b base w'"
  using swap_field(19,20) [OF ref_invD [OF assms]] ref_invD [OF assms] boring_fields_zeroD [OF assms]
  by (auto simp: setSniHostnameMatcher_def kept_def ref_inv_def boring_fields_zero_def)

lemma keeps_setKeyLogCallback:
  assumes "ref_inv b base (c, refs)"
  shows "\<exists>w'. ctx_step b (c, refs) (Op_setKeyLogCallback env ob) = Inr w' \<and> ref_inv b base w'"
  using swap_field(9,10) [OF ref_invD [OF assms]] ref_invD [OF assms] boring_fields_zeroD [OF assms]
  by (auto simp: setKeyLogCallback_def kept_def ref_inv_def boring_fields_zero_def)

lemma keeps_addCertificateCompressionAlgorithm:
  assumes "ref_inv b base (c, refs)"
  shows "\<exists>w'. ctx_step b (c, refs) (Op_addCertificateCompressionAlgorithm env added dir aid ob) = Inr w' \<and> ref_inv b base w'"
  using swap_field(3-8) [OF ref_invD [OF assms]] mset_undo [of _ refs] ref_invD [OF assms] boring_fields_zeroD [OF assms]
  by (auto simp: addCertificateCompressionAlgorithm0_def kept_def ref_inv_def Let_def
      boring_fields_zero_def)

lemma keeps_setVerify:
  assumes "ref_inv b base (c, refs)"
  shows "\<exists>w'. ctx_step b (c, refs) (Op_setVerify level depth) = Inr w' \<and> ref_inv b base w'"
  using ref_invD [OF assms] boring_fields_zeroD [OF assms]
  by (auto simp: SSLContext_setVerify_def kept_def ref_inv_def boring_fields_zero_def Let_def
      split: prod.splits)

lemma keeps_setUseTasks:
  assumes "ref_inv b base (c, refs)"
  shows "\<exists>w'. ctx_step b (c, refs) (Op_setUseTasks u) = Inr w' \<and> ref_inv b base w'"
  using ref_invD [OF assms] boring_fields_zeroD [OF assms]
  by (auto simp: setUseTasks_def kept_def ref_inv_def boring_fields_zero_def)

lemmas keeps_all = keeps_setCertVerifyCallback keeps_setCertRequestedCallback keeps_setCertificateCallback keeps_setPrivateKeyMethod keeps_setSSLSessionCache keeps_setSniHostnameMatcher keeps_setKeyLogCallback keeps_addCertificateCompressionAlgorithm keeps_setVerify keeps_setUseTasks

lemma ctx_step_keeps:
  assumes "ref_inv b base w"
  shows "\<exists>w'. ctx_step b w op = Inr w' \<and> ref_inv b base w'"
proof -
  obtain c refs where w: "w = (c, refs)" by (cases w)
  show ?thesis using assms unfolding w by (cases op; simp only:; intro keeps_all)
qed


interpretation ctx_refs: resource_client "ref_inv b" "ctx_step b" "release_ctx b" for b
proof
  fix base w op assume "ref_inv b base w"
  then show "\<exists>w'. ctx_step b w op = Inr w' \<and> ref_inv b base w'" by (rule ctx_step_keeps)
next
  fix base w assume inv: "ref_inv b base w"
  obtain c refs where w: "w = (c, refs)" by (cases w)
  note m = ref_invD [OF inv [unfolded w]] and z = boring_fields_zeroD [OF inv [unfolded w]]
  show "release_ctx b w = base"
  proof (cases "boring b")
    case True
    then show ?thesis
      by (simp add: w release_ctx_def ssl_context_cleanup_def Let_def mset_delete_ref m held_refs_sum)
  next
    case False
    then show ?thesis
      using z by (simp add: w release_ctx_def ssl_context_cleanup_def Let_def mset_delete_ref m
          held_refs_sum boring_fields_zero_def)
  qed
qed


section \<open>Properties\<close>

lemma make_cases:
  obtains (threw) exc cfg acq rel where
      "SSLContext_make b pb env prot m = (Inl exc, cfg, acq, rel)" "mset rel = mset acq"
    | (made) meth c0 where
      "SSLContext_make b pb env prot m =
         (Inr (c0\<lparr>context_id := env_digest env,
                  verify_config := \<lparr>verify_depth = 100, verify_mode = SSL_CVERIFY_NONE\<rparr>,
                  mutex := env_lock env\<rparr>),
          make_start b (Some meth) @ make_configuration b pb c0, [Res_SSL_CTX, Res_Pool, Res_Lock], [])"
      "c0 = ctxt_zero\<lparr>protocol := prot, mode := m, ctx := env_ctx env, pool := env_pool env\<rparr>"
      "env_ctx env \<noteq> 0" "env_pool env \<noteq> 0" "env_lock env \<noteq> 0"
proof (cases "choose_method b pb prot m")
  case (Inl u)
  then have "SSLContext_make b pb env prot m =
      (Inl (JException ''Unsupported SSL protocol (%d)''), [], [], [])"
    by (cases u) (simp add: SSLContext_make_def finish_make_def)
  then show ?thesis by (rule threw) simp
next
  case (Inr meth)
  show ?thesis
  proof (cases "meth = None \<or> env_ctx env = 0 \<or> env_pool env = 0 \<or> \<not> pcalloc_ok env \<or> env_lock env = 0")
    case True
    then have "case SSLContext_make b pb env prot m of
        (Inl exc, cfg, acq, rel) \<Rightarrow> mset rel = mset acq | (Inr c, cfg, acq, rel) \<Rightarrow> False"
      using Inr by (cases meth) (auto simp: SSLContext_make_def finish_make_def Let_def)
    then show ?thesis
      using threw by (cases "SSLContext_make b pb env prot m") (auto split: sum.splits)
  next
    case False
    then show ?thesis using Inr made by (auto simp: SSLContext_make_def finish_make_def Let_def)
  qed
qed

text \<open>
  C12. A context does not leak global references: after \<^verbatim>\<open>make\<close> and any sequence of the setters that
  keep Java callbacks, with any of their failures, \<^verbatim>\<open>SSLContext.free\<close> leaves exactly the references
  that were live before the context was made, and destroys its pool.
\<close>

theorem context_refs_released:
  assumes "SSLContext_make b pb env prot m = (Inr c, cfg, acq, rel)"
  shows "\<exists>c' refs'. run_steps (ctx_step b) (c, refs) ops = Inr (c', refs')
    \<and> (case SSLContext_free b True (Some c') refs' of
         Inl _ \<Rightarrow> False | Inr (rest, evs, pl) \<Rightarrow> mset rest = mset refs)"
proof -
  have "ref_inv b (mset refs) (c, refs)"
    using assms by (cases rule: make_cases [of b pb env prot m])
      (auto simp: ref_inv_def held_refs_def boring_fields_zero_def ctxt_zero_def)
  from ctx_refs.run_releases [OF this, of ops]
  obtain c' refs' where "run_steps (ctx_step b) (c, refs) ops = Inr (c', refs')"
      "release_ctx b (c', refs') = mset refs"
    by auto
  then show ?thesis
    by (intro exI [of _ c'] exI [of _ refs'])
      (cases "ssl_context_cleanup b True (Some c') refs'", simp add: release_ctx_def SSLContext_free_def)
qed

definition make_ok_env :: make_env where
  "make_ok_env = \<lparr>env_ctx = 21, env_pool = 22, pcalloc_ok = True, env_lock = 23,
                  env_digest = replicate 20 7\<rparr>"

definition all_protocols :: proto_build where
  "all_protocols = \<lparr>no_tls1 = False, no_ssl3 = False, no_ssl2 = True, have_ecc = True,
                    has_op_no_tlsv1_1 = True, has_op_no_tlsv1_2 = True\<rparr>"

definition cb_env :: "int \<Rightarrow> ref_env" where
  "cb_env r = \<lparr>obj_class = 31, method1 = 32, method2 = 33, newref = r\<rparr>"

theorem context_refs_released_witness:
  "\<exists>c cfg acq c' refs'. SSLContext_make demo_build all_protocols make_ok_env 28 1 = (Inr c, cfg, acq, [])
     \<and> run_steps (ctx_step demo_build) (c, [3, 4])
         [Op_setSniHostnameMatcher (cb_env 41) 1, Op_setSniHostnameMatcher (cb_env 42) 1,
          Op_setKeyLogCallback (cb_env 0) 1, Op_setCertVerifyCallback 1 32 43] = Inr (c', refs')
     \<and> (case SSLContext_free demo_build True (Some c') refs' of
          Inl _ \<Rightarrow> False | Inr (rest, evs, pl) \<Rightarrow> mset rest = {#3, 4#})"
proof -
  obtain c cfg acq where m: "SSLContext_make demo_build all_protocols make_ok_env 28 1 = (Inr c, cfg, acq, [])"
    by (simp add: SSLContext_make_def finish_make_def choose_method_def demo_build_def boring_def make_ok_env_def Let_def)
  have "mset [3, 4 :: int] = {#3, 4#}" by simp
  with context_refs_released [OF m, of "[3, 4]"
      "[Op_setSniHostnameMatcher (cb_env 41) 1, Op_setSniHostnameMatcher (cb_env 42) 1,
        Op_setKeyLogCallback (cb_env 0) 1, Op_setCertVerifyCallback 1 32 43]"] m
  show ?thesis by metis
qed




end
