(* ===== verification/Jni_Types.thy ===== *)
theory Jni_Types
  imports Tcn_Prelude
begin

text \<open>
  Types at the border between Java and C. A Java method has a descriptor (\<^verbatim>\<open>(JI)V\<close>), which is how
  \<^verbatim>\<open>RegisterNatives\<close> and \<^verbatim>\<open>GetMethodID\<close> name its type; a C function has parameters of the types of
  \<^verbatim>\<open>jni.h\<close>. Nothing but the text of the descriptor connects the two: neither compiler checks that a
  registered function has the parameters its descriptor promises, nor that the arguments of a
  variadic \<^verbatim>\<open>Call...Method\<close> are those of the method.

  Classes of this library may be shaded: \<open>J_tcn n\<close> is the class \<open>n\<close> of the package
  \<^verbatim>\<open>io/netty/internal/tcnative\<close> behind the package prefix that is given when the library is loaded.
\<close>

datatype java_type =
    J_void | J_boolean | J_byte | J_int | J_long
  | J_object string | J_tcn string | J_array java_type

abbreviation J_String :: java_type where "J_String \<equiv> J_object ''java/lang/String''"

type_synonym java_method = "java_type list \<times> java_type"

definition tcn_package :: string where "tcn_package = ''io/netty/internal/tcnative/''"

fun descriptor :: "string \<Rightarrow> java_type \<Rightarrow> string" where
  "descriptor p J_void = ''V''"
| "descriptor p J_boolean = ''Z''"
| "descriptor p J_byte = ''B''"
| "descriptor p J_int = ''I''"
| "descriptor p J_long = ''J''"
| "descriptor p (J_object n) = ''L'' @ n @ '';''"
| "descriptor p (J_tcn n) = ''L'' @ p @ tcn_package @ n @ '';''"
| "descriptor p (J_array t) = ''['' @ descriptor p t"

definition method_descriptor :: "string \<Rightarrow> java_method \<Rightarrow> string" where
  "method_descriptor p m = ''('' @ concat (map (descriptor p) (fst m)) @ '')'' @ descriptor p (snd m)"

text \<open>The types of \<^verbatim>\<open>jni.h\<close>, and \<^verbatim>\<open>size_t\<close>, which is none of them.\<close>

datatype jni_type =
    C_void | C_jboolean | C_jbyte | C_jint | C_jlong | C_jstring | C_jobject | C_jobjectArray
  | C_jbyteArray | C_jintArray | C_size_t

fun is_reference :: "java_type \<Rightarrow> bool" where
  "is_reference (J_object n) = True"
| "is_reference (J_tcn n) = True"
| "is_reference (J_array t) = True"
| "is_reference t = False"

text \<open>Whether a C type is the one \<^verbatim>\<open>jni.h\<close> gives for a Java type; \<^verbatim>\<open>jobject\<close> is right for every class.\<close>

fun represents :: "jni_type \<Rightarrow> java_type \<Rightarrow> bool" where
  "represents C_void t = (t = J_void)"
| "represents C_jboolean t = (t = J_boolean)"
| "represents C_jbyte t = (t = J_byte)"
| "represents C_jint t = (t = J_int)"
| "represents C_jlong t = (t = J_long)"
| "represents C_jstring t = (t = J_String)"
| "represents C_jobject t = (case t of J_object n \<Rightarrow> True | J_tcn n \<Rightarrow> True | _ \<Rightarrow> False)"
| "represents C_jobjectArray t = (case t of J_array u \<Rightarrow> is_reference u | _ \<Rightarrow> False)"
| "represents C_jbyteArray t = (t = J_array J_byte)"
| "represents C_jintArray t = (t = J_array J_int)"
| "represents C_size_t t = False"

text \<open>The type \<^verbatim>\<open>javah\<close> would write for a Java type; arrays of \<^verbatim>\<open>boolean\<close> and \<^verbatim>\<open>long\<close> are not used.\<close>

fun c_type :: "java_type \<Rightarrow> jni_type" where
  "c_type J_void = C_void"
| "c_type J_boolean = C_jboolean"
| "c_type J_byte = C_jbyte"
| "c_type J_int = C_jint"
| "c_type J_long = C_jlong"
| "c_type (J_object n) = (if n = ''java/lang/String'' then C_jstring else C_jobject)"
| "c_type (J_tcn n) = C_jobject"
| "c_type (J_array t) = (case t of J_byte \<Rightarrow> C_jbyteArray | J_int \<Rightarrow> C_jintArray | _ \<Rightarrow> C_jobjectArray)"

fun usual_type :: "java_type \<Rightarrow> bool" where
  "usual_type (J_array t) = (t = J_byte \<or> t = J_int \<or> is_reference t)"
| "usual_type t = True"

text \<open>Parameters and result of a C function, or arguments and result of a call, fit a Java method.\<close>

definition jni_fits :: "jni_type list \<Rightarrow> jni_type \<Rightarrow> java_method \<Rightarrow> bool" where
  "jni_fits params result m \<longleftrightarrow> list_all2 represents params (fst m) \<and> represents result (snd m)"

section \<open>A descriptor determines the types\<close>

text \<open>The class a descriptor names, with the prefix written out.\<close>

fun resolved :: "string \<Rightarrow> java_type \<Rightarrow> java_type" where
  "resolved p (J_tcn n) = J_object (p @ tcn_package @ n)"
| "resolved p (J_array t) = J_array (resolved p t)"
| "resolved p t = t"

fun no_semicolon :: "java_type \<Rightarrow> bool" where
  "no_semicolon (J_object n) = (CHR '';'' \<notin> set n)"
| "no_semicolon (J_tcn n) = (CHR '';'' \<notin> set n)"
| "no_semicolon (J_array t) = no_semicolon t"
| "no_semicolon t = True"

lemma until_semicolon:
  "CHR '';'' \<notin> set xs \<Longrightarrow> CHR '';'' \<notin> set ys \<Longrightarrow> xs @ CHR '';'' # us = ys @ CHR '';'' # vs \<Longrightarrow>
   xs = ys \<and> us = vs"
proof (induction xs arbitrary: ys)
  case Nil
  then show ?case by (cases ys) simp_all
next
  case (Cons x xs)
  then show ?case by (cases ys) auto
qed

fun unshaded :: "java_type \<Rightarrow> bool" where
  "unshaded (J_tcn n) = False"
| "unshaded (J_array t) = unshaded t"
| "unshaded t = True"

lemma descriptor_resolved: "descriptor p (resolved p t) = descriptor p t"
  by (induction t) simp_all

lemma unshaded_resolved: "unshaded (resolved p t)"
  by (induction t) simp_all

lemma no_semicolon_resolved: "CHR '';'' \<notin> set p \<Longrightarrow> no_semicolon t \<Longrightarrow> no_semicolon (resolved p t)"
  by (induction t) (simp_all add: tcn_package_def)

lemma descriptor_prefix:
  "unshaded t \<Longrightarrow> unshaded u \<Longrightarrow> no_semicolon t \<Longrightarrow> no_semicolon u \<Longrightarrow>
   descriptor p t @ xs = descriptor p u @ ys \<Longrightarrow> t = u \<and> xs = ys"
proof (induction t arbitrary: u)
  case (J_object n)
  show ?case
  proof (cases u)
    case u: (J_object m)
    have "n @ CHR '';'' # xs = m @ CHR '';'' # ys" "CHR '';'' \<notin> set n" "CHR '';'' \<notin> set m"
      using J_object.prems u by simp_all
    then have "n = m \<and> xs = ys" by (intro until_semicolon)
    then show ?thesis using u by simp
  qed (use J_object.prems in simp_all)
next
  case (J_array t)
  show ?case
  proof (cases u)
    case u: (J_array v)
    have "t = v \<and> xs = ys" by (rule J_array.IH) (use J_array.prems u in simp_all)
    then show ?thesis using u by simp
  qed (use J_array.prems in simp_all)
qed (case_tac u; simp)+

lemma descriptor_start: "\<exists>x xs. descriptor p t = x # xs \<and> x \<noteq> CHR '')''"
  by (cases t) simp_all

lemma descriptors_inj:
  "\<forall>t\<in>set ts. unshaded t \<and> no_semicolon t \<Longrightarrow> \<forall>u\<in>set us. unshaded u \<and> no_semicolon u \<Longrightarrow>
   concat (map (descriptor p) ts) @ CHR '')'' # xs = concat (map (descriptor p) us) @ CHR '')'' # ys \<Longrightarrow>
   ts = us \<and> xs = ys"
proof (induction ts arbitrary: us)
  case Nil
  show ?case
  proof (cases us)
    case Nil
    then show ?thesis using \<open>concat (map (descriptor p) []) @ _ = _\<close> by simp
  next
    case (Cons u us')
    obtain x zs where "descriptor p u = x # zs" "x \<noteq> CHR '')''" using descriptor_start by blast
    then show ?thesis using \<open>concat (map (descriptor p) []) @ _ = _\<close> Cons by simp
  qed
next
  case (Cons t ts)
  show ?case
  proof (cases us)
    case Nil
    obtain x zs where "descriptor p t = x # zs" "x \<noteq> CHR '')''" using descriptor_start by blast
    then show ?thesis using Cons.prems(3) Nil by simp
  next
    case (Cons u us')
    have "t = u \<and> concat (map (descriptor p) ts) @ CHR '')'' # xs = concat (map (descriptor p) us') @ CHR '')'' # ys"
      by (rule descriptor_prefix [of t u p]) (use Cons Cons.prems in simp_all)
    then show ?thesis using Cons.IH [of us'] Cons.prems Cons by simp
  qed
qed

text \<open>Two methods with the same descriptor have the same parameter and result types.\<close>

lemma method_descriptor_inj:
  assumes p: "CHR '';'' \<notin> set p"
    and ok: "\<forall>t\<in>set (snd m # fst m). no_semicolon t" "\<forall>t\<in>set (snd n # fst n). no_semicolon t"
    and eq: "method_descriptor p m = method_descriptor p n"
  shows "map (resolved p) (fst m) = map (resolved p) (fst n) \<and> resolved p (snd m) = resolved p (snd n)"
proof -
  have res: "concat (map (descriptor p) (map (resolved p) ts)) = concat (map (descriptor p) ts)" for ts
    by (simp add: descriptor_resolved o_def)
  have "map (resolved p) (fst m) = map (resolved p) (fst n) \<and> descriptor p (resolved p (snd m)) = descriptor p (resolved p (snd n))"
    by (rule descriptors_inj [of _ _ p])
      (use ok eq p in \<open>simp_all add: unshaded_resolved no_semicolon_resolved res descriptor_resolved
        method_descriptor_def del: map_map\<close>)
  moreover from this have "resolved p (snd m) = resolved p (snd n)"
    using descriptor_prefix [of "resolved p (snd m)" "resolved p (snd n)" p "[]" "[]"] ok p
    by (simp add: unshaded_resolved no_semicolon_resolved)
  ultimately show ?thesis by simp
qed

end
