(* ===== verification/Async_Keys.thy ===== *)
theory Async_Keys
  imports Verify Jni_Types
begin

text \<open>
  Callbacks that ask Java for key material: the certificate callback, the older client
  certificate callback, and the private key method of BoringSSL and AWS-LC (sign, decrypt and
  complete), with the Java tasks they create (\<^verbatim>\<open>CertificateCallbackTask\<close>,
  \<^verbatim>\<open>SSLPrivateKeyMethodTask\<close>).

  Each callback either calls Java directly or stores a task in the connection and asks OpenSSL
  to retry. The lemmas compare the two ways, bound what is written into OpenSSL's output
  buffer, and follow the references to tasks.
\<close>

section \<open>Tasks\<close>

datatype key_request =
    Sign_Request int "byte list"
  | Decrypt_Request "byte list"
  | Certificate_Request "byte list option" "byte list list option"

record ktask =
  kt_request :: key_request
  kt_returnValue :: int
  kt_complete :: bool
  kt_didRun :: bool
  kt_resultBytes :: "byte list option"

definition new_ktask :: "key_request \<Rightarrow> ktask" where
  "new_ktask r = \<lparr>kt_request = r, kt_returnValue = 0, kt_complete = False, kt_didRun = False,
                  kt_resultBytes = None\<rparr>"

text \<open>How the asynchronous Java method answers: it calls \<^verbatim>\<open>onSuccess\<close> or \<^verbatim>\<open>onError\<close>, or not at all.\<close>

datatype key_answer = On_Success "byte list option" | On_Error | No_Answer

definition run_key_task :: "(key_request \<Rightarrow> key_answer) \<Rightarrow> ktask \<Rightarrow> ktask" where
  "run_key_task m t =
   (if kt_didRun t then t
    else (case m (kt_request t) of
       On_Success r \<Rightarrow> t\<lparr>kt_didRun := True, kt_resultBytes := r, kt_returnValue := 1, kt_complete := True\<rparr>
     | On_Error \<Rightarrow> t\<lparr>kt_didRun := True, kt_resultBytes := Some [], kt_returnValue := 0, kt_complete := True\<rparr>
     | No_Answer \<Rightarrow> t\<lparr>kt_didRun := True\<rparr>))"

text \<open>\<^verbatim>\<open>CertificateCallbackTask.runTask\<close>: \<open>handle\<close> says whether the callback returns without an exception.\<close>

definition run_certificate_task :: "(key_request \<Rightarrow> bool) \<Rightarrow> ktask \<Rightarrow> ktask" where
  "run_certificate_task handle t =
   (if kt_didRun t then t
    else t\<lparr>kt_didRun := True, kt_returnValue := (if handle (kt_request t) then 1 else 0),
           kt_complete := True\<rparr>)"

record key_world =
  kw_state :: "tcn_ssl_state option"
  kw_refs :: "int list"
  kw_tasks :: "int \<Rightarrow> ktask option"

record key_env =
  k_java_ok :: bool
  k_input_ok :: bool
  k_class_ok :: bool
  k_task_obj :: int
  k_malloc_ok :: bool
  k_ref :: int
  k_elems_ok :: bool

text \<open>Storing a new task in the connection; the former content of the slot is overwritten.\<close>

definition store_task ::
  "key_env \<Rightarrow> key_request \<Rightarrow> tcn_ssl_state \<Rightarrow> key_world \<Rightarrow> bool \<times> key_world" where
  "store_task env req s w =
   (let (t, refs') = tcn_ssl_task_new (k_task_obj env) (k_malloc_ok env) (k_ref env) (kw_refs w) in
    (t \<noteq> None,
     w\<lparr>kw_refs := refs', kw_state := Some (s\<lparr>ssl_task := t\<rparr>),
       kw_tasks := (case t of None \<Rightarrow> kw_tasks w | Some tk \<Rightarrow> (kw_tasks w)(task tk \<mapsto> new_ktask req))\<rparr>))"

definition drop_task :: "tcn_ssl_state \<Rightarrow> tcn_ssl_task \<Rightarrow> key_world \<Rightarrow> key_world" where
  "drop_task s t w =
     w\<lparr>kw_refs := tcn_ssl_task_free (Some t) (kw_refs w), kw_tasks := (kw_tasks w)(task t := None),
       kw_state := Some (s\<lparr>ssl_task := None\<rparr>)\<rparr>"

section \<open>Private key method\<close>

datatype ssl_private_key_result = ssl_private_key_success | ssl_private_key_retry | ssl_private_key_failure

text \<open>The output: the bytes copied to \<^verbatim>\<open>out\<close>, with \<^verbatim>\<open>*out_len\<close> their number; \<open>None\<close> when nothing is written.\<close>

definition copy_result :: "key_env \<Rightarrow> nat \<Rightarrow> byte list option \<Rightarrow> ssl_private_key_result \<times> byte list option" where
  "copy_result env max_out res =
   (case res of None \<Rightarrow> (ssl_private_key_failure, None)
    | Some bs \<Rightarrow>
      if max_out \<ge> length bs then
        (if \<not> k_elems_ok env then (ssl_private_key_failure, None)
         else (ssl_private_key_success, Some bs))
      else (ssl_private_key_failure, None))"

text \<open>
  The methods that \<^verbatim>\<open>setPrivateKeyMethod0\<close> looks up in an \<^verbatim>\<open>AsyncSSLPrivateKeyMethod\<close>, and what the direct
  branches of the two functions pass to \<^verbatim>\<open>CallObjectMethod\<close> (\<^verbatim>\<open>signature_algorithm\<close> is promoted to \<^verbatim>\<open>int\<close>).
\<close>

fun key_method :: "key_request \<Rightarrow> java_method" where
  "key_method (Sign_Request alg inp) = ([J_long, J_int, J_array J_byte, J_tcn ''ResultCallback''], J_void)"
| "key_method (Decrypt_Request inp) = ([J_long, J_array J_byte, J_tcn ''ResultCallback''], J_void)"
| "key_method (Certificate_Request ts ns) = ([], J_void)"

fun key_call :: "key_request \<Rightarrow> jni_type list \<times> jni_type" where
  "key_call (Sign_Request alg inp) = ([C_jlong, C_jint, C_jbyteArray], C_jbyteArray)"
| "key_call (Decrypt_Request inp) = ([C_jlong, C_jbyteArray], C_jbyteArray)"
| "key_call (Certificate_Request ts ns) = ([], C_void)"

text \<open>
  \<open>call\<close> is the direct Java call: \<open>None\<close> when it throws, otherwise the array it returns; a call whose
  arguments or result are not those of the method is undefined. The two functions dereference
  \<^verbatim>\<open>state->ctx\<close> without a check.
\<close>

definition key_operation ::
  "key_env \<Rightarrow> (key_request \<Rightarrow> byte list option option) \<Rightarrow> key_request \<Rightarrow> nat \<Rightarrow> tcn_ssl_ctxt option
   \<Rightarrow> key_world \<Rightarrow> (ssl_private_key_result \<times> byte list option \<times> key_world) cres" where
  "key_operation env call req max_out cp w =
   (case kw_state w of None \<Rightarrow> Inr (ssl_private_key_failure, None, w)
    | Some s \<Rightarrow>
      cbind (deref cp) (\<lambda>c.
      if ssl_private_key_method c = 0 then Inr (ssl_private_key_failure, None, w)
      else if \<not> k_java_ok env then Inr (ssl_private_key_failure, None, w)
      else if \<not> k_input_ok env then Inr (ssl_private_key_failure, None, w)
      else if use_tasks c then
        (if \<not> k_class_ok env then Inr (ssl_private_key_failure, None, w)
         else
           let (stored, w') = store_task env req s w in
           Inr (if stored then ssl_private_key_retry else ssl_private_key_failure, None, w'))
      else if \<not> jni_fits (fst (key_call req)) (snd (key_call req)) (key_method req)
      then Inl (UB Bad_Jni_Call)
      else (case call req of
              None \<Rightarrow> Inr (ssl_private_key_failure, None, w)
            | Some res \<Rightarrow> let (r, out) = copy_result env max_out res in Inr (r, out, w))))"

definition tcn_private_key_sign_java ::
  "key_env \<Rightarrow> (key_request \<Rightarrow> byte list option option) \<Rightarrow> int \<Rightarrow> byte list \<Rightarrow> nat \<Rightarrow> tcn_ssl_ctxt option
   \<Rightarrow> key_world \<Rightarrow> (ssl_private_key_result \<times> byte list option \<times> key_world) cres" where
  "tcn_private_key_sign_java env call alg inp max_out cp w =
     key_operation env call (Sign_Request alg inp) max_out cp w"

definition tcn_private_key_decrypt_java ::
  "key_env \<Rightarrow> (key_request \<Rightarrow> byte list option option) \<Rightarrow> byte list \<Rightarrow> nat \<Rightarrow> tcn_ssl_ctxt option
   \<Rightarrow> key_world \<Rightarrow> (ssl_private_key_result \<times> byte list option \<times> key_world) cres" where
  "tcn_private_key_decrypt_java env call inp max_out cp w =
     key_operation env call (Decrypt_Request inp) max_out cp w"

definition tcn_private_key_complete_java ::
  "key_env \<Rightarrow> nat \<Rightarrow> tcn_ssl_ctxt option \<Rightarrow> key_world
   \<Rightarrow> (ssl_private_key_result \<times> byte list option \<times> key_world) cres" where
  "tcn_private_key_complete_java env max_out cp w =
   (case kw_state w of None \<Rightarrow> Inr (ssl_private_key_failure, None, w)
    | Some s \<Rightarrow>
    (case cp of None \<Rightarrow> Inr (ssl_private_key_failure, None, w)
    | Some c \<Rightarrow>
      if \<not> use_tasks c then Inr (ssl_private_key_success, None, w)
      else (case ssl_task s of None \<Rightarrow> Inr (ssl_private_key_failure, None, w)
      | Some t \<Rightarrow>
        if \<not> k_java_ok env then Inr (ssl_private_key_failure, None, w)
        else (case kw_tasks w (task t) of None \<Rightarrow> Inl (UB Use_After_Free)
        | Some kt \<Rightarrow>
          if \<not> kt_complete kt then Inr (ssl_private_key_retry, None, w)
          else let (r, out) = copy_result env max_out (kt_resultBytes kt)
               in Inr (r, out, drop_task s t w)))))"

section \<open>Certificate callbacks\<close>

text \<open>\<open>types\<close> is what \<^verbatim>\<open>SSL_get0_certificate_types\<close> reports.\<close>

definition keyTypes :: "byte list \<Rightarrow> bool \<Rightarrow> byte list option" where
  "keyTypes types arr_ok = (if length types \<le> 0 \<or> \<not> arr_ok then None else Some types)"

text \<open>
  A name that cannot be encoded is \<open>None\<close> (with BoringSSL the names are stored encoded, so every
  element is \<open>Some\<close>): the result is then an empty array. \<open>el_ok i\<close>: the array allocated in round
  \<open>i\<close> is not \<^verbatim>\<open>NULL\<close>. The loop stops at the first failure.
\<close>

fun principal_loop :: "(nat \<Rightarrow> bool) \<Rightarrow> nat \<Rightarrow> byte list option list \<Rightarrow> byte list list \<Rightarrow> byte list list option" where
  "principal_loop el_ok i [] acc = Some acc"
| "principal_loop el_ok i (n # ns) acc =
     (case n of
        None \<Rightarrow> if el_ok i then Some [] else None
      | Some bs \<Rightarrow>
        if \<not> el_ok i then None
        else principal_loop el_ok (Suc i) ns (acc @ [bs]))"

definition principalBytes ::
  "byte list option list option \<Rightarrow> bool \<Rightarrow> (nat \<Rightarrow> bool) \<Rightarrow> byte list list option" where
  "principalBytes names arr_ok el_ok =
   (case names of None \<Rightarrow> None
    | Some ns \<Rightarrow> if length ns \<le> 0 \<or> \<not> arr_ok then None else principal_loop el_ok 0 ns [])"

text \<open>What the callbacks learn about the peer's request, and the Java callback itself.\<close>

record cert_env =
  ce_types :: "byte list"
  ce_types_ok :: bool
  ce_names :: "byte list option list option"
  ce_array_ok :: bool
  ce_elem_ok :: "nat \<Rightarrow> bool"
  ce_handle :: "key_request \<Rightarrow> bool"

definition cert_request_args :: "build \<Rightarrow> cert_env \<Rightarrow> tcn_ssl_ctxt \<Rightarrow> key_request" where
  "cert_request_args b ce c =
   (if mode c = SSL_MODE_SERVER then Certificate_Request None None
    else Certificate_Request (keyTypes (ce_types ce) (ce_types_ok ce))
           (principalBytes (ce_names ce) (ce_array_ok ce) (ce_elem_ok ce)))"

definition certificate_cb ::
  "build \<Rightarrow> key_env \<Rightarrow> cert_env \<Rightarrow> tcn_ssl_ctxt option \<Rightarrow> key_world \<Rightarrow> (int \<times> key_world) cres" where
  "certificate_cb b env ce cp w =
   (case kw_state w of None \<Rightarrow> Inr (0, w)
    | Some s \<Rightarrow>
    (case cp of None \<Rightarrow> Inr (0, w)
    | Some c \<Rightarrow>
      if \<not> k_java_ok env then Inr (0, w)
      else (case ssl_task s of
        Some t \<Rightarrow>
          (case kw_tasks w (task t) of None \<Rightarrow> Inl (UB Use_After_Free)
           | Some kt \<Rightarrow>
             if \<not> kt_complete kt then Inr (-1, w)
             else Inr (kt_returnValue kt, drop_task s t w))
      | None \<Rightarrow>
        let req = cert_request_args b ce c in
        if use_tasks c then
          (if \<not> k_class_ok env then Inr (0, w)
           else let (stored, w') = store_task env req s w in Inr (if stored then -1 else 0, w'))
        else Inr (if ce_handle ce req then 1 else 0, w))))"

text \<open>The older callback; \<open>x509_set\<close>: Java stored a certificate through the pointer it was given.\<close>

definition cert_requested ::
  "build \<Rightarrow> bool \<Rightarrow> cert_env \<Rightarrow> bool \<Rightarrow> tcn_ssl_ctxt option \<Rightarrow> int" where
  "cert_requested b java_ok ce x509_set cp =
   (if libressl_version_number b \<noteq> None then -1
    else (case cp of None \<Rightarrow> -1
    | Some c \<Rightarrow>
      if \<not> java_ok then -1
      else if \<not> ce_handle ce (Certificate_Request (keyTypes (ce_types ce) (ce_types_ok ce))
                (principalBytes (ce_names ce) (ce_array_ok ce) (ce_elem_ok ce))) then -1
      else if \<not> x509_set then 0 else 1))"

section \<open>Lemmas\<close>

lemma copy_result_bounded:
  "copy_result env max_out res = (r, Some bs) \<Longrightarrow> length bs \<le> max_out \<and> res = Some bs \<and> r = ssl_private_key_success"
  by (auto simp: copy_result_def split: option.splits if_splits)

lemma key_operation_out:
  "key_operation env call req max_out cp w = Inr (r, Some bs, w') \<Longrightarrow>
   length bs \<le> max_out \<and> r = ssl_private_key_success"
  by (auto simp: key_operation_def cbind_eq_Inr Let_def split: option.splits if_splits prod.splits
      dest: copy_result_bounded)

lemma key_complete_out:
  "tcn_private_key_complete_java env max_out cp w = Inr (r, Some bs, w') \<Longrightarrow>
   length bs \<le> max_out \<and> r = ssl_private_key_success"
  by (auto simp: tcn_private_key_complete_java_def Let_def split: option.splits if_splits prod.splits
      dest: copy_result_bounded)

text \<open>What storing a task does when it succeeds.\<close>

lemma store_task_ok:
  assumes "store_task env req s w = (True, w1)"
  shows "\<exists>r. r \<noteq> 0 \<and> w1 = w\<lparr>kw_refs := r # kw_refs w,
           kw_state := Some (s\<lparr>ssl_task := Some \<lparr>consumed = False, task = r\<rparr>\<rparr>),
           kw_tasks := (kw_tasks w)(r \<mapsto> new_ktask req)\<rparr>"
  using assms by (auto simp: store_task_def tcn_ssl_task_new_def Let_def split: if_splits)

section \<open>Properties\<close>


definition key_env_ok :: key_env where
  "key_env_ok = \<lparr>k_java_ok = True, k_input_ok = True, k_class_ok = True, k_task_obj = 51,
                 k_malloc_ok = True, k_ref = 52, k_elems_ok = True\<rparr>"

definition key_ctxt :: "bool \<Rightarrow> tcn_ssl_ctxt" where
  "key_ctxt tasks = ctxt_zero\<lparr>ssl_private_key_method := 8, use_tasks := tasks\<rparr>"

definition key_world0 :: key_world where
  "key_world0 = \<lparr>kw_state = Some demo_state, kw_refs = [8], kw_tasks = (\<lambda>_. None)\<rparr>"

lemmas key_demo_defs = key_env_ok_def key_ctxt_def key_world0_def demo_state_def




text \<open>
  C17. Without tasks every private key operation that gets as far as Java is undefined: the method that
  \<^verbatim>\<open>setPrivateKeyMethod0\<close> has looked up returns nothing and has a further parameter, the callback for
  the result, but is called like a method that returns the array.
\<close>

theorem direct_key_call_undefined:
  assumes "kw_state w \<noteq> None" "\<not> use_tasks c" "ssl_private_key_method c \<noteq> 0" "k_java_ok env" "k_input_ok env"
  shows "tcn_private_key_sign_java env call alg inp max_out (Some c) w = Inl (UB Bad_Jni_Call)
    \<and> tcn_private_key_decrypt_java env call inp max_out (Some c) w = Inl (UB Bad_Jni_Call)"
  using assms by (auto simp: tcn_private_key_sign_java_def tcn_private_key_decrypt_java_def key_operation_def
      jni_fits_def)

theorem direct_key_call_undefined_witness:
  "kw_state key_world0 \<noteq> None
   \<and> tcn_private_key_sign_java key_env_ok (\<lambda>_. None) 0 [9] 2 (Some (key_ctxt False)) key_world0 = Inl (UB Bad_Jni_Call)"
proof -
  have "kw_state key_world0 \<noteq> None" "\<not> use_tasks (key_ctxt False)" "ssl_private_key_method (key_ctxt False) \<noteq> 0"
      "k_java_ok key_env_ok" "k_input_ok key_env_ok"
    by (simp_all add: key_demo_defs)
  from direct_key_call_undefined [OF this] this(1) show ?thesis by blast
qed

text \<open>
  A failed operation is reported as success: when the Java method calls \<^verbatim>\<open>onError\<close>, the task holds
  an empty array and the return value 0, but the completion looks only at the array and returns
  success with an output of length 0.
\<close>

theorem key_error_reported_as_success:
  assumes st: "kw_state w = Some s" "ssl_task s = Some t" "kw_tasks w (task t) = Some kt"
    and kt: "\<not> kt_didRun kt" "m (kt_request kt) = On_Error" and c: "use_tasks c"
    and env: "k_java_ok env" "k_elems_ok env"
  shows "kt_returnValue (run_key_task m kt) = 0
    \<and> (\<exists>w'. tcn_private_key_complete_java env max_out (Some c)
          (w\<lparr>kw_tasks := (kw_tasks w)(task t \<mapsto> run_key_task m kt)\<rparr>)
        = Inr (ssl_private_key_success, Some [], w'))"
  using assms by (simp add: run_key_task_def tcn_private_key_complete_java_def copy_result_def)

theorem key_error_reported_as_success_witness:
  "\<exists>w' w''. tcn_private_key_sign_java key_env_ok (\<lambda>_. None) 0 [9] 64 (Some (key_ctxt True)) key_world0
        = Inr (ssl_private_key_retry, None, w')
     \<and> tcn_private_key_complete_java key_env_ok 64 (Some (key_ctxt True))
          (w'\<lparr>kw_tasks := (kw_tasks w')(52 \<mapsto> run_key_task (\<lambda>_. On_Error) (new_ktask (Sign_Request 0 [9])))\<rparr>)
        = Inr (ssl_private_key_success, Some [], w'')"
proof -
  let ?s = "demo_state\<lparr>ssl_task := Some \<lparr>consumed = False, task = 52\<rparr>\<rparr>"
  let ?w = "key_world0\<lparr>kw_refs := [52, 8], kw_state := Some ?s,
     kw_tasks := (\<lambda>_. None)(52 \<mapsto> new_ktask (Sign_Request 0 [9]))\<rparr>"
  have f: "tcn_private_key_sign_java key_env_ok (\<lambda>_. None) 0 [9] 64 (Some (key_ctxt True)) key_world0
        = Inr (ssl_private_key_retry, None, ?w)"
    by (simp add: tcn_private_key_sign_java_def key_operation_def key_demo_defs store_task_def
        tcn_ssl_task_new_def)
  have "kw_state ?w = Some ?s" "ssl_task ?s = Some \<lparr>consumed = False, task = 52\<rparr>"
      "kw_tasks ?w (task \<lparr>consumed = False, task = 52\<rparr>) = Some (new_ktask (Sign_Request 0 [9]))"
      "\<not> kt_didRun (new_ktask (Sign_Request 0 [9]))" "use_tasks (key_ctxt True)"
      "k_java_ok key_env_ok" "k_elems_ok key_env_ok"
    by (simp_all add: new_ktask_def key_demo_defs)
  from key_error_reported_as_success [OF this(1-4) _ this(5-7), of "\<lambda>_. On_Error" 64] f
  show ?thesis by - (rule exI [of _ ?w], auto)
qed



definition cert_env_ok :: "bool \<Rightarrow> cert_env" where
  "cert_env_ok returns = \<lparr>ce_types = [1], ce_types_ok = True, ce_names = Some [Some [5]],
     ce_array_ok = True, ce_elem_ok = (\<lambda>_. True), ce_handle = (\<lambda>_. returns)\<rparr>"


section \<open>Life of a task\<close>

text \<open>
  OpenSSL calls the completion, and not a new operation, while a private key operation is
  suspended; \<open>drive_key\<close> is that protocol.
\<close>

datatype key_op =
    Drive_Key key_env key_request nat
  | Drive_Certificate key_env cert_env
  | Fetch_Key_Task
  | Run_Key_Task "key_request \<Rightarrow> key_answer" int
  | Run_Certificate_Task "key_request \<Rightarrow> bool" int

definition drive_key ::
  "key_env \<Rightarrow> (key_request \<Rightarrow> byte list option option) \<Rightarrow> key_request \<Rightarrow> nat \<Rightarrow> tcn_ssl_ctxt \<Rightarrow> key_world
   \<Rightarrow> (ssl_private_key_result \<times> byte list option \<times> key_world) cres" where
  "drive_key env call req max_out c w =
   (case kw_state w of
      Some s \<Rightarrow> if ssl_task s \<noteq> None then tcn_private_key_complete_java env max_out (Some c) w
                else key_operation env call req max_out (Some c) w
    | None \<Rightarrow> key_operation env call req max_out (Some c) w)"

definition key_step ::
  "build \<Rightarrow> (key_request \<Rightarrow> byte list option option) \<Rightarrow> tcn_ssl_ctxt \<Rightarrow> key_world \<Rightarrow> key_op \<Rightarrow> key_world cres" where
  "key_step b call c w op =
   (case op of
      Drive_Key env req max_out \<Rightarrow> cbind (drive_key env call req max_out c w) (\<lambda>(r, out, w'). Inr w')
    | Drive_Certificate env ce \<Rightarrow> cbind (certificate_cb b env ce (Some c) w) (\<lambda>(r, w'). Inr w')
    | Fetch_Key_Task \<Rightarrow> Inr (w\<lparr>kw_state := snd (getTask (kw_state w))\<rparr>)
    | Run_Key_Task m obj \<Rightarrow> Inr (w\<lparr>kw_tasks := (kw_tasks w)(obj := map_option (run_key_task m) (kw_tasks w obj))\<rparr>)
    | Run_Certificate_Task h obj \<Rightarrow>
        Inr (w\<lparr>kw_tasks := (kw_tasks w)(obj := map_option (run_certificate_task h) (kw_tasks w obj))\<rparr>))"

definition key_slot_inv :: "int list \<Rightarrow> key_world \<Rightarrow> bool" where
  "key_slot_inv base w \<longleftrightarrow>
   (case kw_state w of None \<Rightarrow> False
    | Some s \<Rightarrow>
      (case ssl_task s of
         None \<Rightarrow> kw_refs w = base
       | Some t \<Rightarrow> task t \<noteq> 0 \<and> kw_refs w = task t # base \<and> kw_tasks w (task t) \<noteq> None))"

lemma key_slot_inv_drop:
  "key_slot_inv base w \<Longrightarrow> kw_state w = Some s \<Longrightarrow> ssl_task s = Some t \<Longrightarrow> key_slot_inv base (drop_task s t w)"
  by (simp add: key_slot_inv_def drop_task_def tcn_ssl_task_free_def)

lemma key_slot_inv_store:
  "key_slot_inv base w \<Longrightarrow> kw_state w = Some s \<Longrightarrow> ssl_task s = None \<Longrightarrow>
   key_slot_inv base (snd (store_task env req s w))"
  by (auto simp: key_slot_inv_def store_task_def tcn_ssl_task_new_def Let_def)

lemma key_slot_inv_cases:
  assumes "key_slot_inv base w"
  obtains (idle) s where "kw_state w = Some s" "ssl_task s = None"
    | (busy) s t kt where "kw_state w = Some s" "ssl_task s = Some t" "kw_tasks w (task t) = Some kt"
  using assms by (auto simp: key_slot_inv_def split: option.splits)

lemma drive_key_keeps:
  assumes inv: "key_slot_inv base w" and tasks: "use_tasks c"
  shows "\<exists>r out w'. drive_key env call req max_out c w = Inr (r, out, w') \<and> key_slot_inv base w'"
  using inv
proof (cases rule: key_slot_inv_cases)
  case (idle s)
  then show ?thesis
    using inv tasks key_slot_inv_store [OF inv idle, of env req]
    by (auto simp: drive_key_def key_operation_def split: option.split prod.split)
next
  case (busy s t kt)
  then show ?thesis
    using inv key_slot_inv_drop [OF inv busy(1,2)]
    by (auto simp: drive_key_def tcn_private_key_complete_java_def split: prod.split)
qed

lemma certificate_cb_keeps:
  assumes inv: "key_slot_inv base w"
  shows "\<exists>r w'. certificate_cb b env ce (Some c) w = Inr (r, w') \<and> key_slot_inv base w'"
  using inv
proof (cases rule: key_slot_inv_cases)
  case (idle s)
  then show ?thesis
    using inv key_slot_inv_store [OF inv idle, of env "cert_request_args b ce c"]
    by (auto simp: certificate_cb_def Let_def split: prod.split)
next
  case (busy s t kt)
  then show ?thesis
    using inv key_slot_inv_drop [OF inv busy(1,2)] by (auto simp: certificate_cb_def)
qed

interpretation key_slot: resource_client "\<lambda>base w. use_tasks c \<and> key_slot_inv base w" "key_step b call c"
  "\<lambda>w. free_ssl_state (kw_state w) (kw_refs w)" for b call c
proof
  fix base w op assume "use_tasks c \<and> key_slot_inv base w"
  then have tasks: "use_tasks c" and inv: "key_slot_inv base w" by simp_all
  have "\<exists>w'. key_step b call c w op = Inr w' \<and> key_slot_inv base w'"
  proof (cases op)
    case (Drive_Key env req max_out)
    then show ?thesis using drive_key_keeps [OF inv tasks, of env call req max_out] by (auto simp: key_step_def)
  next
    case (Drive_Certificate env ce)
    then show ?thesis using certificate_cb_keeps [OF inv, of b env ce c] by (auto simp: key_step_def)
  next
    case Fetch_Key_Task
    then show ?thesis using inv
      by (auto simp: key_step_def key_slot_inv_def getTask_def split: option.splits)
  qed (use inv in \<open>auto simp: key_step_def key_slot_inv_def split: option.splits\<close>)
  then show "\<exists>w'. key_step b call c w op = Inr w' \<and> use_tasks c \<and> key_slot_inv base w'" using tasks by blast
next
  fix base w assume "use_tasks c \<and> key_slot_inv base w"
  then show "free_ssl_state (kw_state w) (kw_refs w) = base"
    by (auto simp: key_slot_inv_def free_ssl_state_def tcn_ssl_task_free_def split: option.splits)
qed

text \<open>
  Over any sequence of private key operations, completions, certificate callbacks, fetches and
  runs of tasks, as OpenSSL orders them and with tasks enabled, no deleted task is touched, and freeing the connection
  leaves exactly the global references from before.
\<close>

theorem key_task_lifecycle:
  assumes tasks: "use_tasks c" and new: "newSSL (Some c) caddr ssl malloc_ok server = Inr conn"
    and w: "kw_state w = app_state conn" "kw_refs w = base"
  shows "\<exists>w'. run_steps (key_step b call c) w ops = Inr w'
    \<and> freeSSL (Some (conn\<lparr>app_state := kw_state w'\<rparr>)) (kw_refs w') = Inr base"
proof -
  have "key_slot_inv base w"
    using new w by (auto simp: newSSL_def new_ssl_state_def key_slot_inv_def split: if_splits)
  then have "use_tasks c \<and> key_slot_inv base w" using tasks by simp
  from key_slot.run_releases [OF this] show ?thesis by (simp add: freeSSL_def)
qed

theorem key_task_lifecycle_witness:
  "\<exists>conn w'. newSSL (Some (key_ctxt True)) 9 5 True False = Inr conn
     \<and> run_steps (key_step demo_build (\<lambda>_. None) (key_ctxt True)) (key_world0\<lparr>kw_state := app_state conn\<rparr>)
          [Drive_Certificate key_env_ok (cert_env_ok True), Fetch_Key_Task,
           Run_Certificate_Task (\<lambda>_. True) 52, Drive_Certificate key_env_ok (cert_env_ok True),
           Drive_Key key_env_ok (Decrypt_Request [1]) 8] = Inr w'
     \<and> freeSSL (Some (conn\<lparr>app_state := kw_state w'\<rparr>)) (kw_refs w') = Inr [8]"
proof -
  obtain conn where n: "newSSL (Some (key_ctxt True)) 9 5 True False = Inr conn"
    by (simp add: newSSL_def new_ssl_state_def)
  have "use_tasks (key_ctxt True)" by (simp add: key_ctxt_def)
  moreover have "kw_state (key_world0\<lparr>kw_state := app_state conn\<rparr>) = app_state conn"
      "kw_refs (key_world0\<lparr>kw_state := app_state conn\<rparr>) = [8]"
    by (simp_all add: key_world0_def)
  ultimately show ?thesis using key_task_lifecycle [OF _ n] n by blast
qed


end
