(* ===== verification/Cert_Compress.thy ===== *)
theory Cert_Compress
  imports Context
begin

text \<open>
  Certificate compression with BoringSSL and AWS-LC (\<^verbatim>\<open>cert_compress.c\<close>): the two routines that hand the
  certificate message to a Java compression algorithm, and the six callbacks that select the
  algorithm stored in the context for zlib, brotli and zstd.

  The lemmas connect the callbacks with the setter that registers an algorithm, bound what is
  written and show that a failed call leaves OpenSSL's output as it was.
\<close>

section \<open>The two routines\<close>

text \<open>Whether the JNI and OpenSSL calls succeed.\<close>

record compress_env =
  jenv_ok :: bool
  new_array_ok :: bool
  reserve_ok :: bool
  elements_ok :: bool
  did_write_ok :: bool
  buffer_alloc_ok :: bool

text \<open>
  A Java array made from \<open>in_len\<close> bytes: the length is converted to \<^verbatim>\<open>jsize\<close>, and
  \<^verbatim>\<open>NewByteArray\<close> returns \<^verbatim>\<open>NULL\<close> for a negative length.
\<close>

definition input_array :: "compress_env \<Rightarrow> byte list \<Rightarrow> byte list option" where
  "input_array env inb =
   (let n = int_cast (int (length inb)) in
    if n < 0 \<or> \<not> new_array_ok env then None else Some (take (nat n) inb))"

text \<open>
  A Java method of the algorithm object: object, method and arguments give \<open>None\<close> when it throws and
  otherwise the returned array (\<open>Some None\<close> is \<^verbatim>\<open>null\<close>). \<open>out\<close> is the content of the \<^verbatim>\<open>CBB\<close>.
\<close>

type_synonym compressor = "int \<Rightarrow> int \<Rightarrow> byte list \<Rightarrow> byte list option option"
type_synonym decompressor = "int \<Rightarrow> int \<Rightarrow> int \<Rightarrow> byte list \<Rightarrow> byte list option option"

definition compress ::
  "compress_env \<Rightarrow> compressor \<Rightarrow> int \<Rightarrow> int \<Rightarrow> byte list \<Rightarrow> byte list \<Rightarrow> int \<times> byte list" where
  "compress env java compression_algorithm compress_method out inb =
   (if compression_algorithm = 0 \<or> compress_method = 0 then (0, out)
    else if \<not> jenv_ok env then (0, out)
    else (case input_array env inb of None \<Rightarrow> (0, out)
    | Some arr \<Rightarrow>
      (case java compression_algorithm compress_method arr of
         None \<Rightarrow> (0, out)
       | Some None \<Rightarrow> (0, out)
       | Some (Some res) \<Rightarrow>
         if \<not> reserve_ok env then (0, out)
         else if \<not> elements_ok env then (0, out)
         else if \<not> did_write_ok env then (0, out)
         else (1, out @ res))))"

text \<open>\<open>out\<close> is the \<^verbatim>\<open>CRYPTO_BUFFER\<close> behind the output pointer, \<open>None\<close> for \<^verbatim>\<open>NULL\<close>. The length is passed
  to a Java \<^verbatim>\<open>int\<close> parameter and compared as a \<^verbatim>\<open>size_t\<close>.\<close>

definition decompress ::
  "compress_env \<Rightarrow> decompressor \<Rightarrow> int \<Rightarrow> int \<Rightarrow> byte list option \<Rightarrow> nat \<Rightarrow> byte list
   \<Rightarrow> int \<times> byte list option" where
  "decompress env java compression_algorithm decompress_method out uncompressed_len inb =
   (if compression_algorithm = 0 \<or> decompress_method = 0 then (0, out)
    else if \<not> jenv_ok env then (0, out)
    else (case input_array env inb of None \<Rightarrow> (0, out)
    | Some arr \<Rightarrow>
      (case java compression_algorithm decompress_method (int_cast (int uncompressed_len)) arr of
         None \<Rightarrow> (0, out)
       | Some None \<Rightarrow> (0, out)
       | Some (Some res) \<Rightarrow>
         if uncompressed_len \<noteq> length res then (0, out)
         else if \<not> elements_ok env then (0, out)
         else if \<not> buffer_alloc_ok env then (0, None)
         else (1, Some (take uncompressed_len res)))))"

section \<open>The callbacks\<close>

text \<open>The context comes from \<^verbatim>\<open>TCN_GET_SSL_CTX\<close> and is dereferenced without a check in release builds.\<close>

definition zlib_compress_java ::
  "compress_env \<Rightarrow> compressor \<Rightarrow> tcn_ssl_ctxt option \<Rightarrow> byte list \<Rightarrow> byte list \<Rightarrow> (int \<times> byte list) cres" where
  "zlib_compress_java env java cp out inb = cbind (deref cp) (\<lambda>c.
     Inr (compress env java (ssl_cert_compression_zlib_algorithm c)
            (ssl_cert_compression_zlib_compress_method c) out inb))"

definition zlib_decompress_java ::
  "compress_env \<Rightarrow> decompressor \<Rightarrow> tcn_ssl_ctxt option \<Rightarrow> byte list option \<Rightarrow> nat \<Rightarrow> byte list
   \<Rightarrow> (int \<times> byte list option) cres" where
  "zlib_decompress_java env java cp out len inb = cbind (deref cp) (\<lambda>c.
     Inr (decompress env java (ssl_cert_compression_zlib_algorithm c)
            (ssl_cert_compression_zlib_decompress_method c) out len inb))"

definition brotli_compress_java ::
  "compress_env \<Rightarrow> compressor \<Rightarrow> tcn_ssl_ctxt option \<Rightarrow> byte list \<Rightarrow> byte list \<Rightarrow> (int \<times> byte list) cres" where
  "brotli_compress_java env java cp out inb = cbind (deref cp) (\<lambda>c.
     Inr (compress env java (ssl_cert_compression_brotli_algorithm c)
            (ssl_cert_compression_brotli_compress_method c) out inb))"

definition brotli_decompress_java ::
  "compress_env \<Rightarrow> decompressor \<Rightarrow> tcn_ssl_ctxt option \<Rightarrow> byte list option \<Rightarrow> nat \<Rightarrow> byte list
   \<Rightarrow> (int \<times> byte list option) cres" where
  "brotli_decompress_java env java cp out len inb = cbind (deref cp) (\<lambda>c.
     Inr (decompress env java (ssl_cert_compression_brotli_algorithm c)
            (ssl_cert_compression_brotli_decompress_method c) out len inb))"

definition zstd_compress_java ::
  "compress_env \<Rightarrow> compressor \<Rightarrow> tcn_ssl_ctxt option \<Rightarrow> byte list \<Rightarrow> byte list \<Rightarrow> (int \<times> byte list) cres" where
  "zstd_compress_java env java cp out inb = cbind (deref cp) (\<lambda>c.
     Inr (compress env java (ssl_cert_compression_zstd_algorithm c)
            (ssl_cert_compression_zstd_compress_method c) out inb))"

definition zstd_decompress_java ::
  "compress_env \<Rightarrow> decompressor \<Rightarrow> tcn_ssl_ctxt option \<Rightarrow> byte list option \<Rightarrow> nat \<Rightarrow> byte list
   \<Rightarrow> (int \<times> byte list option) cres" where
  "zstd_decompress_java env java cp out len inb = cbind (deref cp) (\<lambda>c.
     Inr (decompress env java (ssl_cert_compression_zstd_algorithm c)
            (ssl_cert_compression_zstd_decompress_method c) out len inb))"

text \<open>
  The pair of callbacks that \<^verbatim>\<open>addCertificateCompressionAlgorithm0\<close> registers for an algorithm
  identifier: these are the functions BoringSSL calls when that identifier is negotiated.
\<close>

definition compress_callback ::
  "int \<Rightarrow> compress_env \<Rightarrow> compressor \<Rightarrow> tcn_ssl_ctxt option \<Rightarrow> byte list \<Rightarrow> byte list \<Rightarrow> (int \<times> byte list) cres" where
  "compress_callback algorithmId =
   (if algorithmId = TLSEXT_cert_compression_zlib then zlib_compress_java
    else if algorithmId = TLSEXT_cert_compression_brotli then brotli_compress_java
    else zstd_compress_java)"

definition decompress_callback ::
  "int \<Rightarrow> compress_env \<Rightarrow> decompressor \<Rightarrow> tcn_ssl_ctxt option \<Rightarrow> byte list option \<Rightarrow> nat \<Rightarrow> byte list
   \<Rightarrow> (int \<times> byte list option) cres" where
  "decompress_callback algorithmId =
   (if algorithmId = TLSEXT_cert_compression_zlib then zlib_decompress_java
    else if algorithmId = TLSEXT_cert_compression_brotli then brotli_decompress_java
    else zstd_decompress_java)"

lemmas compress_callback_defs = compress_callback_def zlib_compress_java_def
  brotli_compress_java_def zstd_compress_java_def

lemmas decompress_callback_defs = decompress_callback_def zlib_decompress_java_def
  brotli_decompress_java_def zstd_decompress_java_def

section \<open>Registration and dispatch\<close>

lemma add_compression_cases:
  assumes "addCertificateCompressionAlgorithm0 b env added (Some c) d i alg refs = (r, Some c', cs, refs', None)"
  shows "i \<in> {TLSEXT_cert_compression_zlib, TLSEXT_cert_compression_brotli, TLSEXT_cert_compression_zstd}"
    and "newref env \<noteq> 0" "method1 env \<noteq> 0" "method2 env \<noteq> 0"
    and "i = TLSEXT_cert_compression_zlib \<Longrightarrow>
           c' = c\<lparr>ssl_cert_compression_zlib_algorithm := newref env,
                  ssl_cert_compression_zlib_compress_method := method1 env,
                  ssl_cert_compression_zlib_decompress_method := method2 env\<rparr>"
    and "i = TLSEXT_cert_compression_brotli \<Longrightarrow>
           c' = c\<lparr>ssl_cert_compression_brotli_algorithm := newref env,
                  ssl_cert_compression_brotli_compress_method := method1 env,
                  ssl_cert_compression_brotli_decompress_method := method2 env\<rparr>"
    and "i = TLSEXT_cert_compression_zstd \<Longrightarrow>
           c' = c\<lparr>ssl_cert_compression_zstd_algorithm := newref env,
                  ssl_cert_compression_zstd_compress_method := method1 env,
                  ssl_cert_compression_zstd_decompress_method := method2 env\<rparr>"
  using assms
  by (simp_all add: addCertificateCompressionAlgorithm0_def Let_def compression_id_defs split: if_splits)

lemma compression_ids_distinct:
  "TLSEXT_cert_compression_zlib \<noteq> TLSEXT_cert_compression_brotli"
  "TLSEXT_cert_compression_zlib \<noteq> TLSEXT_cert_compression_zstd"
  "TLSEXT_cert_compression_brotli \<noteq> TLSEXT_cert_compression_zstd"
  by (simp_all add: compression_id_defs)

lemmas ids_distinct = compression_ids_distinct compression_ids_distinct [symmetric]

lemma add_compression_dispatch:
  assumes "addCertificateCompressionAlgorithm0 b env added (Some c) d i alg refs = (r, Some c', cs, refs', None)"
  shows "compress_callback i ce jc (Some c') out inb
           = Inr (compress ce jc (newref env) (method1 env) out inb)"
    and "decompress_callback i ce jd (Some c') dout len inb
           = Inr (decompress ce jd (newref env) (method2 env) dout len inb)"
proof -
  consider (z) "i = TLSEXT_cert_compression_zlib" | (b) "i = TLSEXT_cert_compression_brotli"
    | (s) "i = TLSEXT_cert_compression_zstd"
    using add_compression_cases(1) [OF assms] by blast
  then have "compress_callback i ce jc (Some c') out inb
           = Inr (compress ce jc (newref env) (method1 env) out inb)
     \<and> decompress_callback i ce jd (Some c') dout len inb
           = Inr (decompress ce jd (newref env) (method2 env) dout len inb)"
  proof cases
    case z
    show ?thesis unfolding add_compression_cases(5) [OF assms z] z
      by (simp add: compress_callback_defs decompress_callback_defs ids_distinct)
  next
    case b
    show ?thesis unfolding add_compression_cases(6) [OF assms b] b
      by (simp add: compress_callback_defs decompress_callback_defs ids_distinct)
  next
    case s
    show ?thesis unfolding add_compression_cases(7) [OF assms s] s
      by (simp add: compress_callback_defs decompress_callback_defs ids_distinct)
  qed
  then show "compress_callback i ce jc (Some c') out inb
           = Inr (compress ce jc (newref env) (method1 env) out inb)"
    and "decompress_callback i ce jd (Some c') dout len inb
           = Inr (decompress ce jd (newref env) (method2 env) dout len inb)"
    by blast+
qed

lemma add_compression_others:
  assumes "addCertificateCompressionAlgorithm0 b env added (Some c) d i alg refs = (r, Some c', cs, refs', None)"
    and j: "j \<noteq> i" "j \<in> {TLSEXT_cert_compression_zlib, TLSEXT_cert_compression_brotli, TLSEXT_cert_compression_zstd}"
  shows "compress_callback j ce jc (Some c') out inb = compress_callback j ce jc (Some c) out inb
     \<and> decompress_callback j ce jd (Some c') dout len inb = decompress_callback j ce jd (Some c) dout len inb"
proof -
  consider (z) "i = TLSEXT_cert_compression_zlib" | (b) "i = TLSEXT_cert_compression_brotli"
    | (s) "i = TLSEXT_cert_compression_zstd"
    using add_compression_cases(1) [OF assms(1)] by blast
  then show ?thesis
  proof cases
    case z
    show ?thesis unfolding add_compression_cases(5) [OF assms(1) z] using j
      by (simp add: z compress_callback_defs decompress_callback_defs ids_distinct)
  next
    case b
    show ?thesis unfolding add_compression_cases(6) [OF assms(1) b] using j
      by (simp add: b compress_callback_defs decompress_callback_defs ids_distinct)
  next
    case s
    show ?thesis unfolding add_compression_cases(7) [OF assms(1) s] using j
      by (auto simp add: s compress_callback_defs decompress_callback_defs ids_distinct)
  qed
qed

lemma input_array_small:
  "length inb < 2 ^ 31 \<Longrightarrow> new_array_ok env \<Longrightarrow> input_array env inb = Some inb"
  by (simp add: input_array_def int_cast_id jint_range_def)

definition all_calls_ok :: compress_env where
  "all_calls_ok = \<lparr>jenv_ok = True, new_array_ok = True, reserve_ok = True, elements_ok = True,
                   did_write_ok = True, buffer_alloc_ok = True\<rparr>"

section \<open>Properties\<close>

text \<open>
  C24. Once an algorithm is registered for an identifier without an exception, the callbacks of
  that identifier hand the certificate to that Java object: if the object's decompress method
  inverts its compress method on this certificate, then the compress callback appends the
  compressed form to the message, the decompress callback recovers the certificate from it, and
  the callbacks of the other identifiers behave as before the registration.
\<close>

theorem cert_compression_round_trip:
  assumes added: "addCertificateCompressionAlgorithm0 b env added (Some c) d i alg refs
                    = (r, Some c', cs, refs', None)"
    and comp: "jc (newref env) (method1 env) cert = Some (Some packed)"
    and decomp: "jd (newref env) (method2 env) (int (length cert)) packed = Some (Some cert)"
    and small: "length cert < 2 ^ 31" "length packed < 2 ^ 31"
  shows "compress_callback i all_calls_ok jc (Some c') out cert = Inr (1, out @ packed)
    \<and> decompress_callback i all_calls_ok jd (Some c') dout (length cert) packed = Inr (1, Some cert)
    \<and> (\<forall>j \<in> {TLSEXT_cert_compression_zlib, TLSEXT_cert_compression_brotli, TLSEXT_cert_compression_zstd} - {i}.
         compress_callback j ce jc (Some c') out cert = compress_callback j ce jc (Some c) out cert
       \<and> decompress_callback j ce jd (Some c') dout n packed = decompress_callback j ce jd (Some c) dout n packed)"
proof (intro conjI ballI)
  note nz = add_compression_cases(2-4) [OF added]
  have ok: "input_array all_calls_ok cert = Some cert" "input_array all_calls_ok packed = Some packed"
    using small by (simp_all add: input_array_small all_calls_ok_def)
  have len: "int_cast (int (length cert)) = int (length cert)"
    using small by (simp add: int_cast_id jint_range_def)
  show "compress_callback i all_calls_ok jc (Some c') out cert = Inr (1, out @ packed)"
    unfolding add_compression_dispatch(1) [OF added] compress_def ok
    using nz comp by (simp add: all_calls_ok_def)
  show "decompress_callback i all_calls_ok jd (Some c') dout (length cert) packed = Inr (1, Some cert)"
    unfolding add_compression_dispatch(2) [OF added] decompress_def ok len
    using nz decomp by (simp add: all_calls_ok_def)
qed (use add_compression_others [OF added] in auto)

text \<open>A run-length code for the witness: a certificate of equal bytes becomes the byte and the length.\<close>

definition rle_compress :: compressor where
  "rle_compress obj meth inb = Some (case inb of [] \<Rightarrow> None | x # xs \<Rightarrow> Some [x])"

definition rle_decompress :: decompressor where
  "rle_decompress obj meth n inb = Some (case inb of [] \<Rightarrow> None | x # xs \<Rightarrow> Some (replicate (nat n) x))"

definition boring_build :: build where
  "boring_build = \<lparr>openssl_is_boringssl = True, openssl_is_awslc = False, libressl_version_number = None,
     openssl_version_number = 0x10100000, openssl_no_tls1_3 = False, openssl_no_ocsp = False,
     openssl_no_engine = False, gnuc = True\<rparr>"

definition brotli_env :: ref_env where
  "brotli_env = \<lparr>obj_class = 5, method1 = 6, method2 = 7, newref = 8\<rparr>"

definition brotli_ctxt :: tcn_ssl_ctxt where
  "brotli_ctxt = ctxt_zero\<lparr>ssl_cert_compression_brotli_algorithm := 8,
     ssl_cert_compression_brotli_compress_method := 6, ssl_cert_compression_brotli_decompress_method := 7\<rparr>"

lemma add_brotli:
  assumes "boring b" "alg \<noteq> 0" "obj_class env \<noteq> 0" "method1 env \<noteq> 0" "method2 env \<noteq> 0" "newref env \<noteq> 0"
    and "d AND SSL_CERT_COMPRESSION_DIRECTION_COMPRESS \<noteq> 0"
    and "d AND SSL_CERT_COMPRESSION_DIRECTION_DECOMPRESS \<noteq> 0" and "added \<noteq> 0"
  shows "addCertificateCompressionAlgorithm0 b env added (Some c) d TLSEXT_cert_compression_brotli alg refs =
     (added, Some (c\<lparr>ssl_cert_compression_brotli_algorithm := newref env,
                       ssl_cert_compression_brotli_compress_method := method1 env,
                       ssl_cert_compression_brotli_decompress_method := method2 env\<rparr>),
      [CTX_add_cert_compression_alg TLSEXT_cert_compression_brotli True True],
      delete_ref True (ssl_cert_compression_brotli_algorithm c) (newref env # refs), None)"
  using assms by (simp add: addCertificateCompressionAlgorithm0_def ids_distinct)

lemma brotli_added:
  "addCertificateCompressionAlgorithm0 boring_build brotli_env 1 (Some ctxt_zero) 3 2 4 [] =
     (1, Some brotli_ctxt, [CTX_add_cert_compression_alg 2 True True], [8], None)"
proof -
  have d: "3 AND SSL_CERT_COMPRESSION_DIRECTION_COMPRESS \<noteq> (0::int)"
    "3 AND SSL_CERT_COMPRESSION_DIRECTION_DECOMPRESS \<noteq> (0::int)"
    by (simp_all add: SSL_CERT_COMPRESSION_DIRECTION_COMPRESS_def SSL_CERT_COMPRESSION_DIRECTION_DECOMPRESS_def)
  have e: "obj_class brotli_env = 5" "method1 brotli_env = 6" "method2 brotli_env = 7" "newref brotli_env = 8"
    by (simp_all add: brotli_env_def)
  have z: "ssl_cert_compression_brotli_algorithm ctxt_zero = 0" by (simp add: ctxt_zero_def)
  have b: "boring boring_build" by (simp add: boring_def boring_build_def)
  have i: "TLSEXT_cert_compression_brotli = 2" by (rule TLSEXT_cert_compression_brotli_def)
  have c: "brotli_ctxt = ctxt_zero\<lparr>ssl_cert_compression_brotli_algorithm := newref brotli_env,
       ssl_cert_compression_brotli_compress_method := method1 brotli_env,
       ssl_cert_compression_brotli_decompress_method := method2 brotli_env\<rparr>"
    unfolding e by (rule brotli_ctxt_def)
  have "addCertificateCompressionAlgorithm0 boring_build brotli_env 1 (Some ctxt_zero) 3
          TLSEXT_cert_compression_brotli 4 [] =
     (1, Some brotli_ctxt, [CTX_add_cert_compression_alg TLSEXT_cert_compression_brotli True True],
      delete_ref True (ssl_cert_compression_brotli_algorithm ctxt_zero) [newref brotli_env], None)"
    unfolding c by (rule add_brotli) (simp_all add: d e b)
  then show ?thesis by (simp add: i e z delete_ref_def)
qed

theorem cert_compression_round_trip_witness:
  "compress_callback 2 all_calls_ok rle_compress (Some brotli_ctxt) [1] [9, 9, 9] = Inr (1, [1, 9])
   \<and> decompress_callback 2 all_calls_ok rle_decompress (Some brotli_ctxt) None 3 [9] = Inr (1, Some [9, 9, 9])"
proof -
  have c: "rle_compress (newref brotli_env) (method1 brotli_env) [9, 9, 9] = Some (Some [9])"
    by (simp add: rle_compress_def)
  have d: "rle_decompress (newref brotli_env) (method2 brotli_env) (int (length [9, 9, 9 :: byte])) [9]
      = Some (Some [9, 9, 9])"
    by (simp add: rle_decompress_def numeral_3_eq_3)
  show ?thesis
    using cert_compression_round_trip [OF brotli_added, of rle_compress "[9, 9, 9]" "[9]" rle_decompress "[1]" None
        all_calls_ok 3, OF c d] by (simp add: numeral_3_eq_3)
qed

text \<open>
  Whatever the Java code and the libraries answer, a compression callback that returns 0
  leaves the message it appends to unchanged, and the decompression callback returns 1 only with
  a buffer of exactly the announced length that holds what Java returned; when it returns 0 the
  output pointer is untouched or null. There is no other return value.
\<close>

theorem cert_compression_fails_closed:
  assumes "compress_callback i env jc (Some c) out inb = Inr (r, out')"
    and "decompress_callback j env jd (Some c) dout len inb = Inr (s, dout')"
  shows "(r = 0 \<and> out' = out
           \<or> r = 1 \<and> (\<exists>obj meth arr res. obj \<noteq> 0 \<and> meth \<noteq> 0 \<and> input_array env inb = Some arr
                        \<and> jc obj meth arr = Some (Some res) \<and> out' = out @ res))
       \<and> (s = 0 \<and> dout' \<in> {dout, None}
           \<or> s = 1 \<and> (\<exists>obj meth arr res. obj \<noteq> 0 \<and> meth \<noteq> 0 \<and> input_array env inb = Some arr
                        \<and> jd obj meth (int_cast (int len)) arr = Some (Some res) \<and> length res = len
                        \<and> dout' = Some res))"
proof
  have c: "compress env jc a m out inb = (r, out') \<Longrightarrow> r = 0 \<and> out' = out
      \<or> r = 1 \<and> (\<exists>obj meth arr res. obj \<noteq> 0 \<and> meth \<noteq> 0 \<and> input_array env inb = Some arr
                    \<and> jc obj meth arr = Some (Some res) \<and> out' = out @ res)" for a m
    by (auto simp: compress_def split: if_splits option.splits)
  show "r = 0 \<and> out' = out
      \<or> r = 1 \<and> (\<exists>obj meth arr res. obj \<noteq> 0 \<and> meth \<noteq> 0 \<and> input_array env inb = Some arr
                    \<and> jc obj meth arr = Some (Some res) \<and> out' = out @ res)"
    using assms(1) by (auto simp: compress_callback_defs dest!: c split: if_splits)
  have d: "decompress env jd a m dout len inb = (s, dout') \<Longrightarrow> s = 0 \<and> dout' \<in> {dout, None}
      \<or> s = 1 \<and> (\<exists>obj meth arr res. obj \<noteq> 0 \<and> meth \<noteq> 0 \<and> input_array env inb = Some arr
                    \<and> jd obj meth (int_cast (int len)) arr = Some (Some res) \<and> length res = len
                    \<and> dout' = Some res)" for a m
    by (auto simp: decompress_def split: if_splits option.splits)
  show "s = 0 \<and> dout' \<in> {dout, None}
      \<or> s = 1 \<and> (\<exists>obj meth arr res. obj \<noteq> 0 \<and> meth \<noteq> 0 \<and> input_array env inb = Some arr
                    \<and> jd obj meth (int_cast (int len)) arr = Some (Some res) \<and> length res = len
                    \<and> dout' = Some res)"
    using assms(2) by (auto simp: decompress_callback_defs dest!: d split: if_splits)
qed

theorem cert_compression_fails_closed_witness:
  "compress_callback 2 all_calls_ok rle_compress (Some brotli_ctxt) [1] [9] = Inr (1, [1, 9])
   \<and> decompress_callback 1 all_calls_ok rle_decompress (Some brotli_ctxt) None 3 [9] = Inr (0, None)
   \<and> (\<exists>obj meth arr res. obj \<noteq> (0::int) \<and> meth \<noteq> (0::int) \<and> input_array all_calls_ok [9] = Some arr
        \<and> rle_compress obj meth arr = Some (Some res) \<and> [1, 9] = [1] @ res)"
proof -
  have 1: "compress_callback 2 all_calls_ok rle_compress (Some brotli_ctxt) [1] [9] = Inr (1, [1, 9])"
    by (simp add: compress_callback_defs compression_id_defs compress_def brotli_ctxt_def
        all_calls_ok_def rle_compress_def input_array_def int_cast_def)
  have 2: "decompress_callback 1 all_calls_ok rle_decompress (Some brotli_ctxt) None 3 [9] = Inr (0, None)"
    by (simp add: decompress_callback_defs compression_id_defs decompress_def brotli_ctxt_def ctxt_zero_def)
  show ?thesis using cert_compression_fails_closed [OF 1 2] 1 2 by simp
qed

end
