(* ===== verification/Cert_Load.thy ===== *)
theory Cert_Load
  imports Ssl_Types "HOL-Library.Multiset"
begin

text \<open>
  Loading a certificate and its private key: the password callback of \<^verbatim>\<open>sslutils.c\<close>, the loaders for
  PEM, DER and PKCS12 sources, and the entry points \<^verbatim>\<open>SSLContext.setCertificate\<close>,
  \<^verbatim>\<open>SSLContext.setCertificateBio\<close> and \<^verbatim>\<open>SSL.setCertificateBio\<close>.

  \<open>owned\<close> is the multiset of native references (X509, EVP_PKEY, BIO, PKCS12 objects) that the C code
  holds and has to give back; freeing a reference that is not in it is undefined behaviour. The
  lemmas show that every path releases exactly what it acquired, and what becomes of the stored
  password.
\<close>

section \<open>Native references\<close>

definition native_new :: "int \<Rightarrow> int multiset \<Rightarrow> int multiset" where
  "native_new a owned = (if a = 0 then owned else add_mset a owned)"

definition native_free :: "int \<Rightarrow> int multiset \<Rightarrow> int multiset cres" where
  "native_free a owned =
     (if a = 0 then Inr owned
      else if a \<in># owned then Inr (owned - {#a#})
      else Inl (UB Use_After_Free))"

lemma native_new_0 [simp]: "native_new 0 owned = owned"
  by (simp add: native_new_def)

lemma native_free_0 [simp, cres_simps]: "native_free 0 owned = Inr owned"
  by (simp add: native_free_def)

lemma native_free_new [simp, cres_simps]: "native_free a (native_new a owned) = Inr owned"
  by (simp add: native_free_def native_new_def)

lemma native_new_commute: "native_new a (native_new b owned) = native_new b (native_new a owned)"
  by (simp add: native_new_def add_mset_commute)

lemma native_free_below [simp, cres_simps]:
  "native_free a (native_new b (native_new a owned)) = Inr (native_new b owned)"
  by (metis native_new_commute native_free_new)

lemma native_free_below2 [simp, cres_simps]:
  "native_free a (native_new b (native_new c (native_new a owned))) = Inr (native_new b (native_new c owned))"
  by (metis native_new_commute native_free_new)

section \<open>The password callback\<close>

text \<open>A C string is the list of its bytes before the terminating zero.\<close>

definition c_string :: "byte list \<Rightarrow> byte list" where
  "c_string bs = takeWhile (\<lambda>b. b \<noteq> 0) bs"

definition c_strlen :: "byte list \<Rightarrow> int" where
  "c_strlen bs = int (length (c_string bs))"

text \<open>The \<open>n\<close> bytes that \<^verbatim>\<open>strncpy\<close> stores: the string, cut or padded with zeros.\<close>

definition strncpy_bytes :: "byte list \<Rightarrow> nat \<Rightarrow> byte list" where
  "strncpy_bytes src n = take n (c_string src) @ replicate (n - length (c_string src)) 0"

text \<open>The result and the content of \<^verbatim>\<open>buf\<close>; the length argument is converted to \<^verbatim>\<open>size_t\<close>.\<close>

definition tcn_SSL_password_callback ::
  "byte list option \<Rightarrow> int \<Rightarrow> byte list option \<Rightarrow> (int \<times> byte list option) cres" where
  "tcn_SSL_password_callback buf bufsiz cb =
   (case buf of None \<Rightarrow> Inr (0, buf)
    | Some b \<Rightarrow>
    (case cb of None \<Rightarrow> Inr (0, buf)
    | Some pw \<Rightarrow>
      cbind (mem_write b 0 [0]) (\<lambda>b1.
      cbind (if c_string pw \<noteq> [] then mem_write b1 0 (strncpy_bytes pw (nat (size_t_of bufsiz)))
             else Inr b1) (\<lambda>b2.
      cbind (mem_write b2 (bufsiz - 1) [0]) (\<lambda>b3.
        Inr (c_strlen b3, Some b3))))))"

section \<open>Sources of keys and certificates\<close>

text \<open>A file that is opened here, or a BIO that Java passes as an address.\<close>

datatype source = File string | Handle int

text \<open>
  What OpenSSL and the C library answer: addresses are \<open>0\<close> on failure, and may depend on the
  password the callback would supply. \<open>p12_parse\<close> gives the return value, the key and the certificate.
\<close>

record pem_env =
  bio_new_file :: "string \<Rightarrow> int"
  read_filename_ok :: "string \<Rightarrow> bool"
  PEM_read_PrivateKey :: "byte list option \<Rightarrow> source \<Rightarrow> int"
  PEM_read_X509_AUX :: "byte list option \<Rightarrow> source \<Rightarrow> int"
  no_start_line :: "source \<Rightarrow> bool"
  d2i_X509 :: "source \<Rightarrow> int"
  d2i_PKCS12 :: "source \<Rightarrow> int"
  verify_mac_empty :: "source \<Rightarrow> bool"
  verify_mac :: "source \<Rightarrow> byte list \<Rightarrow> bool"
  p12_parse :: "source \<Rightarrow> byte list \<Rightarrow> int \<times> int \<times> int"
  stack_bytes :: "byte list"
  strdup_ok :: bool
  use_certificate :: "int \<Rightarrow> int"
  use_PrivateKey :: "int \<Rightarrow> int"
  check_private_key :: int

definition PEM_BUFSIZE :: int where "PEM_BUFSIZE = 1024"

definition load_pem_key :: "pem_env \<Rightarrow> tcn_ssl_ctxt \<Rightarrow> string \<Rightarrow> int multiset \<Rightarrow> (int \<times> int multiset) cres" where
  "load_pem_key env c file owned =
   (let bio = bio_new_file env file in
    if bio = 0 then Inr (0, owned)
    else
      let owned1 = native_new bio owned in
      if \<not> read_filename_ok env file then cbind (native_free bio owned1) (\<lambda>o1. Inr (0, o1))
      else
        let key = PEM_read_PrivateKey env (password c) (File file) in
        cbind (native_free bio (native_new key owned1)) (\<lambda>o1. Inr (key, o1)))"

definition load_pem_cert :: "pem_env \<Rightarrow> tcn_ssl_ctxt \<Rightarrow> string \<Rightarrow> int multiset \<Rightarrow> (int \<times> int multiset) cres" where
  "load_pem_cert env c file owned =
   (let bio = bio_new_file env file in
    if bio = 0 then Inr (0, owned)
    else
      let owned1 = native_new bio owned in
      if \<not> read_filename_ok env file then cbind (native_free bio owned1) (\<lambda>o1. Inr (0, o1))
      else
        let cert0 = PEM_read_X509_AUX env (password c) (File file);
            cert = (if cert0 = 0 \<and> no_start_line env (File file) then d2i_X509 env (File file) else cert0)
        in cbind (native_free bio (native_new cert owned1)) (\<lambda>o1. Inr (cert, o1)))"

text \<open>The return value with the key and the certificate stored through the pointers; \<open>0\<close> where nothing is stored.\<close>

definition ssl_load_pkcs12 ::
  "pem_env \<Rightarrow> tcn_ssl_ctxt \<Rightarrow> string \<Rightarrow> int multiset \<Rightarrow> (int \<times> int \<times> int \<times> int multiset) cres" where
  "ssl_load_pkcs12 env c file owned =
   (let bio = bio_new_file env file in
    if bio = 0 then Inr (0, 0, 0, owned)
    else
      let owned1 = native_new bio owned in
      if \<not> read_filename_ok env file then cbind (native_free bio owned1) (\<lambda>o1. Inr (0, 0, 0, o1))
      else
        let p12 = d2i_PKCS12 env (File file);
            cleanup = (\<lambda>rc pkey cert.
              cbind (native_free p12 (native_new cert (native_new pkey (native_new p12 owned1)))) (\<lambda>o1.
              cbind (native_free bio o1) (\<lambda>o2. Inr (rc, pkey, cert, o2))));
            parse = (\<lambda>pass. let (rc, pkey, cert) = p12_parse env (File file) pass in cleanup rc pkey cert)
        in
        if p12 = 0 then cleanup 0 0 0
        else if verify_mac_empty env (File file) then parse []
        else cbind (tcn_SSL_password_callback (Some (stack_bytes env)) PEM_BUFSIZE (password c)) (\<lambda>(len, buff).
             if len < 0 then cleanup 0 0 0
             else cbind (deref buff) (\<lambda>bs.
               if \<not> verify_mac env (File file) (take (nat len) bs) then cleanup 0 0 0
               else parse (c_string bs))))"

definition tcn_load_pem_cert_bio :: "pem_env \<Rightarrow> byte list option \<Rightarrow> int \<Rightarrow> int" where
  "tcn_load_pem_cert_bio env pw bio =
   (let cert = PEM_read_X509_AUX env pw (Handle bio) in
    if cert = 0 \<and> no_start_line env (Handle bio) then d2i_X509 env (Handle bio) else cert)"

definition tcn_load_pem_key_bio :: "pem_env \<Rightarrow> byte list option \<Rightarrow> int \<Rightarrow> int" where
  "tcn_load_pem_key_bio env pw bio = PEM_read_PrivateKey env pw (Handle bio)"

section \<open>Setting the certificate of a context\<close>

text \<open>The block under \<^verbatim>\<open>if (J2S(password))\<close>: the context with the duplicated password, the password saved before, and whether \<^verbatim>\<open>strdup\<close> failed.\<close>

definition take_password :: "pem_env \<Rightarrow> byte list option \<Rightarrow> tcn_ssl_ctxt \<Rightarrow> tcn_ssl_ctxt" where
  "take_password env pw c =
     (case pw of None \<Rightarrow> c | Some p \<Rightarrow> c\<lparr>password := (if strdup_ok env then Some p else None)\<rparr>)"

definition saved_password :: "byte list option \<Rightarrow> tcn_ssl_ctxt \<Rightarrow> byte list option" where
  "saved_password pw c = (if pw = None then None else password c)"

definition strdup_failed :: "pem_env \<Rightarrow> byte list option \<Rightarrow> bool" where
  "strdup_failed env pw \<longleftrightarrow> pw \<noteq> None \<and> \<not> strdup_ok env"

text \<open>On failure the old password is restored; the new one, or the old one after a success, is freed.\<close>

definition free_and_reset_pass :: "tcn_ssl_ctxt \<Rightarrow> byte list option \<Rightarrow> bool \<Rightarrow> tcn_ssl_ctxt" where
  "free_and_reset_pass c old_password rv = (if \<not> rv then c\<lparr>password := old_password\<rparr> else c)"

datatype install_call = Use_Certificate int | Use_PrivateKey int | Check_private_key

text \<open>The three calls that hand the certificate and the key to OpenSSL, each with its error.\<close>

definition install_key_pair :: "pem_env \<Rightarrow> int \<Rightarrow> int \<Rightarrow> install_call list \<times> jexc option" where
  "install_key_pair env xcert pkey =
   (if use_certificate env xcert \<le> 0
    then ([Use_Certificate xcert], Some (JException ''Error setting certificate (%s)''))
    else if use_PrivateKey env pkey \<le> 0
    then ([Use_Certificate xcert, Use_PrivateKey pkey], Some (JException ''Error setting private key (%s)''))
    else if check_private_key env \<le> 0
    then ([Use_Certificate xcert, Use_PrivateKey pkey, Check_private_key],
          Some (JException ''Private key does not match the certificate public key (%s)''))
    else ([Use_Certificate xcert, Use_PrivateKey pkey, Check_private_key], None))"

text \<open>The return value, the context, the references, the calls on the \<^verbatim>\<open>SSL_CTX\<close> and the exception.\<close>

type_synonym set_cert_result =
  "(bool \<times> tcn_ssl_ctxt option \<times> int multiset \<times> install_call list \<times> jexc option) cres"

text \<open>The label \<^verbatim>\<open>cleanup\<close> of the two functions.\<close>

definition set_cert_cleanup ::
  "tcn_ssl_ctxt \<Rightarrow> byte list option \<Rightarrow> int \<Rightarrow> int \<Rightarrow> install_call list \<Rightarrow> jexc option \<Rightarrow> bool \<Rightarrow> int multiset
   \<Rightarrow> set_cert_result" where
  "set_cert_cleanup c old_password pkey xcert evs ex rv owned =
     cbind (native_free pkey owned) (\<lambda>o1.
     cbind (native_free xcert o1) (\<lambda>o2.
       Inr (rv, Some (free_and_reset_pass c old_password rv), o2, evs, ex)))"

definition strrchr_dot :: "string \<Rightarrow> string option" where
  "strrchr_dot s =
     (if CHR ''.'' \<in> set s then Some (CHR ''.'' # rev (takeWhile (\<lambda>x. x \<noteq> CHR ''.'') (rev s))) else None)"

text \<open>The key and the certificate from the files, or the exception with what was loaded before it.\<close>

definition load_from_files ::
  "pem_env \<Rightarrow> tcn_ssl_ctxt \<Rightarrow> string \<Rightarrow> string \<Rightarrow> int multiset \<Rightarrow> (jexc option \<times> int \<times> int \<times> int multiset) cres" where
  "load_from_files env c cert_file key_file owned =
   (if strrchr_dot cert_file = Some ''.pkcs12'' then
      cbind (ssl_load_pkcs12 env c cert_file owned) (\<lambda>(rc, pkey, xcert, o1).
        Inr (if rc = 0 then Some (JException ''Unable to load certificate %s (%s)'') else None, pkey, xcert, o1))
    else
      cbind (load_pem_key env c key_file owned) (\<lambda>(pkey, o1).
        if pkey = 0 then Inr (Some (JException ''Unable to load certificate key %s (%s)''), 0, 0, o1)
        else cbind (load_pem_cert env c cert_file o1) (\<lambda>(xcert, o2).
          Inr (if xcert = 0 then Some (JException ''Unable to load certificate %s (%s)'') else None,
               pkey, xcert, o2))))"

definition setCertificate ::
  "build \<Rightarrow> pem_env \<Rightarrow> tcn_ssl_ctxt option \<Rightarrow> string option \<Rightarrow> string option \<Rightarrow> byte list option \<Rightarrow> int multiset
   \<Rightarrow> set_cert_result" where
  "setCertificate b env cp cert key pw owned =
   (if openssl_is_boringssl b
    then Inr (False, cp, owned, [], Some (JException ''Not supported using BoringSSL''))
    else if openssl_is_awslc b
    then Inr (False, cp, owned, [], Some (JException ''Not supported using AWS-LC''))
    else (case cp of None \<Rightarrow> Inr (False, None, owned, [], Some (NullPointerException ''ctx''))
    | Some c \<Rightarrow>
      let old_password = saved_password pw c;
          c1 = take_password env pw c
      in
      if strdup_failed env pw then set_cert_cleanup c1 old_password 0 0 [] None False owned
      else
      (case (if key = None then cert else key, cert) of
         (Some key_file, Some cert_file) \<Rightarrow>
           cbind (load_from_files env c1 cert_file key_file owned) (\<lambda>(ex, pkey, xcert, o1).
             if ex \<noteq> None then set_cert_cleanup c1 old_password pkey xcert [] ex False o1
             else
               let (evs, ex') = install_key_pair env xcert pkey in
               set_cert_cleanup c1 old_password pkey xcert evs ex' (ex' = None) o1)
       | _ \<Rightarrow> set_cert_cleanup c1 old_password 0 0 []
                (Some (JException ''No Certificate file specified or invalid file format'')) False owned)))"

text \<open>\<open>key_bio\<close> is computed before the fall-back to the certificate: with \<open>key = 0\<close> it stays \<^verbatim>\<open>NULL\<close>.\<close>

definition setCertificateBio ::
  "build \<Rightarrow> pem_env \<Rightarrow> tcn_ssl_ctxt option \<Rightarrow> int \<Rightarrow> int \<Rightarrow> byte list option \<Rightarrow> int multiset \<Rightarrow> set_cert_result" where
  "setCertificateBio b env cp cert key pw owned =
   (if openssl_is_boringssl b
    then Inr (False, cp, owned, [], Some (JException ''Not supported using BoringSSL''))
    else if openssl_is_awslc b
    then Inr (False, cp, owned, [], Some (JException ''Not supported using AWS-LC''))
    else (case cp of None \<Rightarrow> Inr (False, None, owned, [], Some (NullPointerException ''ctx''))
    | Some c \<Rightarrow>
      let cert_bio = cert; key_bio = key;
          old_password = saved_password pw c;
          c1 = take_password env pw c;
          key1 = (if key = 0 then cert else key)
      in
      if strdup_failed env pw then set_cert_cleanup c1 old_password 0 0 [] None False owned
      else if cert = 0 \<or> key1 = 0
      then set_cert_cleanup c1 old_password 0 0 []
             (Some (JException ''No Certificate file specified or invalid file format'')) False owned
      else
        let pkey = tcn_load_pem_key_bio env (password c1) key_bio; o1 = native_new pkey owned in
        if pkey = 0
        then set_cert_cleanup c1 old_password 0 0 []
               (Some (JException ''Unable to load certificate key (%s)'')) False o1
        else
          let xcert = tcn_load_pem_cert_bio env (password c1) cert_bio; o2 = native_new xcert o1 in
          if xcert = 0
          then set_cert_cleanup c1 old_password pkey 0 []
                 (Some (JException ''Unable to load certificate (%s) '')) False o2
          else
            let (evs, ex) = install_key_pair env xcert pkey in
            set_cert_cleanup c1 old_password pkey xcert evs ex (ex = None) o2))"

text \<open>The variant for a connection uses the password only for this call and returns nothing.\<close>

definition SSL_setCertificateBio ::
  "build \<Rightarrow> pem_env \<Rightarrow> int \<Rightarrow> int \<Rightarrow> int \<Rightarrow> byte list option \<Rightarrow> int multiset
   \<Rightarrow> (int multiset \<times> install_call list \<times> jexc option) cres" where
  "SSL_setCertificateBio b env ssl cert key pw owned =
   (let cleanup = (\<lambda>pkey xcert evs ex own.
          cbind (native_free pkey own) (\<lambda>o1. cbind (native_free xcert o1) (\<lambda>o2. Inr (o2, evs, ex))))
    in
    if openssl_is_boringssl b then Inr (owned, [], Some (JException ''Not supported using BoringSSL''))
    else if openssl_is_awslc b then Inr (owned, [], Some (JException ''Not supported using AWS-LC''))
    else if ssl = 0 then Inr (owned, [], Some (NullPointerException ''ssl''))
    else
      let cert_bio = cert; key_bio = key; key1 = (if key \<le> 0 then cert else key) in
      if cert \<le> 0 \<or> key1 \<le> 0
      then cleanup 0 0 [] (Some (JException ''No Certificate file specified or invalid file format'')) owned
      else
        let pkey = tcn_load_pem_key_bio env pw key_bio; o1 = native_new pkey owned in
        if pkey = 0 then cleanup 0 0 [] (Some (JException ''Unable to load certificate key (%s)'')) o1
        else
          let xcert = tcn_load_pem_cert_bio env pw cert_bio; o2 = native_new xcert o1 in
          if xcert = 0 then cleanup pkey 0 [] (Some (JException ''Unable to load certificate (%s) '')) o2
          else
            let (evs, ex) = install_key_pair env xcert pkey in
            cleanup pkey xcert evs ex o2)"

section \<open>Lemmas\<close>

lemma c_string_cut:
  assumes "n < length b" "b ! n = 0" "\<forall>i < n. b ! i \<noteq> 0"
  shows "c_string b = take n b"
proof -
  have "takeWhile (\<lambda>x. x \<noteq> 0) (take n b @ b ! n # drop (Suc n) b) = take n b"
    using assms by (subst takeWhile_append2) (auto simp: in_set_conv_nth)
  then show ?thesis using assms(1) by (simp add: c_string_def id_take_nth_drop [symmetric])
qed

lemma c_string_nonzero: "i < length (c_string pw) \<Longrightarrow> c_string pw ! i \<noteq> 0"
proof -
  assume "i < length (c_string pw)"
  then have "c_string pw ! i \<in> set (takeWhile (\<lambda>b. b \<noteq> 0) pw)"
    unfolding c_string_def by (rule nth_mem)
  then show ?thesis by (rule set_takeWhileD [THEN conjunct2])
qed

lemma length_strncpy_bytes [simp]: "length (strncpy_bytes src n) = n"
  by (simp add: strncpy_bytes_def)

lemma password_callback_stores:
  assumes n: "0 < n" "n \<le> length b" "jint_range (int n)"
  shows "\<exists>b'. tcn_SSL_password_callback (Some b) (int n) (Some pw)
                = Inr (int (min (length (c_string pw)) (n - 1)), Some b')
       \<and> length b' = length b \<and> c_string b' = take (n - 1) (c_string pw) \<and> drop n b' = drop n b"
proof -
  let ?s = "c_string pw" and ?l = "min (length (c_string pw)) (n - 1)"
  define b2 where "b2 = (if ?s = [] then 0 # drop 1 b else strncpy_bytes pw n @ drop n b)"
  define b3 where "b3 = b2[n - 1 := 0]"
  have len2: "length b2 = length b" using n by (auto simp: b2_def)
  have size: "nat (size_t_of (int n)) = n" using n by (simp add: size_t_of_id)
  have w1: "mem_write b 0 [0] = Inr (0 # drop 1 b)" using n by (simp add: mem_write_def)
  have w2: "(if ?s \<noteq> [] then mem_write (0 # drop 1 b) 0 (strncpy_bytes pw (nat (size_t_of (int n))))
             else Inr (0 # drop 1 b)) = Inr b2"
  proof -
    have "drop n (0 # drop 1 b) = drop n b" using n by (cases n) auto
    then show ?thesis using n unfolding size by (simp add: mem_write_def b2_def)
  qed
  have w3: "mem_write b2 (int n - 1) [0] = Inr b3"
  proof -
    have "nat (int n - 1) = n - 1" by simp
    then show ?thesis using n len2
      by (simp add: mem_write_def b3_def upd_conv_take_nth_drop)
  qed
  have nth3: "b3 ! i = ?s ! i" if "i < ?l" for i
    using that n len2 by (auto simp: b3_def b2_def strncpy_bytes_def nth_append)
  have zero: "b3 ! ?l = 0"
  proof (cases "n - 1 \<le> length ?s")
    case True
    then have "?l = n - 1" by simp
    then show ?thesis using n len2 by (simp add: b3_def)
  next
    case False
    then have "?l = length ?s" "length ?s < n - 1" "length ?s < n" by simp_all
    then show ?thesis using n len2
      by (cases "?s = []") (simp_all add: b3_def b2_def strncpy_bytes_def nth_append split: nat.split)
  qed
  have len3: "length b3 = length b" by (simp add: b3_def len2)
  have str: "c_string b3 = take ?l b3"
    using n nth3 c_string_nonzero [of _ pw] by (intro c_string_cut zero) (auto simp: len3)
  have "take ?l b3 = take (n - 1) ?s"
    using n nth3 by (intro nth_equalityI) (auto simp: len3)
  moreover have "drop n b3 = drop n b"
    using n by (cases n) (auto simp: b3_def b2_def)
  moreover have "c_strlen b3 = int ?l"
    using n unfolding c_strlen_def str by (simp add: len3)
  ultimately show ?thesis
    unfolding tcn_SSL_password_callback_def option.case w1 cbind_Inr w2 w3
    by (intro exI [of _ b3]) (simp add: len3 str)
qed


lemma password_callback_returns:
  assumes "length buf = nat PEM_BUFSIZE"
  shows "\<exists>len bs. tcn_SSL_password_callback (Some buf) PEM_BUFSIZE pw = Inr (len, Some bs)"
proof (cases pw)
  case None
  then show ?thesis by (simp add: tcn_SSL_password_callback_def)
next
  case (Some p)
  have "\<exists>b'. tcn_SSL_password_callback (Some buf) (int 1024) (Some p)
          = Inr (int (min (length (c_string p)) (1024 - 1)), Some b')
       \<and> length b' = length buf \<and> c_string b' = take (1024 - 1) (c_string p) \<and> drop 1024 b' = drop 1024 buf"
    by (rule password_callback_stores) (use assms in \<open>simp_all add: PEM_BUFSIZE_def jint_range_def\<close>)
  then show ?thesis by (auto simp: Some PEM_BUFSIZE_def)
qed

lemma load_pem_key_balanced: "\<exists>k. load_pem_key env c file own = Inr (k, native_new k own)"
  by (simp add: load_pem_key_def Let_def)

lemma load_pem_cert_balanced: "\<exists>x. load_pem_cert env c file own = Inr (x, native_new x own)"
  by (simp add: load_pem_cert_def Let_def)

lemma load_pkcs12_balanced:
  assumes "length (stack_bytes env) = nat PEM_BUFSIZE"
  shows "\<exists>rc k x. ssl_load_pkcs12 env c file own = Inr (rc, k, x, native_new x (native_new k own))"
proof -
  obtain len bs where cb:
      "tcn_SSL_password_callback (Some (stack_bytes env)) PEM_BUFSIZE (password c) = Inr (len, Some bs)"
    using password_callback_returns [OF assms] by blast
  show ?thesis
    unfolding ssl_load_pkcs12_def Let_def cb
    by (simp split: prod.split)
qed

lemma load_from_files_balanced:
  assumes "length (stack_bytes env) = nat PEM_BUFSIZE"
  shows "\<exists>ex k x. load_from_files env c cf kf own = Inr (ex, k, x, native_new x (native_new k own))"
proof -
  obtain rc k x where p: "ssl_load_pkcs12 env c cf own = Inr (rc, k, x, native_new x (native_new k own))"
    using load_pkcs12_balanced [OF assms] by blast
  obtain k' where k': "load_pem_key env c kf own = Inr (k', native_new k' own)"
    using load_pem_key_balanced by blast
  obtain x' where x': "load_pem_cert env c cf (native_new k' own) = Inr (x', native_new x' (native_new k' own))"
    using load_pem_cert_balanced by blast
  show ?thesis
    by (cases "strrchr_dot cf = Some ''.pkcs12''"; cases "k' = 0")
      (use x' in \<open>auto simp: load_from_files_def p k'\<close>)
qed

lemma set_cert_cleanup_balanced [simp]:
  "set_cert_cleanup c old k x evs ex rv (native_new x (native_new k own))
     = Inr (rv, Some (free_and_reset_pass c old rv), own, evs, ex)"
  "set_cert_cleanup c old k 0 evs ex rv (native_new k own)
     = Inr (rv, Some (free_and_reset_pass c old rv), own, evs, ex)"
  "set_cert_cleanup c old 0 0 evs ex rv own
     = Inr (rv, Some (free_and_reset_pass c old rv), own, evs, ex)"
  by (simp_all add: set_cert_cleanup_def)

lemma install_key_pair_ok:
  "install_key_pair env x k = (evs, None) \<Longrightarrow>
   evs = [Use_Certificate x, Use_PrivateKey k, Check_private_key]
   \<and> 0 < use_certificate env x \<and> 0 < use_PrivateKey env k \<and> 0 < check_private_key env"
  by (auto simp: install_key_pair_def split: if_splits)

text \<open>The password after a call: the new one after a success, the old one after a failure that had one.\<close>

definition password_after :: "tcn_ssl_ctxt \<Rightarrow> byte list option \<Rightarrow> bool \<Rightarrow> byte list option" where
  "password_after c pw rv =
     (if rv then (if pw = None then password c else pw) else if pw = None then None else password c)"

text \<open>What a successful call has done, and when a failed one is silent.\<close>

definition key_pair_installed :: "pem_env \<Rightarrow> install_call list \<Rightarrow> bool" where
  "key_pair_installed env evs \<longleftrightarrow>
     (\<exists>x k. evs = [Use_Certificate x, Use_PrivateKey k, Check_private_key]
        \<and> 0 < use_certificate env x \<and> 0 < use_PrivateKey env k \<and> 0 < check_private_key env)"

section \<open>Properties\<close>

text \<open>
  For every buffer of at least \<open>bufsiz\<close> bytes and every password, the password callback stores a
  zero-terminated string inside the first \<open>bufsiz\<close> bytes, namely the password cut to \<open>bufsiz - 1\<close>
  bytes, returns its length and leaves the rest of the buffer alone.
\<close>

theorem password_callback_bounded:
  assumes "0 < bufsiz" "bufsiz \<le> int (length b)" "jint_range bufsiz"
  shows "\<exists>b'. tcn_SSL_password_callback (Some b) bufsiz (Some pw)
                = Inr (min (c_strlen pw) (bufsiz - 1), Some b')
       \<and> length b' = length b \<and> c_string b' = take (nat bufsiz - 1) (c_string pw)
       \<and> drop (nat bufsiz) b' = drop (nat bufsiz) b"
proof -
  have n: "0 < nat bufsiz" "nat bufsiz \<le> length b" "jint_range (int (nat bufsiz))" using assms by auto
  have "int (min (length (c_string pw)) (nat bufsiz - 1)) = min (c_strlen pw) (bufsiz - 1)"
    using assms by (auto simp: c_strlen_def)
  then show ?thesis using password_callback_stores [OF n, of pw] assms by simp
qed

theorem password_callback_bounded_witness:
  "\<exists>b'. tcn_SSL_password_callback (Some [7, 7, 7, 7]) 3 (Some [5, 6, 8]) = Inr (2, Some b')
     \<and> c_string b' = [5, 6] \<and> drop 3 b' = [7]"
proof -
  have s: "c_string [5, 6, 8] = [5, 6, 8]" by (simp add: c_string_def)
  obtain b' where "tcn_SSL_password_callback (Some [7, 7, 7, 7]) 3 (Some [5, 6, 8])
        = Inr (min (c_strlen [5, 6, 8]) (3 - 1), Some b')"
      "c_string b' = take (nat 3 - 1) (c_string [5, 6, 8])" "drop (nat 3) b' = drop (nat 3) [7, 7, 7, 7]"
    using password_callback_bounded [of 3 "[7, 7, 7, 7]" "[5, 6, 8]"] by (auto simp: jint_range_def)
  then show ?thesis by (intro exI [of _ b']) (simp add: s c_strlen_def)
qed

lemma free_and_reset_pass_after:
  assumes "rv \<longrightarrow> \<not> strdup_failed env pw"
  shows "free_and_reset_pass
     (take_password env pw c)
     (saved_password pw c) rv = c\<lparr>password := password_after c pw rv\<rparr>"
  using assms by (auto simp: free_and_reset_pass_def password_after_def take_password_def saved_password_def
      strdup_failed_def split: option.splits)

text \<open>The common result of the two functions that set the certificate of a context.\<close>

definition set_certificate_post ::
  "pem_env \<Rightarrow> tcn_ssl_ctxt \<Rightarrow> byte list option \<Rightarrow> int multiset \<Rightarrow> set_cert_result \<Rightarrow> bool" where
  "set_certificate_post env c pw own res \<longleftrightarrow>
     (\<exists>rv evs ex. res = Inr (rv, Some (c\<lparr>password := password_after c pw rv\<rparr>), own, evs, ex)
        \<and> (rv \<longrightarrow> ex = None \<and> key_pair_installed env evs)
        \<and> (\<not> rv \<longrightarrow> ex \<noteq> None \<or> strdup_failed env pw))"

lemma set_certificate_postI:
  assumes "rv \<longrightarrow> \<not> strdup_failed env pw"
    and "rv \<longrightarrow> ex = None \<and> key_pair_installed env evs"
    and "\<not> rv \<longrightarrow> ex \<noteq> None \<or> strdup_failed env pw"
  shows "set_certificate_post env c pw own
     (Inr (rv, Some (free_and_reset_pass
        (take_password env pw c)
        (saved_password pw c) rv), own, evs, ex))"
  unfolding set_certificate_post_def free_and_reset_pass_after [OF assms(1)] using assms(2,3) by blast

lemma install_post:
  assumes "\<not> strdup_failed env pw"
  shows "set_certificate_post env c pw own
     (let (evs, ex) = install_key_pair env x k in
      set_cert_cleanup (take_password env pw c)
        (saved_password pw c) k x evs ex (ex = None)
        (native_new x (native_new k own)))"
proof -
  obtain evs ex where i: "install_key_pair env x k = (evs, ex)" by fastforce
  show ?thesis unfolding i Let_def prod.case set_cert_cleanup_balanced
    by (rule set_certificate_postI)
      (use assms install_key_pair_ok [of env x k evs] i in \<open>auto simp: key_pair_installed_def\<close>)
qed

lemma setCertificate_post:
  assumes b: "\<not> boring b" and buf: "length (stack_bytes env) = nat PEM_BUFSIZE"
  shows "set_certificate_post env c pw own (setCertificate b env (Some c) cert key pw own)"
proof -
  let ?c = "take_password env pw c"
  let ?old = "saved_password pw c"
  have fail: "set_certificate_post env c pw own (set_cert_cleanup ?c ?old k x [] (Some m) False
      (native_new x (native_new k own)))" for k x m
    unfolding set_cert_cleanup_balanced by (rule set_certificate_postI) simp_all
  note fail0 = fail [of 0 0, simplified native_new_0]
  note start = setCertificate_def [of b env "Some c" cert key pw own] Let_def option.case
  show ?thesis
  proof (cases "strdup_failed env pw")
    case True
    have "set_certificate_post env c pw own (set_cert_cleanup ?c ?old 0 0 [] None False own)"
      unfolding set_cert_cleanup_balanced by (rule set_certificate_postI) (use True in auto)
    then show ?thesis unfolding start using True b by (simp add: boring_def)
  next
    case False
    show ?thesis
    proof (cases cert)
      case None
      then show ?thesis unfolding start using False b fail0
        by (cases key) (simp_all add: boring_def)
    next
      case (Some cf)
      define kf where "kf = (case key of None \<Rightarrow> cf | Some f \<Rightarrow> f)"
      obtain ex k x where l: "load_from_files env ?c cf kf own = Inr (ex, k, x, native_new x (native_new k own))"
        using load_from_files_balanced [OF buf] by blast
      have "setCertificate b env (Some c) cert key pw own =
        (if ex \<noteq> None then set_cert_cleanup ?c ?old k x [] ex False (native_new x (native_new k own))
         else let (evs, ex') = install_key_pair env x k in
           set_cert_cleanup ?c ?old k x evs ex' (ex' = None) (native_new x (native_new k own)))"
        unfolding start using False b l Some
        by (cases key) (simp_all add: boring_def kf_def)
      then show ?thesis using fail [of k x] install_post [OF False, of c own x k] by (cases ex) auto
    qed
  qed
qed

lemma setCertificateBio_post:
  assumes b: "\<not> boring b"
  shows "set_certificate_post env c pw own (setCertificateBio b env (Some c) cert key pw own)"
proof -
  let ?c = "take_password env pw c"
  let ?old = "saved_password pw c"
  have fail: "set_certificate_post env c pw own (set_cert_cleanup ?c ?old k 0 [] (Some m) False
      (native_new k own))" for k m
    unfolding set_cert_cleanup_balanced by (rule set_certificate_postI) simp_all
  note fail0 = fail [of 0, simplified native_new_0]
  note start = setCertificateBio_def [of b env "Some c" cert key pw own] Let_def option.case
  show ?thesis
  proof (cases "strdup_failed env pw")
    case True
    have "set_certificate_post env c pw own (set_cert_cleanup ?c ?old 0 0 [] None False own)"
      unfolding set_cert_cleanup_balanced by (rule set_certificate_postI) (use True in auto)
    then show ?thesis unfolding start using True b by (simp add: boring_def)
  next
    case False
    define k where "k = tcn_load_pem_key_bio env (password ?c) key"
    define x where "x = tcn_load_pem_cert_bio env (password ?c) cert"
    have "setCertificateBio b env (Some c) cert key pw own =
      (if cert = 0 then set_cert_cleanup ?c ?old 0 0 []
             (Some (JException ''No Certificate file specified or invalid file format'')) False own
       else if k = 0 then set_cert_cleanup ?c ?old 0 0 []
             (Some (JException ''Unable to load certificate key (%s)'')) False own
       else if x = 0 then set_cert_cleanup ?c ?old k 0 []
             (Some (JException ''Unable to load certificate (%s) '')) False (native_new k own)
       else let (evs, ex') = install_key_pair env x k in
           set_cert_cleanup ?c ?old k x evs ex' (ex' = None) (native_new x (native_new k own)))"
      unfolding start k_def [symmetric] x_def [symmetric] using False b
      by (simp add: boring_def)
    then show ?thesis using fail0 fail [of k] install_post [OF False, of c own x k] by simp
  qed
qed

lemma SSL_setCertificateBio_post:
  "\<exists>evs ex. SSL_setCertificateBio b env ssl cert key pw own = Inr (own, evs, ex)
     \<and> (ex = None \<longrightarrow> key_pair_installed env evs)"
proof -
  define k where "k = tcn_load_pem_key_bio env pw key"
  define x where "x = tcn_load_pem_cert_bio env pw cert"
  obtain evs ex where i: "install_key_pair env x k = (evs, ex)" by fastforce
  have "ex = None \<longrightarrow> key_pair_installed env evs"
    using install_key_pair_ok [of env x k evs] i by (auto simp: key_pair_installed_def)
  then show ?thesis
    unfolding SSL_setCertificateBio_def Let_def k_def [symmetric] x_def [symmetric] i by simp
qed

text \<open>
  C25. With OpenSSL, setting a certificate and key never uses a freed reference and ends with exactly
  the native references it started with, on every path. It reports success only after the
  certificate and the key were accepted and found to match; it fails silently only when the
  password cannot be duplicated. After a success the context has the new password, or the old
  one when none was given; after a failure with a password the old one is restored, and after
  a failure without one the stored password is gone.
\<close>

theorem set_certificate_balanced:
  assumes "\<not> boring b" "length (stack_bytes env) = nat PEM_BUFSIZE"
  shows "(\<forall>res \<in> {setCertificate b env (Some c) cert_file key_file pw own,
                   setCertificateBio b env (Some c) cert key pw own}.
            \<exists>rv evs ex. res = Inr (rv, Some (c\<lparr>password := password_after c pw rv\<rparr>), own, evs, ex)
               \<and> (rv \<longrightarrow> ex = None \<and> key_pair_installed env evs)
               \<and> (\<not> rv \<longrightarrow> ex \<noteq> None \<or> pw \<noteq> None \<and> \<not> strdup_ok env))
       \<and> (\<exists>evs ex. SSL_setCertificateBio b env ssl cert key pw own = Inr (own, evs, ex)
               \<and> (ex = None \<longrightarrow> key_pair_installed env evs))"
  using setCertificate_post [OF assms, of c pw own cert_file key_file]
    setCertificateBio_post [OF assms(1), of env c pw own cert key]
    SSL_setCertificateBio_post [of b env ssl cert key pw own]
  unfolding set_certificate_post_def strdup_failed_def by blast

definition openssl_build :: build where
  "openssl_build = \<lparr>openssl_is_boringssl = False, openssl_is_awslc = False, libressl_version_number = None,
     openssl_version_number = 0x10101000, openssl_no_tls1_3 = False, openssl_no_ocsp = False,
     openssl_no_engine = False, gnuc = True\<rparr>"

definition rejecting_env :: pem_env where
  "rejecting_env = \<lparr>bio_new_file = (\<lambda>f. 11), read_filename_ok = (\<lambda>f. True),
     PEM_read_PrivateKey = (\<lambda>p s. 12), PEM_read_X509_AUX = (\<lambda>p s. 13), no_start_line = (\<lambda>s. False),
     d2i_X509 = (\<lambda>s. 0), d2i_PKCS12 = (\<lambda>s. 0), verify_mac_empty = (\<lambda>s. False),
     verify_mac = (\<lambda>s p. False), p12_parse = (\<lambda>s p. (0, 0, 0)), stack_bytes = replicate 1024 0,
     strdup_ok = True, use_certificate = (\<lambda>x. 1), use_PrivateKey = (\<lambda>k. 1), check_private_key = 0\<rparr>"

theorem set_certificate_balanced_witness:
  "\<exists>evs ex. setCertificate openssl_build rejecting_env (Some (ctxt_zero\<lparr>password := Some [1]\<rparr>))
      (Some ''a.pem'') None None {#} = Inr (False, Some (ctxt_zero\<lparr>password := None\<rparr>), {#}, evs, ex)
      \<and> ex \<noteq> None"
proof -
  let ?c = "ctxt_zero\<lparr>password := Some [1]\<rparr>"
  have "\<not> boring openssl_build" "length (stack_bytes rejecting_env) = nat PEM_BUFSIZE"
    by (simp_all add: boring_def openssl_build_def rejecting_env_def PEM_BUFSIZE_def)
  then obtain rv evs ex where
      r: "setCertificate openssl_build rejecting_env (Some ?c) (Some ''a.pem'') None None {#}
           = Inr (rv, Some (?c\<lparr>password := password_after ?c None rv\<rparr>), {#}, evs, ex)"
      "rv \<longrightarrow> key_pair_installed rejecting_env evs" "\<not> rv \<longrightarrow> ex \<noteq> None"
    using set_certificate_balanced [of openssl_build rejecting_env ?c "Some ''a.pem''" None None "{#}" 0 0 0]
    by auto
  moreover have "\<not> key_pair_installed rejecting_env evs"
    by (simp add: key_pair_installed_def rejecting_env_def)
  ultimately show ?thesis by (auto simp: password_after_def)
qed

text \<open>
  The fall-back to the certificate BIO for a missing key has no effect: with a zero key handle the
  key is read from a null BIO, so the call fails whenever OpenSSL reads no key from it.
\<close>

lemma set_certificate_bio_needs_key:
  assumes "\<not> boring b" "\<forall>p. PEM_read_PrivateKey env p (Handle 0) = 0"
  shows "\<exists>c' evs ex. setCertificateBio b env (Some c) cert 0 pw own = Inr (False, Some c', own, evs, ex)"
  using assms
  by (simp add: setCertificateBio_def boring_def Let_def tcn_load_pem_key_bio_def set_cert_cleanup_def)

end
