(* ===== verification/Cert_Chain.thy ===== *)
theory Cert_Chain
  imports Cert_Load
begin

text \<open>
  Loading chains of certificates from a BIO: \<^verbatim>\<open>SSL_CTX_setup_certs\<close> and
  \<^verbatim>\<open>tcn_SSL_use_certificate_chain_bio\<close> of \<^verbatim>\<open>sslutils.c\<close>, the entry points that call them, and
  \<^verbatim>\<open>SSL.parseX509Chain\<close> with \<^verbatim>\<open>freeX509Chain\<close>.

  The state of a BIO is a type variable; \<^verbatim>\<open>PEM_read_bio_X509\<close> is a parameter that gives a
  certificate (\<open>0\<close> is \<^verbatim>\<open>NULL\<close>) and the next state. The loops run until it returns \<^verbatim>\<open>NULL\<close>; whether
  they end depends on the BIO, so they are partial functions. The lemmas show that they end
  when every certificate read consumes input, that they install exactly the certificates of the
  BIO, and that every path hands over or frees each reference.
\<close>

section \<open>Reading all certificates\<close>

text \<open>
  \<open>body\<close> handles one certificate: it goes on (\<open>Inr (Inr w)\<close>), makes the function return
  (\<open>Inr (Inl w)\<close>) or has undefined behaviour.
\<close>

partial_function (option) pem_while ::
  "('b \<Rightarrow> int \<times> 'b) \<Rightarrow> (int \<Rightarrow> 'w \<Rightarrow> ('w + 'w) cres) \<Rightarrow> 'b \<Rightarrow> 'w \<Rightarrow> ('b \<times> ('w + 'w)) cres option" where
  "pem_while rd body s w =
   (case rd s of (x, s') \<Rightarrow>
      if x = 0 then Some (Inr (s', Inr w))
      else (case body x w of
              Inl e \<Rightarrow> Some (Inl e)
            | Inr r \<Rightarrow> (case r of Inl w' \<Rightarrow> Some (Inr (s', Inl w')) | Inr w' \<Rightarrow> pem_while rd body s' w')))"

text \<open>\<open>reads rd s xs s'\<close>: reading from \<open>s\<close> gives the certificates \<open>xs\<close> and then \<^verbatim>\<open>NULL\<close> in state \<open>s'\<close>.\<close>

inductive reads :: "('b \<Rightarrow> int \<times> 'b) \<Rightarrow> 'b \<Rightarrow> int list \<Rightarrow> 'b \<Rightarrow> bool" for rd where
  reads_end: "rd s = (0, s') \<Longrightarrow> reads rd s [] s'"
| reads_next: "rd s = (x, s1) \<Longrightarrow> x \<noteq> 0 \<Longrightarrow> reads rd s1 xs s' \<Longrightarrow> reads rd s (x # xs) s'"

inductive_cases reads_NilE: "reads rd s [] s'"
inductive_cases reads_ConsE: "reads rd s (x # xs) s'"

section \<open>The state of the loaders\<close>

text \<open>
  \<open>cw_owned\<close>: references the C code holds; \<open>cw_chain\<close>: the extra chain of the context or the chain
  of the connection; \<open>cw_cas\<close>: client CA names in the context; \<open>cw_stack\<close>: the stack that is being
  built; \<open>cw_n\<close>: the counter.
\<close>

record chain_world =
  cw_owned :: "int multiset"
  cw_chain :: "int list"
  cw_cas :: "int list"
  cw_stack :: "int list"
  cw_n :: int

record 'b chain_env =
  read_X509 :: "'b \<Rightarrow> int \<times> 'b"
  stack_new :: int
  name_length :: "int \<Rightarrow> int"
  buffer_new :: "int \<Rightarrow> int"
  sk_push :: "int \<Rightarrow> int"
  add_client_CA :: "int \<Rightarrow> int"
  add_extra_chain_cert :: "int \<Rightarrow> int"
  add0_chain_cert :: "int \<Rightarrow> int"
  peek_error :: "'b \<Rightarrow> int"
  no_start_line_error :: "int \<Rightarrow> bool"

type_synonym 'b chain_result = "(int \<times> 'b \<times> chain_world) cres option"

fun native_free_list :: "int list \<Rightarrow> int multiset \<Rightarrow> int multiset cres" where
  "native_free_list [] owned = Inr owned"
| "native_free_list (x # xs) owned = cbind (native_free x owned) (native_free_list xs)"

text \<open>\<^verbatim>\<open>sk_pop_free\<close>: the elements and the stack itself.\<close>

definition sk_pop_free :: "int \<Rightarrow> chain_world \<Rightarrow> chain_world cres" where
  "sk_pop_free stack w =
     cbind (native_free_list (cw_stack w) (cw_owned w)) (\<lambda>o1.
     cbind (native_free stack o1) (\<lambda>o2. Inr (w\<lparr>cw_owned := o2, cw_stack := []\<rparr>)))"

definition free_ref :: "int \<Rightarrow> chain_world \<Rightarrow> chain_world cres" where
  "free_ref x w = cbind (native_free x (cw_owned w)) (\<lambda>o1. Inr (w\<lparr>cw_owned := o1\<rparr>))"

definition new_ref :: "int \<Rightarrow> chain_world \<Rightarrow> chain_world" where
  "new_ref x w = w\<lparr>cw_owned := native_new x (cw_owned w)\<rparr>"

section \<open>Chains of a context\<close>

text \<open>One client CA. BoringSSL: the encoded subject becomes a buffer on the stack \<open>names\<close>.\<close>

definition ca_body :: "build \<Rightarrow> 'b chain_env \<Rightarrow> int \<Rightarrow> int \<Rightarrow> chain_world \<Rightarrow> (chain_world + chain_world) cres" where
  "ca_body b env names x w0 =
   (let w = new_ref x w0 in
    if boring b then
      (if name_length env x < 0 then
         cbind (sk_pop_free names w) (\<lambda>w1. cbind (free_ref x w1) (\<lambda>w2. Inr (Inl w2)))
       else
         let buffer = buffer_new env x; w1 = new_ref buffer w in
         if buffer = 0 \<or> names = 0 \<or> sk_push env buffer \<le> 0 then
           cbind (sk_pop_free names w1) (\<lambda>w2. cbind (free_ref buffer w2) (\<lambda>w3.
           cbind (free_ref x w3) (\<lambda>w4. Inr (Inl w4))))
         else
           cbind (free_ref x (w1\<lparr>cw_stack := cw_stack w1 @ [buffer]\<rparr>)) (\<lambda>w2.
             Inr (Inr (w2\<lparr>cw_n := cw_n w2 + 1\<rparr>))))
    else if add_client_CA env x \<noteq> 1 then cbind (free_ref x w) (\<lambda>w1. Inr (Inl w1))
    else cbind (free_ref x (w\<lparr>cw_cas := cw_cas w @ [x]\<rparr>)) (\<lambda>w1. Inr (Inr (w1\<lparr>cw_n := cw_n w1 + 1\<rparr>))))"

text \<open>
  One certificate of the extra chain. Either way the C code gives its reference up:
  \<^verbatim>\<open>SSL_CTX_add_extra_chain_cert\<close> takes it when it succeeds, \<^verbatim>\<open>X509_free\<close> drops it otherwise.
\<close>

definition extra_body :: "'b chain_env \<Rightarrow> int \<Rightarrow> chain_world \<Rightarrow> (chain_world + chain_world) cres" where
  "extra_body env x w0 =
   (let w = new_ref x w0 in
    cbind (free_ref x w) (\<lambda>w1.
      if add_extra_chain_cert env x \<noteq> 1 then Inr (Inl w1)
      else Inr (Inr (w1\<lparr>cw_chain := cw_chain w1 @ [x], cw_n := cw_n w1 + 1\<rparr>))))"

text \<open>The optional leading certificate is read and freed.\<close>

definition skip_leading :: "'b chain_env \<Rightarrow> bool \<Rightarrow> 'b \<Rightarrow> chain_world \<Rightarrow> (bool \<times> 'b \<times> chain_world) cres" where
  "skip_leading env skipfirst s w =
   (if \<not> skipfirst then Inr (True, s, w)
    else (case read_X509 env s of (x, s') \<Rightarrow>
      if x = 0 then Inr (False, s', w)
      else cbind (free_ref x (new_ref x w)) (\<lambda>w1. Inr (True, s', w1))))"

text \<open>The check of the error queue at the end: anything but the end of the PEM data is an error.\<close>

definition chain_error :: "'b chain_env \<Rightarrow> 'b \<Rightarrow> bool" where
  "chain_error env s \<longleftrightarrow> peek_error env s > 0 \<and> \<not> no_start_line_error env (peek_error env s)"

definition chain_count :: "'b chain_env \<Rightarrow> 'b \<Rightarrow> chain_world \<Rightarrow> int" where
  "chain_count env s w = (if chain_error env s then -1 else cw_n w)"

definition SSL_CTX_setup_certs ::
  "build \<Rightarrow> 'b chain_env \<Rightarrow> bool \<Rightarrow> bool \<Rightarrow> 'b \<Rightarrow> chain_world \<Rightarrow> 'b chain_result" where
  "SSL_CTX_setup_certs b env skipfirst ca s w =
   (let names = (if boring b then stack_new env else 0);
        w0 = (new_ref names w)\<lparr>cw_stack := [], cw_n := 0\<rparr>
    in
    case skip_leading env skipfirst s w0 of
      Inl e \<Rightarrow> Some (Inl e)
    | Inr (ok, s1, w1) \<Rightarrow>
      if \<not> ok then Some (Inr (-1, s1, w1))
      else if ca then
        (case pem_while (read_X509 env) (ca_body b env names) s1 w1 of
           None \<Rightarrow> None
         | Some (Inl e) \<Rightarrow> Some (Inl e)
         | Some (Inr (s2, Inl w2)) \<Rightarrow> Some (Inr (-1, s2, w2))
         | Some (Inr (s2, Inr w2)) \<Rightarrow>
           Some (cbind (if boring b
                        then cbind (sk_pop_free names w2) (\<lambda>w3. Inr (w3\<lparr>cw_cas := cw_stack w2\<rparr>))
                        else Inr w2)
                   (\<lambda>w3. Inr (chain_count env s2 w3, s2, w3))))
      else if boring b then Some (Inr (-1, s1, w1))
      else
        (case pem_while (read_X509 env) (extra_body env) s1 (w1\<lparr>cw_chain := []\<rparr>) of
           None \<Rightarrow> None
         | Some (Inl e) \<Rightarrow> Some (Inl e)
         | Some (Inr (s2, Inl w2)) \<Rightarrow> Some (Inr (-1, s2, w2))
         | Some (Inr (s2, Inr w2)) \<Rightarrow> Some (Inr (chain_count env s2 w2, s2, w2))))"

definition tcn_SSL_CTX_use_certificate_chain_bio ::
  "build \<Rightarrow> 'b chain_env \<Rightarrow> bool \<Rightarrow> 'b \<Rightarrow> chain_world \<Rightarrow> 'b chain_result" where
  "tcn_SSL_CTX_use_certificate_chain_bio b env skipfirst s w = SSL_CTX_setup_certs b env skipfirst False s w"

definition tcn_SSL_CTX_use_client_CA_bio ::
  "build \<Rightarrow> 'b chain_env \<Rightarrow> 'b \<Rightarrow> chain_world \<Rightarrow> 'b chain_result" where
  "tcn_SSL_CTX_use_client_CA_bio b env s w = SSL_CTX_setup_certs b env False True s w"

text \<open>\<open>bio\<close> is the new file BIO (\<open>0\<close> on failure) and \<open>open_file\<close> its state once the file is attached.\<close>

definition tcn_SSL_CTX_use_certificate_chain ::
  "build \<Rightarrow> 'b chain_env \<Rightarrow> int \<Rightarrow> 'b option \<Rightarrow> bool \<Rightarrow> chain_world \<Rightarrow> (int \<times> chain_world) cres option" where
  "tcn_SSL_CTX_use_certificate_chain b env bio open_file skipfirst w =
   (if bio = 0 then Some (Inr (-1, w))
    else (case open_file of
      None \<Rightarrow> Some (cbind (free_ref bio (new_ref bio w)) (\<lambda>w1. Inr (-1, w1)))
    | Some s \<Rightarrow>
      (case tcn_SSL_CTX_use_certificate_chain_bio b env skipfirst s (new_ref bio w) of
         None \<Rightarrow> None
       | Some r \<Rightarrow> Some (cbind r (\<lambda>(n, s', w1). cbind (free_ref bio w1) (\<lambda>w2. Inr (n, w2)))))))"

section \<open>Entry points of the context\<close>

definition not_supported :: "build \<Rightarrow> jexc option" where
  "not_supported b =
     (if openssl_is_boringssl b then Some (JException ''Not supported using BoringSSL'')
      else if openssl_is_awslc b then Some (JException ''Not supported using AWS-LC'') else None)"

type_synonym jni_chain_result = "(bool \<times> chain_world \<times> jexc option) cres option"

text \<open>\<open>bio = None\<close> is a null handle, \<open>Some s\<close> a BIO in state \<open>s\<close>.\<close>

definition setCertificateChainFile ::
  "build \<Rightarrow> 'b chain_env \<Rightarrow> tcn_ssl_ctxt option \<Rightarrow> string option \<Rightarrow> int \<Rightarrow> 'b option \<Rightarrow> bool \<Rightarrow> chain_world
   \<Rightarrow> jni_chain_result" where
  "setCertificateChainFile b env cp file bio open_file skipfirst w =
   (if not_supported b \<noteq> None then Some (Inr (False, w, not_supported b))
    else (case cp of None \<Rightarrow> Some (Inr (False, w, Some (NullPointerException ''ctx'')))
    | Some c \<Rightarrow>
      if file = None then Some (Inr (False, w, None))
      else (case tcn_SSL_CTX_use_certificate_chain b env bio open_file skipfirst w of
              None \<Rightarrow> None
            | Some r \<Rightarrow> Some (cbind r (\<lambda>(n, w1). Inr (n > 0, w1, None))))))"

definition setCertificateChainBio ::
  "build \<Rightarrow> 'b chain_env \<Rightarrow> tcn_ssl_ctxt option \<Rightarrow> 'b option \<Rightarrow> bool \<Rightarrow> chain_world \<Rightarrow> jni_chain_result" where
  "setCertificateChainBio b env cp bio skipfirst w =
   (if not_supported b \<noteq> None then Some (Inr (False, w, not_supported b))
    else (case cp of None \<Rightarrow> Some (Inr (False, w, Some (NullPointerException ''ctx'')))
    | Some c \<Rightarrow>
      (case bio of None \<Rightarrow> Some (Inr (False, w, None))
       | Some s \<Rightarrow>
         (case tcn_SSL_CTX_use_certificate_chain_bio b env skipfirst s w of
            None \<Rightarrow> None
          | Some r \<Rightarrow> Some (cbind r (\<lambda>(n, s', w1). Inr (n > 0, w1, None)))))))"

definition setCACertificateBio ::
  "build \<Rightarrow> 'b chain_env \<Rightarrow> tcn_ssl_ctxt option \<Rightarrow> 'b option \<Rightarrow> chain_world \<Rightarrow> jni_chain_result" where
  "setCACertificateBio b env cp bio w =
   (case cp of None \<Rightarrow> Some (Inr (False, w, Some (NullPointerException ''ctx'')))
    | Some c \<Rightarrow>
      (case bio of None \<Rightarrow> Some (Inr (False, w, None))
       | Some s \<Rightarrow>
         if mode c = SSL_MODE_CLIENT then Some (Inr (False, w, None))
         else (case tcn_SSL_CTX_use_client_CA_bio b env s w of
                 None \<Rightarrow> None
               | Some r \<Rightarrow> Some (cbind r (\<lambda>(n, s', w1). Inr (n > 0, w1, None))))))"

section \<open>The chain of a connection\<close>

definition add0_body :: "'b chain_env \<Rightarrow> int \<Rightarrow> chain_world \<Rightarrow> (chain_world + chain_world) cres" where
  "add0_body env x w0 =
   (let w = new_ref x w0 in
    cbind (free_ref x w) (\<lambda>w1.
      if add0_chain_cert env x \<noteq> 1 then Inr (Inl w1)
      else Inr (Inr (w1\<lparr>cw_chain := cw_chain w1 @ [x], cw_n := cw_n w1 + 1\<rparr>))))"

definition tcn_SSL_use_certificate_chain_bio ::
  "build \<Rightarrow> 'b chain_env \<Rightarrow> bool \<Rightarrow> 'b \<Rightarrow> chain_world \<Rightarrow> 'b chain_result" where
  "tcn_SSL_use_certificate_chain_bio b env skipfirst s w =
   (if libressl_version_number b \<noteq> None \<and> the (libressl_version_number b) \<le> 0x2090200f
    then Some (Inr (-1, s, w))
    else
    case skip_leading env skipfirst s w of
      Inl e \<Rightarrow> Some (Inl e)
    | Inr (ok, s1, w1) \<Rightarrow>
      if \<not> ok then Some (Inr (-1, s1, w1))
      else
        (case pem_while (read_X509 env) (add0_body env) s1 (w1\<lparr>cw_n := 0\<rparr>) of
           None \<Rightarrow> None
         | Some (Inl e) \<Rightarrow> Some (Inl e)
         | Some (Inr (s2, Inl w2)) \<Rightarrow> Some (Inr (-1, s2, w2))
         | Some (Inr (s2, Inr w2)) \<Rightarrow> Some (Inr (chain_count env s2 w2, s2, w2))))"

definition SSL_setCertificateChainBio ::
  "build \<Rightarrow> 'b chain_env \<Rightarrow> int \<Rightarrow> 'b option \<Rightarrow> bool \<Rightarrow> chain_world \<Rightarrow> (chain_world \<times> jexc option) cres option" where
  "SSL_setCertificateChainBio b env ssl bio skipfirst w =
   (if ssl = 0 then Some (Inr (w, Some (NullPointerException ''ssl'')))
    else (case bio of None \<Rightarrow> Some (Inr (w, Some (NullPointerException ''chain'')))
    | Some s \<Rightarrow>
      if boring b then Some (Inr (w, None))
      else (case tcn_SSL_use_certificate_chain_bio b env skipfirst s w of
              None \<Rightarrow> None
            | Some r \<Rightarrow> Some (cbind r (\<lambda>(n, s', w1).
                Inr (w1, if n < 0 then Some (JException ''Error setting certificate chain (%s)'') else None))))))"

section \<open>Parsing a chain\<close>

text \<open>
  The certificates are pushed on a new stack; BoringSSL first copies the data into a buffer. Java
  receives the stack, which then owns its elements. For BoringSSL \<open>read_X509\<close> stands for
  \<^verbatim>\<open>PEM_read_bio\<close>, whose name, header and data blocks are freed in the same round.
\<close>

definition parse_body :: "build \<Rightarrow> 'b chain_env \<Rightarrow> int \<Rightarrow> int \<Rightarrow> chain_world \<Rightarrow> (chain_world + chain_world) cres" where
  "parse_body b env chain x w =
   (let cert = (if boring b then buffer_new env x else x); w1 = new_ref cert w in
    if cert = 0 \<or> chain = 0 \<or> sk_push env cert \<le> 0 then
      cbind (sk_pop_free chain w1) (\<lambda>w2. cbind (free_ref cert w2) (\<lambda>w3. Inr (Inl w3)))
    else Inr (Inr (w1\<lparr>cw_stack := cw_stack w1 @ [cert]\<rparr>)))"

text \<open>With BoringSSL the stack is created before the null check of the BIO, which returns without freeing it.\<close>

definition parseX509Chain ::
  "build \<Rightarrow> 'b chain_env \<Rightarrow> 'b option \<Rightarrow> chain_world \<Rightarrow> (int \<times> chain_world \<times> jexc option) cres option" where
  "parseX509Chain b env bio w =
   (let chain = stack_new env; w0 = (new_ref chain w)\<lparr>cw_stack := []\<rparr> in
    case bio of
      None \<Rightarrow> Some (Inr (0, if boring b then w0 else w, Some (NullPointerException ''x509ChainBio'')))
    | Some s \<Rightarrow>
      (case pem_while (read_X509 env) (parse_body b env chain) s w0 of
         None \<Rightarrow> None
       | Some (Inl e) \<Rightarrow> Some (Inl e)
       | Some (Inr (s2, Inl w2)) \<Rightarrow>
         Some (Inr (0, w2, Some (JException ''No Certificate specified or invalid format'')))
       | Some (Inr (s2, Inr w2)) \<Rightarrow>
         Some (if chain_error env s2
               then cbind (sk_pop_free chain w2) (\<lambda>w3.
                      Inr (0, w3, Some (JException ''Invalid format (%s)'')))
               else Inr (chain, w2, None))))"

text \<open>The elements of the stack are those pushed when it was parsed.\<close>

definition freeX509Chain :: "int \<Rightarrow> chain_world \<Rightarrow> chain_world cres" where
  "freeX509Chain chain w = sk_pop_free chain w"

section \<open>Lemmas on the loop\<close>

lemma reads_exists:
  fixes sz :: "'b \<Rightarrow> nat"
  assumes "\<And>s. fst (rd s) \<noteq> 0 \<Longrightarrow> sz (snd (rd s)) < sz s"
  shows "\<exists>xs s'. reads rd s xs s'"
proof (induction s rule: measure_induct_rule [of sz])
  case (less s)
  obtain x s1 where s1: "rd s = (x, s1)" by fastforce
  show ?case
  proof (cases "x = 0")
    case True
    then show ?thesis using reads_end [of rd s s1] s1 by auto
  next
    case False
    then have "sz s1 < sz s" using assms [of s] s1 by simp
    then obtain xs s' where "reads rd s1 xs s'" using less by blast
    then show ?thesis using reads_next [of rd s x s1 xs s'] s1 False by blast
  qed
qed

lemma reads_nonzero: "reads rd s xs s' \<Longrightarrow> 0 \<notin> set xs"
  by (induction rule: reads.induct) auto

lemma pem_while_rule:
  assumes "reads rd s xs s'" and "I [] w"
    and body: "\<And>ys x zs w. xs = ys @ x # zs \<Longrightarrow> x \<noteq> 0 \<Longrightarrow> I ys w \<Longrightarrow>
           (\<exists>w'. body x w = Inr (Inr w') \<and> I (ys @ [x]) w') \<or> (\<exists>w'. body x w = Inr (Inl w') \<and> Q w')"
  shows "(\<exists>w'. pem_while rd body s w = Some (Inr (s', Inr w')) \<and> I xs w')
       \<or> (\<exists>s'' w'. pem_while rd body s w = Some (Inr (s'', Inl w')) \<and> Q w')"
proof -
  have "reads rd s zs s' \<Longrightarrow> xs = ys @ zs \<Longrightarrow> I ys w \<Longrightarrow>
     (\<exists>w'. pem_while rd body s w = Some (Inr (s', Inr w')) \<and> I xs w')
       \<or> (\<exists>s'' w'. pem_while rd body s w = Some (Inr (s'', Inl w')) \<and> Q w')" for zs ys w s
  proof (induction arbitrary: ys w rule: reads.induct)
    case (reads_end s s')
    then show ?case by (simp add: pem_while.simps)
  next
    case (reads_next s x s1 zs s')
    from body [OF reads_next.prems(1) reads_next.hyps(2) reads_next.prems(2)]
    consider (go) w' where "body x w = Inr (Inr w')" "I (ys @ [x]) w'"
      | (stop) w' where "body x w = Inr (Inl w')" "Q w'" by blast
    then show ?case
    proof cases
      case go
      have "xs = (ys @ [x]) @ zs" using reads_next.prems(1) by simp
      from reads_next.IH [OF this go(2)] show ?thesis
        using reads_next.hyps go by (simp add: pem_while.simps [of rd body s])
    next
      case stop
      then show ?thesis using reads_next.hyps by (simp add: pem_while.simps [of rd body s])
    qed
  qed
  from this [OF assms(1) _ assms(2)] show ?thesis by simp
qed

section \<open>Lemmas on references\<close>

lemma native_new_plus: "native_new x (B + S) = native_new x B + S"
  by (simp add: native_new_def)

lemma free_list_own: "0 \<notin> set xs \<Longrightarrow> native_free_list xs (B + mset xs) = Inr B"
proof (induction xs)
  case Nil
  then show ?case by simp
next
  case (Cons x xs)
  then show ?case by (simp add: native_free_def)
qed

definition stack_inv :: "int \<Rightarrow> int multiset \<Rightarrow> chain_world \<Rightarrow> bool" where
  "stack_inv st base w \<longleftrightarrow> cw_owned w = native_new st (base + mset (cw_stack w)) \<and> 0 \<notin> set (cw_stack w)"

lemma pop_free_stack:
  "stack_inv st base w \<Longrightarrow> sk_pop_free st w = Inr (w\<lparr>cw_owned := base, cw_stack := []\<rparr>)"
  by (simp add: stack_inv_def sk_pop_free_def native_new_plus free_list_own)

lemma stack_inv_new_ref: "stack_inv st base w \<Longrightarrow> stack_inv st (native_new x base) (new_ref x w)"
  by (simp add: stack_inv_def new_ref_def native_new_plus [symmetric] native_new_commute)

lemma free_ref_new [simp]: "cw_owned w = native_new x base \<Longrightarrow> free_ref x w = Inr (w\<lparr>cw_owned := base\<rparr>)"
  by (simp add: free_ref_def)

lemma free_ref_new_ref [simp]: "free_ref x (new_ref x w) = Inr w"
  by (simp add: free_ref_def new_ref_def)

lemma new_ref_more [simp]:
  "cw_stack (new_ref x w) = cw_stack w" "cw_chain (new_ref x w) = cw_chain w"
  "cw_cas (new_ref x w) = cw_cas w" "cw_n (new_ref x w) = cw_n w" "new_ref 0 w = w"
  by (simp_all add: new_ref_def)

lemma stack_inv_push:
  "stack_inv st base w \<Longrightarrow> x \<noteq> 0 \<Longrightarrow>
   stack_inv st base ((new_ref x w)\<lparr>cw_stack := cw_stack w @ [x]\<rparr>)"
  by (simp add: stack_inv_def new_ref_def native_new_def)

section \<open>Lemmas on the loop bodies\<close>

lemma extra_body_eq:
  "extra_body env x w =
     Inr (if add_extra_chain_cert env x \<noteq> 1 then Inl w
          else Inr (w\<lparr>cw_chain := cw_chain w @ [x], cw_n := cw_n w + 1\<rparr>))"
  by (simp add: extra_body_def)

lemma add0_body_eq:
  "add0_body env x w =
     Inr (if add0_chain_cert env x \<noteq> 1 then Inl w
          else Inr (w\<lparr>cw_chain := cw_chain w @ [x], cw_n := cw_n w + 1\<rparr>))"
  by (simp add: add0_body_def)

lemma ca_body_openssl:
  "\<not> boring b \<Longrightarrow> ca_body b env st x w =
     Inr (if add_client_CA env x \<noteq> 1 then Inl w
          else Inr (w\<lparr>cw_cas := cw_cas w @ [x], cw_n := cw_n w + 1\<rparr>))"
  by (simp add: ca_body_def Let_def free_ref_def new_ref_def)

lemma stack_inv_owned: "stack_inv st base w \<Longrightarrow> cw_stack w = [] \<Longrightarrow> st = 0 \<Longrightarrow> cw_owned w = base"
  by (simp add: stack_inv_def)

lemma ca_body_boring:
  assumes b: "boring b" and inv: "stack_inv st base w"
  shows "(\<exists>w'. ca_body b env st x w = Inr (Inr w') \<and> stack_inv st base w')
       \<or> (\<exists>w'. ca_body b env st x w = Inr (Inl w') \<and> cw_owned w' = base)"
proof -
  let ?buf = "buffer_new env x" and ?w = "new_ref x w"
  have inv1: "stack_inv st (native_new x base) ?w" using inv by (rule stack_inv_new_ref)
  have inv2: "stack_inv st (native_new ?buf (native_new x base)) (new_ref ?buf ?w)"
    using inv1 by (rule stack_inv_new_ref)
  consider (len) "name_length env x < 0"
    | (push) "\<not> name_length env x < 0" "?buf = 0 \<or> st = 0 \<or> sk_push env ?buf \<le> 0"
    | (ok) "\<not> name_length env x < 0" "\<not> (?buf = 0 \<or> st = 0 \<or> sk_push env ?buf \<le> 0)" by blast
  then show ?thesis
  proof cases
    case len
    then show ?thesis using b by (simp add: ca_body_def Let_def pop_free_stack [OF inv1])
  next
    case push
    then show ?thesis using b by (simp add: ca_body_def Let_def pop_free_stack [OF inv2])
  next
    case ok
    have "cw_owned (new_ref ?buf ?w) = native_new x (native_new ?buf (cw_owned w))"
      by (simp add: new_ref_def native_new_commute)
    moreover have "stack_inv st base (w\<lparr>cw_owned := native_new ?buf (cw_owned w), cw_stack := cw_stack w @ [?buf],
        cw_n := cw_n w + 1\<rparr>)"
      using stack_inv_push [OF inv, of ?buf] ok by (simp add: stack_inv_def new_ref_def)
    ultimately show ?thesis using ok b
      by (simp add: ca_body_def Let_def new_ref_def stack_inv_def)
  qed
qed

lemma parse_body_inv:
  assumes inv: "stack_inv st base w" and x: "x \<noteq> 0"
  shows "(\<exists>w'. parse_body b env st x w = Inr (Inr w') \<and> stack_inv st base w')
       \<or> (\<exists>w'. parse_body b env st x w = Inr (Inl w') \<and> cw_owned w' = base)"
proof -
  let ?c = "if boring b then buffer_new env x else x"
  have inv1: "stack_inv st (native_new ?c base) (new_ref ?c w)" using inv by (rule stack_inv_new_ref)
  show ?thesis
  proof (cases "?c = 0 \<or> st = 0 \<or> sk_push env ?c \<le> 0")
    case True
    then show ?thesis using pop_free_stack [OF inv1] by (simp add: parse_body_def Let_def)
  next
    case False
    then show ?thesis using stack_inv_push [OF inv, of ?c] by (simp add: parse_body_def Let_def)
  qed
qed

lemma skip_leading_ok:
  assumes "reads (read_X509 env) s xs s'"
  shows "\<exists>ok s1. skip_leading env sk s w = Inr (ok, s1, w)
     \<and> (ok \<longrightarrow> reads (read_X509 env) s1 (if sk then tl xs else xs) s')
     \<and> (ok \<longleftrightarrow> \<not> sk \<or> xs \<noteq> [])"
proof (cases xs)
  case Nil
  then show ?thesis using assms by (auto simp: skip_leading_def elim: reads_NilE)
next
  case (Cons x ys)
  then show ?thesis using assms by (auto simp: skip_leading_def elim!: reads_ConsE)
qed

section \<open>Lemmas on the loaders\<close>

lemma take_while_stop: "\<forall>y \<in> set ys. P y \<Longrightarrow> \<not> P x \<Longrightarrow> takeWhile P (ys @ x # zs) = ys"
  by (simp add: takeWhile_tail)

text \<open>The two loops that append to a chain, for any acceptance test.\<close>

lemma append_loop:
  fixes w :: chain_world
  assumes r: "reads rd s xs s'"
    and body: "\<And>x w. body x w =
       Inr (if add x \<noteq> (1::int) then Inl w else Inr (w\<lparr>cw_chain := cw_chain w @ [x], cw_n := cw_n w + 1\<rparr>))"
    and n: "cw_n w = 0"
  shows "\<exists>s'' w'. pem_while rd body s w =
       Some (Inr (s'', if \<forall>x \<in> set xs. add x = 1 then Inr w' else Inl w'))
     \<and> ((\<forall>x \<in> set xs. add x = 1) \<longrightarrow> s'' = s' \<and> cw_n w' = int (length xs))
     \<and> cw_chain w' = cw_chain w @ takeWhile (\<lambda>x. add x = 1) xs
     \<and> cw_owned w' = cw_owned w"
proof -
  let ?I = "\<lambda>ys (w' :: chain_world). (\<forall>x \<in> set ys. add x = 1) \<and> cw_n w' = int (length ys)
      \<and> cw_chain w' = cw_chain w @ ys \<and> cw_owned w' = cw_owned w"
  let ?Q = "\<lambda>w' :: chain_world. (\<exists>x \<in> set xs. add x \<noteq> 1) \<and> cw_chain w' = cw_chain w @ takeWhile (\<lambda>x. add x = 1) xs
      \<and> cw_owned w' = cw_owned w"
  have "(\<exists>w'. pem_while rd body s w = Some (Inr (s', Inr w')) \<and> ?I xs w')
      \<or> (\<exists>s'' w'. pem_while rd body s w = Some (Inr (s'', Inl w')) \<and> ?Q w')"
  proof (rule pem_while_rule [OF r])
    show "?I [] w" using n by simp
    fix ys x zs and w' :: chain_world
    assume "xs = ys @ x # zs" "?I ys w'"
    then show "(\<exists>w''. body x w' = Inr (Inr w'') \<and> ?I (ys @ [x]) w'')
       \<or> (\<exists>w''. body x w' = Inr (Inl w'') \<and> ?Q w'')"
      by (auto simp: body take_while_stop)
  qed
  then show ?thesis
  proof (elim disjE exE conjE)
    fix w'
    assume "pem_while rd body s w = Some (Inr (s', Inr w'))" "\<forall>x \<in> set xs. add x = 1"
      "cw_n w' = int (length xs)" "cw_chain w' = cw_chain w @ xs" "cw_owned w' = cw_owned w"
    moreover from this have "cw_chain w' = cw_chain w @ takeWhile (\<lambda>x. add x = 1) xs"
      by (metis (mono_tags) takeWhile_eq_all_conv)
    ultimately show ?thesis by (intro exI [of _ s'] exI [of _ w']) simp
  next
    fix s'' w'
    assume "pem_while rd body s w = Some (Inr (s'', Inl w'))" "\<exists>x \<in> set xs. add x \<noteq> 1"
      "cw_chain w' = cw_chain w @ takeWhile (\<lambda>x. add x = 1) xs" "cw_owned w' = cw_owned w"
    then show ?thesis by (intro exI [of _ s''] exI [of _ w']) auto
  qed
qed

text \<open>The certificates that a loader installs, and the count it reports.\<close>

definition chain_certs :: "bool \<Rightarrow> int list \<Rightarrow> int list" where
  "chain_certs skipfirst xs = (if skipfirst then tl xs else xs)"

definition chain_ok :: "'b chain_env \<Rightarrow> (int \<Rightarrow> int) \<Rightarrow> int list \<Rightarrow> 'b \<Rightarrow> bool" where
  "chain_ok env add cs s \<longleftrightarrow> (\<forall>x \<in> set cs. add x = 1) \<and> \<not> chain_error env s"

lemma stack_inv_start:
  "stack_inv st (cw_owned w) ((new_ref st w)\<lparr>cw_stack := []\<rparr>)"
  "stack_inv st (cw_owned w) ((new_ref st w)\<lparr>cw_stack := [], cw_n := 0\<rparr>)"
  by (simp_all add: stack_inv_def new_ref_def)

lemma setup_chain:
  assumes r: "reads (read_X509 env) s xs s'" and b: "\<not> boring b"
  shows "\<exists>n s'' w'. SSL_CTX_setup_certs b env sk False s w = Some (Inr (n, s'', w'))
     \<and> cw_owned w' = cw_owned w
     \<and> (if sk \<and> xs = [] then n = -1 \<and> cw_chain w' = cw_chain w
        else cw_chain w' = takeWhile (\<lambda>x. add_extra_chain_cert env x = 1) (chain_certs sk xs)
           \<and> n = (if chain_ok env (add_extra_chain_cert env) (chain_certs sk xs) s'
                  then int (length (chain_certs sk xs)) else -1))"
proof -
  let ?w = "w\<lparr>cw_stack := [], cw_n := 0\<rparr>"
  obtain ok s1 where k: "skip_leading env sk s ?w = Inr (ok, s1, ?w)"
      "ok \<longrightarrow> reads (read_X509 env) s1 (chain_certs sk xs) s'" "ok \<longleftrightarrow> \<not> sk \<or> xs \<noteq> []"
    using skip_leading_ok [OF r, of sk ?w] unfolding chain_certs_def by blast
  show ?thesis
  proof (cases ok)
    case False
    then show ?thesis using b k by (simp add: SSL_CTX_setup_certs_def)
  next
    case True
    then have r1: "reads (read_X509 env) s1 (chain_certs sk xs) s'" using k by simp
    obtain s2 w2 where l: "pem_while (read_X509 env) (extra_body env) s1 (?w\<lparr>cw_chain := []\<rparr>) =
         Some (Inr (s2, if \<forall>x \<in> set (chain_certs sk xs). add_extra_chain_cert env x = 1 then Inr w2 else Inl w2))"
       "(\<forall>x \<in> set (chain_certs sk xs). add_extra_chain_cert env x = 1) \<longrightarrow>
          s2 = s' \<and> cw_n w2 = int (length (chain_certs sk xs))"
       "cw_chain w2 = takeWhile (\<lambda>x. add_extra_chain_cert env x = 1) (chain_certs sk xs)"
       "cw_owned w2 = cw_owned w"
      using append_loop [OF r1 extra_body_eq [where env = env], where w = "?w\<lparr>cw_chain := []\<rparr>"] by auto
    show ?thesis using True b k l
      by (auto simp: SSL_CTX_setup_certs_def chain_ok_def chain_count_def)
  qed
qed

lemma setup_cas:
  assumes r: "reads (read_X509 env) s xs s'"
  shows "\<exists>n s'' w'. SSL_CTX_setup_certs b env False True s w = Some (Inr (n, s'', w'))
     \<and> cw_owned w' = cw_owned w"
proof (cases "boring b")
  case True
  let ?w = "(new_ref (stack_new env) w)\<lparr>cw_stack := [], cw_n := 0\<rparr>"
  let ?st = "stack_new env"
  have "(\<exists>w'. pem_while (read_X509 env) (ca_body b env ?st) s ?w = Some (Inr (s', Inr w'))
           \<and> stack_inv ?st (cw_owned w) w')
      \<or> (\<exists>s'' w'. pem_while (read_X509 env) (ca_body b env ?st) s ?w = Some (Inr (s'', Inl w'))
           \<and> cw_owned w' = cw_owned w)"
    by (rule pem_while_rule [OF r, where I = "\<lambda>ys. stack_inv ?st (cw_owned w)"])
      (simp_all add: stack_inv_start ca_body_boring [OF True])
  then show ?thesis using True
    by (auto simp: SSL_CTX_setup_certs_def skip_leading_def pop_free_stack)
next
  case False
  let ?w = "w\<lparr>cw_stack := [], cw_n := 0\<rparr>"
  have "(\<exists>w'. pem_while (read_X509 env) (ca_body b env 0) s ?w = Some (Inr (s', Inr w'))
           \<and> cw_owned w' = cw_owned w)
      \<or> (\<exists>s'' w'. pem_while (read_X509 env) (ca_body b env 0) s ?w = Some (Inr (s'', Inl w'))
           \<and> cw_owned w' = cw_owned w)"
    by (rule pem_while_rule [OF r, where I = "\<lambda>ys w'. cw_owned w' = cw_owned w"])
      (simp_all add: ca_body_openssl [OF False])
  then show ?thesis using False
    by (auto simp: SSL_CTX_setup_certs_def skip_leading_def)
qed

lemma connection_chain:
  assumes r: "reads (read_X509 env) s xs s'"
  shows "\<exists>n s'' w'. tcn_SSL_use_certificate_chain_bio b env sk s w = Some (Inr (n, s'', w'))
     \<and> cw_owned w' = cw_owned w"
proof -
  obtain ok s1 where k: "skip_leading env sk s w = Inr (ok, s1, w)"
      "ok \<longrightarrow> reads (read_X509 env) s1 (chain_certs sk xs) s'"
    using skip_leading_ok [OF r, of sk w] unfolding chain_certs_def by blast
  show ?thesis
  proof (cases ok)
    case False
    then show ?thesis using k by (simp add: tcn_SSL_use_certificate_chain_bio_def)
  next
    case True
    then have r1: "reads (read_X509 env) s1 (chain_certs sk xs) s'" using k by simp
    show ?thesis
      using append_loop [OF r1 add0_body_eq [where env = env], where w = "w\<lparr>cw_n := 0\<rparr>"] k True
      by (auto simp: tcn_SSL_use_certificate_chain_bio_def)
  qed
qed

lemma parse_chain:
  assumes r: "reads (read_X509 env) s xs s'"
  shows "\<exists>h w' ex. parseX509Chain b env (Some s) w = Some (Inr (h, w', ex))
     \<and> (ex \<noteq> None \<longrightarrow> h = 0 \<and> cw_owned w' = cw_owned w)
     \<and> (ex = None \<longrightarrow> stack_inv h (cw_owned w) w')"
proof -
  let ?st = "stack_new env" and ?w = "(new_ref (stack_new env) w)\<lparr>cw_stack := []\<rparr>"
  have "(\<exists>w'. pem_while (read_X509 env) (parse_body b env ?st) s ?w = Some (Inr (s', Inr w'))
           \<and> stack_inv ?st (cw_owned w) w')
      \<or> (\<exists>s'' w'. pem_while (read_X509 env) (parse_body b env ?st) s ?w = Some (Inr (s'', Inl w'))
           \<and> cw_owned w' = cw_owned w)"
    by (rule pem_while_rule [OF r, where I = "\<lambda>ys. stack_inv ?st (cw_owned w)"])
      (simp_all add: stack_inv_start parse_body_inv)
  then show ?thesis
    by (auto simp: parseX509Chain_def Let_def pop_free_stack)
qed

text \<open>When every push succeeds and the input ends cleanly, the stack holds the certificates in order.\<close>

lemma parse_chain_stack:
  assumes r: "reads (read_X509 env) s xs s'" and st: "stack_new env \<noteq> 0" and e: "\<not> chain_error env s'"
    and ok: "\<And>x. x \<in> set xs \<Longrightarrow> f x \<noteq> 0 \<and> 0 < sk_push env (f x)"
    and f: "f = (if boring b then buffer_new env else id)"
  shows "\<exists>w'. parseX509Chain b env (Some s) w = Some (Inr (stack_new env, w', None))
     \<and> cw_stack w' = map f xs \<and> stack_inv (stack_new env) (cw_owned w) w'"
proof -
  let ?st = "stack_new env" and ?w = "(new_ref (stack_new env) w)\<lparr>cw_stack := []\<rparr>"
  have fx: "(if boring b then buffer_new env x else x) = f x" for x by (simp add: f)
  have step: "\<exists>w'. parse_body b env ?st x v = Inr (Inr w') \<and> cw_stack w' = map f (ys @ [x]) \<and> stack_inv ?st (cw_owned w) w'"
    if "xs = ys @ x # zs" "cw_stack v = map f ys" "stack_inv ?st (cw_owned w) v" for ys x zs v
    using that ok [of x] st stack_inv_push [of ?st "cw_owned w" v "f x"] by (simp add: parse_body_def fx Let_def)
  have "(\<exists>w'. pem_while (read_X509 env) (parse_body b env ?st) s ?w = Some (Inr (s', Inr w'))
           \<and> (cw_stack w' = map f xs \<and> stack_inv ?st (cw_owned w) w'))
      \<or> (\<exists>s'' w'. pem_while (read_X509 env) (parse_body b env ?st) s ?w = Some (Inr (s'', Inl w')) \<and> False)"
    by (rule pem_while_rule [OF r, where I = "\<lambda>ys v. cw_stack v = map f ys \<and> stack_inv ?st (cw_owned w) v"])
      (simp add: stack_inv_start, use step in simp)
  then show ?thesis using e by (auto simp: parseX509Chain_def Let_def)
qed

lemma not_supported_boring: "not_supported b = None \<longleftrightarrow> \<not> boring b"
  by (simp add: not_supported_def boring_def)

lemma file_chain:
  assumes r: "\<And>s. \<exists>xs s'. reads (read_X509 env) s xs s'" and b: "\<not> boring b"
  shows "\<exists>n w'. tcn_SSL_CTX_use_certificate_chain b env bio open_file sk w = Some (Inr (n, w'))
     \<and> cw_owned w' = cw_owned w"
proof (cases open_file)
  case None
  then show ?thesis by (simp add: tcn_SSL_CTX_use_certificate_chain_def)
next
  case (Some s)
  obtain xs s' where "reads (read_X509 env) s xs s'" using r by blast
  then obtain n s'' w' where u: "SSL_CTX_setup_certs b env sk False s (new_ref bio w) = Some (Inr (n, s'', w'))"
      "cw_owned w' = native_new bio (cw_owned w)"
    using setup_chain [OF _ b, of env s xs s' sk "new_ref bio w"] by (auto simp: new_ref_def)
  then show ?thesis
    by (auto simp: Some tcn_SSL_CTX_use_certificate_chain_def tcn_SSL_CTX_use_certificate_chain_bio_def)
qed

section \<open>Every loader returns\<close>

lemma returns_chain_file:
  assumes r: "\<And>s. \<exists>xs s'. reads (read_X509 env) s xs s'"
  shows "\<exists>rv w' ex. setCertificateChainFile b env cp fname file_bio open_file sk w = Some (Inr (rv, w', ex))
      \<and> cw_owned w' = cw_owned w"
  using file_chain [OF r, of b file_bio open_file sk w]
  by (cases "boring b"; cases cp; cases fname)
    (auto simp: setCertificateChainFile_def not_supported_boring dest: not_supported_boring [THEN iffD1])

lemma returns_chain_bio:
  assumes r: "\<And>s. \<exists>xs s'. reads (read_X509 env) s xs s'"
  shows "\<exists>rv w' ex. setCertificateChainBio b env cp bio sk w = Some (Inr (rv, w', ex)) \<and> cw_owned w' = cw_owned w"
proof -
  obtain xs s' where x: "reads (read_X509 env) (the bio) xs s'" using r by blast
  have "\<not> boring b \<Longrightarrow> \<exists>n s'' w'. SSL_CTX_setup_certs b env sk False (the bio) w = Some (Inr (n, s'', w'))
      \<and> cw_owned w' = cw_owned w"
    using setup_chain [OF x, of b sk w] by blast
  then show ?thesis
    by (cases "boring b"; cases cp; cases bio)
      (auto simp: setCertificateChainBio_def tcn_SSL_CTX_use_certificate_chain_bio_def not_supported_boring
        dest: not_supported_boring [THEN iffD1])
qed

lemma returns_ca_bio:
  assumes r: "\<And>s. \<exists>xs s'. reads (read_X509 env) s xs s'"
  shows "\<exists>rv w' ex. setCACertificateBio b env cp bio w = Some (Inr (rv, w', ex)) \<and> cw_owned w' = cw_owned w"
proof -
  have "\<exists>n s'' w'. SSL_CTX_setup_certs b env False True s w = Some (Inr (n, s'', w'))
      \<and> cw_owned w' = cw_owned w" for s
    using r [of s] setup_cas [of env s] by blast
  from this [of "the bio"] show ?thesis
    by (cases cp; cases bio) (auto simp: setCACertificateBio_def tcn_SSL_CTX_use_client_CA_bio_def)
qed

lemma returns_connection_chain:
  assumes r: "\<And>s. \<exists>xs s'. reads (read_X509 env) s xs s'"
  shows "\<exists>w' ex. SSL_setCertificateChainBio b env ssl bio sk w = Some (Inr (w', ex)) \<and> cw_owned w' = cw_owned w"
proof -
  have "\<exists>n s'' w'. tcn_SSL_use_certificate_chain_bio b env sk s w = Some (Inr (n, s'', w'))
      \<and> cw_owned w' = cw_owned w" for s
    using r [of s] connection_chain [of env s] by blast
  from this [of "the bio"] show ?thesis by (cases bio) (auto simp: SSL_setCertificateChainBio_def)
qed

lemma returns_parse:
  assumes r: "\<And>s. \<exists>xs s'. reads (read_X509 env) s xs s'"
  shows "\<exists>h w' ex. parseX509Chain b env bio w = Some (Inr (h, w', ex))
      \<and> (bio \<noteq> None \<longrightarrow> ex \<noteq> None \<longrightarrow> cw_owned w' = cw_owned w)
      \<and> (ex = None \<longrightarrow> (\<exists>w''. freeX509Chain h w' = Inr w'' \<and> cw_owned w'' = cw_owned w))"
proof (cases bio)
  case None
  then show ?thesis by (simp add: parseX509Chain_def Let_def)
next
  case (Some s)
  obtain xs s' where "reads (read_X509 env) s xs s'" using r by blast
  from parse_chain [OF this, of b w] show ?thesis
    by (auto simp: Some freeX509Chain_def pop_free_stack)
qed

section \<open>Properties\<close>

text \<open>
  C26. When every certificate read from a BIO consumes some of its input, all functions that load a
  chain of certificates return, whatever OpenSSL answers to each certificate and in every
  build: they never use a freed reference, and the C code holds the same native references
  afterwards. A parsed chain is handed to Java, and freeing it gives back everything it held; when
  parsing a given BIO fails, nothing is kept.
\<close>

theorem chain_loaders_return:
  fixes sz :: "'b \<Rightarrow> nat"
  assumes consuming: "\<And>s. fst (read_X509 env s) \<noteq> 0 \<Longrightarrow> sz (snd (read_X509 env s)) < sz s"
  shows "(\<exists>rv w' ex. setCertificateChainFile b env cp fname file_bio open_file sk w = Some (Inr (rv, w', ex))
            \<and> cw_owned w' = cw_owned w)
       \<and> (\<exists>rv w' ex. setCertificateChainBio b env cp bio sk w = Some (Inr (rv, w', ex))
            \<and> cw_owned w' = cw_owned w)
       \<and> (\<exists>rv w' ex. setCACertificateBio b env cp bio w = Some (Inr (rv, w', ex))
            \<and> cw_owned w' = cw_owned w)
       \<and> (\<exists>w' ex. SSL_setCertificateChainBio b env ssl bio sk w = Some (Inr (w', ex))
            \<and> cw_owned w' = cw_owned w)
       \<and> (\<exists>h w' ex. parseX509Chain b env bio w = Some (Inr (h, w', ex))
            \<and> (bio \<noteq> None \<longrightarrow> ex \<noteq> None \<longrightarrow> cw_owned w' = cw_owned w)
            \<and> (ex = None \<longrightarrow> (\<exists>w''. freeX509Chain h w' = Inr w'' \<and> cw_owned w'' = cw_owned w)))"
proof -
  have r: "\<exists>xs s'. reads (read_X509 env) s xs s'" for s
    by (rule reads_exists [of _ sz]) (rule consuming)
  show ?thesis
    by (intro conjI returns_chain_file returns_chain_bio returns_ca_bio returns_connection_chain returns_parse r)
qed

text \<open>A BIO whose state is the list of certificates left, and a library that accepts all of them.\<close>

definition list_env :: "int list chain_env" where
  "list_env = \<lparr>read_X509 = (\<lambda>s. case s of [] \<Rightarrow> (0, []) | x # xs \<Rightarrow> (x, xs)), stack_new = 90,
     name_length = (\<lambda>x. 4), buffer_new = (\<lambda>x. x + 100), sk_push = (\<lambda>x. 1),
     add_client_CA = (\<lambda>x. 1), add_extra_chain_cert = (\<lambda>x. if x = 5 then 0 else 1), add0_chain_cert = (\<lambda>x. 1),
     peek_error = (\<lambda>s. 7), no_start_line_error = (\<lambda>e. e = 7)\<rparr>"

definition chain_world0 :: chain_world where
  "chain_world0 = \<lparr>cw_owned = {#3#}, cw_chain = [8], cw_cas = [], cw_stack = [], cw_n = 0\<rparr>"

theorem chain_loaders_return_witness:
  "\<exists>h w' w''. parseX509Chain openssl_build list_env (Some [1, 2]) chain_world0 = Some (Inr (h, w', None))
     \<and> freeX509Chain h w' = Inr w'' \<and> cw_owned w'' = {#3#}"
proof -
  have c: "fst (read_X509 list_env s) \<noteq> 0 \<Longrightarrow> length (snd (read_X509 list_env s)) < length s" for s
    by (cases s) (simp_all add: list_env_def)
  have p: "parseX509Chain openssl_build list_env (Some [1, 2]) chain_world0
      = Some (Inr (90, chain_world0\<lparr>cw_owned := {#3, 90, 1, 2#}, cw_stack := [1, 2]\<rparr>, None))"
    by (simp add: parseX509Chain_def pem_while.simps parse_body_def list_env_def new_ref_def native_new_def
        chain_world0_def chain_error_def openssl_build_def boring_def add_mset_commute Let_def)
  from chain_loaders_return [where env = list_env and sz = length and b = openssl_build and bio = "Some [1, 2]"
      and w = chain_world0, OF c]
  show ?thesis unfolding p by (auto simp: chain_world0_def)
qed

text \<open>
  Loading the chain of a context from a BIO with the certificates \<open>xs\<close> (OpenSSL): the former
  chain is dropped, the certificates are installed in order up to the first one OpenSSL refuses,
  and the call reports success exactly when there is at least one, all were accepted and
  reading ended without an error. With \<open>skipfirst\<close> the first certificate is left out, and an
  empty BIO then leaves the former chain alone.
\<close>

theorem chain_bio_result:
  assumes "\<not> boring b" and "reads (read_X509 env) s xs s'"
  shows "\<exists>w'. setCertificateChainBio b env (Some c) (Some s) sk w
      = Some (Inr (chain_certs sk xs \<noteq> [] \<and> chain_ok env (add_extra_chain_cert env) (chain_certs sk xs) s', w', None))
     \<and> cw_chain w' = (if sk \<and> xs = [] then cw_chain w
                       else takeWhile (\<lambda>x. add_extra_chain_cert env x = 1) (chain_certs sk xs))
     \<and> cw_owned w' = cw_owned w"
proof -
  obtain n s'' w' where u: "SSL_CTX_setup_certs b env sk False s w = Some (Inr (n, s'', w'))"
      "cw_owned w' = cw_owned w"
      "if sk \<and> xs = [] then n = -1 \<and> cw_chain w' = cw_chain w
        else cw_chain w' = takeWhile (\<lambda>x. add_extra_chain_cert env x = 1) (chain_certs sk xs)
           \<and> n = (if chain_ok env (add_extra_chain_cert env) (chain_certs sk xs) s'
                  then int (length (chain_certs sk xs)) else -1)"
    using setup_chain [OF assms(2,1), of sk w] by blast
  have "(n > 0) = (chain_certs sk xs \<noteq> [] \<and> chain_ok env (add_extra_chain_cert env) (chain_certs sk xs) s')"
    using u(3) by (cases "chain_certs sk xs") (auto simp: chain_certs_def split: if_splits)
  then show ?thesis using u assms(1)
    by (auto simp: setCertificateChainBio_def tcn_SSL_CTX_use_certificate_chain_bio_def not_supported_boring
        split: if_splits)
qed

theorem chain_bio_result_witness:
  "(\<exists>w'. setCertificateChainBio openssl_build list_env (Some ctxt_zero) (Some [1, 2, 4]) True chain_world0
      = Some (Inr (True, w', None)) \<and> cw_chain w' = [2, 4])
   \<and> (\<exists>w'. setCertificateChainBio openssl_build list_env (Some ctxt_zero) (Some [1, 5, 4]) False chain_world0
      = Some (Inr (False, w', None)) \<and> cw_chain w' = [1])"
proof -
  have b: "\<not> boring openssl_build" by (simp add: boring_def openssl_build_def)
  have r: "reads (read_X509 list_env) [x, y, 4] [x, y, 4] []" if "x \<noteq> 0" "y \<noteq> 0" for x y
    using that by (intro reads.intros) (auto simp: list_env_def)
  show ?thesis
    using chain_bio_result [OF b r [of 1 2], of ctxt_zero True chain_world0]
      chain_bio_result [OF b r [of 1 5], of ctxt_zero False chain_world0]
    by (simp add: chain_certs_def chain_ok_def chain_error_def list_env_def) blast
qed

end
