(* ===== verification/Key_Material.thy ===== *)
theory Key_Material
  imports Cert_Load
begin

text \<open>
  Key material for one connection (\<^verbatim>\<open>ssl.c\<close>): \<^verbatim>\<open>setKeyMaterial\<close> installs a parsed chain and key, as the
  certificate callback does on the server, \<^verbatim>\<open>setKeyMaterialClientSide\<close> hands a certificate and a key
  to OpenSSL's client certificate callback, and the functions around them parse and free keys.

  \<open>conn\<close> is what OpenSSL keeps for the connection: leaf certificate, key and chain. A function
  that throws goes on in one place, so the exceptions are a list.
\<close>

section \<open>State and library\<close>

record conn =
  conn_cert :: int
  conn_key :: int
  conn_chain :: "int list"

record km_env =
  certs_malloc_ok :: bool
  set_chain_and_key :: "int list \<Rightarrow> int \<Rightarrow> int"
  SSL_use_certificate :: "int \<Rightarrow> int"
  SSL_use_PrivateKey :: "int \<Rightarrow> int"
  SSL_check_private_key :: "int \<Rightarrow> int \<Rightarrow> int"
  clear_chain_certs :: int
  clear_error_code :: int
  add1_chain_cert :: "int \<Rightarrow> int"
  CRYPTO_add :: "int \<Rightarrow> int"
  up_ref :: "int \<Rightarrow> int"

section \<open>Parsing and freeing keys\<close>

definition parsePrivateKey ::
  "pem_env \<Rightarrow> int \<Rightarrow> byte list option \<Rightarrow> int multiset \<Rightarrow> int \<times> int multiset \<times> jexc option" where
  "parsePrivateKey env bio pw owned =
   (if bio = 0 then (0, owned, Some (NullPointerException ''privateKeyBio''))
    else
      let pkey = tcn_load_pem_key_bio env pw bio in
      (pkey, native_new pkey owned,
       if pkey = 0 then Some (JException ''Unable to load certificate key (%s)'') else None))"

definition freePrivateKey :: "int \<Rightarrow> int multiset \<Rightarrow> int multiset cres" where
  "freePrivateKey privateKey owned = native_free privateKey owned"

text \<open>\<open>engine_key\<close> is the result of \<^verbatim>\<open>ENGINE_load_private_key\<close>.\<close>

definition loadPrivateKeyFromEngine ::
  "build \<Rightarrow> int \<Rightarrow> int multiset \<Rightarrow> int \<times> int multiset \<times> jexc option" where
  "loadPrivateKeyFromEngine b engine_key owned =
   (if openssl_no_engine b then (-1, owned, Some (JException ''Not supported''))
    else if engine_key = 0 then (-1, owned, Some (JException ''Unable to load private key (%s)''))
    else (engine_key, native_new engine_key owned, None))"

section \<open>Reference counts\<close>

text \<open>Older libraries increment the counter field directly; \<^verbatim>\<open>CRYPTO_add\<close> returns the new value.\<close>

definition no_up_ref :: "build \<Rightarrow> nat \<Rightarrow> bool" where
  "no_up_ref b libre \<longleftrightarrow> \<not> boring b \<and> (openssl_version_number b < 0x10100000 \<or> libressl_before b libre)"

definition tcn_EVP_PKEY_up_ref :: "build \<Rightarrow> km_env \<Rightarrow> int \<Rightarrow> int" where
  "tcn_EVP_PKEY_up_ref b env pkey = (if no_up_ref b 0x2070000f then CRYPTO_add env pkey else up_ref env pkey)"

definition tcn_X509_up_ref :: "build \<Rightarrow> km_env \<Rightarrow> int \<Rightarrow> int" where
  "tcn_X509_up_ref b env cert = (if no_up_ref b 0x2060000f then CRYPTO_add env cert else up_ref env cert)"

section \<open>Installing key material\<close>

text \<open>The loop over the certificates after the first one: it stops at the first refusal.\<close>

fun add_chain_loop :: "km_env \<Rightarrow> int list \<Rightarrow> conn \<Rightarrow> conn \<times> bool" where
  "add_chain_loop env [] s = (s, True)"
| "add_chain_loop env (x # xs) s =
     (if add1_chain_cert env x \<noteq> 1 then (s, False)
      else add_chain_loop env xs (s\<lparr>conn_chain := conn_chain s @ [x]\<rparr>))"

definition cannot_add_chain :: jexc where
  "cannot_add_chain = JException ''Could not add certificate to chain (%s)''"

text \<open>From the clearing of the old chain to the end of the function.\<close>

definition set_chain :: "build \<Rightarrow> km_env \<Rightarrow> int list \<Rightarrow> conn \<Rightarrow> conn \<times> jexc list" where
  "set_chain b env certs s =
   (if openssl_version_number b \<ge> 0x10002000 \<and> clear_chain_certs env \<noteq> 1
    then (s, [if clear_error_code env = 0 then JException ''Could not clear certificate chain (unknown)''
              else JException ''Could not clear certificate chain (%s)''])
    else
      let s1 = (if openssl_version_number b \<ge> 0x10002000 then s\<lparr>conn_chain := []\<rparr> else s);
          (s2, ok) = add_chain_loop env (tl certs) s1
      in (s2, if ok then [] else [cannot_add_chain]))"

text \<open>The private key and the check that it fits; the function returns after a failure.\<close>

definition set_key :: "km_env \<Rightarrow> int \<Rightarrow> conn \<Rightarrow> conn \<times> jexc option" where
  "set_key env pkey s =
   (if SSL_use_PrivateKey env pkey \<le> 0 then (s, Some (JException ''Error setting private key (%s)''))
    else
      let s1 = s\<lparr>conn_key := pkey\<rparr> in
      if SSL_check_private_key env (conn_cert s1) pkey \<le> 0
      then (s1, Some (JException ''Private key does not match the certificate public key (%s)''))
      else (s1, None))"

definition setKeyMaterial ::
  "build \<Rightarrow> km_env \<Rightarrow> int \<Rightarrow> int list option \<Rightarrow> int \<Rightarrow> conn \<Rightarrow> conn \<times> jexc list" where
  "setKeyMaterial b env ssl chain pkey s =
   (if libressl_before b 0x2090200f then (s, [JException ''Not supported with LibreSSL < 2.9.2''])
    else if ssl = 0 then (s, [NullPointerException ''ssl''])
    else (case chain of None \<Rightarrow> (s, [NullPointerException ''chain''])
    | Some certs \<Rightarrow>
      let failed = [JException ''Error setting certificate (%s)''] in
      if boring b then
        (if \<not> certs_malloc_ok env then (s, [JException ''OPENSSL_malloc returned NULL''])
         else if certs = [] \<or> set_chain_and_key env certs pkey \<le> 0 then (s, failed)
         else (s\<lparr>conn_cert := hd certs, conn_key := pkey, conn_chain := tl certs\<rparr>, []))
      else
        let bad = (certs = [] \<or> SSL_use_certificate env (hd certs) \<le> 0);
            s1 = (if bad then s else s\<lparr>conn_cert := hd certs\<rparr>);
            ex1 = (if bad then failed else []);
            (s2, ex2) = (if pkey \<noteq> 0 then set_key env pkey s1 else (s1, None))
        in
        (case ex2 of
           Some e \<Rightarrow> (s2, ex1 @ [e])
         | None \<Rightarrow> let (s3, ex3) = set_chain b env certs s2 in (s3, ex1 @ ex3))))"

text \<open>
  The client side: \<open>refs\<close> are the references of certificates and keys, and the result the values
  stored through the two output pointers, if any.
\<close>

fun client_chain_loop :: "km_env \<Rightarrow> int list \<Rightarrow> conn \<Rightarrow> conn \<times> bool" where
  "client_chain_loop env [] s = (s, True)"
| "client_chain_loop env (x # xs) s =
     (if add1_chain_cert env x \<le> 0 then (s, False)
      else client_chain_loop env xs (s\<lparr>conn_chain := conn_chain s @ [x]\<rparr>))"

definition setKeyMaterialClientSide ::
  "build \<Rightarrow> km_env \<Rightarrow> int \<Rightarrow> int list option \<Rightarrow> int \<Rightarrow> conn \<Rightarrow> int multiset
   \<Rightarrow> (conn \<times> int multiset \<times> (int \<times> int) option \<times> jexc option) cres" where
  "setKeyMaterialClientSide b env ssl chain pkey s refs =
   (if libressl_version_number b \<noteq> None then Inr (s, refs, None, Some (JException ''Not supported with LibreSSL''))
    else if openssl_is_boringssl b then Inr (s, refs, None, Some (JException ''Not supported with BoringSSL''))
    else if openssl_is_awslc b then Inr (s, refs, None, Some (JException ''Not supported with AWS-LC''))
    else if ssl = 0 then Inr (s, refs, None, Some (NullPointerException ''ssl''))
    else (case chain of None \<Rightarrow> Inr (s, refs, None, None)
    | Some certs \<Rightarrow>
      if pkey = 0 then Inr (s, refs, None, None)
      else if certs = [] then Inr (s, refs, None, None)
      else
        let (s1, ok) = client_chain_loop env (tl certs) s; x509 = hd certs in
        if \<not> ok then Inr (s1, refs, None, Some cannot_add_chain)
        else if tcn_X509_up_ref b env x509 < 1
        then Inr (s1, refs, None, Some (JException ''Could not add certificate (%s)''))
        else
          let refs1 = native_new x509 refs in
          if tcn_EVP_PKEY_up_ref b env pkey < 1
          then cbind (native_free x509 refs1) (\<lambda>refs2.
                 Inr (s1, refs2, None, Some (JException ''Could not add private key (%s)'')))
          else Inr (s1, native_new pkey refs1, Some (x509, pkey), None)))"

section \<open>Lemmas\<close>

lemma add_chain_loop_result:
  "add_chain_loop env xs s =
     (s\<lparr>conn_chain := conn_chain s @ takeWhile (\<lambda>x. add1_chain_cert env x = 1) xs\<rparr>,
      \<forall>x \<in> set xs. add1_chain_cert env x = 1)"
  by (induction xs arbitrary: s) auto

lemma set_chain_result:
  "snd (set_chain b env certs s) = [] \<longleftrightarrow>
     (openssl_version_number b \<ge> 0x10002000 \<longrightarrow> clear_chain_certs env = 1)
     \<and> (\<forall>x \<in> set (tl certs). add1_chain_cert env x = 1)"
  "snd (set_chain b env certs s) = [] \<Longrightarrow> fst (set_chain b env certs s) =
     s\<lparr>conn_chain := (if openssl_version_number b \<ge> 0x10002000 then [] else conn_chain s) @ tl certs\<rparr>"
proof -
  have all: "\<forall>x \<in> set (tl certs). add1_chain_cert env x = 1 \<Longrightarrow>
      takeWhile (\<lambda>x. add1_chain_cert env x = 1) (tl certs) = tl certs" by simp
  show "snd (set_chain b env certs s) = [] \<longleftrightarrow>
     (openssl_version_number b \<ge> 0x10002000 \<longrightarrow> clear_chain_certs env = 1)
     \<and> (\<forall>x \<in> set (tl certs). add1_chain_cert env x = 1)"
    by (auto simp: set_chain_def Let_def add_chain_loop_result)
  then show "snd (set_chain b env certs s) = [] \<Longrightarrow> fst (set_chain b env certs s) =
     s\<lparr>conn_chain := (if openssl_version_number b \<ge> 0x10002000 then [] else conn_chain s) @ tl certs\<rparr>"
    using all by (auto simp: set_chain_def Let_def add_chain_loop_result)
qed

lemma client_chain_loop_ok:
  "snd (client_chain_loop env xs s) \<Longrightarrow> conn_chain (fst (client_chain_loop env xs s)) = conn_chain s @ xs"
  by (induction xs arbitrary: s) (auto split: if_splits)

lemma set_key_result:
  "snd (set_key env pkey s) = None \<longleftrightarrow>
     0 < SSL_use_PrivateKey env pkey \<and> 0 < SSL_check_private_key env (conn_cert s) pkey"
  "snd (set_key env pkey s) = None \<Longrightarrow> fst (set_key env pkey s) = s\<lparr>conn_key := pkey\<rparr>"
  by (auto simp: set_key_def Let_def)

text \<open>The calls that have to succeed with OpenSSL.\<close>

definition key_material_accepted :: "build \<Rightarrow> km_env \<Rightarrow> int list \<Rightarrow> int \<Rightarrow> bool" where
  "key_material_accepted b env certs pkey \<longleftrightarrow>
     certs \<noteq> [] \<and>
     (if boring b then certs_malloc_ok env \<and> 0 < set_chain_and_key env certs pkey
      else 0 < SSL_use_certificate env (hd certs)
         \<and> (pkey \<noteq> 0 \<longrightarrow> 0 < SSL_use_PrivateKey env pkey \<and> 0 < SSL_check_private_key env (hd certs) pkey)
         \<and> (openssl_version_number b \<ge> 0x10002000 \<longrightarrow> clear_chain_certs env = 1)
         \<and> (\<forall>x \<in> set (tl certs). add1_chain_cert env x = 1))"

lemma setKeyMaterial_openssl:
  assumes "\<not> boring b" "\<not> libressl_before b 0x2090200f" "ssl \<noteq> 0"
    and "certs \<noteq> []" "0 < SSL_use_certificate env (hd certs)"
  shows "setKeyMaterial b env ssl (Some certs) pkey s =
    (let (s2, ex2) = (if pkey \<noteq> 0 then set_key env pkey (s\<lparr>conn_cert := hd certs\<rparr>)
                      else (s\<lparr>conn_cert := hd certs\<rparr>, None))
     in case ex2 of Some e \<Rightarrow> (s2, [e]) | None \<Rightarrow> set_chain b env certs s2)"
  using assms by (simp add: setKeyMaterial_def Let_def split: prod.split option.split)

lemma setKeyMaterial_refused:
  assumes "\<not> boring b" "certs = [] \<or> SSL_use_certificate env (hd certs) \<le> 0"
  shows "snd (setKeyMaterial b env ssl (Some certs) pkey s) \<noteq> []"
  using assms by (simp add: setKeyMaterial_def Let_def split: prod.split option.split)

lemma key_material_installed:
  assumes "\<not> libressl_before b 0x2090200f" "ssl \<noteq> 0"
  shows "(snd (setKeyMaterial b env ssl (Some certs) pkey s) = [] \<longleftrightarrow> key_material_accepted b env certs pkey)
    \<and> (key_material_accepted b env certs pkey \<longrightarrow>
        fst (setKeyMaterial b env ssl (Some certs) pkey s) =
          s\<lparr>conn_cert := hd certs,
            conn_key := (if boring b \<or> pkey \<noteq> 0 then pkey else conn_key s),
            conn_chain := (if boring b \<or> openssl_version_number b \<ge> 0x10002000 then [] else conn_chain s)
                          @ tl certs\<rparr>)"
proof (cases "boring b")
  case True
  then show ?thesis using assms
    by (auto simp: setKeyMaterial_def key_material_accepted_def Let_def)
next
  case False
  show ?thesis
  proof (cases "certs = [] \<or> SSL_use_certificate env (hd certs) \<le> 0")
    case True
    then show ?thesis using setKeyMaterial_refused [OF False True] False
      by (auto simp: key_material_accepted_def)
  next
    case ok: False
    then have ok': "certs \<noteq> []" "0 < SSL_use_certificate env (hd certs)" by auto
    let ?s = "s\<lparr>conn_cert := hd certs\<rparr>"
    have eq: "setKeyMaterial b env ssl (Some certs) pkey s =
      (let (s2, ex2) = (if pkey \<noteq> 0 then set_key env pkey ?s else (?s, None))
       in case ex2 of Some e \<Rightarrow> (s2, [e]) | None \<Rightarrow> set_chain b env certs s2)"
      by (rule setKeyMaterial_openssl [OF False assms ok'])
    show ?thesis
    proof (cases "pkey = 0")
      case True
      have eq': "setKeyMaterial b env ssl (Some certs) pkey s = set_chain b env certs ?s"
        unfolding eq using True by simp
      show ?thesis unfolding eq' using ok' False True set_chain_result [of b env certs ?s]
        by (simp add: key_material_accepted_def)
    next
      case pk: False
      show ?thesis
      proof (cases "snd (set_key env pkey ?s)")
        case None
        then have k: "set_key env pkey ?s = (?s\<lparr>conn_key := pkey\<rparr>, None)"
          using set_key_result(2) [OF None] by (metis prod.collapse)
        have a: "0 < SSL_use_PrivateKey env pkey" "0 < SSL_check_private_key env (hd certs) pkey"
          using None set_key_result(1) [of env pkey ?s] by simp_all
        have eq': "setKeyMaterial b env ssl (Some certs) pkey s = set_chain b env certs (?s\<lparr>conn_key := pkey\<rparr>)"
          unfolding eq k using pk by simp
        show ?thesis unfolding eq'
          using ok' False pk a set_chain_result [of b env certs "?s\<lparr>conn_key := pkey\<rparr>"]
          by (simp add: key_material_accepted_def)
      next
        case (Some e)
        then have k: "set_key env pkey ?s = (fst (set_key env pkey ?s), Some e)" by (metis prod.collapse)
        have "\<not> (0 < SSL_use_PrivateKey env pkey \<and> 0 < SSL_check_private_key env (hd certs) pkey)"
          using Some set_key_result(1) [of env pkey ?s] by simp
        moreover have "snd (setKeyMaterial b env ssl (Some certs) pkey s) \<noteq> []"
          unfolding eq using pk by (subst k) simp
        ultimately show ?thesis using False pk by (auto simp: key_material_accepted_def)
      qed
    qed
  qed
qed

section \<open>Properties\<close>

text \<open>
  C27. \<^verbatim>\<open>setKeyMaterial\<close> throws no exception exactly when there is a certificate and the library accepts
  every step (certificate, key, match of the two, clearing the chain, each further
  certificate). Then the connection has the first certificate as its leaf, the others as its
  chain and the given key. With BoringSSL and from OpenSSL 1.0.2 on, the chain is replaced, so
  a second call after a HelloRetryRequest leaves no duplicates; before, it is appended to.
\<close>

theorem key_material_result:
  assumes "\<not> libressl_before b 0x2090200f" "ssl \<noteq> 0"
  shows "(snd (setKeyMaterial b env ssl (Some certs) pkey s) = [] \<longleftrightarrow> key_material_accepted b env certs pkey)
    \<and> (key_material_accepted b env certs pkey \<longrightarrow>
        fst (setKeyMaterial b env ssl (Some certs) pkey s) =
          s\<lparr>conn_cert := hd certs,
            conn_key := (if boring b \<or> pkey \<noteq> 0 then pkey else conn_key s),
            conn_chain := (if boring b \<or> openssl_version_number b \<ge> 0x10002000 then [] else conn_chain s)
                          @ tl certs\<rparr>)"
  using assms by (rule key_material_installed)

definition willing_env :: km_env where
  "willing_env = \<lparr>certs_malloc_ok = True, set_chain_and_key = (\<lambda>cs k. 1), SSL_use_certificate = (\<lambda>x. 1),
     SSL_use_PrivateKey = (\<lambda>k. 1), SSL_check_private_key = (\<lambda>x k. if x = k then 1 else 0),
     clear_chain_certs = 1, clear_error_code = 0, add1_chain_cert = (\<lambda>x. 1), CRYPTO_add = (\<lambda>x. 2),
     up_ref = (\<lambda>x. 1)\<rparr>"

theorem key_material_result_witness:
  "setKeyMaterial openssl_build willing_env 9 (Some [4, 5, 6]) 4 \<lparr>conn_cert = 1, conn_key = 2, conn_chain = [5, 6]\<rparr>
     = (\<lparr>conn_cert = 4, conn_key = 4, conn_chain = [5, 6]\<rparr>, [])"
proof -
  let ?s = "\<lparr>conn_cert = 1, conn_key = 2, conn_chain = [5, 6]\<rparr>"
  have "key_material_accepted openssl_build willing_env [4, 5, 6] 4"
    by (simp add: key_material_accepted_def willing_env_def)
  moreover have "\<not> libressl_before openssl_build 0x2090200f"
    by (simp add: libressl_before_def openssl_build_def)
  ultimately show ?thesis
    using key_material_result [of openssl_build 9 willing_env "[4, 5, 6]" 4 ?s]
    by (simp add: prod_eq_iff openssl_build_def)
qed

text \<open>
  \<^verbatim>\<open>setKeyMaterialClientSide\<close> takes one reference to the certificate and one to the key exactly when
  it stores both through the output pointers; on every other path, exceptions included, the
  reference counts are as before and nothing is stored.
\<close>

theorem client_key_material_refs:
  assumes "chain \<noteq> None \<Longrightarrow> 0 \<notin> set (the chain)"
  shows "\<exists>s' refs' out ex. setKeyMaterialClientSide b env ssl chain pkey s refs = Inr (s', refs', out, ex)
     \<and> (case out of None \<Rightarrow> refs' = refs
        | Some (x, k) \<Rightarrow> ex = None \<and> chain \<noteq> None \<and> x = hd (the chain) \<and> k = pkey
            \<and> refs' = refs + {#x, k#} \<and> conn_chain s' = conn_chain s @ tl (the chain))"
proof (cases "chain = None \<or> pkey = 0 \<or> chain = Some []")
  case True
  then show ?thesis by (cases chain) (auto simp: setKeyMaterialClientSide_def)
next
  case False
  then obtain certs where c: "chain = Some certs" "certs \<noteq> []" "pkey \<noteq> 0" by auto
  obtain s1 ok where l: "client_chain_loop env (tl certs) s = (s1, ok)" by fastforce
  have "hd certs \<noteq> 0" using assms c by (metis hd_in_set option.sel option.distinct(1))
  moreover have "ok \<Longrightarrow> conn_chain s1 = conn_chain s @ tl certs"
    using client_chain_loop_ok [of env "tl certs" s] l by simp
  ultimately show ?thesis using c
    by (simp add: setKeyMaterialClientSide_def l Let_def) (auto simp: native_new_def)
qed

theorem client_key_material_refs_witness:
  "\<exists>s' refs' out ex. setKeyMaterialClientSide openssl_build willing_env 9 (Some [4, 5]) 7
       \<lparr>conn_cert = 0, conn_key = 0, conn_chain = []\<rparr> {#} = Inr (s', refs', out, ex)
     \<and> out = Some (4, 7) \<and> refs' = {#4, 7#} \<and> conn_chain s' = [5]"
proof -
  let ?s = "\<lparr>conn_cert = 0, conn_key = 0, conn_chain = []\<rparr>"
  have "setKeyMaterialClientSide openssl_build willing_env 9 (Some [4, 5]) 7 ?s {#} =
      Inr (?s\<lparr>conn_chain := [5]\<rparr>, {#7, 4#}, Some (4, 7), None)"
    by (simp add: setKeyMaterialClientSide_def openssl_build_def willing_env_def native_new_def
        tcn_X509_up_ref_def tcn_EVP_PKEY_up_ref_def no_up_ref_def libressl_before_def)
  then show ?thesis
    using client_key_material_refs [of "Some [4, 5]" openssl_build willing_env 9 7 ?s "{#}"] by auto
qed

text \<open>
  With OpenSSL the function does not return after a refused certificate: the exception is pending
  while the key and the chain of the connection are still replaced.
\<close>

lemma key_material_error_continues:
  assumes "\<not> boring b" "\<not> libressl_before b 0x2090200f" "ssl \<noteq> 0" "openssl_version_number b \<ge> 0x10002000"
    and "SSL_use_certificate env x \<le> 0" "clear_chain_certs env = 1"
    and "\<forall>y \<in> set xs. add1_chain_cert env y = 1"
  shows "setKeyMaterial b env ssl (Some (x # xs)) 0 s
     = (s\<lparr>conn_chain := xs\<rparr>, [JException ''Error setting certificate (%s)''])"
proof -
  have "takeWhile (\<lambda>x. add1_chain_cert env x = 1) xs = xs" using assms(7) by simp
  then show ?thesis using assms by (simp add: setKeyMaterial_def set_chain_def add_chain_loop_result Let_def)
qed

end
