(* ===== verification/Sessions.thy ===== *)
theory Sessions
  imports Ssl_Types "HOL-Library.Multiset"
begin

text \<open>
  Sessions and the small callbacks of \<^verbatim>\<open>sslcontext.c\<close>: the callbacks that connect OpenSSL with a Java
  session cache, \<^verbatim>\<open>sslsession.c\<close>, the session functions of \<^verbatim>\<open>ssl.c\<close>, and the info, server name and
  key log callbacks.

  Reference counts of \<^verbatim>\<open>SSL_SESSION\<close> objects are a function from addresses; \<open>0\<close> means freed, and any
  use of a freed session is undefined behaviour. The step relation \<open>sess_step\<close> puts the callbacks,
  the JNI functions and a Java cache that keeps to the documentation of \<^verbatim>\<open>SSLSessionCache\<close> together.
\<close>

section \<open>Session callbacks\<close>

text \<open>\<open>created\<close> and \<open>lookup\<close> are the Java methods; \<open>None\<close> means that they throw.\<close>

definition tcn_new_session_cb ::
  "bool \<Rightarrow> (int \<Rightarrow> int \<Rightarrow> bool option) \<Rightarrow> tcn_ssl_ctxt option \<Rightarrow> int \<Rightarrow> int \<Rightarrow> int cres" where
  "tcn_new_session_cb java_ok created cp ssl session =
   (if \<not> java_ok then Inr 0
    else cbind (deref cp) (\<lambda>c.
      if ssl_session_cache c = 0 then Inr 0
      else (case created ssl session of
              None \<Rightarrow> Inr 0
            | Some result \<Rightarrow> Inr (if result then 1 else 0))))"

text \<open>The session (\<open>0\<close> is \<^verbatim>\<open>NULL\<close>) and the value stored in \<^verbatim>\<open>*copy\<close>, if any.\<close>

definition tcn_get_session_cb ::
  "bool \<Rightarrow> bool \<Rightarrow> (int \<Rightarrow> byte list \<Rightarrow> int option) \<Rightarrow> tcn_ssl_ctxt option \<Rightarrow> int \<Rightarrow> byte list
   \<Rightarrow> (int \<times> int option) cres" where
  "tcn_get_session_cb java_ok arr_ok lookup cp ssl session_id =
   (if \<not> java_ok then Inr (0, None)
    else cbind (deref cp) (\<lambda>c.
      if ssl_session_cache c = 0 then Inr (0, None)
      else if \<not> arr_ok then Inr (0, None)
      else (case lookup ssl session_id of
              None \<Rightarrow> Inr (0, None)
            | Some result \<Rightarrow> if result = -1 then Inr (0, None) else Inr (result, Some 0))))"

section \<open>Session objects\<close>

definition SSL_SESSION_up_ref :: "int \<Rightarrow> (int \<Rightarrow> nat) \<Rightarrow> (int \<Rightarrow> nat) cres" where
  "SSL_SESSION_up_ref s rc = (if rc s = 0 then Inl (UB Use_After_Free) else Inr (rc(s := rc s + 1)))"

definition SSL_SESSION_free :: "int \<Rightarrow> (int \<Rightarrow> nat) \<Rightarrow> (int \<Rightarrow> nat) cres" where
  "SSL_SESSION_free s rc = (if rc s = 0 then Inl (UB Use_After_Free) else Inr (rc(s := rc s - 1)))"

text \<open>\<open>linked\<close>: the weak symbol is present; \<open>up_result\<close>: what \<^verbatim>\<open>SSL_SESSION_up_ref\<close> returns.\<close>

definition SSLSession_upRef ::
  "build \<Rightarrow> bool \<Rightarrow> int \<Rightarrow> int \<Rightarrow> (int \<Rightarrow> nat) \<Rightarrow> (bool \<times> (int \<Rightarrow> nat) \<times> jexc option) cres" where
  "SSLSession_upRef b linked up_result session rc =
   (if session = 0 then Inr (False, rc, Some (NullPointerException ''session''))
    else if \<not> boring b \<and> gnuc b \<and> \<not> linked then Inr (False, rc, None)
    else if openssl_version_number b \<ge> 0x10100000 \<or> gnuc b then
      (if up_result = 1 then cbind (SSL_SESSION_up_ref session rc) (\<lambda>rc'. Inr (True, rc', None))
       else Inr (False, rc, None))
    else Inr (False, rc, None))"

definition SSLSession_free :: "int \<Rightarrow> (int \<Rightarrow> nat) \<Rightarrow> ((int \<Rightarrow> nat) \<times> jexc option) cres" where
  "SSLSession_free session rc =
   (if session = 0 then Inr (rc, Some (NullPointerException ''session''))
    else cbind (SSL_SESSION_free session rc) (\<lambda>rc'. Inr (rc', None)))"

definition SSLSession_shouldBeSingleUse :: "build \<Rightarrow> int \<Rightarrow> int \<Rightarrow> bool \<times> jexc option" where
  "SSLSession_shouldBeSingleUse b session r =
   (if \<not> boring b then (False, None)
    else if session = 0 then (False, Some (NullPointerException ''session''))
    else (r \<noteq> 0, None))"

text \<open>
  The attributes OpenSSL keeps for a session; the setter returns what \<^verbatim>\<open>SSL_SESSION_set_timeout\<close> returns.
  The identifier is \<open>None\<close> when the library reports a null pointer.
\<close>

record session_attr =
  sess_time :: int
  sess_timeout :: int
  sess_set_result :: int
  sess_id :: "byte list option"

definition SSLSession_getTime :: "(int \<Rightarrow> session_attr) \<Rightarrow> int \<Rightarrow> int \<times> jexc option" where
  "SSLSession_getTime attr session =
   (if session = 0 then (0, Some (NullPointerException ''session'')) else (sess_time (attr session), None))"

definition SSLSession_getTimeout :: "(int \<Rightarrow> session_attr) \<Rightarrow> int \<Rightarrow> int \<times> jexc option" where
  "SSLSession_getTimeout attr session =
   (if session = 0 then (0, Some (NullPointerException ''session'')) else (sess_timeout (attr session), None))"

definition SSLSession_setTimeout ::
  "(int \<Rightarrow> session_attr) \<Rightarrow> int \<Rightarrow> int \<Rightarrow> int \<times> (int \<Rightarrow> session_attr) \<times> jexc option" where
  "SSLSession_setTimeout attr session seconds =
   (if session = 0 then (0, attr, Some (NullPointerException ''session''))
    else (sess_set_result (attr session), attr(session := (attr session)\<lparr>sess_timeout := seconds\<rparr>), None))"

text \<open>The Java array with the identifier; no array for an empty one.\<close>

definition session_id_array :: "bool \<Rightarrow> byte list option \<Rightarrow> byte list option" where
  "session_id_array arr_ok i =
   (case i of None \<Rightarrow> None | Some bs \<Rightarrow> if bs = [] then None else if \<not> arr_ok then None else Some bs)"

definition SSLSession_getSessionId ::
  "bool \<Rightarrow> (int \<Rightarrow> session_attr) \<Rightarrow> int \<Rightarrow> byte list option \<times> jexc option" where
  "SSLSession_getSessionId arr_ok attr session =
   (if session = 0 then (None, Some (NullPointerException ''session''))
    else (session_id_array arr_ok (sess_id (attr session)), None))"

section \<open>The session of a connection\<close>

text \<open>\<open>cur\<close> is the result of \<^verbatim>\<open>SSL_get_session\<close>.\<close>

definition SSL_getSession :: "int \<Rightarrow> int \<Rightarrow> int \<times> jexc option" where
  "SSL_getSession ssl cur =
   (if ssl = 0 then (0, Some (NullPointerException ''ssl'')) else if cur = 0 then (-1, None) else (cur, None))"

definition SSL_getTime :: "(int \<Rightarrow> session_attr) \<Rightarrow> int \<Rightarrow> int \<Rightarrow> int \<times> jexc option" where
  "SSL_getTime attr ssl cur =
   (if ssl = 0 then (0, Some (NullPointerException ''ssl''))
    else if cur = 0 then (0, None) else (sess_time (attr cur), None))"

definition SSL_getTimeout :: "(int \<Rightarrow> session_attr) \<Rightarrow> int \<Rightarrow> int \<Rightarrow> int \<times> jexc option" where
  "SSL_getTimeout attr ssl cur =
   (if ssl = 0 then (0, Some (NullPointerException ''ssl''))
    else if cur = 0 then (0, None) else (sess_timeout (attr cur), None))"

definition SSL_setTimeout ::
  "(int \<Rightarrow> session_attr) \<Rightarrow> int \<Rightarrow> int \<Rightarrow> int \<Rightarrow> int \<times> (int \<Rightarrow> session_attr) \<times> jexc option" where
  "SSL_setTimeout attr ssl cur seconds =
   (if ssl = 0 then (0, attr, Some (NullPointerException ''ssl''))
    else if cur = 0 then (0, attr, None)
    else (sess_set_result (attr cur), attr(cur := (attr cur)\<lparr>sess_timeout := seconds\<rparr>), None))"

definition SSL_getSessionId ::
  "bool \<Rightarrow> (int \<Rightarrow> session_attr) \<Rightarrow> int \<Rightarrow> int \<Rightarrow> byte list option \<times> jexc option" where
  "SSL_getSessionId arr_ok attr ssl cur =
   (if ssl = 0 then (None, Some (NullPointerException ''ssl''))
    else if cur = 0 then (None, None) else (session_id_array arr_ok (sess_id (attr cur)), None))"

text \<open>\<^verbatim>\<open>SSL_set_session\<close> takes a reference of its own and drops the one it held before (\<open>cur\<close>).\<close>

definition SSL_setSession ::
  "int \<Rightarrow> int \<Rightarrow> int \<Rightarrow> int \<Rightarrow> (int \<Rightarrow> nat) \<Rightarrow> (bool \<times> int \<times> (int \<Rightarrow> nat) \<times> jexc option) cres" where
  "SSL_setSession set_result ssl cur session rc =
   (if ssl = 0 then Inr (False, cur, rc, Some (NullPointerException ''ssl''))
    else if session = 0 then Inr (False, cur, rc, Some (NullPointerException ''session''))
    else if set_result = 0 then Inr (False, cur, rc, None)
    else cbind (SSL_SESSION_up_ref session rc) (\<lambda>rc1.
         cbind (if cur = 0 then Inr rc1 else SSL_SESSION_free cur rc1) (\<lambda>rc2.
           Inr (True, session, rc2, None))))"

section \<open>Info, server name and key log callbacks\<close>

definition SSL_CB_HANDSHAKE_START :: int where "SSL_CB_HANDSHAKE_START = 16"

unbundle bit_operations_syntax

text \<open>\<^verbatim>\<open>handshakeCount\<close> is a C \<^verbatim>\<open>int\<close>.\<close>

definition ssl_info_callback :: "tcn_ssl_state option \<Rightarrow> int \<Rightarrow> tcn_ssl_state option cres" where
  "ssl_info_callback st whr =
   (if whr AND SSL_CB_HANDSHAKE_START \<noteq> 0 then
      (case st of None \<Rightarrow> Inr None
       | Some s \<Rightarrow> cbind (jint_of (handshakeCount s + 1)) (\<lambda>n. Inr (Some (s\<lparr>handshakeCount := n\<rparr>))))
    else Inr st)"

definition getHandshakeCount :: "int \<Rightarrow> tcn_ssl_state option \<Rightarrow> int \<times> jexc option" where
  "getHandshakeCount ssl st =
   (if ssl = 0 then (0, Some (NullPointerException ''ssl''))
    else (case st of None \<Rightarrow> (0, None) | Some s \<Rightarrow> (handshakeCount s, None)))"

datatype tlsext_err = SSL_TLSEXT_ERR_OK | SSL_TLSEXT_ERR_ALERT_FATAL

text \<open>\<open>matcher\<close> is the Java callback, \<open>None\<close> when it throws; \<open>arg\<close> is the context.\<close>

definition ssl_servername_cb ::
  "bool \<Rightarrow> bool \<Rightarrow> (int \<Rightarrow> string \<Rightarrow> bool option) \<Rightarrow> int \<Rightarrow> string option \<Rightarrow> tcn_ssl_ctxt option \<Rightarrow> tlsext_err cres" where
  "ssl_servername_cb java_ok str_ok matcher ssl servername arg =
   (case servername of
      None \<Rightarrow> Inr SSL_TLSEXT_ERR_OK
    | Some name \<Rightarrow>
      if \<not> java_ok then Inr SSL_TLSEXT_ERR_ALERT_FATAL
      else if \<not> str_ok then Inr SSL_TLSEXT_ERR_ALERT_FATAL
      else cbind (deref arg) (\<lambda>c.
        (case matcher ssl name of
           None \<Rightarrow> Inr SSL_TLSEXT_ERR_ALERT_FATAL
         | Some result \<Rightarrow> Inr (if result then SSL_TLSEXT_ERR_OK else SSL_TLSEXT_ERR_ALERT_FATAL))))"

definition keylog_max :: nat where "keylog_max = 1048576"

text \<open>The line handed to the Java callback, if any; a line without a terminator in the first MiB is dropped.\<close>

definition keylog_cb ::
  "bool \<Rightarrow> bool \<Rightarrow> byte list option \<Rightarrow> tcn_ssl_state option \<Rightarrow> tcn_ssl_ctxt option \<Rightarrow> byte list option" where
  "keylog_cb java_ok arr_ok line st cp =
   (case line of None \<Rightarrow> None
    | Some l \<Rightarrow>
      if st = None \<or> cp = None then None
      else if \<not> java_ok then None
      else
        let len = length (takeWhile (\<lambda>x. x \<noteq> 0) (take keylog_max l)) in
        if len = keylog_max then None
        else if \<not> arr_ok then None
        else Some (take len l))"

text \<open>\<open>set_result\<close> is what \<^verbatim>\<open>SSL_CTX_set_session_id_context\<close> answers for the copied bytes.\<close>

definition setSessionIdContext ::
  "bool \<Rightarrow> (byte list \<Rightarrow> int) \<Rightarrow> tcn_ssl_ctxt option \<Rightarrow> byte list \<Rightarrow> bool \<times> jexc option" where
  "setSessionIdContext malloc_ok set_result cp sidCtx =
   (case cp of None \<Rightarrow> (False, Some (NullPointerException ''ctx''))
    | Some c \<Rightarrow> if \<not> malloc_ok then (False, None) else (set_result sidCtx = 1, None))"

section \<open>OpenSSL, the callbacks and a Java cache\<close>

text \<open>\<open>sw_cache\<close>: references the Java cache owns; \<open>sw_conns\<close>: references held by connections.\<close>

record sess_world =
  sw_rc :: "int \<Rightarrow> nat"
  sw_cache :: "int multiset"
  sw_conns :: "int multiset"

definition sess_world0 :: sess_world where
  "sess_world0 = \<lparr>sw_rc = (\<lambda>_. 0), sw_cache = {#}, sw_conns = {#}\<rparr>"

text \<open>
  \<^item> A handshake creates a session: OpenSSL holds one reference for the connection and passes a
    second one to the callback, which it drops again when the callback returns 0. Java keeps
    the session exactly when \<^verbatim>\<open>sessionCreated\<close> returned true.
  \<^item> A lookup of a shared session: Java calls \<^verbatim>\<open>upRef\<close> and returns the session when that succeeds and
    \<open>-1\<close> otherwise; since \<^verbatim>\<open>*copy\<close> is 0, OpenSSL takes that reference for the connection.
  \<^item> A lookup of a session used once: Java gives its own reference away.
  \<^item> The cache drops a session with \<^verbatim>\<open>SSLSession.free\<close>.
  \<^item> Java sets a cached session on a client connection.
  \<^item> A connection ends.
\<close>

inductive sess_step :: "build \<Rightarrow> tcn_ssl_ctxt \<Rightarrow> sess_world \<Rightarrow> sess_world \<Rightarrow> bool" for b c where
  step_created:
    "a \<noteq> 0 \<Longrightarrow> a \<noteq> -1 \<Longrightarrow> sw_rc w a = 0 \<Longrightarrow> tcn_new_session_cb java_ok created (Some c) ssl a = Inr r \<Longrightarrow>
     sess_step b c w
       (w\<lparr>sw_rc := (sw_rc w)(a := if r = 1 then 2 else 1), sw_conns := add_mset a (sw_conns w),
          sw_cache := (if r = 1 then add_mset a (sw_cache w) else sw_cache w)\<rparr>)"
| step_shared:
    "a \<in># sw_cache w \<Longrightarrow> SSLSession_upRef b linked up_result a (sw_rc w) = Inr (ok, rc', None) \<Longrightarrow>
     lookup ssl i = Some (if ok then a else -1) \<Longrightarrow>
     tcn_get_session_cb java_ok arr_ok lookup (Some c) ssl i = Inr (r, Some 0) \<Longrightarrow>
     sess_step b c w (w\<lparr>sw_rc := rc', sw_conns := add_mset r (sw_conns w)\<rparr>)"
| step_once:
    "a \<in># sw_cache w \<Longrightarrow> lookup ssl i = Some a \<Longrightarrow>
     tcn_get_session_cb java_ok arr_ok lookup (Some c) ssl i = Inr (r, Some 0) \<Longrightarrow>
     sess_step b c w (w\<lparr>sw_conns := add_mset r (sw_conns w), sw_cache := sw_cache w - {#a#}\<rparr>)"
| step_evict:
    "a \<in># sw_cache w \<Longrightarrow> SSLSession_free a (sw_rc w) = Inr (rc', None) \<Longrightarrow>
     sess_step b c w (w\<lparr>sw_rc := rc', sw_cache := sw_cache w - {#a#}\<rparr>)"
| step_set:
    "a \<in># sw_cache w \<Longrightarrow> cur \<in># sw_conns w \<Longrightarrow>
     SSL_setSession set_result ssl cur a (sw_rc w) = Inr (True, a', rc', None) \<Longrightarrow>
     sess_step b c w (w\<lparr>sw_rc := rc', sw_conns := add_mset a' (sw_conns w - {#cur#})\<rparr>)"
| step_close:
    "a \<in># sw_conns w \<Longrightarrow> SSL_SESSION_free a (sw_rc w) = Inr rc' \<Longrightarrow>
     sess_step b c w (w\<lparr>sw_rc := rc', sw_conns := sw_conns w - {#a#}\<rparr>)"

inductive sess_reachable :: "build \<Rightarrow> tcn_ssl_ctxt \<Rightarrow> sess_world \<Rightarrow> bool" for b c where
  reach_init: "sess_reachable b c sess_world0"
| reach_step: "sess_reachable b c w \<Longrightarrow> sess_step b c w w' \<Longrightarrow> sess_reachable b c w'"

inductive_cases sess_stepE: "sess_step b c w w'"

definition sess_inv :: "sess_world \<Rightarrow> bool" where
  "sess_inv w \<longleftrightarrow> (\<forall>a. sw_rc w a = count (sw_cache w) a + count (sw_conns w) a)
      \<and> 0 \<notin># sw_cache w + sw_conns w \<and> -1 \<notin># sw_cache w + sw_conns w"

section \<open>Lemmas\<close>

lemma get_session_cb_result:
  "tcn_get_session_cb java_ok arr_ok lookup (Some c) ssl i = Inr (r, Some x) \<Longrightarrow>
   lookup ssl i = Some r \<and> r \<noteq> -1 \<and> x = 0"
  by (auto simp: tcn_get_session_cb_def split: if_splits option.splits)

lemma new_session_cb_result:
  "tcn_new_session_cb java_ok created (Some c) ssl a = Inr r \<Longrightarrow> r = 0 \<or> r = 1"
  by (auto simp: tcn_new_session_cb_def split: if_splits option.splits)

lemma upRef_result:
  "SSLSession_upRef b linked up_result a rc = Inr (ok, rc', None) \<Longrightarrow>
   a \<noteq> 0 \<and> (if ok then 0 < rc a \<and> rc' = rc(a := rc a + 1) else rc' = rc)"
  by (auto simp: SSLSession_upRef_def SSL_SESSION_up_ref_def cbind_eq_Inr split: if_splits)

lemma session_free_result:
  "SSL_SESSION_free a rc = Inr rc' \<Longrightarrow> 0 < rc a \<and> rc' = rc(a := rc a - 1)"
  by (auto simp: SSL_SESSION_free_def split: if_splits)

lemma JNI_free_result:
  "SSLSession_free a rc = Inr (rc', None) \<Longrightarrow> a \<noteq> 0 \<and> 0 < rc a \<and> rc' = rc(a := rc a - 1)"
  by (auto simp: SSLSession_free_def cbind_eq_Inr dest: session_free_result split: if_splits)

lemma setSession_result:
  assumes "SSL_setSession set_result ssl cur a rc = Inr (True, a', rc', None)" "cur \<noteq> 0"
  shows "a' = a \<and> 0 < rc a \<and> rc' = (rc(a := rc a + 1))(cur := (rc(a := rc a + 1)) cur - 1)"
  using assms
  by (auto simp: SSL_setSession_def SSL_SESSION_up_ref_def cbind_eq_Inr dest!: session_free_result split: if_splits)

lemma sess_inv_positive: "sess_inv w \<Longrightarrow> a \<in># sw_cache w + sw_conns w \<Longrightarrow> 0 < sw_rc w a"
  by (auto simp: sess_inv_def count_greater_zero_iff)

lemma sess_step_inv: "sess_step b c w w' \<Longrightarrow> sess_inv w \<Longrightarrow> sess_inv w'"
proof (induction rule: sess_step.induct)
  case (step_created a w java_ok created ssl r)
  then have "count (sw_cache w) a = 0" "count (sw_conns w) a = 0" by (simp_all add: sess_inv_def)
  then show ?case using step_created new_session_cb_result [OF step_created.hyps(4)]
    by (auto simp: sess_inv_def)
next
  case (step_shared a w linked up_result ok rc' lookup ssl i java_ok arr_ok r)
  have r: "lookup ssl i = Some r" "r \<noteq> -1" using get_session_cb_result [OF step_shared.hyps(4)] by auto
  then have "ok" "r = a" using step_shared.hyps(3) by (auto split: if_splits)
  then show ?case using step_shared upRef_result [OF step_shared.hyps(2)] r
    by (auto simp: sess_inv_def)
next
  case (step_once a w lookup ssl i java_ok arr_ok r)
  have "r = a" "r \<noteq> -1" using get_session_cb_result [OF step_once.hyps(3)] step_once.hyps(2) by auto
  then show ?case using step_once by (auto simp: sess_inv_def dest: in_diffD)
next
  case (step_evict a w rc')
  then show ?case using JNI_free_result [OF step_evict.hyps(2)]
    by (auto simp: sess_inv_def dest: in_diffD)
next
  case (step_set a w cur set_result ssl a' rc')
  have "cur \<noteq> 0" using step_set by (auto simp: sess_inv_def)
  from setSession_result [OF step_set.hyps(3) this] show ?case using step_set
    by (auto simp: sess_inv_def dest: in_diffD)
next
  case (step_close a w rc')
  then show ?case using session_free_result [OF step_close.hyps(2)]
    by (auto simp: sess_inv_def dest: in_diffD)
qed

lemma sess_reachable_inv: "sess_reachable b c w \<Longrightarrow> sess_inv w"
proof (induction rule: sess_reachable.induct)
  case reach_init
  show ?case by (simp add: sess_inv_def sess_world0_def)
next
  case (reach_step w w')
  then show ?case by (blast intro: sess_step_inv)
qed

section \<open>Properties\<close>


definition cache_ctxt :: tcn_ssl_ctxt where "cache_ctxt = ctxt_zero\<lparr>ssl_session_cache := 5\<rparr>"

definition shared_world :: sess_world where
  "shared_world = \<lparr>sw_rc = (\<lambda>_. 0)(42 := 3), sw_cache = {#42#}, sw_conns = {#42, 42#}\<rparr>"

lemma shared_world_reachable:
  "gnuc b \<Longrightarrow> sess_reachable b cache_ctxt shared_world"
proof -
  assume g: "gnuc b"
  let ?w1 = "\<lparr>sw_rc = (\<lambda>_. 0)(42 := 2), sw_cache = {#42#}, sw_conns = {#42#}\<rparr>"
  have "tcn_new_session_cb True (\<lambda>ssl s. Some True) (Some cache_ctxt) 7 42 = Inr 1"
    by (simp add: tcn_new_session_cb_def cache_ctxt_def)
  from step_created [OF _ _ _ this, of sess_world0 b]
  have 1: "sess_step b cache_ctxt sess_world0 ?w1" by (simp add: sess_world0_def)
  have u: "SSLSession_upRef b True 1 42 (sw_rc ?w1) = Inr (True, (sw_rc ?w1)(42 := 3), None)"
    using g by (simp add: SSLSession_upRef_def SSL_SESSION_up_ref_def)
  have "tcn_get_session_cb True True (\<lambda>ssl i. Some 42) (Some cache_ctxt) 7 [] = Inr (42, Some 0)"
    by (simp add: tcn_get_session_cb_def cache_ctxt_def)
  from step_shared [OF _ u _ this]
  have 2: "sess_step b cache_ctxt ?w1 shared_world" by (simp add: shared_world_def)
  show ?thesis by (rule reach_step [OF reach_step [OF reach_init 1] 2])
qed


text \<open>
  The server name callback lets a handshake with a server name go on only if the Java matcher
  returned true for exactly that name; every failure and every exception is fatal.
\<close>

theorem servername_fails_closed:
  assumes "ssl_servername_cb java_ok str_ok matcher ssl (Some name) (Some c) = Inr r"
  shows "r = SSL_TLSEXT_ERR_OK \<longleftrightarrow> java_ok \<and> str_ok \<and> matcher ssl name = Some True"
  using assms by (auto simp: ssl_servername_cb_def split: if_splits option.splits)

theorem servername_fails_closed_witness:
  "ssl_servername_cb True True (\<lambda>s n. None) 7 (Some ''a.b'') (Some ctxt_zero) = Inr SSL_TLSEXT_ERR_ALERT_FATAL
   \<and> SSL_TLSEXT_ERR_ALERT_FATAL \<noteq> SSL_TLSEXT_ERR_OK"
proof -
  have 1: "ssl_servername_cb True True (\<lambda>s n. None) 7 (Some ''a.b'') (Some ctxt_zero) = Inr SSL_TLSEXT_ERR_ALERT_FATAL"
    by (simp add: ssl_servername_cb_def)
  show ?thesis using servername_fails_closed [OF 1] 1 by simp
qed

text \<open>The key log callback hands over the line up to its terminator, and never a MiB or more.\<close>

lemma keylog_bounded:
  "keylog_cb java_ok arr_ok line st cp = Some out \<Longrightarrow>
   length out < keylog_max \<and> 0 \<notin> set out \<and> (\<exists>l. line = Some l \<and> out = takeWhile (\<lambda>x. x \<noteq> 0) l)"
proof -
  assume k: "keylog_cb java_ok arr_ok line st cp = Some out"
  then obtain l where l: "line = Some l" by (auto simp: keylog_cb_def split: option.splits)
  let ?t = "takeWhile (\<lambda>x. x \<noteq> 0) (take keylog_max l)"
  have out: "length ?t \<noteq> keylog_max" "out = take (length ?t) l"
    using k by (auto simp: keylog_cb_def l Let_def split: if_splits)
  have "length ?t \<le> length (take keylog_max l)" by (rule length_takeWhile_le)
  then have lt: "length ?t < keylog_max" using out(1) by simp
  have tt: "out = ?t"
    using takeWhile_eq_take [of "\<lambda>x. x \<noteq> 0" "take keylog_max l"] lt out(2) by (simp add: min_def split: if_splits)
  have "takeWhile (\<lambda>x. x \<noteq> 0) l = ?t"
  proof (cases "length l \<le> keylog_max")
    case True
    then show ?thesis by simp
  next
    case False
    then have "length (take keylog_max l) = keylog_max" by simp
    then have "?t \<noteq> take keylog_max l" using lt by (intro notI) (drule arg_cong [of _ _ length], linarith)
    then have "\<exists>x \<in> set (take keylog_max l). x = 0" by (simp add: takeWhile_eq_all_conv)
    then show ?thesis
      using takeWhile_append1 [of _ "take keylog_max l" "\<lambda>x. x \<noteq> 0" "drop keylog_max l"] by auto
  qed
  then show ?thesis using tt lt l by (auto dest: set_takeWhileD)
qed

end
