(* ===== verification/Credentials.thy ===== *)
theory Credentials
  imports Cert_Load
begin

text \<open>
  \<^verbatim>\<open>SSL_CREDENTIAL\<close> objects of BoringSSL (\<^verbatim>\<open>sslcredential.c\<close>) and the functions that attach them to a
  context or a connection.

  \<open>cheap\<close> maps the address of a live credential to its content; the reference count is part of it.
  \<open>cbufs\<close> holds the \<^verbatim>\<open>CRYPTO_BUFFER\<close> references of the C code. The setters that take a byte array share
  one shape; the locale \<open>field_setter\<close> states their contract, and each of them is an instance.
\<close>

record cred =
  cr_refs :: nat
  cr_key :: int
  cr_chain :: "int list"
  cr_ocsp :: "byte list option"
  cr_prefs :: "16 word list"
  cr_props :: "byte list option"
  cr_sct :: "byte list option"
  cr_must_match :: bool
  cr_anchor :: "byte list option"
  cr_delegated :: "byte list option"

definition new_cred :: cred where
  "new_cred = \<lparr>cr_refs = 1, cr_key = 0, cr_chain = [], cr_ocsp = None, cr_prefs = [], cr_props = None,
     cr_sct = None, cr_must_match = False, cr_anchor = None, cr_delegated = None\<rparr>"

record cred_world =
  cheap :: "int \<Rightarrow> cred option"
  cbufs :: "int multiset"

text \<open>What the JVM and BoringSSL answer.\<close>

record cred_env =
  elems_ok :: bool
  buf_addr :: int
  cmalloc_ok :: bool
  set1_result :: int

type_synonym cred_result = "(cred_world \<times> jexc option) cres"

definition no_credentials :: jexc where
  "no_credentials = UnsupportedOperationException ''SSL_CREDENTIAL API not available.''"

definition throw_openssl_error :: "string \<Rightarrow> jexc option" where
  "throw_openssl_error msg = Some (JException msg)"

text \<open>The functions of BoringSSL on a credential: touching a freed one is undefined; a result of 0 changes nothing.\<close>

definition update_cred :: "int \<Rightarrow> (cred \<Rightarrow> cred) \<Rightarrow> cred_world \<Rightarrow> cred_world cres" where
  "update_cred c f w =
   (case cheap w c of None \<Rightarrow> Inl (UB Use_After_Free) | Some k \<Rightarrow> Inr (w\<lparr>cheap := (cheap w)(c \<mapsto> f k)\<rparr>))"

definition set1 :: "int \<Rightarrow> int \<Rightarrow> (cred \<Rightarrow> cred) \<Rightarrow> cred_world \<Rightarrow> cred_world cres" where
  "set1 result c f w = update_cred c (if result = 0 then id else f) w"

section \<open>Creating and freeing\<close>

text \<open>\<open>addr\<close> is the new credential, \<open>0\<close> when the allocation fails.\<close>

definition newX509 :: "build \<Rightarrow> int \<Rightarrow> cred_world \<Rightarrow> int \<times> cred_world \<times> jexc option" where
  "newX509 b addr w =
   (if \<not> openssl_is_boringssl b then (0, w, Some no_credentials)
    else if addr = 0 then (0, w, Some (NullPointerException ''credential''))
    else (addr, w\<lparr>cheap := (cheap w)(addr \<mapsto> new_cred)\<rparr>, None))"

definition newDelegated :: "build \<Rightarrow> int \<Rightarrow> cred_world \<Rightarrow> int \<times> cred_world \<times> jexc option" where
  "newDelegated b addr w =
   (if \<not> openssl_is_boringssl b then (0, w, Some no_credentials)
    else if addr = 0 then (0, w, throw_openssl_error ''Failed to create delegated SSL_CREDENTIAL'')
    else (addr, w\<lparr>cheap := (cheap w)(addr \<mapsto> new_cred)\<rparr>, None))"

definition cred_upRef :: "build \<Rightarrow> int \<Rightarrow> cred_world \<Rightarrow> cred_result" where
  "cred_upRef b c w =
   (if \<not> openssl_is_boringssl b then Inr (w, Some no_credentials)
    else if c = 0 then Inr (w, Some (NullPointerException ''credential''))
    else cbind (update_cred c (\<lambda>k. k\<lparr>cr_refs := cr_refs k + 1\<rparr>) w) (\<lambda>w1. Inr (w1, None)))"

definition drop_cred :: "int \<Rightarrow> cred_world \<Rightarrow> cred_world cres" where
  "drop_cred c w =
   (case cheap w c of None \<Rightarrow> Inl (UB Use_After_Free)
    | Some k \<Rightarrow> Inr (w\<lparr>cheap := (cheap w)(c := if cr_refs k \<le> 1 then None
                                             else Some (k\<lparr>cr_refs := cr_refs k - 1\<rparr>))\<rparr>))"

definition cred_free :: "build \<Rightarrow> int \<Rightarrow> cred_world \<Rightarrow> cred_result" where
  "cred_free b c w =
   (if \<not> openssl_is_boringssl b then Inr (w, Some no_credentials)
    else if c = 0 then Inr (w, None)
    else cbind (drop_cred c w) (\<lambda>w1. Inr (w1, None)))"

section \<open>Setters\<close>

definition cred_setPrivateKey :: "build \<Rightarrow> cred_env \<Rightarrow> int \<Rightarrow> int \<Rightarrow> cred_world \<Rightarrow> cred_result" where
  "cred_setPrivateKey b env c pkey w =
   (if \<not> openssl_is_boringssl b then Inr (w, Some no_credentials)
    else if c = 0 then Inr (w, Some (NullPointerException ''credential''))
    else if pkey = 0 then Inr (w, Some (NullPointerException ''privateKey''))
    else cbind (set1 (set1_result env) c (\<lambda>k. k\<lparr>cr_key := pkey\<rparr>) w) (\<lambda>w1.
      Inr (w1, if set1_result env = 0 then throw_openssl_error ''Failed to set private key'' else None)))"

definition cred_setCertChain :: "build \<Rightarrow> cred_env \<Rightarrow> int \<Rightarrow> int list option \<Rightarrow> cred_world \<Rightarrow> cred_result" where
  "cred_setCertChain b env c stack w =
   (if \<not> openssl_is_boringssl b then Inr (w, Some no_credentials)
    else if c = 0 then Inr (w, Some (NullPointerException ''credential''))
    else (case stack of None \<Rightarrow> Inr (w, Some (NullPointerException ''certificateChainStack''))
    | Some certs \<Rightarrow>
      if certs = [] then Inr (w, Some (JException ''Certificate chain stack is empty''))
      else if \<not> cmalloc_ok env then Inr (w, Some (NullPointerException ''certificateBuffers''))
      else cbind (set1 (set1_result env) c (\<lambda>k. k\<lparr>cr_chain := certs\<rparr>) w) (\<lambda>w1.
        Inr (w1, if set1_result env = 0 then throw_openssl_error ''Failed to set certificate chain'' else None))))"

text \<open>
  The body that \<^verbatim>\<open>setOcspResponse\<close>, \<^verbatim>\<open>setCertificateProperties\<close>, \<^verbatim>\<open>setSignedCertTimestampList\<close> and
  \<^verbatim>\<open>setDelegatedCredential\<close> have in common; they differ in the names in the messages and in the field.
\<close>

definition set_cred_buffer ::
  "string \<Rightarrow> string \<Rightarrow> string \<Rightarrow> (byte list \<Rightarrow> cred \<Rightarrow> cred)
   \<Rightarrow> build \<Rightarrow> cred_env \<Rightarrow> int \<Rightarrow> byte list option \<Rightarrow> cred_world \<Rightarrow> cred_result" where
  "set_cred_buffer arg_name buf_name msg upd b env c data w =
   (if \<not> openssl_is_boringssl b then Inr (w, Some no_credentials)
    else if c = 0 then Inr (w, Some (NullPointerException ''credential''))
    else (case data of None \<Rightarrow> Inr (w, Some (NullPointerException arg_name))
    | Some bs \<Rightarrow>
      if bs = [] then Inr (w, None)
      else if \<not> elems_ok env then Inr (w, None)
      else
        let buf = buf_addr env in
        if buf = 0 then Inr (w, Some (NullPointerException buf_name))
        else
          cbind (set1 (set1_result env) c (upd bs) (w\<lparr>cbufs := native_new buf (cbufs w)\<rparr>)) (\<lambda>w1.
          cbind (native_free buf (cbufs w1)) (\<lambda>o1.
            Inr (w1\<lparr>cbufs := o1\<rparr>, if set1_result env = 0 then throw_openssl_error msg else None)))))"

definition cred_setOcspResponse ::
  "build \<Rightarrow> cred_env \<Rightarrow> int \<Rightarrow> byte list option \<Rightarrow> cred_world \<Rightarrow> cred_result" where
  "cred_setOcspResponse = set_cred_buffer ''ocspData'' ''ocspBuffer'' ''Failed to set OCSP response''
     (\<lambda>bs k. k\<lparr>cr_ocsp := Some bs\<rparr>)"

definition cred_setCertificateProperties ::
  "build \<Rightarrow> cred_env \<Rightarrow> int \<Rightarrow> byte list option \<Rightarrow> cred_world \<Rightarrow> cred_result" where
  "cred_setCertificateProperties = set_cred_buffer ''certificateProperties'' ''certificatePropertiesBuffer''
     ''Failed to set certificate properties'' (\<lambda>bs k. k\<lparr>cr_props := Some bs\<rparr>)"

definition cred_setSignedCertTimestampList ::
  "build \<Rightarrow> cred_env \<Rightarrow> int \<Rightarrow> byte list option \<Rightarrow> cred_world \<Rightarrow> cred_result" where
  "cred_setSignedCertTimestampList = set_cred_buffer ''sctList'' ''sctBuffer''
     ''Failed to set signed certificate timestamp list'' (\<lambda>bs k. k\<lparr>cr_sct := Some bs\<rparr>)"

definition cred_setDelegatedCredential ::
  "build \<Rightarrow> cred_env \<Rightarrow> int \<Rightarrow> byte list option \<Rightarrow> cred_world \<Rightarrow> cred_result" where
  "cred_setDelegatedCredential = set_cred_buffer ''delegatedCredential'' ''delegatedCredentialBuffer''
     ''Failed to set delegated credential'' (\<lambda>bs k. k\<lparr>cr_delegated := Some bs\<rparr>)"

text \<open>The trust anchor goes to BoringSSL without a buffer.\<close>

definition cred_setTrustAnchorId ::
  "build \<Rightarrow> cred_env \<Rightarrow> int \<Rightarrow> byte list option \<Rightarrow> cred_world \<Rightarrow> cred_result" where
  "cred_setTrustAnchorId b env c data w =
   (if \<not> openssl_is_boringssl b then Inr (w, Some no_credentials)
    else if c = 0 then Inr (w, Some (NullPointerException ''credential''))
    else (case data of None \<Rightarrow> Inr (w, Some (NullPointerException ''trustAnchorId''))
    | Some bs \<Rightarrow>
      if bs = [] then Inr (w, None)
      else if \<not> elems_ok env then Inr (w, None)
      else cbind (set1 (set1_result env) c (\<lambda>k. k\<lparr>cr_anchor := Some bs\<rparr>) w) (\<lambda>w1.
        Inr (w1, if set1_result env = 0 then throw_openssl_error ''Failed to set trust anchor ID'' else None))))"

text \<open>Each preference is cut to 16 bits.\<close>

definition cred_setSigningAlgorithmPrefs ::
  "build \<Rightarrow> cred_env \<Rightarrow> int \<Rightarrow> int list option \<Rightarrow> cred_world \<Rightarrow> cred_result" where
  "cred_setSigningAlgorithmPrefs b env c prefs w =
   (if \<not> openssl_is_boringssl b then Inr (w, Some no_credentials)
    else if c = 0 then Inr (w, Some (NullPointerException ''credential''))
    else (case prefs of None \<Rightarrow> Inr (w, Some (NullPointerException ''preferencesArray''))
    | Some ps \<Rightarrow>
      if ps = [] then Inr (w, None)
      else if \<not> cmalloc_ok env then Inr (w, Some (NullPointerException ''signingAlgorithmPrefs''))
      else if \<not> elems_ok env then Inr (w, None)
      else cbind (set1 (set1_result env) c (\<lambda>k. k\<lparr>cr_prefs := map word_of_int ps\<rparr>) w) (\<lambda>w1.
        Inr (w1, if set1_result env = 0 then throw_openssl_error ''Failed to set signing algorithm preferences''
                 else None))))"

definition cred_setMustMatchIssuer :: "build \<Rightarrow> int \<Rightarrow> bool \<Rightarrow> cred_world \<Rightarrow> cred_result" where
  "cred_setMustMatchIssuer b c m w =
   (if \<not> openssl_is_boringssl b then Inr (w, Some no_credentials)
    else if c = 0 then Inr (w, Some (NullPointerException ''credential''))
    else cbind (update_cred c (\<lambda>k. k\<lparr>cr_must_match := m\<rparr>) w) (\<lambda>w1. Inr (w1, None)))"

section \<open>Attaching credentials\<close>

text \<open>\<^verbatim>\<open>SSL_add1_credential\<close> and \<^verbatim>\<open>SSL_CTX_add1_credential\<close> take a reference when they succeed.\<close>

definition SSL_addCredential :: "build \<Rightarrow> int \<Rightarrow> int \<Rightarrow> int \<Rightarrow> cred_world \<Rightarrow> cred_result" where
  "SSL_addCredential b result ssl c w =
   (if \<not> openssl_is_boringssl b then Inr (w, Some no_credentials)
    else if ssl = 0 then Inr (w, Some (NullPointerException ''ssl''))
    else if c = 0 then Inr (w, Some (NullPointerException ''credential''))
    else cbind (set1 result c (\<lambda>k. k\<lparr>cr_refs := cr_refs k + 1\<rparr>) w) (\<lambda>w1.
      Inr (w1, if result = 0 then Some (JException ''Failed to add credential to SSL'') else None)))"

definition SSLContext_addCredential ::
  "build \<Rightarrow> int \<Rightarrow> tcn_ssl_ctxt option \<Rightarrow> int \<Rightarrow> cred_world \<Rightarrow> cred_result" where
  "SSLContext_addCredential b result cp c w =
   (if \<not> openssl_is_boringssl b then Inr (w, Some no_credentials)
    else (case cp of None \<Rightarrow> Inr (w, Some (NullPointerException ''ctx''))
    | Some x \<Rightarrow>
      if c = 0 then Inr (w, Some (NullPointerException ''credential''))
      else cbind (set1 result c (\<lambda>k. k\<lparr>cr_refs := cr_refs k + 1\<rparr>) w) (\<lambda>w1.
        Inr (w1, if result = 0 then Some (JException ''Failed to add credential to SSL_CTX'') else None))))"

text \<open>\<open>selected\<close> is the result of \<^verbatim>\<open>SSL_get0_selected_credential\<close>; no reference is taken.\<close>

definition SSL_getSelectedCredential :: "build \<Rightarrow> int \<Rightarrow> int \<Rightarrow> int \<times> jexc option" where
  "SSL_getSelectedCredential b selected ssl =
   (if \<not> openssl_is_boringssl b then (0, Some no_credentials)
    else if ssl = 0 then (0, Some (NullPointerException ''ssl''))
    else (selected, None))"

section \<open>The contract of the byte array setters\<close>

text \<open>When a value reaches the credential.\<close>

definition cred_accepts :: "bool \<Rightarrow> build \<Rightarrow> cred_env \<Rightarrow> byte list option \<Rightarrow> bool" where
  "cred_accepts buffered b env data \<longleftrightarrow>
     openssl_is_boringssl b \<and> data \<noteq> None \<and> data \<noteq> Some [] \<and> elems_ok env
     \<and> (buffered \<longrightarrow> buf_addr env \<noteq> 0) \<and> set1_result env \<noteq> 0"

fun run_sets :: "(cred_env \<Rightarrow> byte list option \<Rightarrow> cred_world \<Rightarrow> cred_result)
    \<Rightarrow> (cred_env \<times> byte list option) list \<Rightarrow> cred_world \<Rightarrow> cred_world cres" where
  "run_sets st [] w = Inr w"
| "run_sets st ((env, data) # ops) w = cbind (st env data w) (\<lambda>(w1, ex). run_sets st ops w1)"

text \<open>The last accepted value of a sequence of calls, or the one before.\<close>

fun last_accepted :: "(cred_env \<Rightarrow> byte list option \<Rightarrow> bool) \<Rightarrow> (cred_env \<times> byte list option) list
    \<Rightarrow> byte list option \<Rightarrow> byte list option" where
  "last_accepted acc [] v = v"
| "last_accepted acc ((env, data) # ops) v = last_accepted acc ops (if acc env data then data else v)"

lemma last_accepted_start:
  assumes "\<And>env data. acc env data \<Longrightarrow> data \<noteq> None"
  shows "last_accepted acc ops v = (case last_accepted acc ops None of None \<Rightarrow> v | Some x \<Rightarrow> Some x)"
proof (induction ops arbitrary: v)
  case Nil
  then show ?case by simp
next
  case (Cons op ops)
  obtain env data where op: "op = (env, data)" by fastforce
  show ?case
  proof (cases "acc env data")
    case True
    then obtain bs where "data = Some bs" using assms by blast
    then show ?thesis using True Cons.IH [of data]
      by (cases "last_accepted acc ops None") (simp_all add: op)
  next
    case False
    then show ?thesis using Cons.IH [of v] by (simp add: op)
  qed
qed

text \<open>The credential after a sequence of calls: the field has the last accepted value, if there is one.\<close>

definition with_last :: "(byte list \<Rightarrow> cred \<Rightarrow> cred) \<Rightarrow> byte list option \<Rightarrow> cred \<Rightarrow> cred" where
  "with_last upd v k = (case v of None \<Rightarrow> k | Some bs \<Rightarrow> upd bs k)"

locale field_setter =
  fixes st :: "cred_env \<Rightarrow> int \<Rightarrow> byte list option \<Rightarrow> cred_world \<Rightarrow> cred_result"
    and acc :: "cred_env \<Rightarrow> byte list option \<Rightarrow> bool"
    and upd :: "byte list \<Rightarrow> cred \<Rightarrow> cred"
  assumes set_live: "cheap w c = Some k \<Longrightarrow> c \<noteq> 0 \<Longrightarrow>
      \<exists>ex. st env c data w =
        Inr (w\<lparr>cheap := (if acc env data then (cheap w)(c \<mapsto> upd (the data) k) else cheap w)\<rparr>, ex)"
    and acc_some: "acc env data \<Longrightarrow> data \<noteq> None"
    and upd_upd: "upd bs (upd bs' k) = upd bs k"
begin

lemma run_last_accepted:
  "cheap w c = Some k \<Longrightarrow> c \<noteq> 0 \<Longrightarrow>
   run_sets (\<lambda>env. st env c) ops w =
     Inr (w\<lparr>cheap := (cheap w)(c \<mapsto> with_last upd (last_accepted acc ops None) k)\<rparr>)"
proof (induction ops arbitrary: w k)
  case Nil
  then show ?case by (simp add: with_last_def fun_upd_idem)
next
  case (Cons op ops)
  obtain env data where op: "op = (env, data)" by fastforce
  define k1 where "k1 = (if acc env data then upd (the data) k else k)"
  define w1 where "w1 = w\<lparr>cheap := (cheap w)(c \<mapsto> k1)\<rparr>"
  obtain ex where st: "st env c data w = Inr (w1, ex)"
    using set_live [OF Cons.prems, of env data] Cons.prems by (auto simp: w1_def k1_def fun_upd_idem)
  have "cheap w1 c = Some k1" by (simp add: w1_def)
  note IH = Cons.IH [OF this Cons.prems(2)]
  have "with_last upd (last_accepted acc (op # ops) None) k
      = with_last upd (last_accepted acc ops None) k1"
  proof (cases "acc env data")
    case True
    then obtain bs where "data = Some bs" using acc_some by blast
    then show ?thesis using True upd_upd last_accepted_start [of acc ops data] acc_some
      by (cases "last_accepted acc ops None") (simp_all add: op k1_def with_last_def)
  next
    case False
    then show ?thesis by (simp add: op k1_def)
  qed
  moreover have "(cheap w1)(c \<mapsto> k2) = (cheap w)(c \<mapsto> k2)" "w1\<lparr>cheap := h\<rparr> = w\<lparr>cheap := h\<rparr>" for k2 h
    by (simp_all add: w1_def)
  ultimately show ?case by (simp add: op st IH del: fun_upd_apply)
qed

end

lemma set_cred_buffer_live:
  assumes "cheap w c = Some k" "c \<noteq> 0"
  shows "\<exists>ex. set_cred_buffer an bn msg upd b env c data w =
     Inr (w\<lparr>cheap := (if cred_accepts True b env data then (cheap w)(c \<mapsto> upd (the data) k) else cheap w)\<rparr>, ex)"
  using assms
  by (cases data) (auto simp: set_cred_buffer_def cred_accepts_def set1_def update_cred_def Let_def fun_upd_idem)

lemma accepts_some: "cred_accepts buffered b env data \<Longrightarrow> data \<noteq> None"
  by (simp add: cred_accepts_def)

interpretation ocsp: field_setter "cred_setOcspResponse b" "cred_accepts True b" "\<lambda>bs k. k\<lparr>cr_ocsp := Some bs\<rparr>" for b
  by unfold_locales (unfold cred_setOcspResponse_def, erule (1) set_cred_buffer_live, simp_all add: accepts_some)

interpretation props: field_setter "cred_setCertificateProperties b" "cred_accepts True b" "\<lambda>bs k. k\<lparr>cr_props := Some bs\<rparr>" for b
  by unfold_locales (unfold cred_setCertificateProperties_def, erule (1) set_cred_buffer_live, simp_all add: accepts_some)

interpretation sct: field_setter "cred_setSignedCertTimestampList b" "cred_accepts True b" "\<lambda>bs k. k\<lparr>cr_sct := Some bs\<rparr>" for b
  by unfold_locales (unfold cred_setSignedCertTimestampList_def, erule (1) set_cred_buffer_live, simp_all add: accepts_some)

interpretation delegated: field_setter "cred_setDelegatedCredential b" "cred_accepts True b" "\<lambda>bs k. k\<lparr>cr_delegated := Some bs\<rparr>" for b
  by unfold_locales (unfold cred_setDelegatedCredential_def, erule (1) set_cred_buffer_live, simp_all add: accepts_some)

lemma trust_anchor_live:
  assumes "cheap w c = Some k" "c \<noteq> 0"
  shows "\<exists>ex. cred_setTrustAnchorId b env c data w =
     Inr (w\<lparr>cheap := (if cred_accepts False b env data
                       then (cheap w)(c \<mapsto> k\<lparr>cr_anchor := Some (the data)\<rparr>) else cheap w)\<rparr>, ex)"
  using assms
  by (cases data) (auto simp: cred_setTrustAnchorId_def cred_accepts_def set1_def update_cred_def fun_upd_idem)

interpretation anchor: field_setter "cred_setTrustAnchorId b" "cred_accepts False b" "\<lambda>bs k. k\<lparr>cr_anchor := Some bs\<rparr>" for b
  by unfold_locales (erule (1) trust_anchor_live, simp_all add: accepts_some)

section \<open>Properties\<close>

text \<open>
  C29. For any sequence of calls of one byte array setter on a live credential, with any failures on the
  way, no freed object is touched, the field ends with the last value that BoringSSL
  accepted, nothing else changes and every buffer allocated for a call is freed.
\<close>

theorem credential_setters_last_accepted:
  assumes "cheap w c = Some k" "c \<noteq> 0"
  shows "run_sets (\<lambda>env. cred_setOcspResponse b env c) ops w =
      Inr (w\<lparr>cheap := (cheap w)(c \<mapsto> with_last (\<lambda>bs k. k\<lparr>cr_ocsp := Some bs\<rparr>)
             (last_accepted (cred_accepts True b) ops None) k)\<rparr>)
    \<and> run_sets (\<lambda>env. cred_setCertificateProperties b env c) ops w =
      Inr (w\<lparr>cheap := (cheap w)(c \<mapsto> with_last (\<lambda>bs k. k\<lparr>cr_props := Some bs\<rparr>)
             (last_accepted (cred_accepts True b) ops None) k)\<rparr>)
    \<and> run_sets (\<lambda>env. cred_setSignedCertTimestampList b env c) ops w =
      Inr (w\<lparr>cheap := (cheap w)(c \<mapsto> with_last (\<lambda>bs k. k\<lparr>cr_sct := Some bs\<rparr>)
             (last_accepted (cred_accepts True b) ops None) k)\<rparr>)
    \<and> run_sets (\<lambda>env. cred_setDelegatedCredential b env c) ops w =
      Inr (w\<lparr>cheap := (cheap w)(c \<mapsto> with_last (\<lambda>bs k. k\<lparr>cr_delegated := Some bs\<rparr>)
             (last_accepted (cred_accepts True b) ops None) k)\<rparr>)
    \<and> run_sets (\<lambda>env. cred_setTrustAnchorId b env c) ops w =
      Inr (w\<lparr>cheap := (cheap w)(c \<mapsto> with_last (\<lambda>bs k. k\<lparr>cr_anchor := Some bs\<rparr>)
             (last_accepted (cred_accepts False b) ops None) k)\<rparr>)"
  using ocsp.run_last_accepted [OF assms] props.run_last_accepted [OF assms] sct.run_last_accepted [OF assms]
    delegated.run_last_accepted [OF assms] anchor.run_last_accepted [OF assms]
  by blast

definition cred_world1 :: cred_world where
  "cred_world1 = \<lparr>cheap = [7 \<mapsto> new_cred], cbufs = {#}\<rparr>"

definition cenv :: "int \<Rightarrow> cred_env" where
  "cenv r = \<lparr>elems_ok = True, buf_addr = 30, cmalloc_ok = True, set1_result = r\<rparr>"

definition boring_only :: build where
  "boring_only = \<lparr>openssl_is_boringssl = True, openssl_is_awslc = False, libressl_version_number = None,
     openssl_version_number = 0x10100000, openssl_no_tls1_3 = False, openssl_no_ocsp = False,
     openssl_no_engine = False, gnuc = True\<rparr>"

theorem credential_setters_last_accepted_witness:
  "run_sets (\<lambda>env. cred_setOcspResponse boring_only env 7)
       [(cenv 1, Some [1]), (cenv 1, Some [2]), (cenv 0, Some [3]), (cenv 1, Some [])] cred_world1
     = Inr (cred_world1\<lparr>cheap := [7 \<mapsto> new_cred\<lparr>cr_ocsp := Some [2]\<rparr>]\<rparr>)"
proof -
  have "cheap cred_world1 7 = Some new_cred" by (simp add: cred_world1_def)
  from credential_setters_last_accepted [OF this, of boring_only
      "[(cenv 1, Some [1]), (cenv 1, Some [2]), (cenv 0, Some [3]), (cenv 1, Some [])]"]
  show ?thesis
    by (simp add: with_last_def cred_accepts_def cenv_def boring_only_def) (simp add: cred_world1_def)
qed

end
