(* ===== verification/Jni_Wrappers.thy ===== *)
theory Jni_Wrappers
  imports Ssl_Types
begin

text \<open>
  The entry points of \<^verbatim>\<open>ssl.c\<close> and \<^verbatim>\<open>sslcontext.c\<close> that check their arguments and hand them to one
  function of the TLS library: reading, writing, shutting down, options, modes and the session
  statistics. Every entry point runs over the record of foreign calls of \<open>Tcn_Prelude\<close>; the value
  a call returns is a parameter. An entry point of \<^verbatim>\<open>SSLContext\<close> gets the address of a
  \<^verbatim>\<open>tcn_ssl_ctxt_t\<close> or \<^verbatim>\<open>NULL\<close> (\<open>None\<close>). A result that C narrows from a \<^verbatim>\<open>long\<close> or
  \<^verbatim>\<open>unsigned long\<close> to a \<^verbatim>\<open>jint\<close> goes through \<open>int_cast\<close>.

  \<open>ssl_op\<close> and \<open>ctx_op\<close> enumerate the calls Java can make, \<open>ssl_exec\<close> and \<open>ctx_exec\<close> dispatch
  them as the method tables do. The locale \<open>checked_entries\<close> is the contract of such a
  table: a call is either rejected with an exception before the library is entered, or makes
  only well-formed library calls.
\<close>

section \<open>Foreign functions\<close>

datatype ssl_fn =
    OpenSSL_version_num | ERR_get_error | ERR_clear_error | BIO_new_mem | BIO_write | BIO_free
  | SSL_get_error | SSL_pending | SSL_write | SSL_read | SSL_get_shutdown | SSL_set_shutdown
  | SSL_shutdown | SSL_version | SSL_in_init | SSL_do_handshake | SSL_set_options
  | SSL_clear_options | SSL_get_options | SSL_set_mode | SSL_get_mode | SSL_session_reused
  | SSL_set_renegotiate_mode | SSL_max_seal_overhead

datatype ctx_fn =
    SSL_CTX_set_options | SSL_CTX_get_options | SSL_CTX_clear_options | SSL_CTX_set_mode
  | SSL_CTX_get_mode | SSL_CTX_set_session_cache_mode | SSL_CTX_get_session_cache_mode
  | SSL_CTX_set_timeout | SSL_CTX_get_timeout | SSL_CTX_sess_set_cache_size
  | SSL_CTX_sess_get_cache_size | SSL_CTX_sess_number | SSL_CTX_sess_connect
  | SSL_CTX_sess_connect_good | SSL_CTX_sess_connect_renegotiate | SSL_CTX_sess_accept
  | SSL_CTX_sess_accept_good | SSL_CTX_sess_accept_renegotiate | SSL_CTX_sess_hits
  | SSL_CTX_sess_cb_hits | SSL_CTX_sess_misses | SSL_CTX_sess_timeouts | SSL_CTX_sess_cache_full
  | SSL_CTX_set_max_cert_list

named_theorems ssl_entry_defs "definitions of the entry points of SSL"
named_theorems ctx_entry_defs "definitions of the entry points of SSLContext"

section \<open>Entry points of SSL\<close>

text \<open>\<^verbatim>\<open>version\<close>, \<^verbatim>\<open>getLastErrorNumber\<close>, \<^verbatim>\<open>clearError\<close> and \<^verbatim>\<open>newMemBIO\<close> take no handle.\<close>

definition SSL_version0 :: "ssl_fn ext \<Rightarrow> (ssl_fn, int) io" where
  "SSL_version0 x = do { v \<leftarrow> ffi x OpenSSL_version_num []; State_Monad.return (int_cast v) }"

definition getLastErrorNumber :: "ssl_fn ext \<Rightarrow> (ssl_fn, int) io" where
  "getLastErrorNumber x = do { v \<leftarrow> ffi x ERR_get_error []; State_Monad.return (int_cast v) }"

definition clearError :: "ssl_fn ext \<Rightarrow> (ssl_fn, unit) io" where
  "clearError x = do { ffi x ERR_clear_error []; State_Monad.return () }"

definition newMemBIO :: "ssl_fn ext \<Rightarrow> (ssl_fn, int) io" where
  "newMemBIO x =
   do { bio \<leftarrow> ffi x BIO_new_mem [];
        if bio = 0 then do { throw (JException ''Create BIO failed''); State_Monad.return 0 }
        else State_Monad.return bio }"

definition bioSetFd :: "ssl_fn ext \<Rightarrow> int \<Rightarrow> int \<Rightarrow> (ssl_fn, unit) io" where
  [ssl_entry_defs]: "bioSetFd x ssl fd =
     TCN_CHECK_NULL ssl ''ssl'' () (State_Monad.return ())"

definition getError :: "ssl_fn ext \<Rightarrow> int \<Rightarrow> int \<Rightarrow> (ssl_fn, int) io" where
  [ssl_entry_defs]: "getError x ssl r =
     TCN_CHECK_NULL ssl ''ssl'' 0 (ffi x SSL_get_error [ssl, r])"

definition bioWrite :: "ssl_fn ext \<Rightarrow> int \<Rightarrow> int \<Rightarrow> int \<Rightarrow> (ssl_fn, int) io" where
  [ssl_entry_defs]: "bioWrite x bio wbuf wlen =
     TCN_CHECK_NULL bio ''bioAddress'' 0 (
     TCN_CHECK_NULL wbuf ''wbufAddress'' 0 (
     TCN_CHECK_POSITIVE_OR_ZERO wlen ''wlen must be >= 0'' 0 (
     ffi x BIO_write [bio, wbuf, wlen])))"

definition sslPending :: "ssl_fn ext \<Rightarrow> int \<Rightarrow> (ssl_fn, int) io" where
  [ssl_entry_defs]: "sslPending x ssl =
     (if ssl \<noteq> 0 then ffi x SSL_pending [ssl] else State_Monad.return 0)"

definition writeToSSL :: "ssl_fn ext \<Rightarrow> int \<Rightarrow> int \<Rightarrow> int \<Rightarrow> (ssl_fn, int) io" where
  [ssl_entry_defs]: "writeToSSL x ssl wbuf wlen =
     TCN_CHECK_NULL ssl ''ssl'' 0 (
     TCN_CHECK_NULL wbuf ''wbuf'' 0 (
     TCN_CHECK_POSITIVE_OR_ZERO wlen ''wlen must be >= 0'' 0 (
     ffi x SSL_write [ssl, wbuf, wlen])))"

definition readFromSSL :: "ssl_fn ext \<Rightarrow> int \<Rightarrow> int \<Rightarrow> int \<Rightarrow> (ssl_fn, int) io" where
  [ssl_entry_defs]: "readFromSSL x ssl rbuf rlen =
     TCN_CHECK_NULL ssl ''ssl'' 0 (
     TCN_CHECK_NULL rbuf ''rbuf'' 0 (
     TCN_CHECK_POSITIVE_OR_ZERO rlen ''rlen must be >='' 0 (
     ffi x SSL_read [ssl, rbuf, rlen])))"

definition getShutdown :: "ssl_fn ext \<Rightarrow> int \<Rightarrow> (ssl_fn, int) io" where
  [ssl_entry_defs]: "getShutdown x ssl =
     TCN_CHECK_NULL ssl ''ssl'' 0 (ffi x SSL_get_shutdown [ssl])"

definition setShutdown :: "ssl_fn ext \<Rightarrow> int \<Rightarrow> int \<Rightarrow> (ssl_fn, unit) io" where
  [ssl_entry_defs]: "setShutdown x ssl m =
     TCN_CHECK_NULL ssl ''ssl'' () (do { ffi x SSL_set_shutdown [ssl, m]; State_Monad.return () })"

definition freeBIO :: "ssl_fn ext \<Rightarrow> int \<Rightarrow> (ssl_fn, unit) io" where
  [ssl_entry_defs]: "freeBIO x bio =
     (if bio \<noteq> 0 then do { ffi x BIO_free [bio]; State_Monad.return () } else State_Monad.return ())"

definition shutdownSSL :: "ssl_fn ext \<Rightarrow> int \<Rightarrow> (ssl_fn, int) io" where
  [ssl_entry_defs]: "shutdownSSL x ssl =
     TCN_CHECK_NULL ssl ''ssl'' 0 (ffi x SSL_shutdown [ssl])"

definition getVersionInt :: "ssl_fn ext \<Rightarrow> int \<Rightarrow> (ssl_fn, int) io" where
  [ssl_entry_defs]: "getVersionInt x ssl =
     TCN_CHECK_NULL ssl ''ssl'' 0 (ffi x SSL_version [ssl])"

definition isInInit :: "ssl_fn ext \<Rightarrow> int \<Rightarrow> (ssl_fn, int) io" where
  [ssl_entry_defs]: "isInInit x ssl =
     TCN_CHECK_NULL ssl ''ssl'' 0 (ffi x SSL_in_init [ssl])"

definition doHandshake :: "ssl_fn ext \<Rightarrow> int \<Rightarrow> (ssl_fn, int) io" where
  [ssl_entry_defs]: "doHandshake x ssl =
     TCN_CHECK_NULL ssl ''ssl'' 0 (ffi x SSL_do_handshake [ssl])"

definition SSL_setOptions :: "ssl_fn ext \<Rightarrow> int \<Rightarrow> int \<Rightarrow> (ssl_fn, unit) io" where
  [ssl_entry_defs]: "SSL_setOptions x ssl opt =
     TCN_CHECK_NULL ssl ''ssl'' () (do { ffi x SSL_set_options [ssl, opt]; State_Monad.return () })"

definition SSL_clearOptions :: "ssl_fn ext \<Rightarrow> int \<Rightarrow> int \<Rightarrow> (ssl_fn, unit) io" where
  [ssl_entry_defs]: "SSL_clearOptions x ssl opt =
     TCN_CHECK_NULL ssl ''ssl'' () (do { ffi x SSL_clear_options [ssl, opt]; State_Monad.return () })"

definition SSL_getOptions :: "ssl_fn ext \<Rightarrow> int \<Rightarrow> (ssl_fn, int) io" where
  [ssl_entry_defs]: "SSL_getOptions x ssl =
     TCN_CHECK_NULL ssl ''ssl'' 0 (do { v \<leftarrow> ffi x SSL_get_options [ssl]; State_Monad.return (int_cast v) })"

definition SSL_setMode :: "ssl_fn ext \<Rightarrow> int \<Rightarrow> int \<Rightarrow> (ssl_fn, int) io" where
  [ssl_entry_defs]: "SSL_setMode x ssl m =
     TCN_CHECK_NULL ssl ''ssl'' 0 (do { v \<leftarrow> ffi x SSL_set_mode [ssl, m]; State_Monad.return (int_cast v) })"

definition SSL_getMode :: "ssl_fn ext \<Rightarrow> int \<Rightarrow> (ssl_fn, int) io" where
  [ssl_entry_defs]: "SSL_getMode x ssl =
     TCN_CHECK_NULL ssl ''ssl'' 0 (do { v \<leftarrow> ffi x SSL_get_mode [ssl]; State_Monad.return (int_cast v) })"

text \<open>
  The overhead of a record when the library cannot report it: the constants of \<^verbatim>\<open>ssl.c\<close>, plus the
  length of a record header (\<^verbatim>\<open>SSL3_RT_HEADER_LENGTH\<close>, a parameter).
\<close>

definition TCN_MAX_ENCRYPTED_PACKET_LENGTH :: int where
  "TCN_MAX_ENCRYPTED_PACKET_LENGTH = 16 + 48 + 1 + 15 + 1 + 2 + 2"

definition TCN_MAX_SEAL_OVERHEAD_LENGTH :: "int \<Rightarrow> int" where
  "TCN_MAX_SEAL_OVERHEAD_LENGTH header_len = TCN_MAX_ENCRYPTED_PACKET_LENGTH + header_len"

definition TLS1_3_VERSION :: int where "TLS1_3_VERSION = 0x0304"

definition getMaxWrapOverhead :: "build \<Rightarrow> int \<Rightarrow> ssl_fn ext \<Rightarrow> int \<Rightarrow> (ssl_fn, int) io" where
  [ssl_entry_defs]: "getMaxWrapOverhead b header_len x ssl =
     TCN_CHECK_NULL ssl ''ssl'' 0 (
     if boring b then do { v \<leftarrow> ffi x SSL_max_seal_overhead [ssl]; State_Monad.return (int_cast v) }
     else do { v \<leftarrow> ffi x SSL_version [ssl];
               State_Monad.return (if TLS1_3_VERSION \<le> v then TCN_MAX_SEAL_OVERHEAD_LENGTH header_len + 1
                                   else TCN_MAX_SEAL_OVERHEAD_LENGTH header_len) })"

definition isSessionReused :: "ssl_fn ext \<Rightarrow> int \<Rightarrow> (ssl_fn, int) io" where
  [ssl_entry_defs]: "isSessionReused x ssl =
     TCN_CHECK_NULL ssl ''ssl'' 0 (do { v \<leftarrow> ffi x SSL_session_reused [ssl]; State_Monad.return (if v = 1 then 1 else 0) })"

definition setRenegotiateMode :: "build \<Rightarrow> ssl_fn ext \<Rightarrow> int \<Rightarrow> int \<Rightarrow> (ssl_fn, unit) io" where
  [ssl_entry_defs]: "setRenegotiateMode b x ssl m =
     TCN_CHECK_NULL ssl ''ssl'' () (
     if \<not> boring b then throw (JException ''Not supported'')
     else do { ffi x SSL_set_renegotiate_mode [ssl, m]; State_Monad.return () })"

section \<open>Entry points of SSLContext\<close>

definition SSLContext_setOptions :: "ctx_fn ext \<Rightarrow> tcn_ssl_ctxt option \<Rightarrow> int \<Rightarrow> (ctx_fn, unit) io" where
  [ctx_entry_defs]: "SSLContext_setOptions x cp opt =
     CHECK_CTX cp () (\<lambda>c. do { ffi x SSL_CTX_set_options [ctx c, opt]; State_Monad.return () })"

definition SSLContext_getOptions :: "ctx_fn ext \<Rightarrow> tcn_ssl_ctxt option \<Rightarrow> (ctx_fn, int) io" where
  [ctx_entry_defs]: "SSLContext_getOptions x cp =
     CHECK_CTX cp 0 (\<lambda>c. do { v \<leftarrow> ffi x SSL_CTX_get_options [ctx c]; State_Monad.return (int_cast v) })"

definition SSLContext_clearOptions :: "ctx_fn ext \<Rightarrow> tcn_ssl_ctxt option \<Rightarrow> int \<Rightarrow> (ctx_fn, unit) io" where
  [ctx_entry_defs]: "SSLContext_clearOptions x cp opt =
     CHECK_CTX cp () (\<lambda>c. do { ffi x SSL_CTX_clear_options [ctx c, opt]; State_Monad.return () })"

definition SSLContext_setMode :: "ctx_fn ext \<Rightarrow> tcn_ssl_ctxt option \<Rightarrow> int \<Rightarrow> (ctx_fn, int) io" where
  [ctx_entry_defs]: "SSLContext_setMode x cp m =
     CHECK_CTX cp 0 (\<lambda>c. do { v \<leftarrow> ffi x SSL_CTX_set_mode [ctx c, m]; State_Monad.return (int_cast v) })"

definition SSLContext_getMode :: "ctx_fn ext \<Rightarrow> tcn_ssl_ctxt option \<Rightarrow> (ctx_fn, int) io" where
  [ctx_entry_defs]: "SSLContext_getMode x cp =
     CHECK_CTX cp 0 (\<lambda>c. do { v \<leftarrow> ffi x SSL_CTX_get_mode [ctx c]; State_Monad.return (int_cast v) })"

definition getSslCtx :: "ctx_fn ext \<Rightarrow> tcn_ssl_ctxt option \<Rightarrow> (ctx_fn, int) io" where
  [ctx_entry_defs]: "getSslCtx x cp =
     CHECK_CTX cp 0 (\<lambda>c. State_Monad.return (ctx c))"

definition setMaxCertList :: "ctx_fn ext \<Rightarrow> tcn_ssl_ctxt option \<Rightarrow> int \<Rightarrow> (ctx_fn, unit) io" where
  [ctx_entry_defs]: "setMaxCertList x cp sz =
     CHECK_CTX cp () (\<lambda>c. do { ffi x SSL_CTX_set_max_cert_list [ctx c, sz]; State_Monad.return () })"

definition setSessionCacheMode :: "ctx_fn ext \<Rightarrow> tcn_ssl_ctxt option \<Rightarrow> int \<Rightarrow> (ctx_fn, int) io" where
  [ctx_entry_defs]: "setSessionCacheMode x cp m =
     CHECK_CTX cp 0 (\<lambda>c. ffi x SSL_CTX_set_session_cache_mode [ctx c, m])"

definition getSessionCacheMode :: "ctx_fn ext \<Rightarrow> tcn_ssl_ctxt option \<Rightarrow> (ctx_fn, int) io" where
  [ctx_entry_defs]: "getSessionCacheMode x cp =
     CHECK_CTX cp 0 (\<lambda>c. ffi x SSL_CTX_get_session_cache_mode [ctx c])"

definition setSessionCacheTimeout :: "ctx_fn ext \<Rightarrow> tcn_ssl_ctxt option \<Rightarrow> int \<Rightarrow> (ctx_fn, int) io" where
  [ctx_entry_defs]: "setSessionCacheTimeout x cp timeout =
     CHECK_CTX cp 0 (\<lambda>c. ffi x SSL_CTX_set_timeout [ctx c, timeout])"

definition getSessionCacheTimeout :: "ctx_fn ext \<Rightarrow> tcn_ssl_ctxt option \<Rightarrow> (ctx_fn, int) io" where
  [ctx_entry_defs]: "getSessionCacheTimeout x cp =
     CHECK_CTX cp 0 (\<lambda>c. ffi x SSL_CTX_get_timeout [ctx c])"

text \<open>\<^verbatim>\<open>SSL_SESS_CACHE_SERVER\<close>, a constant of the library, is a parameter.\<close>

definition setSessionCacheSize :: "int \<Rightarrow> ctx_fn ext \<Rightarrow> tcn_ssl_ctxt option \<Rightarrow> int \<Rightarrow> (ctx_fn, int) io" where
  [ctx_entry_defs]: "setSessionCacheSize cache_server x cp sz =
     CHECK_CTX cp 0 (\<lambda>c.
       if 0 \<le> sz then
         do { ffi x SSL_CTX_set_session_cache_mode [ctx c, cache_server];
              ffi x SSL_CTX_sess_set_cache_size [ctx c, sz] }
       else State_Monad.return 0)"

definition getSessionCacheSize :: "ctx_fn ext \<Rightarrow> tcn_ssl_ctxt option \<Rightarrow> (ctx_fn, int) io" where
  [ctx_entry_defs]: "getSessionCacheSize x cp =
     CHECK_CTX cp 0 (\<lambda>c. ffi x SSL_CTX_sess_get_cache_size [ctx c])"

definition sessionNumber :: "ctx_fn ext \<Rightarrow> tcn_ssl_ctxt option \<Rightarrow> (ctx_fn, int) io" where
  [ctx_entry_defs]: "sessionNumber x cp =
     CHECK_CTX cp 0 (\<lambda>c. ffi x SSL_CTX_sess_number [ctx c])"

definition sessionConnect :: "ctx_fn ext \<Rightarrow> tcn_ssl_ctxt option \<Rightarrow> (ctx_fn, int) io" where
  [ctx_entry_defs]: "sessionConnect x cp =
     CHECK_CTX cp 0 (\<lambda>c. ffi x SSL_CTX_sess_connect [ctx c])"

definition sessionConnectGood :: "ctx_fn ext \<Rightarrow> tcn_ssl_ctxt option \<Rightarrow> (ctx_fn, int) io" where
  [ctx_entry_defs]: "sessionConnectGood x cp =
     CHECK_CTX cp 0 (\<lambda>c. ffi x SSL_CTX_sess_connect_good [ctx c])"

definition sessionConnectRenegotiate :: "ctx_fn ext \<Rightarrow> tcn_ssl_ctxt option \<Rightarrow> (ctx_fn, int) io" where
  [ctx_entry_defs]: "sessionConnectRenegotiate x cp =
     CHECK_CTX cp 0 (\<lambda>c. ffi x SSL_CTX_sess_connect_renegotiate [ctx c])"

definition sessionAccept :: "ctx_fn ext \<Rightarrow> tcn_ssl_ctxt option \<Rightarrow> (ctx_fn, int) io" where
  [ctx_entry_defs]: "sessionAccept x cp =
     CHECK_CTX cp 0 (\<lambda>c. ffi x SSL_CTX_sess_accept [ctx c])"

definition sessionAcceptGood :: "ctx_fn ext \<Rightarrow> tcn_ssl_ctxt option \<Rightarrow> (ctx_fn, int) io" where
  [ctx_entry_defs]: "sessionAcceptGood x cp =
     CHECK_CTX cp 0 (\<lambda>c. ffi x SSL_CTX_sess_accept_good [ctx c])"

definition sessionAcceptRenegotiate :: "ctx_fn ext \<Rightarrow> tcn_ssl_ctxt option \<Rightarrow> (ctx_fn, int) io" where
  [ctx_entry_defs]: "sessionAcceptRenegotiate x cp =
     CHECK_CTX cp 0 (\<lambda>c. ffi x SSL_CTX_sess_accept_renegotiate [ctx c])"

definition sessionHits :: "ctx_fn ext \<Rightarrow> tcn_ssl_ctxt option \<Rightarrow> (ctx_fn, int) io" where
  [ctx_entry_defs]: "sessionHits x cp =
     CHECK_CTX cp 0 (\<lambda>c. ffi x SSL_CTX_sess_hits [ctx c])"

definition sessionCbHits :: "ctx_fn ext \<Rightarrow> tcn_ssl_ctxt option \<Rightarrow> (ctx_fn, int) io" where
  [ctx_entry_defs]: "sessionCbHits x cp =
     CHECK_CTX cp 0 (\<lambda>c. ffi x SSL_CTX_sess_cb_hits [ctx c])"

definition sessionMisses :: "ctx_fn ext \<Rightarrow> tcn_ssl_ctxt option \<Rightarrow> (ctx_fn, int) io" where
  [ctx_entry_defs]: "sessionMisses x cp =
     CHECK_CTX cp 0 (\<lambda>c. ffi x SSL_CTX_sess_misses [ctx c])"

definition sessionTimeouts :: "ctx_fn ext \<Rightarrow> tcn_ssl_ctxt option \<Rightarrow> (ctx_fn, int) io" where
  [ctx_entry_defs]: "sessionTimeouts x cp =
     CHECK_CTX cp 0 (\<lambda>c. ffi x SSL_CTX_sess_timeouts [ctx c])"

definition sessionCacheFull :: "ctx_fn ext \<Rightarrow> tcn_ssl_ctxt option \<Rightarrow> (ctx_fn, int) io" where
  [ctx_entry_defs]: "sessionCacheFull x cp =
     CHECK_CTX cp 0 (\<lambda>c. ffi x SSL_CTX_sess_cache_full [ctx c])"

section \<open>Calls from Java\<close>

datatype ssl_op =
    Op_bioSetFd int int | Op_getError int int | Op_bioWrite int int int | Op_sslPending int
  | Op_writeToSSL int int int | Op_readFromSSL int int int | Op_getShutdown int
  | Op_setShutdown int int | Op_freeBIO int | Op_shutdownSSL int | Op_getVersionInt int
  | Op_isInInit int | Op_doHandshake int | Op_setOptions int int | Op_clearOptions int int
  | Op_getOptions int | Op_setMode int int | Op_getMode int | Op_getMaxWrapOverhead int
  | Op_isSessionReused int | Op_setRenegotiateMode int int

definition unit_result :: "('f, unit) io \<Rightarrow> ('f, int) io" where
  "unit_result m = do { m; State_Monad.return 0 }"

fun ssl_exec :: "build \<Rightarrow> int \<Rightarrow> ssl_fn ext \<Rightarrow> ssl_op \<Rightarrow> (ssl_fn, int) io" where
  "ssl_exec b hl x (Op_bioSetFd s fd) = unit_result (bioSetFd x s fd)"
| "ssl_exec b hl x (Op_getError s r) = getError x s r"
| "ssl_exec b hl x (Op_bioWrite s p n) = bioWrite x s p n"
| "ssl_exec b hl x (Op_sslPending s) = sslPending x s"
| "ssl_exec b hl x (Op_writeToSSL s p n) = writeToSSL x s p n"
| "ssl_exec b hl x (Op_readFromSSL s p n) = readFromSSL x s p n"
| "ssl_exec b hl x (Op_getShutdown s) = getShutdown x s"
| "ssl_exec b hl x (Op_setShutdown s m) = unit_result (setShutdown x s m)"
| "ssl_exec b hl x (Op_freeBIO s) = unit_result (freeBIO x s)"
| "ssl_exec b hl x (Op_shutdownSSL s) = shutdownSSL x s"
| "ssl_exec b hl x (Op_getVersionInt s) = getVersionInt x s"
| "ssl_exec b hl x (Op_isInInit s) = isInInit x s"
| "ssl_exec b hl x (Op_doHandshake s) = doHandshake x s"
| "ssl_exec b hl x (Op_setOptions s opt) = unit_result (SSL_setOptions x s opt)"
| "ssl_exec b hl x (Op_clearOptions s opt) = unit_result (SSL_clearOptions x s opt)"
| "ssl_exec b hl x (Op_getOptions s) = SSL_getOptions x s"
| "ssl_exec b hl x (Op_setMode s m) = SSL_setMode x s m"
| "ssl_exec b hl x (Op_getMode s) = SSL_getMode x s"
| "ssl_exec b hl x (Op_getMaxWrapOverhead s) = getMaxWrapOverhead b hl x s"
| "ssl_exec b hl x (Op_isSessionReused s) = isSessionReused x s"
| "ssl_exec b hl x (Op_setRenegotiateMode s m) = unit_result (setRenegotiateMode b x s m)"

datatype ctx_stat =
    Number | Connect | Connect_Good | Connect_Renegotiate | Accept | Accept_Good
  | Accept_Renegotiate | Hits | Cb_Hits | Misses | Timeouts | Cache_Full

datatype ctx_op =
    Ctx_setOptions int | Ctx_getOptions | Ctx_clearOptions int | Ctx_setMode int | Ctx_getMode
  | Ctx_getSslCtx | Ctx_setMaxCertList int | Ctx_setSessionCacheMode int | Ctx_getSessionCacheMode
  | Ctx_setSessionCacheTimeout int | Ctx_getSessionCacheTimeout | Ctx_setSessionCacheSize int
  | Ctx_getSessionCacheSize | Ctx_stat ctx_stat

fun ctx_stat_exec :: "ctx_fn ext \<Rightarrow> tcn_ssl_ctxt option \<Rightarrow> ctx_stat \<Rightarrow> (ctx_fn, int) io" where
  "ctx_stat_exec x cp Number = sessionNumber x cp"
| "ctx_stat_exec x cp Connect = sessionConnect x cp"
| "ctx_stat_exec x cp Connect_Good = sessionConnectGood x cp"
| "ctx_stat_exec x cp Connect_Renegotiate = sessionConnectRenegotiate x cp"
| "ctx_stat_exec x cp Accept = sessionAccept x cp"
| "ctx_stat_exec x cp Accept_Good = sessionAcceptGood x cp"
| "ctx_stat_exec x cp Accept_Renegotiate = sessionAcceptRenegotiate x cp"
| "ctx_stat_exec x cp Hits = sessionHits x cp"
| "ctx_stat_exec x cp Cb_Hits = sessionCbHits x cp"
| "ctx_stat_exec x cp Misses = sessionMisses x cp"
| "ctx_stat_exec x cp Timeouts = sessionTimeouts x cp"
| "ctx_stat_exec x cp Cache_Full = sessionCacheFull x cp"

fun ctx_exec :: "int \<Rightarrow> ctx_fn ext \<Rightarrow> tcn_ssl_ctxt option \<times> ctx_op \<Rightarrow> (ctx_fn, int) io" where
  "ctx_exec srv x (cp, Ctx_setOptions opt) = unit_result (SSLContext_setOptions x cp opt)"
| "ctx_exec srv x (cp, Ctx_getOptions) = SSLContext_getOptions x cp"
| "ctx_exec srv x (cp, Ctx_clearOptions opt) = unit_result (SSLContext_clearOptions x cp opt)"
| "ctx_exec srv x (cp, Ctx_setMode m) = SSLContext_setMode x cp m"
| "ctx_exec srv x (cp, Ctx_getMode) = SSLContext_getMode x cp"
| "ctx_exec srv x (cp, Ctx_getSslCtx) = getSslCtx x cp"
| "ctx_exec srv x (cp, Ctx_setMaxCertList n) = unit_result (setMaxCertList x cp n)"
| "ctx_exec srv x (cp, Ctx_setSessionCacheMode m) = setSessionCacheMode x cp m"
| "ctx_exec srv x (cp, Ctx_getSessionCacheMode) = getSessionCacheMode x cp"
| "ctx_exec srv x (cp, Ctx_setSessionCacheTimeout t) = setSessionCacheTimeout x cp t"
| "ctx_exec srv x (cp, Ctx_getSessionCacheTimeout) = getSessionCacheTimeout x cp"
| "ctx_exec srv x (cp, Ctx_setSessionCacheSize n) = setSessionCacheSize srv x cp n"
| "ctx_exec srv x (cp, Ctx_getSessionCacheSize) = getSessionCacheSize x cp"
| "ctx_exec srv x (cp, Ctx_stat st) = ctx_stat_exec x cp st"

section \<open>Specification\<close>

text \<open>The exception that a call from Java raises for its arguments alone; \<open>None\<close>: it is accepted.\<close>

definition null_arg :: "int \<Rightarrow> string \<Rightarrow> jexc option" where
  "null_arg h m = (if h = 0 then Some (NullPointerException m) else None)"

definition data_arg :: "int \<Rightarrow> string \<Rightarrow> int \<Rightarrow> string \<Rightarrow> int \<Rightarrow> string \<Rightarrow> jexc option" where
  "data_arg h hm p pm n nm =
   (if h = 0 then Some (NullPointerException hm)
    else if p = 0 then Some (NullPointerException pm)
    else if n < 0 then Some (IllegalArgumentException nm) else None)"

fun ssl_reject :: "build \<Rightarrow> ssl_op \<Rightarrow> jexc option" where
  "ssl_reject b (Op_sslPending s) = None"
| "ssl_reject b (Op_freeBIO s) = None"
| "ssl_reject b (Op_bioWrite s p n) = data_arg s ''bioAddress'' p ''wbufAddress'' n ''wlen must be >= 0''"
| "ssl_reject b (Op_writeToSSL s p n) = data_arg s ''ssl'' p ''wbuf'' n ''wlen must be >= 0''"
| "ssl_reject b (Op_readFromSSL s p n) = data_arg s ''ssl'' p ''rbuf'' n ''rlen must be >=''"
| "ssl_reject b (Op_setRenegotiateMode s m) =
     (if s \<noteq> 0 \<and> \<not> boring b then Some (JException ''Not supported'') else null_arg s ''ssl'')"
| "ssl_reject b (Op_bioSetFd s fd) = null_arg s ''ssl''"
| "ssl_reject b (Op_getError s r) = null_arg s ''ssl''"
| "ssl_reject b (Op_getShutdown s) = null_arg s ''ssl''"
| "ssl_reject b (Op_setShutdown s m) = null_arg s ''ssl''"
| "ssl_reject b (Op_shutdownSSL s) = null_arg s ''ssl''"
| "ssl_reject b (Op_getVersionInt s) = null_arg s ''ssl''"
| "ssl_reject b (Op_isInInit s) = null_arg s ''ssl''"
| "ssl_reject b (Op_doHandshake s) = null_arg s ''ssl''"
| "ssl_reject b (Op_setOptions s opt) = null_arg s ''ssl''"
| "ssl_reject b (Op_clearOptions s opt) = null_arg s ''ssl''"
| "ssl_reject b (Op_getOptions s) = null_arg s ''ssl''"
| "ssl_reject b (Op_setMode s m) = null_arg s ''ssl''"
| "ssl_reject b (Op_getMode s) = null_arg s ''ssl''"
| "ssl_reject b (Op_getMaxWrapOverhead s) = null_arg s ''ssl''"
| "ssl_reject b (Op_isSessionReused s) = null_arg s ''ssl''"

definition ctx_reject :: "tcn_ssl_ctxt option \<times> ctx_op \<Rightarrow> jexc option" where
  "ctx_reject p = (if fst p = None then Some (NullPointerException ''ctx'') else None)"

text \<open>A call the library is prepared for: a handle, and with data a buffer and a length.\<close>

fun ssl_call_ok :: "ssl_fn call \<Rightarrow> bool" where
  "ssl_call_ok (Call f as) =
   (as \<noteq> [] \<and> hd as \<noteq> 0 \<and>
    (f \<in> {BIO_write, SSL_write, SSL_read} \<longrightarrow> length as = 3 \<and> as ! 1 \<noteq> 0 \<and> 0 \<le> as ! 2))"

text \<open>A call on one of the library contexts \<open>hs\<close>; the size of the session cache is not negative.\<close>

fun ctx_call_ok :: "int set \<Rightarrow> ctx_fn call \<Rightarrow> bool" where
  "ctx_call_ok hs (Call f as) =
   (as \<noteq> [] \<and> hd as \<in> hs \<and> (f = SSL_CTX_sess_set_cache_size \<longrightarrow> length as = 2 \<and> 0 \<le> as ! 1))"

section \<open>Tables of checked entry points\<close>

fun run_entries :: "('op \<Rightarrow> ('f, int) io) \<Rightarrow> 'op list \<Rightarrow> 'f world \<Rightarrow> 'f world" where
  "run_entries exec [] w = w"
| "run_entries exec (op # ops) w = run_entries exec ops (snd (run_state (exec op) w))"

locale checked_entries =
  fixes legal :: "'op \<Rightarrow> bool"
    and exec :: "'op \<Rightarrow> ('f, int) io"
    and reject :: "'op \<Rightarrow> jexc option"
    and ok :: "'f call \<Rightarrow> bool"
  assumes rejected: "reject op = Some e \<Longrightarrow>
      run_state (exec op) w = (0, w\<lparr>thrown := thrown w @ [e]\<rparr>)"
    and accepted: "reject op = None \<Longrightarrow> legal op \<Longrightarrow>
      \<exists>v cs. run_state (exec op) w = (v, w\<lparr>calls := calls w @ cs\<rparr>) \<and> list_all ok cs"
begin

lemma run_checked:
  "list_all legal ops \<Longrightarrow>
   \<exists>cs. run_entries exec ops w =
          w\<lparr>calls := calls w @ cs, thrown := thrown w @ List.map_filter reject ops\<rparr> \<and> list_all ok cs"
proof (induction ops arbitrary: w)
  case Nil
  show ?case by (intro exI [of _ "[]"]) simp
next
  case (Cons op ops)
  show ?case
  proof (cases "reject op")
    case None
    then obtain v cs where s: "run_state (exec op) w = (v, w\<lparr>calls := calls w @ cs\<rparr>)"
      and cs: "list_all ok cs"
      using accepted [of op w] Cons.prems by auto
    obtain cs' where "run_entries exec ops (w\<lparr>calls := calls w @ cs\<rparr>) =
        w\<lparr>calls := calls w @ cs @ cs', thrown := thrown w @ List.map_filter reject ops\<rparr>"
      and "list_all ok cs'"
      using Cons.IH [of "w\<lparr>calls := calls w @ cs\<rparr>"] Cons.prems by auto
    with s cs None show ?thesis by (intro exI [of _ "cs @ cs'"]) simp
  next
    case (Some e)
    then show ?thesis
      using Cons.IH [of "w\<lparr>thrown := thrown w @ [e]\<rparr>"] rejected [OF Some, of w] Cons.prems by simp
  qed
qed

end

lemma run_unit_result [simp, ffi_simps]:
  "run_state (unit_result m) w = (0, snd (run_state m w))"
  by (simp add: unit_result_def split_beta)

lemma ssl_exec_rejected:
  "ssl_reject b op = Some e \<Longrightarrow> run_state (ssl_exec b hl x op) w = (0, w\<lparr>thrown := thrown w @ [e]\<rparr>)"
  by (cases op) (auto simp: ssl_entry_defs null_arg_def data_arg_def split: if_splits)

lemma append_one_call:
  "ok k \<Longrightarrow> \<exists>v' cs. (v, w\<lparr>calls := calls w @ [k]\<rparr>) = (v', w\<lparr>calls := calls w @ cs\<rparr>) \<and> list_all ok cs"
  by (intro exI [of _ v] exI [of _ "[k]"]) simp

lemma append_no_call: "\<exists>cs. w = w\<lparr>calls := calls w @ cs\<rparr> \<and> list_all ok cs"
  by (intro exI [of _ "[]"]) simp

lemma ssl_exec_accepted:
  "ssl_reject b op = None \<Longrightarrow>
   \<exists>v cs. run_state (ssl_exec b hl x op) w = (v, w\<lparr>calls := calls w @ cs\<rparr>) \<and> list_all ssl_call_ok cs"
  by (cases op)
    (auto simp: ssl_entry_defs null_arg_def data_arg_def append_no_call split: if_splits
      intro!: append_one_call)

interpretation ssl_table: checked_entries "\<lambda>_. True" "ssl_exec b hl x" "ssl_reject b" ssl_call_ok for b hl x
  by unfold_locales (erule ssl_exec_rejected, erule ssl_exec_accepted)

definition ctx_legal :: "int set \<Rightarrow> tcn_ssl_ctxt option \<times> ctx_op \<Rightarrow> bool" where
  "ctx_legal hs p = (case fst p of None \<Rightarrow> True | Some c \<Rightarrow> ctx c \<in> hs)"

lemma ctx_stat_none:
  "run_state (ctx_stat_exec x None st) w = (0, w\<lparr>thrown := thrown w @ [NullPointerException ''ctx'']\<rparr>)"
  by (cases st) (simp_all add: ctx_entry_defs)

lemma ctx_exec_none:
  "run_state (ctx_exec srv x (None, op)) w = (0, w\<lparr>thrown := thrown w @ [NullPointerException ''ctx'']\<rparr>)"
  by (cases op) (simp_all add: ctx_entry_defs ctx_stat_none)

lemma ctx_stat_some:
  assumes "ctx c \<in> hs"
  shows "\<exists>v cs. run_state (ctx_stat_exec x (Some c) st) w = (v, w\<lparr>calls := calls w @ cs\<rparr>)
           \<and> list_all (ctx_call_ok hs) cs"
  using assms by (cases st) (auto simp: ctx_entry_defs intro!: append_one_call)

lemma append_two_calls:
  "ok k \<Longrightarrow> ok k' \<Longrightarrow>
   \<exists>v' cs. (v, w\<lparr>calls := calls w @ [k, k']\<rparr>) = (v', w\<lparr>calls := calls w @ cs\<rparr>) \<and> list_all ok cs"
  by (intro exI [of _ v] exI [of _ "[k, k']"]) simp

lemma ctx_exec_some:
  assumes "ctx c \<in> hs"
  shows "\<exists>v cs. run_state (ctx_exec srv x (Some c, op)) w = (v, w\<lparr>calls := calls w @ cs\<rparr>)
           \<and> list_all (ctx_call_ok hs) cs"
  using assms
  by (cases op)
    (auto simp: ctx_entry_defs ctx_stat_some append_no_call
      intro!: append_one_call append_two_calls)

lemma ctx_exec_accepted:
  assumes "ctx_reject p = None" "ctx_legal hs p"
  shows "\<exists>v cs. run_state (ctx_exec srv x p) w = (v, w\<lparr>calls := calls w @ cs\<rparr>)
           \<and> list_all (ctx_call_ok hs) cs"
  using assms ctx_exec_some [of _ hs srv x "snd p" w]
  by (cases p) (auto simp: ctx_reject_def ctx_legal_def split: if_splits)

interpretation ctx_table: checked_entries "ctx_legal hs" "ctx_exec srv x" ctx_reject "ctx_call_ok hs" for hs srv x
proof unfold_locales
  fix p e and w :: "ctx_fn world"
  assume "ctx_reject p = Some e"
  then show "run_state (ctx_exec srv x p) w = (0, w\<lparr>thrown := thrown w @ [e]\<rparr>)"
    by (cases p) (auto simp: ctx_reject_def ctx_exec_none split: if_splits)
qed (rule ctx_exec_accepted)

section \<open>Properties\<close>

text \<open>
  C37. Whatever calls Java makes, with any handles, buffers and lengths, in any order, and whatever the
  library answers: exactly the calls with bad arguments throw, each the one exception for its
  first bad argument and without entering the library; all calls that do reach the library carry
  a non-null connection, and a non-null buffer with a non-negative length where data is moved.
  The calls of \<^verbatim>\<open>SSLContext\<close> only reach the library with the handle stored in the context and
  never set a negative session cache size.
\<close>

theorem jni_calls_checked:
  assumes "list_all (ctx_legal hs) cops"
  shows "(\<exists>cs. run_entries (ssl_exec b hl x) sops w =
             w\<lparr>calls := calls w @ cs, thrown := thrown w @ List.map_filter (ssl_reject b) sops\<rparr>
             \<and> list_all ssl_call_ok cs)
       \<and> (\<exists>cs. run_entries (ctx_exec srv y) cops v =
             v\<lparr>calls := calls v @ cs, thrown := thrown v @ List.map_filter ctx_reject cops\<rparr>
             \<and> list_all (ctx_call_ok hs) cs)"
  using ssl_table.run_checked [of sops b hl x w] ctx_table.run_checked [OF assms]
  by (simp add: list_all_iff)

theorem jni_calls_checked_witness:
  "thrown (run_entries (ctx_exec 2 \<lparr>ret = \<lambda>h k. 7, outp = \<lambda>h k i. 0\<rparr>)
      [(Some (ctxt_zero\<lparr>ctx := 5\<rparr>), Ctx_setSessionCacheSize 9), (None, Ctx_getMode)] world_init)
    = [NullPointerException ''ctx'']"
proof -
  let ?ops = "[(Some (ctxt_zero\<lparr>ctx := 5\<rparr>), Ctx_setSessionCacheSize 9), (None, Ctx_getMode)]"
  let ?w = "world_init :: ctx_fn world"
  have "list_all (ctx_legal {5}) ?ops" by (simp add: ctx_legal_def)
  from jni_calls_checked [OF this, of undefined undefined undefined "[]" undefined 2
      "\<lparr>ret = \<lambda>h k. 7, outp = \<lambda>h k i. 0\<rparr>" ?w, THEN conjunct2]
  obtain cs where "run_entries (ctx_exec 2 \<lparr>ret = \<lambda>h k. 7, outp = \<lambda>h k i. 0\<rparr>) ?ops ?w
      = ?w\<lparr>calls := calls ?w @ cs,
          thrown := thrown ?w @ List.map_filter ctx_reject ?ops\<rparr>" by blast
  then show ?thesis by (simp only:) (simp add: world_init_def ctx_reject_def)
qed

text \<open>
  The overhead reported for OpenSSL is the sum of the constants; the values for TLS 1.3 and
  for earlier versions differ by the one byte of the inner content type.
\<close>

lemma max_wrap_overhead_openssl:
  assumes "\<not> boring b" "ssl \<noteq> 0"
  shows "fst (run_state (getMaxWrapOverhead b 5 x ssl) w) =
     (if TLS1_3_VERSION \<le> ret x (calls w) (Call SSL_version [ssl]) then 91 else 90)"
  using assms
  by (simp add: getMaxWrapOverhead_def TCN_MAX_SEAL_OVERHEAD_LENGTH_def TCN_MAX_ENCRYPTED_PACKET_LENGTH_def)

end
