(* ===== verification/Cipher_Config.thy ===== *)
theory Cipher_Config
  imports Cipher_Auth "HOL-Library.Multiset"
begin

text \<open>
  Cipher suites, groups, host names and signature algorithms: the entry points of \<^verbatim>\<open>ssl.c\<close> and
  \<^verbatim>\<open>sslcontext.c\<close> that hand a Java string or array to the TLS library, and those that return an
  array of names.

  Setters run over the record of foreign calls of \<open>Tcn_Prelude\<close>; a Java string or array is its
  reference (\<open>0\<close> is \<^verbatim>\<open>null\<close>), the characters pinned by \<^verbatim>\<open>GetStringUTFChars\<close> are the address that
  call returns. \<open>errstr\<close> stands for \<^verbatim>\<open>ERR_error_string_n\<close>. A weakly linked function may be missing at
  run time; \<open>linked\<close> says whether it is there.
\<close>

section \<open>Foreign functions\<close>

datatype cfg_fn =
    GetStringUTFLength | GetStringUTFChars | ReleaseStringUTFChars
  | GetArrayLength | GetIntArrayElements | ReleaseIntArrayElements
  | SSL_CTX_set_cipher_list | SSL_CTX_set_ciphersuites | SSL_set_cipher_list | SSL_set_ciphersuites
  | ERR_get_error | SSL_CTX_set1_curves_list | SSL_set1_curves_list | SSL_set1_curves
  | SSL_CTX_ctrl_groups_list | SSL_ctrl_groups_list | SSL_ctrl_groups
  | SSL_set_tlsext_host_name | SSL_get0_param | X509_VERIFY_PARAM_set_hostflags
  | X509_VERIFY_PARAM_set1_host | SSL_CTX_set_num_tickets

text \<open>\<^verbatim>\<open>TCN_ALLOC_CSTRING\<close> and \<^verbatim>\<open>TCN_FREE_CSTRING\<close> of \<^verbatim>\<open>tcn.h\<close>.\<close>

definition TCN_ALLOC_CSTRING :: "cfg_fn ext \<Rightarrow> int \<Rightarrow> (cfg_fn, int) io" where
  "TCN_ALLOC_CSTRING x v = (if v \<noteq> 0 then ffi x GetStringUTFChars [v] else State_Monad.return 0)"

definition TCN_FREE_CSTRING :: "cfg_fn ext \<Rightarrow> int \<Rightarrow> int \<Rightarrow> (cfg_fn, unit) io" where
  "TCN_FREE_CSTRING x v cv =
   (if cv \<noteq> 0 then do { ffi x ReleaseStringUTFChars [v, cv]; State_Monad.return () }
    else State_Monad.return ())"

text \<open>The error report that the setters share: take the library's error and throw.\<close>

definition throw_ssl_error :: "cfg_fn ext \<Rightarrow> (int \<Rightarrow> string) \<Rightarrow> string \<Rightarrow> (cfg_fn, unit) io" where
  "throw_ssl_error x errstr msg =
   do { n \<leftarrow> ffi x ERR_get_error []; throw (JException (msg @ '' ('' @ errstr n @ '')'')) }"

section \<open>Cipher suites\<close>

text \<open>\<^verbatim>\<open>SSLContext.setCipherSuite\<close>.\<close>

definition setCipherSuite ::
  "build \<Rightarrow> (int \<Rightarrow> string) \<Rightarrow> cfg_fn ext \<Rightarrow> tcn_ssl_ctxt option \<Rightarrow> int \<Rightarrow> bool \<Rightarrow> (cfg_fn, bool) io" where
  "setCipherSuite b errstr x cp ciphers tlsv13 =
   CHECK_CTX cp False (\<lambda>c.
   if openssl_no_tls1_3 b \<and> tlsv13
   then do { throw (JException ''TLSv1.3 not supported''); State_Monad.return False }
   else if ciphers = 0 then State_Monad.return False
   else do {
     len \<leftarrow> ffi x GetStringUTFLength [ciphers];
     if len = 0 then State_Monad.return False
     else do {
       cc \<leftarrow> TCN_ALLOC_CSTRING x ciphers;
       if cc = 0 then State_Monad.return False
       else do {
         rv \<leftarrow> (if openssl_no_tls1_3 b
                then do { r \<leftarrow> ffi x SSL_CTX_set_cipher_list [ctx c, cc]; State_Monad.return (r \<noteq> 0) }
                else if tlsv13 then
                  (if openssl_is_boringssl b \<or> openssl_is_awslc b then State_Monad.return True
                   else do { r \<leftarrow> ffi x SSL_CTX_set_ciphersuites [ctx c, cc]; State_Monad.return (r \<noteq> 0) })
                else do { r \<leftarrow> ffi x SSL_CTX_set_cipher_list [ctx c, cc]; State_Monad.return (r \<noteq> 0) });
         (if \<not> rv then throw_ssl_error x errstr ''Unable to configure permitted SSL ciphers''
          else State_Monad.return ());
         TCN_FREE_CSTRING x ciphers cc;
         State_Monad.return rv } } })"

text \<open>\<^verbatim>\<open>SSL.setCipherSuites\<close>.\<close>

definition setCipherSuites ::
  "build \<Rightarrow> (int \<Rightarrow> string) \<Rightarrow> cfg_fn ext \<Rightarrow> int \<Rightarrow> int \<Rightarrow> bool \<Rightarrow> (cfg_fn, bool) io" where
  "setCipherSuites b errstr x ssl ciphers tlsv13 =
   TCN_CHECK_NULL ssl ''ssl'' False (
   if openssl_no_tls1_3 b \<and> tlsv13
   then do { throw (JException ''TLSv1.3 not supported''); State_Monad.return False }
   else if ciphers = 0 then State_Monad.return False
   else do {
     len \<leftarrow> ffi x GetStringUTFLength [ciphers];
     if len = 0 then State_Monad.return False
     else do {
       cc \<leftarrow> TCN_ALLOC_CSTRING x ciphers;
       if cc = 0 then State_Monad.return False
       else do {
         rv \<leftarrow> (if openssl_no_tls1_3 b
                then do { r \<leftarrow> ffi x SSL_set_cipher_list [ssl, cc]; State_Monad.return (r \<noteq> 0) }
                else if tlsv13 then
                  (if openssl_is_boringssl b then State_Monad.return True
                   else do { r \<leftarrow> ffi x SSL_set_ciphersuites [ssl, cc]; State_Monad.return (r \<noteq> 0) })
                else do { r \<leftarrow> ffi x SSL_set_cipher_list [ssl, cc]; State_Monad.return (r \<noteq> 0) });
         (if \<not> rv then throw_ssl_error x errstr ''Unable to configure permitted SSL ciphers''
          else State_Monad.return ());
         TCN_FREE_CSTRING x ciphers cc;
         State_Monad.return rv } } })"

section \<open>Groups\<close>

text \<open>The macros of \<^verbatim>\<open>ssl_private.h\<close>: a function of BoringSSL, a control command of OpenSSL.\<close>

definition tcn_SSL_CTX_set1_curves_list :: "build \<Rightarrow> cfg_fn ext \<Rightarrow> int \<Rightarrow> int \<Rightarrow> (cfg_fn, int) io" where
  "tcn_SSL_CTX_set1_curves_list b x h s =
     ffi x (if boring b then SSL_CTX_set1_curves_list else SSL_CTX_ctrl_groups_list) [h, s]"

definition tcn_SSL_set1_curves_list :: "build \<Rightarrow> cfg_fn ext \<Rightarrow> int \<Rightarrow> int \<Rightarrow> (cfg_fn, int) io" where
  "tcn_SSL_set1_curves_list b x h s =
     ffi x (if boring b then SSL_set1_curves_list else SSL_ctrl_groups_list) [h, s]"

definition tcn_SSL_set1_curves :: "build \<Rightarrow> cfg_fn ext \<Rightarrow> int \<Rightarrow> int \<Rightarrow> int \<Rightarrow> (cfg_fn, int) io" where
  "tcn_SSL_set1_curves b x h clist clistlen =
     ffi x (if boring b then SSL_set1_curves else SSL_ctrl_groups) [h, clist, clistlen]"

definition SSLContext_setCurvesList0 ::
  "build \<Rightarrow> cfg_fn ext \<Rightarrow> tcn_ssl_ctxt option \<Rightarrow> int \<Rightarrow> (cfg_fn, bool) io" where
  "SSLContext_setCurvesList0 b x cp curves =
   CHECK_CTX cp False (\<lambda>c.
   if curves = 0 then State_Monad.return False
   else do {
     nativeString \<leftarrow> ffi x GetStringUTFChars [curves];
     if nativeString = 0 then State_Monad.return False
     else do {
       r \<leftarrow> tcn_SSL_CTX_set1_curves_list b x (ctx c) nativeString;
       ffi x ReleaseStringUTFChars [curves, nativeString];
       State_Monad.return (r = 1) } })"

definition SSL_setCurvesList0 :: "build \<Rightarrow> cfg_fn ext \<Rightarrow> int \<Rightarrow> int \<Rightarrow> (cfg_fn, bool) io" where
  "SSL_setCurvesList0 b x ssl curves =
   TCN_CHECK_NULL ssl ''ssl'' False (
   if curves = 0 then State_Monad.return False
   else do {
     nativeString \<leftarrow> ffi x GetStringUTFChars [curves];
     if nativeString = 0 then State_Monad.return False
     else do {
       r \<leftarrow> tcn_SSL_set1_curves_list b x ssl nativeString;
       ffi x ReleaseStringUTFChars [curves, nativeString];
       State_Monad.return (r = 1) } })"

definition setCurves0 :: "build \<Rightarrow> cfg_fn ext \<Rightarrow> int \<Rightarrow> int \<Rightarrow> (cfg_fn, bool) io" where
  "setCurves0 b x ssl curves =
   TCN_CHECK_NULL ssl ''ssl'' False (
   if curves = 0 then State_Monad.return False
   else do {
     len \<leftarrow> ffi x GetArrayLength [curves];
     nativeCurves \<leftarrow> ffi x GetIntArrayElements [curves];
     if nativeCurves = 0 then State_Monad.return False
     else do {
       r \<leftarrow> tcn_SSL_set1_curves b x ssl nativeCurves len;
       ffi x ReleaseIntArrayElements [curves, nativeCurves];
       State_Monad.return (r = 1) } })"

section \<open>Host names and tickets\<close>

definition setTlsExtHostName0 ::
  "(int \<Rightarrow> string) \<Rightarrow> cfg_fn ext \<Rightarrow> int \<Rightarrow> int \<Rightarrow> (cfg_fn, unit) io" where
  "setTlsExtHostName0 errstr x ssl hostname =
   TCN_CHECK_NULL ssl ''ssl'' () (do {
     ch \<leftarrow> TCN_ALLOC_CSTRING x hostname;
     r \<leftarrow> ffi x SSL_set_tlsext_host_name [ssl, ch];
     (if r \<noteq> 1 then throw_ssl_error x errstr ''Unable to set TLS servername extension''
      else State_Monad.return ());
     TCN_FREE_CSTRING x hostname ch })"

text \<open>The preprocessor condition under which \<^verbatim>\<open>setHostNameValidation\<close> has code for OpenSSL.\<close>

definition has_host_validation :: "build \<Rightarrow> bool" where
  "has_host_validation b \<longleftrightarrow>
     openssl_version_number b \<ge> 0x10002000 \<and> libressl_version_number b = None
   \<or> (case libressl_version_number b of None \<Rightarrow> False | Some n \<Rightarrow> n \<ge> 0x2060000f)
   \<or> gnuc b"

definition setHostNameValidation ::
  "build \<Rightarrow> bool \<Rightarrow> (int \<Rightarrow> string) \<Rightarrow> cfg_fn ext \<Rightarrow> int \<Rightarrow> int \<Rightarrow> int \<Rightarrow> (cfg_fn, unit) io" where
  "setHostNameValidation b linked errstr x ssl flags hostnameString =
   TCN_CHECK_NULL ssl ''ssl'' () (
   if boring b then
     (if flags \<noteq> 0 then throw (JException ''flags must be 0'') else State_Monad.return ())
   else if gnuc b \<and> \<not> linked then throw (JException ''hostname verification requires OpenSSL 1.0.2+'')
   else if \<not> has_host_validation b then throw (JException ''hostname verification requires OpenSSL 1.0.2+'')
   else if hostnameString = 0 then State_Monad.return ()
   else do {
     param \<leftarrow> ffi x SSL_get0_param [ssl];
     ffi x X509_VERIFY_PARAM_set_hostflags [param, flags];
     hostnameLen \<leftarrow> ffi x GetStringUTFLength [hostnameString];
     if hostnameLen = 0 then State_Monad.return ()
     else do {
       hostname \<leftarrow> ffi x GetStringUTFChars [hostnameString];
       if hostname = 0 then State_Monad.return ()
       else do {
         r \<leftarrow> ffi x X509_VERIFY_PARAM_set1_host [param, hostname, hostnameLen];
         (if r \<noteq> 1 then throw_ssl_error x errstr ''X509_VERIFY_PARAM_set1_host error''
          else State_Monad.return ());
         ffi x ReleaseStringUTFChars [hostnameString, hostname];
         State_Monad.return () } } })"

definition setNumTickets ::
  "build \<Rightarrow> bool \<Rightarrow> cfg_fn ext \<Rightarrow> tcn_ssl_ctxt option \<Rightarrow> int \<Rightarrow> (cfg_fn, bool) io" where
  "setNumTickets b linked x cp num =
   CHECK_CTX cp False (\<lambda>c.
   if boring b then State_Monad.return False
   else if gnuc b \<and> \<not> linked then State_Monad.return False
   else if openssl_version_number b \<ge> 0x10101000 \<or> gnuc b
   then do { r \<leftarrow> ffi x SSL_CTX_set_num_tickets [ctx c, num]; State_Monad.return (0 < r) }
   else State_Monad.return False)"

text \<open>
  \<^verbatim>\<open>SSLContext.setContextId\<close> writes the SHA-1 digest of the string over the first bytes of
  \<^verbatim>\<open>context_id\<close>. \<open>utf\<close> is the pinned string (\<open>None\<close>: null, or out of memory), \<open>digest\<close> the result of
  \<^verbatim>\<open>EVP_Digest\<close> (\<open>None\<close>: failed).
\<close>

definition setContextId ::
  "(byte list \<Rightarrow> byte list option) \<Rightarrow> tcn_ssl_ctxt option \<Rightarrow> byte list option \<Rightarrow> jexc + tcn_ssl_ctxt cres" where
  "setContextId digest cp utf =
   (case cp of None \<Rightarrow> Inl (NullPointerException ''ctx'')
    | Some c \<Rightarrow> Inr
      (case utf of None \<Rightarrow> Inr c
       | Some s \<Rightarrow>
         (case digest s of None \<Rightarrow> Inr c
          | Some d \<Rightarrow> cbind (mem_write (context_id c) 0 d) (\<lambda>blk. Inr (c\<lparr>context_id := blk\<rparr>)))))"

section \<open>Arrays of names\<close>

text \<open>
  What can go wrong on the Java side while an array of strings is built: \<^verbatim>\<open>NewObjectArray\<close>, and
  \<^verbatim>\<open>NewStringUTF\<close> for the element at an index.
\<close>

record names_env =
  array_ok :: bool
  name_ok :: "nat \<Rightarrow> bool"

fun names_loop :: "names_env \<Rightarrow> nat \<Rightarrow> string list \<Rightarrow> string list \<Rightarrow> string list option" where
  "names_loop env i [] acc = Some acc"
| "names_loop env i (n # ns) acc =
     (if \<not> name_ok env i then None else names_loop env (Suc i) ns (acc @ [n]))"

lemma names_loop_eq:
  "names_loop env i ns acc =
   (if \<forall>k < length ns. name_ok env (i + k) then Some (acc @ ns) else None)"
proof (induction ns arbitrary: i acc)
  case Nil
  show ?case by simp
next
  case (Cons n ns)
  then show ?case by (auto simp: less_Suc_eq_0_disj)
qed

text \<open>
  The stack returned by \<^verbatim>\<open>SSL_get_ciphers\<close> may be \<^verbatim>\<open>NULL\<close>; its length is then \<open>-1\<close> in OpenSSL and \<open>0\<close> in
  BoringSSL.
\<close>

definition sk_num :: "build \<Rightarrow> 'a list option \<Rightarrow> int" where
  "sk_num b sk = (case sk of None \<Rightarrow> if boring b then 0 else -1 | Some xs \<Rightarrow> int (length xs))"

definition getCiphers ::
  "build \<Rightarrow> (SSL_CIPHER \<Rightarrow> string) \<Rightarrow> names_env \<Rightarrow> int \<Rightarrow> SSL_CIPHER list option \<Rightarrow> jexc + string list option" where
  "getCiphers b cipher_name env ssl sk =
   (if ssl = 0 then Inl (NullPointerException ''ssl'')
    else if sk_num b sk \<le> 0 then Inr None
    else if \<not> array_ok env then Inr None
    else Inr (names_loop env 0 (map cipher_name (case sk of None \<Rightarrow> [] | Some cs \<Rightarrow> cs)) []))"

text \<open>\<^verbatim>\<open>NewObjectArray\<close> throws on a negative length, which \<^verbatim>\<open>authenticationMethods\<close> does not exclude.\<close>

definition authenticationMethods ::
  "build \<Rightarrow> names_env \<Rightarrow> int \<Rightarrow> SSL_CIPHER list option \<Rightarrow> jexc + string list option" where
  "authenticationMethods b env ssl sk =
   (if ssl = 0 then Inl (NullPointerException ''ssl'')
    else if sk_num b sk < 0 then Inl (JException ''NegativeArraySizeException'')
    else if \<not> array_ok env then Inr None
    else Inr (names_loop env 0
           (map (tcn_SSL_cipher_authentication_method b) (case sk of None \<Rightarrow> [] | Some cs \<Rightarrow> cs)) []))"

text \<open>
  \<^verbatim>\<open>getSigAlgs\<close>. With BoringSSL the names of the known algorithms are first collected in a heap block
  of one pointer for each algorithm (\<open>algs\<close>, in the heap \<open>heap\<close> of live blocks), with OpenSSL they come one
  by one from \<^verbatim>\<open>SSL_get_sigalgs\<close>. The result is the array and the live blocks.
\<close>

fun sigalg_loop :: "(nat \<Rightarrow> string option) \<Rightarrow> nat list \<Rightarrow> string option list \<Rightarrow> nat \<Rightarrow> (string option list \<times> nat) cres" where
  "sigalg_loop alg_name [] algs k = Inr (algs, k)"
| "sigalg_loop alg_name (a # as) algs k =
     (case alg_name a of None \<Rightarrow> sigalg_loop alg_name as algs k
      | Some n \<Rightarrow>
        if k < length algs then sigalg_loop alg_name as (algs[k := Some n]) (Suc k)
        else Inl (UB Out_Of_Bounds))"

definition sigalgs_boring ::
  "(nat \<Rightarrow> string option) \<Rightarrow> names_env \<Rightarrow> int \<Rightarrow> nat list \<Rightarrow> int list \<Rightarrow> (string list option \<times> int list) cres" where
  "sigalgs_boring alg_name env malloc peer_sigalgs heap =
   (if length peer_sigalgs \<le> 0 then Inr (None, heap)
    else if malloc = 0 then Inr (None, heap)
    else
      cbind (sigalg_loop alg_name peer_sigalgs (replicate (length peer_sigalgs) None) 0) (\<lambda>(algs, num_known_sigalgs).
      let array =
        (if num_known_sigalgs = 0 then None
         else if \<not> array_ok env then None
         else names_loop env 0 (map the (take num_known_sigalgs algs)) []);
        heap1 = malloc # heap
      in Inr (array, remove1 malloc heap1)))"

definition sigalgs_openssl ::
  "build \<Rightarrow> bool \<Rightarrow> names_env \<Rightarrow> string list \<Rightarrow> string list option cres" where
  "sigalgs_openssl b linked env algs =
   (if gnuc b \<and> \<not> linked then Inr None
    else if openssl_version_number b \<ge> 0x10002000 \<or> gnuc b then
      (if length algs \<le> 0 then Inr None
       else if \<not> array_ok env then Inr None
       else Inr (names_loop env 0 algs []))
    else Inl (UB No_Return_Value))"

definition getSigAlgs ::
  "build \<Rightarrow> bool \<Rightarrow> (nat \<Rightarrow> string option) \<Rightarrow> names_env \<Rightarrow> int \<Rightarrow> int \<Rightarrow> nat list \<Rightarrow> string list \<Rightarrow> int list
    \<Rightarrow> (string list option \<times> int list) cres" where
  "getSigAlgs b linked alg_name env malloc ssl peer_sigalgs algs heap =
   (if ssl = 0 then Inl (Exn (NullPointerException ''ssl''))
    else if libressl_version_number b \<noteq> None then Inr (None, heap)
    else if boring b then sigalgs_boring alg_name env malloc peer_sigalgs heap
    else cbind (sigalgs_openssl b linked env algs) (\<lambda>r. Inr (r, heap)))"

text \<open>\<^verbatim>\<open>getGroupName\<close>: \<open>gid\<close> and \<open>gname\<close> are the answers of BoringSSL, \<open>name0\<close> that of \<^verbatim>\<open>SSL_get0_group_name\<close>.\<close>

definition getGroupName ::
  "build \<Rightarrow> (int \<Rightarrow> string option) \<Rightarrow> int \<Rightarrow> int \<Rightarrow> string option \<Rightarrow> jexc + string option" where
  "getGroupName b gname ssl gid name0 =
   (if ssl = 0 then Inl (NullPointerException ''ssl'')
    else if boring b then Inr (if gid = 0 then None else gname gid)
    else if libressl_version_number b \<noteq> None \<or> openssl_version_number b < 0x30200000 then Inr None
    else Inr name0)"

section \<open>Pinned Java data\<close>

text \<open>
  The strings and arrays that a sequence of calls leaves pinned, given the calls \<open>h\<close> made before. A
  successful \<^verbatim>\<open>GetStringUTFChars\<close> or \<^verbatim>\<open>GetIntArrayElements\<close> pins its result until it is passed to the
  release function.
\<close>

definition pin_step :: "cfg_fn ext \<Rightarrow> cfg_fn call list \<Rightarrow> cfg_fn call \<Rightarrow> int multiset \<Rightarrow> int multiset" where
  "pin_step x h k m =
   (if callee k \<in> {GetStringUTFChars, GetIntArrayElements}
    then (if ret x h k = 0 then m else add_mset (ret x h k) m)
    else if callee k \<in> {ReleaseStringUTFChars, ReleaseIntArrayElements} then m - {#last (args k)#}
    else m)"

fun pinned :: "cfg_fn ext \<Rightarrow> cfg_fn call list \<Rightarrow> cfg_fn call list \<Rightarrow> int multiset \<Rightarrow> int multiset" where
  "pinned x h [] m = m"
| "pinned x h (k # ks) m = pinned x (h @ [k]) ks (pin_step x h k m)"

text \<open>A run from \<open>w\<close> to \<open>w'\<close> that adds calls and releases whatever it pins.\<close>

definition nothing_pinned :: "cfg_fn ext \<Rightarrow> cfg_fn world \<Rightarrow> cfg_fn world \<Rightarrow> bool" where
  "nothing_pinned x w w' \<longleftrightarrow>
     take (length (calls w)) (calls w') = calls w
   \<and> (\<forall>p. pinned x (calls w) (drop (length (calls w)) (calls w')) p = p)"

lemmas cfg_helper_defs = TCN_ALLOC_CSTRING_def TCN_FREE_CSTRING_def throw_ssl_error_def
  tcn_SSL_CTX_set1_curves_list_def tcn_SSL_set1_curves_list_def tcn_SSL_set1_curves_def

lemmas pin_simps = cfg_helper_defs nothing_pinned_def pin_step_def Let_def

lemma pins_setCipherSuite:
  "nothing_pinned x w (snd (run_state (setCipherSuite b errstr x cp ciphers tlsv13) w))"
  by (cases cp) (simp_all add: setCipherSuite_def pin_simps)

lemma pins_setCipherSuites:
  "nothing_pinned x w (snd (run_state (setCipherSuites b errstr x ssl ciphers tlsv13) w))"
  by (simp add: setCipherSuites_def pin_simps)

lemma pins_setCurvesList0:
  "nothing_pinned x w (snd (run_state (SSLContext_setCurvesList0 b x cp curves) w))"
  "nothing_pinned x w (snd (run_state (SSL_setCurvesList0 b x ssl curves) w))"
  by (cases cp) (simp_all add: SSLContext_setCurvesList0_def SSL_setCurvesList0_def pin_simps)

lemma pins_setCurves0: "nothing_pinned x w (snd (run_state (setCurves0 b x ssl curves) w))"
  by (simp add: setCurves0_def pin_simps)

lemma pins_setTlsExtHostName0:
  "nothing_pinned x w (snd (run_state (setTlsExtHostName0 errstr x ssl host) w))"
  by (simp add: setTlsExtHostName0_def pin_simps)

lemma pins_setHostNameValidation:
  "nothing_pinned x w (snd (run_state (setHostNameValidation b linked errstr x ssl flags host) w))"
  by (simp add: setHostNameValidation_def pin_simps)

section \<open>The two ways to set cipher suites\<close>

text \<open>The library call on a connection that corresponds to a call on a context.\<close>

definition conn_call :: "int \<Rightarrow> cfg_fn call \<Rightarrow> cfg_fn call" where
  "conn_call ssl k =
   (case callee k of
      SSL_CTX_set_cipher_list \<Rightarrow> Call SSL_set_cipher_list (ssl # tl (args k))
    | SSL_CTX_set_ciphersuites \<Rightarrow> Call SSL_set_ciphersuites (ssl # tl (args k))
    | _ \<Rightarrow> k)"

definition conn_ext :: "int \<Rightarrow> cfg_fn ext \<Rightarrow> cfg_fn ext" where
  "conn_ext ssl x =
   \<lparr>ret = \<lambda>h k. ret x (map (conn_call ssl) h) (conn_call ssl k),
    outp = \<lambda>h k i. outp x (map (conn_call ssl) h) (conn_call ssl k) i\<rparr>"

definition conn_world :: "int \<Rightarrow> cfg_fn world \<Rightarrow> cfg_fn world" where
  "conn_world ssl w = w\<lparr>calls := map (conn_call ssl) (calls w)\<rparr>"

section \<open>Known signature algorithms\<close>

lemma sigalg_loop_known:
  "k + length as \<le> length algs \<Longrightarrow>
   \<exists>algs'. sigalg_loop alg_name as algs k = Inr (algs', k + length (List.map_filter alg_name as))
         \<and> length algs' = length algs
         \<and> take (k + length (List.map_filter alg_name as)) algs' =
             take k algs @ map Some (List.map_filter alg_name as)"
proof (induction as arbitrary: algs k)
  case Nil
  then show ?case by simp
next
  case (Cons a as)
  show ?case
  proof (cases "alg_name a")
    case None
    then show ?thesis using Cons.IH [of k algs] Cons.prems by simp
  next
    case (Some n)
    then show ?thesis
      using Cons.IH [of "Suc k" "algs[k := Some n]"] Cons.prems
      by (auto simp: take_Suc_conv_app_nth)
  qed
qed

lemma sigalgs_boring_eq:
  "sigalgs_boring alg_name env malloc as heap =
   Inr (let known = List.map_filter alg_name as in
        if malloc \<noteq> 0 \<and> array_ok env \<and> known \<noteq> [] \<and> (\<forall>i < length known. name_ok env i)
        then Some known else None, heap)"
proof (cases "as = []")
  case True
  then show ?thesis by (simp add: sigalgs_boring_def)
next
  case False
  obtain algs where l: "sigalg_loop alg_name as (replicate (length as) None) 0
      = Inr (algs, length (List.map_filter alg_name as))"
    and t: "take (length (List.map_filter alg_name as)) algs = map Some (List.map_filter alg_name as)"
    using sigalg_loop_known [of 0 as "replicate (length as) None" alg_name] by auto
  have m: "map the (map Some ks) = ks" for ks :: "string list" by (induction ks) simp_all
  show ?thesis using False
    by (auto simp: sigalgs_boring_def l t m names_loop_eq Let_def simp del: map_map)
qed

section \<open>Properties\<close>

text \<open>
  C35. \<^verbatim>\<open>SSL.setCipherSuites\<close> does for a connection what \<^verbatim>\<open>SSLContext.setCipherSuite\<close> does for a context,
  on every build but AWS-LC: for any answers of the library and the JVM the two functions return the same
  value, throw the same exceptions and make the same calls, with the connection and its functions in
  place of the context and its functions.
\<close>

theorem cipher_suites_agree:
  assumes "ssl \<noteq> 0" "openssl_is_awslc b \<longrightarrow> openssl_is_boringssl b \<or> openssl_no_tls1_3 b"
  shows "run_state (setCipherSuites b errstr x ssl ciphers tlsv13) (conn_world ssl w) =
    (let (v, w') = run_state (setCipherSuite b errstr (conn_ext ssl x) (Some c) ciphers tlsv13) w
     in (v, conn_world ssl w'))"
  using assms
  by (cases "openssl_is_awslc b"; cases "openssl_is_boringssl b")
    (simp_all add: setCipherSuites_def setCipherSuite_def cfg_helper_defs conn_world_def conn_ext_def
      conn_call_def Let_def)

theorem cipher_suites_agree_witness:
  "(let b = \<lparr>openssl_is_boringssl = False, openssl_is_awslc = False, libressl_version_number = None,
              openssl_version_number = 0x30000000, openssl_no_tls1_3 = False, openssl_no_ocsp = False,
              openssl_no_engine = False, gnuc = True\<rparr>;
        x = \<lparr>ret = \<lambda>h k. if callee k = SSL_set_ciphersuites then 0 else 1, outp = \<lambda>h k i. 0\<rparr> in
    run_state (setCipherSuites b (\<lambda>n. ''e'') x 7 4 True) (conn_world 7 world_init)
    = (False, conn_world 7 (snd (run_state
        (setCipherSuite b (\<lambda>n. ''e'') (conn_ext 7 x) (Some ctxt_zero) 4 True) world_init))))"
  by (simp only: Let_def, subst cipher_suites_agree [where c = ctxt_zero])
    (simp_all add: setCipherSuite_def cfg_helper_defs conn_ext_def conn_call_def world_init_def)

text \<open>
  With AWS-LC and TLS 1.3 the context variant accepts the suites without asking the library, the
  connection variant sets them.
\<close>

lemma cipher_suites_differ_awslc:
  assumes "openssl_is_awslc b" "\<not> openssl_is_boringssl b" "\<not> openssl_no_tls1_3 b" "ssl \<noteq> 0" "ciphers \<noteq> 0"
    and "\<And>h. ret x h (Call GetStringUTFLength [ciphers]) = 9" "\<And>h. ret x h (Call GetStringUTFChars [ciphers]) = 3"
    and "\<And>h. ret x h (Call SSL_set_ciphersuites [ssl, 3]) = 0"
  shows "fst (run_state (setCipherSuite b errstr x (Some c) ciphers True) w)
       \<and> \<not> fst (run_state (setCipherSuites b errstr x ssl ciphers True) w)"
  using assms by (simp add: setCipherSuites_def setCipherSuite_def cfg_helper_defs Let_def)


text \<open>
  With BoringSSL the signature algorithms reported to Java are the peer's algorithms that the library
  knows, in the peer's order; there is no array when none is known or memory is
  short. The collecting loop stays inside its block, and the block is freed on every path. The
  authentication methods are those of the connection's ciphers, in order.
\<close>

theorem name_arrays_result:
  assumes "ssl \<noteq> 0"
  shows "(boring b \<and> libressl_version_number b = None \<longrightarrow>
      getSigAlgs b linked alg_name env malloc ssl as algs heap =
      Inr (let known = List.map_filter alg_name as in
           if malloc \<noteq> 0 \<and> array_ok env \<and> known \<noteq> [] \<and> (\<forall>i < length known. name_ok env i)
           then Some known else None, heap))
    \<and> authenticationMethods b env ssl (Some cs) =
      Inr (if array_ok env \<and> (\<forall>i < length cs. name_ok env i)
           then Some (map (tcn_SSL_cipher_authentication_method b) cs) else None)
    \<and> getCiphers b cipher_name env ssl (Some cs) =
      Inr (if array_ok env \<and> cs \<noteq> [] \<and> (\<forall>i < length cs. name_ok env i)
           then Some (map cipher_name cs) else None)"
proof (intro conjI)
  show "boring b \<and> libressl_version_number b = None \<longrightarrow>
      getSigAlgs b linked alg_name env malloc ssl as algs heap =
      Inr (let known = List.map_filter alg_name as in
           if malloc \<noteq> 0 \<and> array_ok env \<and> known \<noteq> [] \<and> (\<forall>i < length known. name_ok env i)
           then Some known else None, heap)"
    using assms by (simp add: getSigAlgs_def sigalgs_boring_eq)
  show "authenticationMethods b env ssl (Some cs) =
      Inr (if array_ok env \<and> (\<forall>i < length cs. name_ok env i)
           then Some (map (tcn_SSL_cipher_authentication_method b) cs) else None)"
    using assms by (auto simp: authenticationMethods_def sk_num_def names_loop_eq)
  show "getCiphers b cipher_name env ssl (Some cs) =
      Inr (if array_ok env \<and> cs \<noteq> [] \<and> (\<forall>i < length cs. name_ok env i)
           then Some (map cipher_name cs) else None)"
    using assms by (auto simp: getCiphers_def sk_num_def names_loop_eq)
qed

theorem name_arrays_result_witness:
  "getSigAlgs \<lparr>openssl_is_boringssl = True, openssl_is_awslc = False, libressl_version_number = None,
      openssl_version_number = 0x10100000, openssl_no_tls1_3 = False, openssl_no_ocsp = False,
      openssl_no_engine = False, gnuc = True\<rparr> True (\<lambda>n. if n = 1 then None else Some ''alg'')
     \<lparr>array_ok = True, name_ok = \<lambda>i. True\<rparr> 8 5 [3, 1] [] [2] = Inr (Some [''alg''], [2])"
  using name_arrays_result [of 5 "\<lparr>openssl_is_boringssl = True, openssl_is_awslc = False,
      libressl_version_number = None, openssl_version_number = 0x10100000, openssl_no_tls1_3 = False,
      openssl_no_ocsp = False, openssl_no_engine = False, gnuc = True\<rparr>" True
      "\<lambda>n. if n = 1 then None else Some ''alg''" "\<lparr>array_ok = True, name_ok = \<lambda>i. True\<rparr>" 8 "[3, 1]" "[]" "[2]"]
  by (simp add: boring_def)

text \<open>A context id keeps its length when the digest has no more bytes than the field.\<close>

lemma context_id_length:
  assumes "digest s = Some d" "length d \<le> length (context_id c)"
  shows "\<exists>c'. setContextId digest (Some c) (Some s) = Inr (Inr c') \<and> length (context_id c') = length (context_id c)
     \<and> take (length d) (context_id c') = d"
  using assms by (simp add: setContextId_def mem_write_def)

end
