(* ===== verification/Library_Load.thy ===== *)
theory Library_Load
  imports Tcn_Prelude
begin

text \<open>
  Loading and unloading of the native library: \<^verbatim>\<open>jnilib.c\<close> and the \<^verbatim>\<open>JNI_OnLoad\<close> and \<^verbatim>\<open>JNI_OnUnLoad\<close>
  functions of \<^verbatim>\<open>error.c\<close>, \<^verbatim>\<open>bb.c\<close>, \<^verbatim>\<open>native_constants.c\<close>, \<^verbatim>\<open>ssl.c\<close>, \<^verbatim>\<open>sslcontext.c\<close>, \<^verbatim>\<open>sslsession.c\<close> and
  \<^verbatim>\<open>sslcredential.c\<close>, which register native methods and keep references to classes.

  The functions and macros of netty-jni-util, the JVM and APR are foreign: what a call answers is a
  parameter that may depend on the calls before it. The state records these calls and, for the
  accounting, the registrations and class references that are live: a successful registration or class
  look-up adds one, the inverse call takes it away.

  The locale \<open>jni_module\<close> is the contract between \<^verbatim>\<open>jnilib.c\<close> and a module: what a module owns
  after it was loaded, what a failed load may leave behind, and that unloading gives it all back.
\<close>

section \<open>Foreign calls and what they own\<close>

datatype jmodule =
    M_Error | M_Buffer | M_Constants | M_SSL | M_SSLContext | M_SSLSession | M_SSLCredential | M_Library

datatype lib_fn =
    Register_Natives jmodule | Unregister_Natives jmodule
  | Load_Class string | Unload_Class string
  | Load_Class_Weak string | Unload_Class_Weak string
  | New_Local_From_Weak string | Delete_Local string
  | Get_Method string string | Get_Field string string
  | Prepend_Package string | Prepend string string | Malloc_Table | Free_Table | Free_Name | Strdup_Prefix | Free_Prefix
  | Apr_Terminate | Throw_Unsupported_Apr

datatype lib_res = Natives jmodule | Class string | Weak string

record lib_world =
  done_calls :: "lib_fn list"
  live :: "lib_res set"

type_synonym 'a lio = "(lib_world, 'a) state"
type_synonym lib_ext = "lib_fn list \<Rightarrow> lib_fn \<Rightarrow> int"

text \<open>Registration returns \<open>0\<close> on success; the macros that look something up give \<open>0\<close> when they jump to \<^verbatim>\<open>error\<close>.\<close>

fun effect :: "lib_fn \<Rightarrow> int \<Rightarrow> lib_res set \<Rightarrow> lib_res set" where
  "effect (Register_Natives m) r R = (if r = 0 then insert (Natives m) R else R)"
| "effect (Unregister_Natives m) r R = R - {Natives m}"
| "effect (Load_Class c) r R = (if r \<noteq> 0 then insert (Class c) R else R)"
| "effect (Unload_Class c) r R = R - {Class c}"
| "effect (Load_Class_Weak c) r R = (if r \<noteq> 0 then insert (Weak c) R else R)"
| "effect (Unload_Class_Weak c) r R = R - {Weak c}"
| "effect _ r R = R"

definition jcall :: "lib_ext \<Rightarrow> lib_fn \<Rightarrow> int lio" where
  "jcall x f = State (\<lambda>s. let r = x (done_calls s) f in
     (r, s\<lparr>done_calls := done_calls s @ [f], live := effect f r (live s)\<rparr>))"

fun jcalls :: "lib_ext \<Rightarrow> lib_fn list \<Rightarrow> unit lio" where
  "jcalls x [] = State_Monad.return ()"
| "jcalls x (f # fs) = do { jcall x f; jcalls x fs }"

text \<open>Macro calls in sequence, each of which jumps to \<^verbatim>\<open>error\<close> when it fails.\<close>

fun steps :: "lib_ext \<Rightarrow> lib_fn list \<Rightarrow> bool lio" where
  "steps x [] = State_Monad.return True"
| "steps x (f # fs) = do { r \<leftarrow> jcall x f; if r = 0 then State_Monad.return False else steps x fs }"

datatype load_result = JNI_ERR | JNI_VERSION

section \<open>The modules\<close>

text \<open>\<^verbatim>\<open>error.c\<close> keeps the exception classes.\<close>

definition exception_classes :: "string list" where
  "exception_classes = [''java/lang/Exception'', ''java/lang/NullPointerException'',
     ''java/lang/IllegalArgumentException'', ''java/lang/UnsupportedOperationException'',
     ''java/lang/OutOfMemoryError'']"

definition Error_JNI_OnLoad :: "lib_ext \<Rightarrow> load_result lio" where
  "Error_JNI_OnLoad x =
   do { ok \<leftarrow> steps x (map Load_Class exception_classes);
        State_Monad.return (if ok then JNI_VERSION else JNI_ERR) }"

definition Error_JNI_OnUnLoad :: "lib_ext \<Rightarrow> unit lio" where
  "Error_JNI_OnUnLoad x = jcalls x (map Unload_Class exception_classes)"

text \<open>The modules that only register their methods: \<^verbatim>\<open>Buffer\<close>, the constants, \<^verbatim>\<open>SSL\<close>, \<^verbatim>\<open>SSLSession\<close>, \<^verbatim>\<open>SSLCredential\<close>.\<close>

definition register_module :: "lib_ext \<Rightarrow> jmodule \<Rightarrow> load_result lio" where
  "register_module x m =
   do { r \<leftarrow> jcall x (Register_Natives m);
        State_Monad.return (if r \<noteq> 0 then JNI_ERR else JNI_VERSION) }"

definition Buffer_JNI_OnLoad :: "lib_ext \<Rightarrow> load_result lio" where
  "Buffer_JNI_OnLoad x = register_module x M_Buffer"

definition Buffer_JNI_OnUnLoad :: "lib_ext \<Rightarrow> unit lio" where
  "Buffer_JNI_OnUnLoad x = jcalls x [Unregister_Natives M_Buffer]"

definition NativeConstants_JNI_OnLoad :: "lib_ext \<Rightarrow> load_result lio" where
  "NativeConstants_JNI_OnLoad x = register_module x M_Constants"

definition NativeConstants_JNI_OnUnLoad :: "lib_ext \<Rightarrow> unit lio" where
  "NativeConstants_JNI_OnUnLoad x = jcalls x [Unregister_Natives M_Constants]"

definition SSL_JNI_OnLoad :: "lib_ext \<Rightarrow> load_result lio" where
  "SSL_JNI_OnLoad x = register_module x M_SSL"

definition SSL_JNI_OnUnLoad :: "lib_ext \<Rightarrow> unit lio" where
  "SSL_JNI_OnUnLoad x = jcalls x [Unregister_Natives M_SSL]"

definition SSLSession_JNI_OnLoad :: "lib_ext \<Rightarrow> load_result lio" where
  "SSLSession_JNI_OnLoad x = register_module x M_SSLSession"

definition SSLSession_JNI_OnUnLoad :: "lib_ext \<Rightarrow> unit lio" where
  "SSLSession_JNI_OnUnLoad x = jcalls x [Unregister_Natives M_SSLSession]"

definition SSLCredential_JNI_OnLoad :: "lib_ext \<Rightarrow> load_result lio" where
  "SSLCredential_JNI_OnLoad x = register_module x M_SSLCredential"

definition SSLCredential_JNI_OnUnLoad :: "lib_ext \<Rightarrow> unit lio" where
  "SSLCredential_JNI_OnUnLoad x = jcalls x [Unregister_Natives M_SSLCredential]"

section \<open>The SSLContext module\<close>

text \<open>
  The method table of \<^verbatim>\<open>SSLContext\<close> is built at run time because its signatures contain the package
  prefix. An entry is the interface of the callback with the end of the signature, and the beginning of
  the signature.
\<close>

definition dynamic_methods :: "(string \<times> string) list" where
  "dynamic_methods =
    [(''CertificateVerifier;)V'', ''(JL''), (''CertificateRequestedCallback;)V'', ''(JL''),
     (''CertificateCallback;)V'', ''(JL''), (''SniHostNameMatcher;)V'', ''(JL''),
     (''KeyLogCallback;)Z'', ''(JL''), (''AsyncSSLPrivateKeyMethod;)V'', ''(JL''),
     (''SSLSessionCache;)V'', ''(JL''), (''CertificateCompressionAlgo;)I'', ''(JIIL'')]"

definition tcn_class :: "string \<Rightarrow> string" where
  "tcn_class n = ''io/netty/internal/tcnative/'' @ n"

fun dynamic_entries :: "lib_ext \<Rightarrow> (string \<times> string) list \<Rightarrow> bool lio" where
  "dynamic_entries x [] = State_Monad.return True"
| "dynamic_entries x ((iface, sig) # es) =
   do { a \<leftarrow> jcall x (Prepend_Package (tcn_class iface));
        if a = 0 then State_Monad.return False
        else do {
          s \<leftarrow> jcall x (Prepend sig (tcn_class iface));
          if s = 0 then State_Monad.return False
          else do { jcall x Free_Name; dynamic_entries x es } } }"

text \<open>The address of the table, \<open>0\<close> when it cannot be built.\<close>

definition createDynamicMethodsTable :: "lib_ext \<Rightarrow> int lio" where
  "createDynamicMethodsTable x =
   do { dynamicMethods \<leftarrow> jcall x Malloc_Table;
        ok \<leftarrow> (if dynamicMethods = 0 then State_Monad.return False else dynamic_entries x dynamic_methods);
        if ok then State_Monad.return dynamicMethods
        else do { jcalls x [Free_Table, Free_Name]; State_Monad.return 0 } }"

definition load_task_class :: "string \<Rightarrow> lib_fn list" where
  "load_task_class n =
    [Prepend_Package (tcn_class n), Load_Class_Weak (tcn_class n), New_Local_From_Weak (tcn_class n)]"

definition task_constructor :: "string \<Rightarrow> string \<Rightarrow> string \<Rightarrow> lib_fn list" where
  "task_constructor n sig arg =
    [Prepend_Package (tcn_class arg @ '';)V''), Prepend sig (tcn_class arg @ '';)V''),
     Get_Method (tcn_class n) ''<init>'']"

definition SSLContext_steps :: "lib_fn list" where
  "SSLContext_steps =
     load_task_class ''SSLTask''
   @ [Get_Field (tcn_class ''SSLTask'') ''returnValue'', Get_Field (tcn_class ''SSLTask'') ''complete'']
   @ load_task_class ''CertificateCallbackTask''
   @ task_constructor ''CertificateCallbackTask'' ''(J[B[[BL'' ''CertificateCallback''
   @ load_task_class ''CertificateVerifierTask''
   @ task_constructor ''CertificateVerifierTask'' ''(J[[BLjava/lang/String;L'' ''CertificateVerifier''
   @ load_task_class ''SSLPrivateKeyMethodTask''
   @ [Get_Field (tcn_class ''SSLPrivateKeyMethodTask'') ''resultBytes'']
   @ load_task_class ''SSLPrivateKeyMethodSignTask''
   @ task_constructor ''SSLPrivateKeyMethodSignTask'' ''(JI[BL'' ''AsyncSSLPrivateKeyMethod''
   @ load_task_class ''SSLPrivateKeyMethodDecryptTask''
   @ task_constructor ''SSLPrivateKeyMethodDecryptTask'' ''(J[BL'' ''AsyncSSLPrivateKeyMethod''"

definition task_classes :: "string list" where
  "task_classes = map tcn_class [''SSLTask'', ''CertificateCallbackTask'', ''CertificateVerifierTask'',
     ''SSLPrivateKeyMethodTask'', ''SSLPrivateKeyMethodSignTask'', ''SSLPrivateKeyMethodDecryptTask'']"

definition context_load_error :: "lib_ext \<Rightarrow> load_result lio" where
  "context_load_error x =
   do { jcalls x ([Free_Name, Free_Name, Free_Table] @ map Delete_Local task_classes);
        State_Monad.return JNI_ERR }"

text \<open>\<open>prefix\<close> says that there is a package prefix to remember.\<close>

definition SSLContext_JNI_OnLoad :: "lib_ext \<Rightarrow> bool \<Rightarrow> load_result lio" where
  "SSLContext_JNI_OnLoad x prefix =
   do { dynamicMethods \<leftarrow> createDynamicMethodsTable x;
        if dynamicMethods = 0 then context_load_error x
        else do {
          r \<leftarrow> jcall x (Register_Natives M_SSLContext);
          if r \<noteq> 0 then context_load_error x
          else do {
            ok \<leftarrow> steps x SSLContext_steps;
            if \<not> ok then context_load_error x
            else do {
              (if prefix then jcalls x [Strdup_Prefix] else State_Monad.return ());
              State_Monad.return JNI_VERSION } } } }"

definition SSLContext_JNI_OnUnLoad :: "lib_ext \<Rightarrow> unit lio" where
  "SSLContext_JNI_OnUnLoad x =
     jcalls x (map Unload_Class_Weak task_classes @ [Free_Prefix, Unregister_Natives M_SSLContext])"

section \<open>The library\<close>

fun module_OnLoad :: "lib_ext \<Rightarrow> bool \<Rightarrow> jmodule \<Rightarrow> load_result lio" where
  "module_OnLoad x p M_Error = Error_JNI_OnLoad x"
| "module_OnLoad x p M_Buffer = Buffer_JNI_OnLoad x"
| "module_OnLoad x p M_Constants = NativeConstants_JNI_OnLoad x"
| "module_OnLoad x p M_SSL = SSL_JNI_OnLoad x"
| "module_OnLoad x p M_SSLContext = SSLContext_JNI_OnLoad x p"
| "module_OnLoad x p M_SSLSession = SSLSession_JNI_OnLoad x"
| "module_OnLoad x p M_SSLCredential = SSLCredential_JNI_OnLoad x"
| "module_OnLoad x p M_Library = register_module x M_Library"

fun module_OnUnLoad :: "lib_ext \<Rightarrow> jmodule \<Rightarrow> unit lio" where
  "module_OnUnLoad x M_Error = Error_JNI_OnUnLoad x"
| "module_OnUnLoad x M_Buffer = Buffer_JNI_OnUnLoad x"
| "module_OnUnLoad x M_Constants = NativeConstants_JNI_OnUnLoad x"
| "module_OnUnLoad x M_SSL = SSL_JNI_OnUnLoad x"
| "module_OnUnLoad x M_SSLContext = SSLContext_JNI_OnUnLoad x"
| "module_OnUnLoad x M_SSLSession = SSLSession_JNI_OnUnLoad x"
| "module_OnUnLoad x M_SSLCredential = SSLCredential_JNI_OnUnLoad x"
| "module_OnUnLoad x M_Library = jcalls x [Unregister_Natives M_Library]"

text \<open>The order in which \<^verbatim>\<open>jnilib.c\<close> loads the modules, and also unloads them.\<close>

definition load_order :: "jmodule list" where
  "load_order = [M_Error, M_Buffer, M_Constants, M_SSL, M_SSLContext, M_SSLSession, M_SSLCredential]"

text \<open>Load in order and stop at the first failure; the flags \<^verbatim>\<open>...OnLoadCalled\<close> are the list of the loaded modules.\<close>

fun load_modules :: "('m \<Rightarrow> load_result lio) \<Rightarrow> 'm list \<Rightarrow> 'm list \<Rightarrow> (bool \<times> 'm list) lio" where
  "load_modules onload [] loaded = State_Monad.return (True, loaded)"
| "load_modules onload (m # ms) loaded =
   do { r \<leftarrow> onload m;
        if r = JNI_ERR then State_Monad.return (False, loaded)
        else load_modules onload ms (loaded @ [m]) }"

fun unload_modules :: "('m \<Rightarrow> unit lio) \<Rightarrow> 'm list \<Rightarrow> unit lio" where
  "unload_modules onunload [] = State_Monad.return ()"
| "unload_modules onunload (m # ms) = do { onunload m; unload_modules onunload ms }"

definition string_class :: string where "string_class = ''java/lang/String''"
definition byte_array_class :: string where "byte_array_class = ''[B''"

text \<open>\<open>pool\<close> says that \<^verbatim>\<open>tcn_global_pool\<close> exists.\<close>

definition library_load_error :: "lib_ext \<Rightarrow> bool \<Rightarrow> jmodule list \<Rightarrow> load_result lio" where
  "library_load_error x pool loaded =
   do { (if pool then jcalls x [Unload_Class string_class, Apr_Terminate] else State_Monad.return ());
        jcalls x [Unload_Class byte_array_class, Unregister_Natives M_Library];
        unload_modules (module_OnUnLoad x) loaded;
        State_Monad.return JNI_ERR }"

definition apr_version_ok :: "int \<Rightarrow> int \<Rightarrow> int \<Rightarrow> bool" where
  "apr_version_ok major minor patch \<longleftrightarrow> \<not> major * 1000 + minor * 100 + patch < 1201"

definition Library_JNI_OnLoad :: "lib_ext \<Rightarrow> bool \<Rightarrow> bool \<Rightarrow> int \<times> int \<times> int \<Rightarrow> load_result lio" where
  "Library_JNI_OnLoad x prefix pool apv =
   do { r \<leftarrow> jcall x (Register_Natives M_Library);
        if r \<noteq> 0 then library_load_error x pool []
        else do {
          (ok, loaded) \<leftarrow> load_modules (module_OnLoad x prefix) load_order [];
          if \<not> ok then library_load_error x pool loaded
          else if \<not> (case apv of (ma, mi, pa) \<Rightarrow> apr_version_ok ma mi pa)
          then do { jcalls x [Throw_Unsupported_Apr]; library_load_error x pool loaded }
          else do {
            ok \<leftarrow> steps x [Load_Class string_class, Get_Method string_class ''<init>'',
                          Get_Method string_class ''getBytes'', Load_Class byte_array_class];
            if ok then State_Monad.return JNI_VERSION else library_load_error x pool loaded } } }"

definition Library_JNI_OnUnload :: "lib_ext \<Rightarrow> bool \<Rightarrow> unit lio" where
  "Library_JNI_OnUnload x pool =
   do { (if pool then jcalls x [Unload_Class string_class, Apr_Terminate] else State_Monad.return ());
        jcalls x [Unload_Class byte_array_class];
        unload_modules (module_OnUnLoad x) load_order;
        jcalls x [Free_Prefix] }"

section \<open>The contract of a module\<close>

locale jni_module =
  fixes onload :: "'m \<Rightarrow> load_result lio"
    and onunload :: "'m \<Rightarrow> unit lio"
    and owned :: "'m \<Rightarrow> lib_res set"
    and leftover :: "'m \<Rightarrow> lib_res set"
  assumes load_ok: "run_state (onload m) s = (JNI_VERSION, s') \<Longrightarrow> live s' = live s \<union> owned m"
    and load_err: "run_state (onload m) s = (JNI_ERR, s') \<Longrightarrow>
       live s \<subseteq> live s' \<and> live s' \<subseteq> live s \<union> leftover m"
    and unload: "live (snd (run_state (onunload m) s)) = live s - owned m"
begin

lemma load_all:
  "run_state (load_modules onload ms loaded) s = ((ok, loaded'), s') \<Longrightarrow>
   if ok then loaded' = loaded @ ms \<and> live s' = live s \<union> \<Union> (owned ` set ms)
   else \<exists>pre m post. ms = pre @ m # post \<and> loaded' = loaded @ pre
      \<and> live s' \<subseteq> live s \<union> \<Union> (owned ` set pre) \<union> leftover m"
proof (induction ms arbitrary: loaded s)
  case Nil
  then show ?case by auto
next
  case (Cons m ms)
  obtain r t where m: "run_state (onload m) s = (r, t)" by fastforce
  show ?case
  proof (cases r)
    case JNI_ERR
    then have "loaded' = loaded" "s' = t" "\<not> ok" using Cons.prems m by auto
    moreover have "live t \<subseteq> live s \<union> leftover m" using load_err m JNI_ERR by blast
    ultimately show ?thesis by (auto intro!: exI [of _ "[]"])
  next
    case JNI_VERSION
    then have t: "live t = live s \<union> owned m" using load_ok m by blast
    have IH: "if ok then loaded' = (loaded @ [m]) @ ms \<and> live s' = live t \<union> \<Union> (owned ` set ms)
       else \<exists>pre m' post. ms = pre @ m' # post \<and> loaded' = (loaded @ [m]) @ pre
          \<and> live s' \<subseteq> live t \<union> \<Union> (owned ` set pre) \<union> leftover m'"
      using Cons.IH [of "loaded @ [m]" t] Cons.prems m JNI_VERSION by simp
    show ?thesis
    proof (cases ok)
      case True
      then show ?thesis using IH t by auto
    next
      case False
      then obtain pre m' post where "ms = pre @ m' # post" "loaded' = loaded @ m # pre"
        "live s' \<subseteq> live t \<union> \<Union> (owned ` set pre) \<union> leftover m'"
        using IH by auto
      then show ?thesis using False t
        by (auto intro!: exI [of _ "m # pre"] exI [of _ m'])
    qed
  qed
qed

lemma unload_all:
  "live (snd (run_state (unload_modules onunload ms) s)) = live s - \<Union> (owned ` set ms)"
proof (induction ms arbitrary: s)
  case Nil
  show ?case by simp
next
  case (Cons m ms)
  show ?case using Cons.IH [of "snd (run_state (onunload m) s)"] unload [of m s]
    by (auto simp: split_beta)
qed

text \<open>A failed start followed by unloading what was loaded leaves at most what the failed module left.\<close>

lemma unwind:
  assumes "run_state (load_modules onload ms []) s = ((False, loaded), s')" "live s = R"
  shows "\<exists>m \<in> set ms. live (snd (run_state (unload_modules onunload loaded) s')) \<subseteq> R \<union> leftover m"
proof -
  obtain pre m post where "ms = pre @ m # post" "loaded = pre"
    "live s' \<subseteq> live s \<union> \<Union> (owned ` set pre) \<union> leftover m"
    using load_all [OF assms(1)] by auto
  then show ?thesis using assms(2) unload_all [of pre s'] by (auto intro!: bexI [of _ m])
qed

end

section \<open>The modules keep the contract\<close>

lemma run_jcall [simp]:
  "run_state (jcall x f) s =
     (x (done_calls s) f, s\<lparr>done_calls := done_calls s @ [f], live := effect f (x (done_calls s) f) (live s)\<rparr>)"
  by (simp add: jcall_def Let_def)

text \<open>What a call acquires when it succeeds and what it releases.\<close>

fun acquires :: "lib_fn \<Rightarrow> lib_res set" where
  "acquires (Load_Class c) = {Class c}"
| "acquires (Load_Class_Weak c) = {Weak c}"
| "acquires _ = {}"

fun releases :: "lib_fn \<Rightarrow> lib_res set" where
  "releases (Unregister_Natives m) = {Natives m}"
| "releases (Unload_Class c) = {Class c}"
| "releases (Unload_Class_Weak c) = {Weak c}"
| "releases _ = {}"

fun neutral :: "lib_fn \<Rightarrow> bool" where
  "neutral (Register_Natives m) = False"
| "neutral (Load_Class c) = False"
| "neutral (Load_Class_Weak c) = False"
| "neutral _ = True"

fun acquiring :: "lib_fn \<Rightarrow> bool" where
  "acquiring (Register_Natives m) = False"
| "acquiring f = (releases f = {})"

lemma effect_neutral: "neutral f \<Longrightarrow> effect f r R = R - releases f"
  by (cases f) auto

lemma effect_acquiring: "acquiring f \<Longrightarrow> effect f r R = (if r \<noteq> 0 then R \<union> acquires f else R)"
  by (cases f) auto

lemma jcalls_live:
  "list_all neutral fs \<Longrightarrow> live (snd (run_state (jcalls x fs) s)) = live s - \<Union> (releases ` set fs)"
proof (induction fs arbitrary: s)
  case Nil
  show ?case by simp
next
  case (Cons f fs)
  then show ?case by (auto simp: effect_neutral split_beta)
qed

lemma steps_live:
  "list_all acquiring fs \<Longrightarrow> run_state (steps x fs) s = (ok, s') \<Longrightarrow>
   live s \<subseteq> live s' \<and> live s' \<subseteq> live s \<union> \<Union> (acquires ` set fs)
   \<and> (ok \<longrightarrow> live s' = live s \<union> \<Union> (acquires ` set fs))"
proof (induction fs arbitrary: s)
  case Nil
  then show ?case by simp
next
  case (Cons f fs)
  let ?r = "x (done_calls s) f"
  let ?t = "s\<lparr>done_calls := done_calls s @ [f], live := effect f ?r (live s)\<rparr>"
  show ?case
  proof (cases "?r = 0")
    case True
    then show ?thesis using Cons.prems by (auto simp: effect_acquiring)
  next
    case False
    then have "run_state (steps x fs) ?t = (ok, s')" using Cons.prems by simp
    moreover have "live ?t = live s \<union> acquires f" using False Cons.prems(1) by (simp add: effect_acquiring)
    ultimately show ?thesis using Cons.IH [of ?t] Cons.prems(1) by auto
  qed
qed

lemma dynamic_entries_live [simp]:
  "live (snd (run_state (dynamic_entries x es) s)) = live s"
  by (induction x es arbitrary: s rule: dynamic_entries.induct) (simp_all add: split_beta Let_def)

lemma createDynamicMethodsTable_live [simp]:
  "live (snd (run_state (createDynamicMethodsTable x) s)) = live s"
  by (simp add: createDynamicMethodsTable_def split_beta Let_def)

lemma context_load_error_live:
  "run_state (context_load_error x) s = (r, s') \<Longrightarrow> r = JNI_ERR \<and> live s' = live s"
  by (auto simp: context_load_error_def split_beta Let_def jcalls_live list_all_iff)

definition owned_by :: "jmodule \<Rightarrow> lib_res set" where
  "owned_by m =
   (case m of M_Error \<Rightarrow> Class ` set exception_classes
    | M_SSLContext \<Rightarrow> insert (Natives M_SSLContext) (Weak ` set task_classes)
    | _ \<Rightarrow> {Natives m})"

text \<open>Only the modules that acquire more than one thing can leave something behind when they fail.\<close>

definition left_by :: "jmodule \<Rightarrow> lib_res set" where
  "left_by m = (if m = M_Error \<or> m = M_SSLContext then owned_by m else {})"

lemma SSLContext_steps_acquire:
  "list_all acquiring SSLContext_steps" "\<Union> (acquires ` set SSLContext_steps) = Weak ` set task_classes"
  by (auto simp: SSLContext_steps_def load_task_class_def task_constructor_def task_classes_def)

lemma context_load:
  assumes "run_state (SSLContext_JNI_OnLoad x p) s = (r, s')"
  shows "live s \<subseteq> live s' \<and> live s' \<subseteq> live s \<union> owned_by M_SSLContext
    \<and> (r = JNI_VERSION \<longrightarrow> live s' = live s \<union> owned_by M_SSLContext)"
proof -
  obtain a t where t: "run_state (createDynamicMethodsTable x) s = (a, t)" by fastforce
  then have lt: "live t = live s" using createDynamicMethodsTable_live [of x s] by simp
  let ?r = "x (done_calls t) (Register_Natives M_SSLContext)"
  let ?u = "t\<lparr>done_calls := done_calls t @ [Register_Natives M_SSLContext],
             live := effect (Register_Natives M_SSLContext) ?r (live t)\<rparr>"
  obtain ok v where v: "run_state (steps x SSLContext_steps) ?u = (ok, v)" by fastforce
  consider "a = 0" | "a \<noteq> 0" "?r \<noteq> 0" | "a \<noteq> 0" "?r = 0" "\<not> ok" | "a \<noteq> 0" "?r = 0" ok by blast
  then show ?thesis
  proof cases
    case 1
    then show ?thesis using assms t lt context_load_error_live [of x t r s']
      by (auto simp: SSLContext_JNI_OnLoad_def)
  next
    case 2
    then show ?thesis using assms t lt context_load_error_live [of x ?u r s']
      by (auto simp: SSLContext_JNI_OnLoad_def)
  next
    case 3
    then have "r = JNI_ERR \<and> live s' = live v"
      using assms t v context_load_error_live [of x v r s'] by (auto simp: SSLContext_JNI_OnLoad_def)
    then show ?thesis using 3 lt steps_live [OF SSLContext_steps_acquire(1) v]
      by (auto simp: SSLContext_steps_acquire(2) owned_by_def)
  next
    case 4
    then have "r = JNI_VERSION \<and> live s' = live v"
      using assms t v by (auto simp: SSLContext_JNI_OnLoad_def split: if_splits)
    then show ?thesis using 4 lt steps_live [OF SSLContext_steps_acquire(1) v]
      by (auto simp: SSLContext_steps_acquire(2) owned_by_def)
  qed
qed

lemma error_load:
  assumes "run_state (Error_JNI_OnLoad x) s = (r, s')"
  shows "live s \<subseteq> live s' \<and> live s' \<subseteq> live s \<union> owned_by M_Error
    \<and> (r = JNI_VERSION \<longrightarrow> live s' = live s \<union> owned_by M_Error)"
proof -
  obtain ok where ok: "run_state (steps x (map Load_Class exception_classes)) s = (ok, s')"
    and r: "r = (if ok then JNI_VERSION else JNI_ERR)"
    using assms by (auto simp: Error_JNI_OnLoad_def split: prod.splits)
  have "list_all acquiring (map Load_Class exception_classes)" by (simp add: list_all_iff)
  moreover have "\<Union> (acquires ` set (map Load_Class exception_classes)) = owned_by M_Error"
    by (auto simp: owned_by_def)
  ultimately show ?thesis using steps_live [OF _ ok] r by (auto split: if_splits)
qed

lemma register_load:
  "run_state (register_module x m) s = (r, s') \<Longrightarrow>
   (r = JNI_ERR \<longrightarrow> live s' = live s) \<and> (r = JNI_VERSION \<longrightarrow> live s' = live s \<union> {Natives m})"
  by (auto simp: register_module_def split: if_splits)

lemmas register_defs = Buffer_JNI_OnLoad_def NativeConstants_JNI_OnLoad_def SSL_JNI_OnLoad_def
  SSLSession_JNI_OnLoad_def SSLCredential_JNI_OnLoad_def

lemmas unload_defs = Error_JNI_OnUnLoad_def Buffer_JNI_OnUnLoad_def NativeConstants_JNI_OnUnLoad_def
  SSL_JNI_OnUnLoad_def SSLContext_JNI_OnUnLoad_def SSLSession_JNI_OnUnLoad_def SSLCredential_JNI_OnUnLoad_def

interpretation tcn: jni_module "module_OnLoad x p" "module_OnUnLoad x" owned_by left_by for x p
proof unfold_locales
  fix m s s'
  assume "run_state (module_OnLoad x p m) s = (JNI_VERSION, s')"
  then show "live s' = live s \<union> owned_by m"
    using error_load [of x s JNI_VERSION s'] context_load [of x p s JNI_VERSION s']
      register_load [of x m s JNI_VERSION s']
    by (cases m) (simp_all add: register_defs owned_by_def)
next
  fix m s s'
  assume "run_state (module_OnLoad x p m) s = (JNI_ERR, s')"
  then show "live s \<subseteq> live s' \<and> live s' \<subseteq> live s \<union> left_by m"
    using error_load [of x s JNI_ERR s'] context_load [of x p s JNI_ERR s']
      register_load [of x m s JNI_ERR s']
    by (cases m) (simp_all add: register_defs left_by_def)
next
  fix m s
  show "live (snd (run_state (module_OnUnLoad x m) s)) = live s - owned_by m"
    by (cases m) (auto simp: unload_defs owned_by_def jcalls_live list_all_iff simp del: jcalls.simps)
qed

section \<open>The library as a whole\<close>

lemma library_load_error_live:
  assumes "run_state (library_load_error x pool loaded) s = (r, s')"
  shows "r = JNI_ERR \<and> live s' = live s - (if pool then {Class string_class} else {})
      - {Class byte_array_class, Natives M_Library} - \<Union> (owned_by ` set loaded)"
  using assms tcn.unload_all [of x loaded]
  by (auto simp: library_load_error_def split_beta Let_def split: if_splits)

lemma library_unload_live:
  "live (snd (run_state (Library_JNI_OnUnload x True) s)) =
     live s - {Class string_class, Class byte_array_class} - \<Union> (owned_by ` set load_order)"
  using tcn.unload_all [of x load_order]
  by (auto simp: Library_JNI_OnUnload_def split_beta Let_def)

definition string_steps :: "lib_fn list" where
  "string_steps = [Load_Class string_class, Get_Method string_class ''<init>'',
     Get_Method string_class ''getBytes'', Load_Class byte_array_class]"

lemma string_steps_live:
  assumes "run_state (steps x string_steps) s = (ok, s')"
  shows "live s' \<subseteq> live s \<union> {Class string_class, Class byte_array_class}
    \<and> (ok \<longrightarrow> live s' = live s \<union> {Class string_class, Class byte_array_class})"
  using steps_live [OF _ assms] by (auto simp: string_steps_def)

text \<open>The ways through \<^verbatim>\<open>JNI_OnLoad\<close>: a registration that fails, a module, the version of APR, a class look-up, none.\<close>

lemma library_load_cases:
  assumes run: "run_state (Library_JNI_OnLoad x p pool apv) s = (r, s')" and s: "live s = {}"
  obtains
    (registration) t where "live t = {}" "run_state (library_load_error x pool []) t = (r, s')"
  | (module) t u loaded where "live t = {Natives M_Library}"
      "run_state (load_modules (module_OnLoad x p) load_order []) t = ((False, loaded), u)"
      "run_state (library_load_error x pool loaded) u = (r, s')"
  | (late) u where "live u \<subseteq> {Natives M_Library, Class string_class, Class byte_array_class} \<union> \<Union> (owned_by ` set load_order)"
      "run_state (library_load_error x pool load_order) u = (r, s')"
  | (complete) "r = JNI_VERSION"
      "live s' = {Natives M_Library, Class string_class, Class byte_array_class} \<union> \<Union> (owned_by ` set load_order)"
proof -
  let ?r = "x (done_calls s) (Register_Natives M_Library)"
  let ?t = "s\<lparr>done_calls := done_calls s @ [Register_Natives M_Library],
             live := effect (Register_Natives M_Library) ?r (live s)\<rparr>"
  obtain ok loaded u where u: "run_state (load_modules (module_OnLoad x p) load_order []) ?t = ((ok, loaded), u)"
    by (metis surj_pair)
  obtain ok' v where v: "run_state (steps x string_steps) u = (ok', v)" by fastforce
  let ?apv = "case apv of (ma, mi, pa) \<Rightarrow> apr_version_ok ma mi pa"
  note def = run [unfolded Library_JNI_OnLoad_def, folded string_steps_def]
  consider "?r \<noteq> 0" | "?r = 0" "\<not> ok" | "?r = 0" ok "\<not> ?apv" | "?r = 0" ok ?apv "\<not> ok'" | "?r = 0" ok ?apv ok'
    by blast
  then show thesis
  proof cases
    case 1
    then show thesis using registration [of ?t] def s by simp
  next
    case 2
    then show thesis using module [of ?t loaded u] def s u by simp
  next
    case 3
    let ?u = "u\<lparr>done_calls := done_calls u @ [Throw_Unsupported_Apr], live := live u\<rparr>"
    have l: "loaded = load_order" "live u = {Natives M_Library} \<union> \<Union> (owned_by ` set load_order)"
      using tcn.load_all [OF u] 3 s by auto
    then show thesis using late [of ?u] def u 3 by auto
  next
    case 4
    have l: "loaded = load_order" "live u = {Natives M_Library} \<union> \<Union> (owned_by ` set load_order)"
      using tcn.load_all [OF u] 4 s by auto
    then show thesis using late [of v] def u v 4 string_steps_live [OF v] by auto
  next
    case 5
    have l: "loaded = load_order" "live u = {Natives M_Library} \<union> \<Union> (owned_by ` set load_order)"
      using tcn.load_all [OF u] 5 s by auto
    then show thesis using complete def u v 5 string_steps_live [OF v] by auto
  qed
qed

section \<open>Properties\<close>



text \<open>
  A registered \<^verbatim>\<open>SSLContext\<close> module whose classes cannot be loaded stays registered: its own error path does not
  unregister it, and the library only unloads the modules that were loaded completely.
\<close>

lemma context_failure_stays_registered:
  assumes x: "\<And>h f. x h f = (case f of Register_Natives m \<Rightarrow> 0 | Get_Field c n \<Rightarrow> 0 | _ \<Rightarrow> 1)"
  shows "fst (run_state (SSLContext_JNI_OnLoad x False) s) = JNI_ERR
       \<and> Natives M_SSLContext \<in> live (snd (run_state (SSLContext_JNI_OnLoad x False) s))"
  by (simp add: SSLContext_JNI_OnLoad_def createDynamicMethodsTable_def dynamic_methods_def x
      SSLContext_steps_def load_task_class_def context_load_error_def task_classes_def split_beta Let_def)

end
