(* ===== verification/Ssl_Init.thy ===== *)
theory Ssl_Init
  imports Dh_Params Cert_Load
begin

text \<open>
  Start-up and shut-down of the TLS library: \<^verbatim>\<open>Library.initialize0\<close> of \<^verbatim>\<open>jnilib.c\<close>, \<^verbatim>\<open>SSL.initialize\<close>,
  \<^verbatim>\<open>ssl_init_cleanup\<close>, the engine and its user interface, the locks for old versions of OpenSSL, and
  \<^verbatim>\<open>fipsModeSet\<close> of \<^verbatim>\<open>ssl.c\<close>, and the indices under which \<^verbatim>\<open>sslutils.c\<close> keeps its own data in an \<^verbatim>\<open>SSL\<close> and an
  \<^verbatim>\<open>SSL_CTX\<close>.

  The static variables are the record \<open>ssl_globals\<close>. \<open>live_objs\<close> is the multiset of engines, UI methods and BIO
  methods that exist; freeing one that does not exist is undefined behaviour. \<open>pins\<close> counts pinned Java strings,
  \<open>lib_calls\<close> records the calls that start and stop the library as a whole.
\<close>

section \<open>Global state\<close>

datatype apr_status = APR_SUCCESS | APR_EINVAL | APR_ENOTIMPL

datatype init_call =
    APR_initialize | APR_atomic_init | OPENSSL_malloc_init | ERR_load_crypto_strings | SSL_load_error_strings
  | SSL_library_init | OpenSSL_add_all_algorithms | OPENSSL_load_builtin_modules | Thread_setup
  | ENGINE_load_builtin_engines | ENGINE_register_all_complete | ENGINE_chil_forkcheck
  | Cleanup_register | CONF_modules_unload | EVP_cleanup | CRYPTO_cleanup_all_ex_data
  | ERR_remove_thread_state | Fips_reset | ENGINE_cleanup | ERR_clear

record ssl_globals =
  tcn_global_pool :: int
  ssl_initialized :: int
  tcn_ssl_engine :: int
  ui_method :: int
  bio_java_bytebuffer_methods :: int
  SSL_temp_keys :: temp_keys
  tcn_SSL_app_state_idx :: int
  tcn_SSL_CTX_app_state_idx :: int
  live_objs :: "int multiset"
  pins :: int
  lib_calls :: "init_call list"

definition globals_zero :: ssl_globals where
  "globals_zero = \<lparr>tcn_global_pool = 0, ssl_initialized = 0, tcn_ssl_engine = 0, ui_method = 0,
     bio_java_bytebuffer_methods = 0, SSL_temp_keys = (\<lambda>_. None), tcn_SSL_app_state_idx = -1,
     tcn_SSL_CTX_app_state_idx = -1, live_objs = {#}, pins = 0, lib_calls = []\<rparr>"

definition log_call :: "init_call list \<Rightarrow> ssl_globals \<Rightarrow> ssl_globals" where
  "log_call cs g = g\<lparr>lib_calls := lib_calls g @ cs\<rparr>"

text \<open>\<^verbatim>\<open>Library.initialize0\<close>; \<open>new_pool\<close> is the pool that \<^verbatim>\<open>apr_pool_create\<close> makes, \<open>0\<close> when it fails.\<close>

definition initialize0 :: "int \<Rightarrow> ssl_globals \<Rightarrow> bool \<times> ssl_globals" where
  "initialize0 new_pool g =
   (if tcn_global_pool g = 0 then
      (if new_pool = 0 then (False, log_call [APR_initialize] g)
       else (True, log_call [APR_initialize, APR_atomic_init] (g\<lparr>tcn_global_pool := new_pool\<rparr>)))
    else (True, g))"

section \<open>Shut-down\<close>

definition SSL_TMP_KEYS_FREE :: "temp_keys \<Rightarrow> temp_keys" where
  "SSL_TMP_KEYS_FREE ks = ks(SSL_TMP_KEY_DH_512 := None, SSL_TMP_KEY_DH_1024 := None,
     SSL_TMP_KEY_DH_2048 := None, SSL_TMP_KEY_DH_4096 := None)"

definition has_bio_methods :: "build \<Rightarrow> bool" where
  "has_bio_methods b \<longleftrightarrow> openssl_version_number b \<ge> 0x10100000 \<and> libressl_version_number b = None"

definition free_bio_methods :: "ssl_globals \<Rightarrow> ssl_globals cres" where
  "free_bio_methods g =
     cbind (native_free (bio_java_bytebuffer_methods g) (live_objs g)) (\<lambda>l. Inr (g\<lparr>live_objs := l\<rparr>))"

definition init_bio_methods :: "int \<Rightarrow> ssl_globals \<Rightarrow> ssl_globals" where
  "init_bio_methods meth g =
     g\<lparr>bio_java_bytebuffer_methods := meth, live_objs := native_new meth (live_objs g)\<rparr>"

definition cleanup_engine :: "build \<Rightarrow> ssl_globals \<Rightarrow> ssl_globals cres" where
  "cleanup_engine b g =
   (if openssl_no_engine b then Inr g
    else
      cbind (native_free (tcn_ssl_engine g) (live_objs g)) (\<lambda>l1.
      cbind (native_free (ui_method g) l1) (\<lambda>l2.
      Inr (log_call (if boring b then [] else [ENGINE_cleanup])
        (g\<lparr>tcn_ssl_engine := 0, ui_method := 0, live_objs := l2\<rparr>)))))"

definition ssl_init_cleanup :: "build \<Rightarrow> bool \<Rightarrow> ssl_globals \<Rightarrow> ssl_globals cres" where
  "ssl_init_cleanup b fips g =
   (if ssl_initialized g = 0 then Inr g
    else
      let g1 = log_call
        ((if openssl_version_number b \<ge> 0x00907001 \<and> \<not> boring b then [CONF_modules_unload] else [])
         @ [EVP_cleanup]
         @ (if openssl_version_number b \<ge> 0x00907001 then [CRYPTO_cleanup_all_ex_data] else [])
         @ (if openssl_version_number b < 0x10100000 then [ERR_remove_thread_state] else []))
        (g\<lparr>ssl_initialized := 0, SSL_temp_keys := SSL_TMP_KEYS_FREE (SSL_temp_keys g)\<rparr>)
      in cbind (if has_bio_methods b then free_bio_methods g1 else Inr g1) (\<lambda>g2.
         cleanup_engine b
           (log_call (if fips \<and> openssl_version_number b < 0x30000000 then [Fips_reset] else []) g2)))"

section \<open>Engines\<close>

text \<open>
  The answers of the library during \<^verbatim>\<open>initialize\<close>: the pinned engine name, the version of the linked
  library, the engine functions, the UI functions (\<open>0\<close> is success), the new BIO methods, the DH parameters and the new
  indices.
\<close>

record init_env =
  engine_name :: "string option"
  linked_version :: nat
  engine_by_id :: int
  engine_dynamic :: int
  so_path_ok :: bool
  load_ok :: bool
  chil_supported :: bool
  set_default_ok :: bool
  ui_create :: int
  ui_opener :: int
  ui_closer :: int
  ui_reader :: int
  ui_writer :: int
  bio_meth :: int
  dh_envs :: "dh_env \<times> dh_env \<times> dh_env \<times> dh_env"
  new_index :: "nat \<Rightarrow> int"

definition ssl_try_load_engine :: "init_env \<Rightarrow> int multiset \<Rightarrow> (int \<times> int multiset) cres" where
  "ssl_try_load_engine env objs =
   (let e = engine_dynamic env; objs1 = native_new e objs in
    if e \<noteq> 0 then
      if \<not> so_path_ok env \<or> \<not> load_ok env
      then cbind (native_free e objs1) (\<lambda>o2. Inr (0, o2)) else Inr (e, objs1)
    else Inr (0, objs1))"

definition select_engine :: "init_env \<Rightarrow> string \<Rightarrow> ssl_globals \<Rightarrow> (apr_status \<times> ssl_globals) cres" where
  "select_engine env name g =
   (let found = engine_by_id env in
    cbind (if found \<noteq> 0 then Inr (found, native_new found (live_objs g))
           else ssl_try_load_engine env (live_objs g)) (\<lambda>(e, objs).
    let g1 = g\<lparr>tcn_ssl_engine := e, live_objs := objs\<rparr> in
    if e = 0 then Inr (APR_ENOTIMPL, g1)
    else
      let g2 = log_call (if chil_supported env \<and> name = ''chil'' then [ENGINE_chil_forkcheck] else []) g1 in
      if \<not> set_default_ok env then Inr (APR_ENOTIMPL, g2) else Inr (APR_SUCCESS, g2)))"

definition create_ui :: "init_env \<Rightarrow> ssl_globals \<Rightarrow> apr_status \<times> ssl_globals" where
  "create_ui env g =
   (let g1 = g\<lparr>ui_method := ui_create env, live_objs := native_new (ui_create env) (live_objs g)\<rparr> in
    if ui_create env \<noteq> 0 then
      if ui_opener env \<noteq> 0 then (APR_EINVAL, g1)
      else if ui_closer env \<noteq> 0 then (APR_EINVAL, g1)
      else if ui_reader env \<noteq> 0 then (APR_EINVAL, g1)
      else if ui_writer env \<noteq> 0 then (APR_EINVAL, g1)
      else (APR_SUCCESS, g1)
    else (APR_EINVAL, g1))"

definition init_engine :: "build \<Rightarrow> init_env \<Rightarrow> ssl_globals \<Rightarrow> (apr_status \<times> ssl_globals) cres" where
  "init_engine b env g =
   (case engine_name env of None \<Rightarrow> Inr (APR_SUCCESS, g)
    | Some name \<Rightarrow>
      if openssl_no_engine b then Inr (APR_SUCCESS, g)
      else
        let g1 = log_call [ENGINE_load_builtin_engines] g in
        if name = ''auto'' then Inr (APR_SUCCESS, log_call [ENGINE_register_all_complete] g1)
        else cbind (select_engine env name g1) (\<lambda>(err, g2).
          Inr (if err = APR_SUCCESS then create_ui env g2 else (err, g2))))"

section \<open>Indices of application data\<close>

text \<open>
  \<^verbatim>\<open>tcn_init_app_state_idx\<close> asks for each index twice and keeps the second; \<open>next_idx i\<close> is the \<open>i\<close>-th index
  handed out, \<open>n\<close> how many were handed out before.
\<close>

definition tcn_init_app_state_idx :: "(nat \<Rightarrow> int) \<Rightarrow> ssl_globals \<Rightarrow> ssl_globals" where
  "tcn_init_app_state_idx next_idx g =
   (let (g1, n) = (if tcn_SSL_app_state_idx g = -1
                   then (g\<lparr>tcn_SSL_app_state_idx := next_idx 1\<rparr>, 2) else (g, 0::nat))
    in if tcn_SSL_CTX_app_state_idx g1 = -1
       then g1\<lparr>tcn_SSL_CTX_app_state_idx := next_idx (n + 1)\<rparr> else g1)"

text \<open>Reading and writing under the indices, with the library's ex-data functions as parameters.\<close>

definition tcn_SSL_get_app_state :: "('s \<Rightarrow> int \<Rightarrow> 'd) \<Rightarrow> ssl_globals \<Rightarrow> 's \<Rightarrow> 'd" where
  "tcn_SSL_get_app_state SSL_get_ex_data g ssl = SSL_get_ex_data ssl (tcn_SSL_app_state_idx g)"

definition tcn_SSL_set_app_state :: "('s \<Rightarrow> int \<Rightarrow> 'd \<Rightarrow> 's) \<Rightarrow> ssl_globals \<Rightarrow> 's \<Rightarrow> 'd \<Rightarrow> 's" where
  "tcn_SSL_set_app_state SSL_set_ex_data g ssl arg = SSL_set_ex_data ssl (tcn_SSL_app_state_idx g) arg"

definition tcn_SSL_CTX_get_app_state :: "('s \<Rightarrow> int \<Rightarrow> 'd) \<Rightarrow> ssl_globals \<Rightarrow> 's \<Rightarrow> 'd" where
  "tcn_SSL_CTX_get_app_state SSL_CTX_get_ex_data g c = SSL_CTX_get_ex_data c (tcn_SSL_CTX_app_state_idx g)"

definition tcn_SSL_CTX_set_app_state :: "('s \<Rightarrow> int \<Rightarrow> 'd \<Rightarrow> 's) \<Rightarrow> ssl_globals \<Rightarrow> 's \<Rightarrow> 'd \<Rightarrow> 's" where
  "tcn_SSL_CTX_set_app_state SSL_CTX_set_ex_data g c arg = SSL_CTX_set_ex_data c (tcn_SSL_CTX_app_state_idx g) arg"

section \<open>Start-up\<close>

definition free_engine_name :: "init_env \<Rightarrow> ssl_globals \<Rightarrow> ssl_globals" where
  "free_engine_name env g = (if engine_name env \<noteq> None then g\<lparr>pins := pins g - 1\<rparr> else g)"

definition init_library_calls :: "build \<Rightarrow> init_call list" where
  "init_library_calls b =
     (if openssl_version_number b < 0x10100000 \<or> libressl_before b 0x2090200f then [OPENSSL_malloc_init] else [])
   @ [ERR_load_crypto_strings, SSL_load_error_strings, SSL_library_init, OpenSSL_add_all_algorithms]
   @ (if openssl_version_number b \<ge> 0x00907001 then [OPENSSL_load_builtin_modules] else [])
   @ (if openssl_version_number b < 0x10100000 \<or> libressl_before b 0x2090000f then [Thread_setup] else [])"

text \<open>The code behind the label \<^verbatim>\<open>error\<close>; \<^verbatim>\<open>tcn_ThrowAPRException\<close> throws the status.\<close>

definition initialize_error ::
  "build \<Rightarrow> bool \<Rightarrow> init_env \<Rightarrow> apr_status \<Rightarrow> ssl_globals \<Rightarrow> (apr_status \<times> ssl_globals \<times> apr_status option) cres" where
  "initialize_error b fips env err g =
     cbind (ssl_init_cleanup b fips (free_engine_name env g)) (\<lambda>g1. Inr (err, g1, Some err))"

text \<open>After the engine: indices, BIO methods, DH parameters. The result is the status returned, the state and the status thrown.\<close>

definition finish_start ::
  "build \<Rightarrow> bool \<Rightarrow> init_env \<Rightarrow> ssl_globals \<Rightarrow> (apr_status \<times> ssl_globals \<times> apr_status option) cres" where
  "finish_start b fips env g2 =
   (let g3 = tcn_init_app_state_idx (new_index env) g2;
        g4 = (if has_bio_methods b then init_bio_methods (bio_meth env) g3 else g3);
        (keys, r) = (if openssl_version_number b < 0x30000000
                     then SSL_TMP_KEYS_INIT b (dh_envs env) (SSL_temp_keys g4)
                     else (SSL_temp_keys g4, False));
        g5 = g4\<lparr>SSL_temp_keys := keys\<rparr>
    in if r then initialize_error b fips env APR_ENOTIMPL (log_call [ERR_clear] g5)
       else Inr (APR_SUCCESS, free_engine_name env (log_call [Cleanup_register] g5), None))"

definition SSL_initialize ::
  "build \<Rightarrow> bool \<Rightarrow> init_env \<Rightarrow> ssl_globals \<Rightarrow> (apr_status \<times> ssl_globals \<times> apr_status option) cres" where
  "SSL_initialize b fips env g0 =
   (let g = (if engine_name env \<noteq> None then g0\<lparr>pins := pins g0 + 1\<rparr> else g0) in
    if tcn_global_pool g = 0 then Inr (APR_EINVAL, free_engine_name env g, Some APR_EINVAL)
    else
      let g1 = g\<lparr>ssl_initialized := ssl_initialized g + 1\<rparr> in
      if ssl_initialized g \<noteq> 0 then Inr (APR_SUCCESS, free_engine_name env g1, None)
      else if openssl_version_number b < 0x10100000 \<and> linked_version env < 0x0090700
      then Inr (APR_EINVAL, free_engine_name env (g1\<lparr>ssl_initialized := 0\<rparr>), Some APR_EINVAL)
      else
        cbind (init_engine b env (log_call (init_library_calls b) g1)) (\<lambda>(err, g2).
        if err \<noteq> APR_SUCCESS then initialize_error b fips env err g2
        else finish_start b fips env g2))"

section \<open>The password of an engine\<close>

datatype ui_type = UIT_PROMPT | UIT_VERIFY | UIT_OTHER

text \<open>
  \<open>user_data\<close> is the password passed to the engine, \<open>default_pwd\<close> the flag \<^verbatim>\<open>UI_INPUT_FLAG_DEFAULT_PWD\<close>. The result is
  the answer given to the prompt; \<open>None\<close> hands the prompt to the reader or writer of OpenSSL.
\<close>

definition ssl_ui_reader :: "ui_type \<Rightarrow> string option \<Rightarrow> bool \<Rightarrow> string option" where
  "ssl_ui_reader ty user_data default_pwd =
   (if ty \<in> {UIT_PROMPT, UIT_VERIFY} \<and> user_data \<noteq> None \<and> default_pwd then user_data else None)"

definition ssl_ui_writer :: "ui_type \<Rightarrow> string option \<Rightarrow> bool \<Rightarrow> bool" where
  "ssl_ui_writer ty user_data default_pwd =
   (ty \<in> {UIT_PROMPT, UIT_VERIFY} \<and> user_data \<noteq> None \<and> default_pwd)"

text \<open>\<^verbatim>\<open>fipsModeSet\<close>: the exception thrown; \<open>rc\<close> is the result of \<^verbatim>\<open>tcn_enable_fips\<close>.\<close>

definition fipsModeSet :: "build \<Rightarrow> bool \<Rightarrow> (int \<Rightarrow> int) \<Rightarrow> string \<Rightarrow> int \<Rightarrow> jexc option" where
  "fipsModeSet b fips tcn_enable_fips err md =
   (if fips \<or> openssl_version_number b \<ge> 0x30000000 then
      (if tcn_enable_fips md = 0 then Some (JException (''Unable set fips mode ('' @ err @ '')'')) else None)
    else Some (JException ''netty-tcnative was built without FIPS support''))"

section \<open>Dynamic locks of old versions of OpenSSL\<close>

record CRYPTO_dynlock_value =
  lock_pool :: int
  lock_file :: string
  lock_line :: int
  lock_mutex :: int

text \<open>
  \<open>p\<close> is the new pool, \<open>mtx\<close> the new mutex (\<open>0\<close>: failed); \<open>pools\<close> are the pools that exist. The source returns without
  destroying the pool when \<^verbatim>\<open>apr_palloc\<close> fails.
\<close>

definition ssl_dyn_create_function ::
  "int \<Rightarrow> bool \<Rightarrow> int \<Rightarrow> string \<Rightarrow> int \<Rightarrow> int multiset \<Rightarrow> (CRYPTO_dynlock_value option \<times> int multiset) cres" where
  "ssl_dyn_create_function p palloc_ok mtx src line pools =
   (if p = 0 then Inr (None, pools)
    else
      let pools1 = native_new p pools in
      if \<not> palloc_ok then Inr (None, pools1)
      else if mtx = 0 then cbind (native_free p pools1) (\<lambda>p2. Inr (None, p2))
      else Inr (Some \<lparr>lock_pool = p, lock_file = src, lock_line = line, lock_mutex = mtx\<rparr>, pools1))"

definition ssl_dyn_destroy_function :: "CRYPTO_dynlock_value \<Rightarrow> int multiset \<Rightarrow> int multiset cres" where
  "ssl_dyn_destroy_function l pools = native_free (lock_pool l) pools"

text \<open>The mutex locked (\<open>True\<close>) or unlocked by a lock callback, if any; \<open>locks\<close> is the array \<^verbatim>\<open>ssl_lock_cs\<close>.\<close>

definition ssl_dyn_lock_function :: "bool \<Rightarrow> CRYPTO_dynlock_value \<Rightarrow> bool \<times> int" where
  "ssl_dyn_lock_function crypto_lock l = (crypto_lock, lock_mutex l)"

definition ssl_thread_lock :: "bool \<Rightarrow> int \<Rightarrow> int list \<Rightarrow> (bool \<times> int) option cres" where
  "ssl_thread_lock crypto_lock ty locks =
   (if ty < int (length locks)
    then if 0 \<le> ty then Inr (Some (crypto_lock, locks ! nat ty)) else Inl (UB Out_Of_Bounds)
    else Inr None)"

section \<open>Lemmas\<close>

lemma log_call_simps [simp]:
  "ssl_initialized (log_call cs g) = ssl_initialized g" "tcn_ssl_engine (log_call cs g) = tcn_ssl_engine g"
  "ui_method (log_call cs g) = ui_method g"
  "bio_java_bytebuffer_methods (log_call cs g) = bio_java_bytebuffer_methods g"
  "SSL_temp_keys (log_call cs g) = SSL_temp_keys g" "live_objs (log_call cs g) = live_objs g"
  "pins (log_call cs g) = pins g" "tcn_global_pool (log_call cs g) = tcn_global_pool g"
  "tcn_SSL_app_state_idx (log_call cs g) = tcn_SSL_app_state_idx g"
  "tcn_SSL_CTX_app_state_idx (log_call cs g) = tcn_SSL_CTX_app_state_idx g"
  by (simp_all add: log_call_def)

lemma free_engine_name_simps [simp]:
  "ssl_initialized (free_engine_name env g) = ssl_initialized g"
  "tcn_ssl_engine (free_engine_name env g) = tcn_ssl_engine g"
  "ui_method (free_engine_name env g) = ui_method g"
  "bio_java_bytebuffer_methods (free_engine_name env g) = bio_java_bytebuffer_methods g"
  "SSL_temp_keys (free_engine_name env g) = SSL_temp_keys g"
  "live_objs (free_engine_name env g) = live_objs g"
  "tcn_global_pool (free_engine_name env g) = tcn_global_pool g"
  "pins (free_engine_name env g) = pins g - (if engine_name env \<noteq> None then 1 else 0)"
  by (simp_all add: free_engine_name_def)

text \<open>What the native code owns between start-up and shut-down, on top of \<open>base\<close>.\<close>

definition owns_objs :: "build \<Rightarrow> int multiset \<Rightarrow> ssl_globals \<Rightarrow> bool" where
  "owns_objs b base g \<longleftrightarrow>
     live_objs g = native_new (if has_bio_methods b then bio_java_bytebuffer_methods g else 0)
       (native_new (ui_method g) (native_new (tcn_ssl_engine g) base))
   \<and> (openssl_no_engine b \<longrightarrow> tcn_ssl_engine g = 0 \<and> ui_method g = 0)"

lemma cleanup_releases:
  assumes "owns_objs b base g" "ssl_initialized g \<noteq> 0"
  shows "\<exists>g'. ssl_init_cleanup b fips g = Inr g' \<and> live_objs g' = base \<and> ssl_initialized g' = 0
     \<and> tcn_ssl_engine g' = 0 \<and> ui_method g' = 0 \<and> pins g' = pins g
     \<and> SSL_temp_keys g' = SSL_TMP_KEYS_FREE (SSL_temp_keys g)"
  using assms
  by (cases "has_bio_methods b"; cases "openssl_no_engine b")
    (simp_all add: owns_objs_def ssl_init_cleanup_def free_bio_methods_def cleanup_engine_def Let_def)

lemma try_load_result: "\<exists>e. ssl_try_load_engine env objs = Inr (e, native_new e objs)"
  by (simp add: ssl_try_load_engine_def Let_def)

lemma select_engine_result:
  "\<exists>err e cs. select_engine env name g =
     Inr (err, log_call cs (g\<lparr>tcn_ssl_engine := e, live_objs := native_new e (live_objs g)\<rparr>))"
proof -
  obtain e where "(if engine_by_id env \<noteq> 0 then Inr (engine_by_id env, native_new (engine_by_id env) (live_objs g))
      else ssl_try_load_engine env (live_objs g)) = Inr (e, native_new e (live_objs g))"
    using try_load_result [of env "live_objs g"] by (cases "engine_by_id env = 0") auto
  moreover have "log_call [] g' = g'" for g' by (simp add: log_call_def)
  ultimately have "select_engine env name g =
      Inr (if e = 0 \<or> \<not> set_default_ok env then APR_ENOTIMPL else APR_SUCCESS,
        log_call (if e \<noteq> 0 \<and> chil_supported env \<and> name = ''chil'' then [ENGINE_chil_forkcheck] else [])
          (g\<lparr>tcn_ssl_engine := e, live_objs := native_new e (live_objs g)\<rparr>))"
    by (simp add: select_engine_def Let_def)
  then show ?thesis by blast
qed

lemma create_ui_result:
  "\<exists>err u. create_ui env g = (err, g\<lparr>ui_method := u, live_objs := native_new u (live_objs g)\<rparr>)"
  by (intro exI [of _ "fst (create_ui env g)"] exI [of _ "ui_create env"]) (simp add: create_ui_def Let_def)

lemma init_engine_owns:
  assumes g: "owns_objs b base g" "tcn_ssl_engine g = 0" "ui_method g = 0" "bio_java_bytebuffer_methods g = 0"
  shows "\<exists>err g2. init_engine b env g = Inr (err, g2) \<and> owns_objs b base g2
     \<and> bio_java_bytebuffer_methods g2 = 0 \<and> ssl_initialized g2 = ssl_initialized g \<and> pins g2 = pins g
     \<and> SSL_temp_keys g2 = SSL_temp_keys g \<and> tcn_global_pool g2 = tcn_global_pool g"
proof (cases "engine_name env = None \<or> openssl_no_engine b \<or> engine_name env = Some ''auto''")
  case True
  then show ?thesis using g
    by (cases "engine_name env") (auto simp: init_engine_def owns_objs_def Let_def)
next
  case False
  then obtain name where n: "engine_name env = Some name" "name \<noteq> ''auto''" "\<not> openssl_no_engine b" by auto
  obtain err e cs where s: "select_engine env name (log_call [ENGINE_load_builtin_engines] g) =
      Inr (err, log_call cs ((log_call [ENGINE_load_builtin_engines] g)\<lparr>tcn_ssl_engine := e,
        live_objs := native_new e (live_objs g)\<rparr>))" (is "_ = Inr (err, ?g2)")
    using select_engine_result [of env name "log_call [ENGINE_load_builtin_engines] g"] by auto
  obtain err' u where u: "create_ui env ?g2 = (err', ?g2\<lparr>ui_method := u, live_objs := native_new u (live_objs ?g2)\<rparr>)"
    using create_ui_result by blast
  have "init_engine b env g =
      Inr (if err = APR_SUCCESS then (err', ?g2\<lparr>ui_method := u, live_objs := native_new u (live_objs ?g2)\<rparr>)
           else (err, ?g2))"
    using n by (simp add: init_engine_def s u [simplified])
  then show ?thesis using n(3) g
    by (cases "err = APR_SUCCESS") (simp_all add: owns_objs_def)
qed

lemma init_index_simps [simp]:
  "ssl_initialized (tcn_init_app_state_idx f g) = ssl_initialized g"
  "tcn_ssl_engine (tcn_init_app_state_idx f g) = tcn_ssl_engine g"
  "ui_method (tcn_init_app_state_idx f g) = ui_method g"
  "bio_java_bytebuffer_methods (tcn_init_app_state_idx f g) = bio_java_bytebuffer_methods g"
  "SSL_temp_keys (tcn_init_app_state_idx f g) = SSL_temp_keys g"
  "live_objs (tcn_init_app_state_idx f g) = live_objs g" "pins (tcn_init_app_state_idx f g) = pins g"
  "tcn_global_pool (tcn_init_app_state_idx f g) = tcn_global_pool g"
  by (simp_all add: tcn_init_app_state_idx_def)

lemma TMP_KEYS_FREE_init:
  assumes "SSL_TMP_KEYS_INIT b envs (\<lambda>_. None) = (ks, r)"
  shows "SSL_TMP_KEYS_FREE ks = (\<lambda>_. None)"
proof -
  obtain e1 e2 e3 e4 where "envs = (e1, e2, e3, e4)" by (cases envs)
  then have "ks = (\<lambda>_. None)(SSL_TMP_KEY_DH_512 := tcn_SSL_dh_get_tmp_param b e1 512,
      SSL_TMP_KEY_DH_1024 := tcn_SSL_dh_get_tmp_param b e2 1024,
      SSL_TMP_KEY_DH_2048 := tcn_SSL_dh_get_tmp_param b e3 2048,
      SSL_TMP_KEY_DH_4096 := tcn_SSL_dh_get_tmp_param b e4 4096)"
    using assms by (simp add: SSL_TMP_KEYS_INIT_def ssl_tmp_key_init_dh_def Let_def)
  then show ?thesis by (simp add: SSL_TMP_KEYS_FREE_def fun_eq_iff)
qed

lemma TMP_KEYS_FREE_none [simp]: "SSL_TMP_KEYS_FREE (\<lambda>_. None) = (\<lambda>_. None)"
  by (simp add: SSL_TMP_KEYS_FREE_def fun_eq_iff)

text \<open>The state in which nothing has been started yet.\<close>

definition not_started :: "ssl_globals \<Rightarrow> bool" where
  "not_started g \<longleftrightarrow> ssl_initialized g = 0 \<and> tcn_ssl_engine g = 0 \<and> ui_method g = 0 \<and> SSL_temp_keys g = (\<lambda>_. None)"

lemma initialize_error_releases:
  assumes "owns_objs b base g" "ssl_initialized g \<noteq> 0" "SSL_TMP_KEYS_FREE (SSL_temp_keys g) = (\<lambda>_. None)"
  shows "\<exists>g'. initialize_error b fips env err g = Inr (err, g', Some err) \<and> not_started g' \<and> live_objs g' = base
     \<and> pins g' = pins g - (if engine_name env \<noteq> None then 1 else 0)"
proof -
  have "owns_objs b base (free_engine_name env g)" using assms(1) by (simp add: owns_objs_def)
  from cleanup_releases [OF this, of fips] assms(2,3) show ?thesis
    by (auto simp: initialize_error_def not_started_def)
qed

lemma finish_start_result:
  assumes g: "owns_objs b base g" "bio_java_bytebuffer_methods g = 0" "ssl_initialized g = 1"
    "SSL_temp_keys g = (\<lambda>_. None)"
  shows "\<exists>st g' ex. finish_start b fips env g = Inr (st, g', ex)
     \<and> pins g' = pins g - (if engine_name env \<noteq> None then 1 else 0)
     \<and> (st \<noteq> APR_SUCCESS \<longrightarrow> ex = Some st \<and> not_started g' \<and> live_objs g' = base)
     \<and> (st = APR_SUCCESS \<longrightarrow> ex = None \<and> ssl_initialized g' = 1 \<and> owns_objs b base g'
          \<and> tcn_global_pool g' = tcn_global_pool g \<and> SSL_TMP_KEYS_FREE (SSL_temp_keys g') = (\<lambda>_. None))"
proof -
  let ?g3 = "tcn_init_app_state_idx (new_index env) g"
  let ?g4 = "if has_bio_methods b then init_bio_methods (bio_meth env) ?g3 else ?g3"
  have g4: "owns_objs b base ?g4" "ssl_initialized ?g4 = 1" "SSL_temp_keys ?g4 = (\<lambda>_. None)" "pins ?g4 = pins g"
    "tcn_global_pool ?g4 = tcn_global_pool g"
    using g by (auto simp: owns_objs_def init_bio_methods_def)
  obtain keys r where k: "(if openssl_version_number b < 0x30000000
      then SSL_TMP_KEYS_INIT b (dh_envs env) (SSL_temp_keys ?g4) else (SSL_temp_keys ?g4, False)) = (keys, r)"
    by fastforce
  then have f: "SSL_TMP_KEYS_FREE keys = (\<lambda>_. None)"
    using g4(3) TMP_KEYS_FREE_init by (auto split: if_splits)
  let ?g5 = "?g4\<lparr>SSL_temp_keys := keys\<rparr>"
  have fin: "finish_start b fips env g =
      (if r then initialize_error b fips env APR_ENOTIMPL (log_call [ERR_clear] ?g5)
       else Inr (APR_SUCCESS, free_engine_name env (log_call [Cleanup_register] ?g5), None))"
    using k by (simp only: finish_start_def Let_def split_conv)
  show ?thesis
  proof (cases r)
    case True
    have "owns_objs b base (log_call [ERR_clear] ?g5)" using g4(1) by (simp add: owns_objs_def)
    then show ?thesis
      using initialize_error_releases [of b base "log_call [ERR_clear] ?g5" fips env APR_ENOTIMPL] g4 f True
      by (auto simp: fin)
  next
    case False
    let ?g6 = "free_engine_name env (log_call [Cleanup_register] ?g5)"
    have "owns_objs b base ?g6" using g4(1) by (simp add: owns_objs_def)
    then show ?thesis using g4 f False fin by auto
  qed
qed

lemma pinned_again:
  "ssl_initialized g = 1 \<Longrightarrow> tcn_global_pool g \<noteq> 0 \<Longrightarrow>
   SSL_initialize b fips env g = Inr (APR_SUCCESS, g\<lparr>ssl_initialized := 2\<rparr>, None)"
  by (simp add: SSL_initialize_def free_engine_name_def Let_def)

text \<open>A start that succeeds has made all DH parameters.\<close>

lemma initialize_makes_keys:
  assumes "SSL_initialize b fips env g = Inr (APR_SUCCESS, g', ex)" "ssl_initialized g = 0"
    and "openssl_version_number b < 0x30000000"
  shows "\<exists>ks. SSL_TMP_KEYS_INIT b (dh_envs env) ks = (SSL_temp_keys g', False)"
proof -
  have err: "initialize_error b fips env e h \<noteq> Inr (APR_SUCCESS, g', ex)" if "e \<noteq> APR_SUCCESS" for e h
    using that by (auto simp: initialize_error_def cbind_eq_Inr)
  from assms(1,2) obtain g2 where "finish_start b fips env g2 = Inr (APR_SUCCESS, g', ex)"
    by (auto simp: SSL_initialize_def Let_def cbind_eq_Inr err split: if_splits)
  then show ?thesis
    using assms(3) err [of APR_ENOTIMPL]
    by (auto simp: finish_start_def Let_def split: prod.splits if_splits)
qed

section \<open>Properties\<close>


definition ossl111_build :: build where
  "ossl111_build = \<lparr>openssl_is_boringssl = False, openssl_is_awslc = False,
     libressl_version_number = None, openssl_version_number = 0x1010100f,
     openssl_no_tls1_3 = False, openssl_no_ocsp = False, openssl_no_engine = False, gnuc = True\<rparr>"

definition plain_env :: init_env where
  "plain_env = \<lparr>engine_name = None, linked_version = 0x1010100f, engine_by_id = 0, engine_dynamic = 0,
     so_path_ok = True, load_ok = True, chil_supported = False, set_default_ok = True, ui_create = 4,
     ui_opener = 0, ui_closer = 0, ui_reader = 0, ui_writer = 0, bio_meth = 9,
     dh_envs = (dh_all_ok, dh_all_ok, dh_all_ok, dh_all_ok), new_index = \<lambda>i. int i\<rparr>"


text \<open>
  \<^verbatim>\<open>free_bio_methods\<close> leaves the freed address in \<^verbatim>\<open>bio_java_bytebuffer_methods\<close>. When a first start fails at the DH
  parameters and a second one at its engine, before new BIO methods are made, the methods are freed twice.
\<close>

lemma failed_starts_double_free:
  "(case SSL_initialize ossl111_build False
       (plain_env\<lparr>dh_envs := (dh_all_ok\<lparr>dh_new_ok := False\<rparr>, dh_all_ok, dh_all_ok, dh_all_ok)\<rparr>)
       (globals_zero\<lparr>tcn_global_pool := 1\<rparr>) of
      Inl e \<Rightarrow> False
    | Inr (st, g, ex) \<Rightarrow>
      st = APR_ENOTIMPL
      \<and> SSL_initialize ossl111_build False (plain_env\<lparr>engine_name := Some ''nosuch''\<rparr>) g = Inl (UB Use_After_Free))"
proof -
  have "tcn_SSL_dh_get_tmp_param ossl111_build (dh_all_ok\<lparr>dh_new_ok := False\<rparr>) 512 = None"
    by (simp add: tcn_SSL_dh_get_tmp_param_def get_dh_def dh_all_ok_def ossl111_build_def)
  then have "\<exists>ks. SSL_TMP_KEYS_INIT ossl111_build (dh_all_ok\<lparr>dh_new_ok := False\<rparr>, dh_all_ok, dh_all_ok, dh_all_ok) (\<lambda>_. None) = (ks, True)"
    by (simp add: SSL_TMP_KEYS_INIT_def ssl_tmp_key_init_dh_def Let_def)
  then obtain ks where "SSL_TMP_KEYS_INIT ossl111_build (dh_all_ok\<lparr>dh_new_ok := False\<rparr>, dh_all_ok, dh_all_ok, dh_all_ok) (\<lambda>_. None) = (ks, True)"
    by blast
  then show ?thesis
    by (simp add: SSL_initialize_def finish_start_def plain_env_def globals_zero_def init_engine_def select_engine_def
        ssl_try_load_engine_def initialize_error_def ssl_init_cleanup_def free_bio_methods_def cleanup_engine_def
        has_bio_methods_def init_bio_methods_def free_engine_name_def log_call_def native_new_def native_free_def
        tcn_init_app_state_idx_def ossl111_build_def Let_def)
qed

text \<open>
  With ex-data that returns what was stored under an index, and different indices handed out, the state of a connection is
  what was set last, also after the library was started again.
\<close>

lemma app_state_round_trip:
  assumes "\<And>s i d. SSL_get_ex_data (SSL_set_ex_data s i d) i = d" "\<And>i. f i \<noteq> -1"
    and "g = tcn_init_app_state_idx f g0" "g' = tcn_init_app_state_idx f' g"
  shows "tcn_SSL_get_app_state SSL_get_ex_data g' (tcn_SSL_set_app_state SSL_set_ex_data g ssl d) = d"
proof -
  have "tcn_SSL_app_state_idx g' = tcn_SSL_app_state_idx g"
    using assms(2-4) by (simp add: tcn_init_app_state_idx_def)
  then show ?thesis by (simp add: tcn_SSL_get_app_state_def tcn_SSL_set_app_state_def assms(1))
qed

text \<open>A dynamic lock owns its pool until it is destroyed; only a failed \<^verbatim>\<open>apr_palloc\<close> leaks the pool.\<close>

lemma dynlock_pool:
  assumes "palloc_ok"
  shows "case ssl_dyn_create_function p palloc_ok mtx src line pools of
       Inr (None, pools') \<Rightarrow> pools' = pools
     | Inr (Some l, pools') \<Rightarrow> ssl_dyn_destroy_function l pools' = Inr pools
     | Inl e \<Rightarrow> False"
  using assms by (simp add: ssl_dyn_create_function_def ssl_dyn_destroy_function_def Let_def)

end
