(* ===== verification/Platform.thy ===== *)
theory Platform
  imports Ssl_Init Library_Load
begin

text \<open>
  What the other files build on: the exceptions of \<^verbatim>\<open>error.c\<close>, the direct buffers of \<^verbatim>\<open>bb.c\<close>, the pointer to
  the Java VM and the APR functions of \<^verbatim>\<open>jnilib.c\<close>, and in \<^verbatim>\<open>ssl.c\<close> the version and error strings, the
  table of the Java BIO and the lock callbacks for old versions of OpenSSL.
\<close>

section \<open>Exceptions\<close>

text \<open>The classes that \<^verbatim>\<open>Error_JNI_OnLoad\<close> keeps as global references (\<open>0\<close>: not loaded), and the effect of
  \<^verbatim>\<open>ThrowNew\<close>: the class and the message of the exception that is pending afterwards.\<close>

record error_statics =
  exceptionClass :: int
  nullPointerExceptionClass :: int
  illegalArgumentExceptionClass :: int
  unsupportedOperationExceptionClass :: int
  oomeClass :: int

definition ThrowNew :: "int \<Rightarrow> string \<Rightarrow> (int \<times> string) cres" where
  "ThrowNew cls msg = (if cls = 0 then Inl (UB Null_Deref) else Inr (cls, msg))"

definition tcn_ThrowException :: "error_statics \<Rightarrow> string \<Rightarrow> (int \<times> string) cres" where
  "tcn_ThrowException st msg = ThrowNew (exceptionClass st) msg"

definition tcn_ThrowNullPointerException :: "error_statics \<Rightarrow> string \<Rightarrow> (int \<times> string) cres" where
  "tcn_ThrowNullPointerException st msg = ThrowNew (nullPointerExceptionClass st) msg"

definition tcn_ThrowIllegalArgumentException :: "error_statics \<Rightarrow> string \<Rightarrow> (int \<times> string) cres" where
  "tcn_ThrowIllegalArgumentException st msg = ThrowNew (illegalArgumentExceptionClass st) msg"

definition tcn_ThrowUnsupportedOperationException :: "error_statics \<Rightarrow> string \<Rightarrow> (int \<times> string) cres" where
  "tcn_ThrowUnsupportedOperationException st msg = ThrowNew (unsupportedOperationExceptionClass st) msg"

definition tcn_throwOutOfMemoryError :: "error_statics \<Rightarrow> string \<Rightarrow> (int \<times> string) cres" where
  "tcn_throwOutOfMemoryError st msg = ThrowNew (oomeClass st) msg"

definition TCN_BUFFER_SZ :: nat where "TCN_BUFFER_SZ = 8192"

text \<open>\<open>formatted\<close> is the format string with its arguments filled in; \<^verbatim>\<open>apr_vsnprintf\<close> writes as much of it as
  fits before the terminating zero. \<open>text err\<close> is the text of an APR status.\<close>

definition tcn_Throw :: "error_statics \<Rightarrow> string \<Rightarrow> (int \<times> string) cres" where
  "tcn_Throw st formatted = tcn_ThrowException st (take (TCN_BUFFER_SZ - 1) formatted)"

definition tcn_ThrowAPRException :: "error_statics \<Rightarrow> (int \<Rightarrow> string) \<Rightarrow> int \<Rightarrow> (int \<times> string) cres" where
  "tcn_ThrowAPRException st descr err = tcn_ThrowException st (take (512 - 1) (descr err))"

text \<open>\<^verbatim>\<open>TCN_THROW_IF_ERR(x, r)\<close>: the value of \<open>r\<close> afterwards and the exception, if it jumps to \<^verbatim>\<open>cleanup\<close>.\<close>

definition TCN_THROW_IF_ERR ::
  "error_statics \<Rightarrow> (int \<Rightarrow> string) \<Rightarrow> int \<Rightarrow> int \<Rightarrow> (int \<times> (int \<times> string) option) cres" where
  "TCN_THROW_IF_ERR st descr status r =
   (if status \<noteq> 0 then cbind (tcn_ThrowAPRException st descr status) (\<lambda>e. Inr (0, Some e)) else Inr (r, None))"

definition errors_loaded :: "error_statics \<Rightarrow> bool" where
  "errors_loaded st \<longleftrightarrow> 0 \<notin> {exceptionClass st, nullPointerExceptionClass st, illegalArgumentExceptionClass st,
     unsupportedOperationExceptionClass st, oomeClass st}"

lemma throws_when_loaded:
  assumes "errors_loaded st"
  shows "tcn_Throw st s = Inr (exceptionClass st, take 8191 s)"
    "tcn_ThrowNullPointerException st s = Inr (nullPointerExceptionClass st, s)"
    "tcn_ThrowIllegalArgumentException st s = Inr (illegalArgumentExceptionClass st, s)"
    "tcn_ThrowUnsupportedOperationException st s = Inr (unsupportedOperationExceptionClass st, s)"
    "tcn_throwOutOfMemoryError st s = Inr (oomeClass st, s)"
    "TCN_THROW_IF_ERR st descr status r =
       Inr (if status = 0 then (r, None) else (0, Some (exceptionClass st, take 511 (descr status))))"
  using assms
  by (simp_all add: errors_loaded_def ThrowNew_def tcn_Throw_def tcn_ThrowException_def TCN_BUFFER_SZ_def
      tcn_ThrowNullPointerException_def tcn_ThrowIllegalArgumentException_def
      tcn_ThrowUnsupportedOperationException_def tcn_throwOutOfMemoryError_def TCN_THROW_IF_ERR_def
      tcn_ThrowAPRException_def)

section \<open>Direct buffers\<close>

text \<open>What JNI reports of a buffer: address and capacity, or \<^verbatim>\<open>NULL\<close> and -1 when it is not direct.\<close>

datatype java_buffer = Direct_Buffer int int | Heap_Buffer

definition Buffer_address :: "java_buffer \<Rightarrow> int" where
  "Buffer_address bb = (case bb of Direct_Buffer addr cap \<Rightarrow> addr | Heap_Buffer \<Rightarrow> 0)"

definition Buffer_size :: "java_buffer \<Rightarrow> int" where
  "Buffer_size bb = (case bb of Direct_Buffer addr cap \<Rightarrow> cap | Heap_Buffer \<Rightarrow> -1)"

section \<open>The Java VM\<close>

text \<open>\<^verbatim>\<open>tcn_global_vm\<close> (\<open>0\<close>: none). \<open>res\<close> is what \<^verbatim>\<open>netty_jni_util_JNI_OnLoad\<close> returns for
  \<^verbatim>\<open>Library_JNI_OnLoad\<close>; the entry points for static linking and for \<^verbatim>\<open>System.load\<close> are the same.\<close>

definition JNI_OnLoad :: "int \<Rightarrow> load_result \<Rightarrow> int \<Rightarrow> load_result \<times> int" where
  "JNI_OnLoad vm res tcn_global_vm = (res, if res = JNI_ERR then 0 else vm)"

definition JNI_OnUnload :: "int \<Rightarrow> int" where
  "JNI_OnUnload tcn_global_vm = 0"

text \<open>\<open>GetEnv\<close> is the function of the VM: a status and the environment of the calling thread.\<close>

definition tcn_get_java_env :: "(int \<Rightarrow> int \<times> int) \<Rightarrow> int \<Rightarrow> (int \<times> int) cres" where
  "tcn_get_java_env GetEnv tcn_global_vm =
     (if tcn_global_vm = 0 then Inl (UB Null_Deref) else Inr (GetEnv tcn_global_vm))"

datatype vm_event = VM_Load int load_result | VM_Unload

definition vm_step :: "int \<Rightarrow> vm_event \<Rightarrow> int" where
  "vm_step v e = (case e of VM_Load vm res \<Rightarrow> snd (JNI_OnLoad vm res v) | VM_Unload \<Rightarrow> JNI_OnUnload v)"

text \<open>Callbacks may ask for their environment exactly while the library is loaded.\<close>

lemma java_env_while_loaded:
  "tcn_get_java_env GetEnv (foldl vm_step 0 (es @ [e])) =
   (case e of VM_Load vm res \<Rightarrow> if res = JNI_ERR \<or> vm = 0 then Inl (UB Null_Deref) else Inr (GetEnv vm)
    | VM_Unload \<Rightarrow> Inl (UB Null_Deref))"
  by (simp add: tcn_get_java_env_def vm_step_def JNI_OnLoad_def JNI_OnUnload_def split: vm_event.split)

section \<open>APR and TLS library versions, error strings\<close>

record apr_version =
  apr_major :: int
  apr_text :: string
  apr_has_threads :: bool

definition aprMajorVersion :: "apr_version \<Rightarrow> int" where "aprMajorVersion v = apr_major v"

definition aprVersionString :: "apr_version \<Rightarrow> string" where "aprVersionString v = apr_text v"

definition aprHasThreads :: "apr_version \<Rightarrow> bool" where "aprHasThreads v = apr_has_threads v"

definition ERR_LEN :: nat where "ERR_LEN = 256"

text \<open>The error queue of the thread; \<^verbatim>\<open>ERR_get_error\<close> takes the oldest entry, \<open>0\<close> when there is none.
  \<open>descr\<close> is the full text of an error, of which the buffer takes at most 255 characters.\<close>

definition ERR_get_error_queue :: "int list \<Rightarrow> int \<times> int list" where
  "ERR_get_error_queue q = (case q of [] \<Rightarrow> (0, []) | n # ns \<Rightarrow> (n, ns))"

definition getErrorString :: "(int \<Rightarrow> string) \<Rightarrow> int \<Rightarrow> string" where
  "getErrorString descr number = take (ERR_LEN - 1) (descr number)"

definition getLastError :: "(int \<Rightarrow> string) \<Rightarrow> int list \<Rightarrow> string \<times> int list" where
  "getLastError descr q =
     (let (n, q') = ERR_get_error_queue q in (take (ERR_LEN - 1) (descr n), q'))"

text \<open>\<^verbatim>\<open>getCipherForSSL\<close>, \<^verbatim>\<open>getVersion\<close> and \<^verbatim>\<open>versionString\<close>: a string of the library, \<open>None\<close> is \<^verbatim>\<open>null\<close>.\<close>

definition versionString :: "string option \<Rightarrow> string option" where
  "versionString OpenSSL_version = OpenSSL_version"

definition getCipherForSSL :: "(int \<Rightarrow> string option) \<Rightarrow> int \<Rightarrow> jexc + string option" where
  "getCipherForSSL SSL_get_cipher ssl =
     (if ssl = 0 then Inl (NullPointerException ''ssl'') else Inr (SSL_get_cipher ssl))"

definition getVersion :: "(int \<Rightarrow> string option) \<Rightarrow> int \<Rightarrow> jexc + string option" where
  "getVersion SSL_get_version ssl =
     (if ssl = 0 then Inl (NullPointerException ''ssl'') else Inr (SSL_get_version ssl))"

text \<open>Reading the last error again and again returns the texts of the queue, oldest first.\<close>

lemma getLastError_rest: "((\<lambda>q. snd (getLastError descr q)) ^^ i) q = drop i q"
proof (induction i)
  case (Suc i)
  then show ?case
    by (cases "drop i q") (simp_all add: getLastError_def ERR_get_error_queue_def drop_Suc flip: tl_drop)
qed simp

lemma getLastError_order:
  "i < length q \<Longrightarrow> fst (getLastError descr (((\<lambda>q. snd (getLastError descr q)) ^^ i) q)) = getErrorString descr (q ! i)"
  unfolding getLastError_rest
  by (simp add: getLastError_def ERR_get_error_queue_def getErrorString_def Cons_nth_drop_Suc [symmetric])

section \<open>The table of the Java BIO\<close>

datatype bio_slot = Bwrite | Bread | Bputs | Bgets | Bctrl | Bcreate | Bdestroy

text \<open>The initialiser of the static struct, in the order of its fields after type and name, and the calls
  of \<^verbatim>\<open>init_bio_methods\<close>.\<close>

definition bio_method_struct :: "string list" where
  "bio_method_struct =
    [''bio_java_bytebuffer_write'', ''bio_java_bytebuffer_read'', ''bio_java_bytebuffer_puts'',
     ''bio_java_bytebuffer_gets'', ''bio_java_bytebuffer_ctrl'', ''bio_java_bytebuffer_create'',
     ''bio_java_bytebuffer_destroy'']"

definition bio_meth_calls :: "(bio_slot \<times> string) list" where
  "bio_meth_calls =
    [(Bwrite, ''bio_java_bytebuffer_write''), (Bread, ''bio_java_bytebuffer_read''),
     (Bputs, ''bio_java_bytebuffer_puts''), (Bgets, ''bio_java_bytebuffer_gets''),
     (Bctrl, ''bio_java_bytebuffer_ctrl''), (Bcreate, ''bio_java_bytebuffer_create''),
     (Bdestroy, ''bio_java_bytebuffer_destroy'')]"

definition bio_functions :: "build \<Rightarrow> bio_slot \<Rightarrow> string option" where
  "bio_functions b =
   (if has_bio_methods b then map_of bio_meth_calls
    else map_of (zip [Bwrite, Bread, Bputs, Bgets, Bctrl, Bcreate, Bdestroy] bio_method_struct))"

lemma bio_functions_same: "bio_functions b = bio_functions b'" "bio_functions b slot \<noteq> None"
  by (auto simp: bio_functions_def bio_meth_calls_def bio_method_struct_def) (cases slot; simp)+

definition BIO_java_bytebuffer :: "build \<Rightarrow> int \<Rightarrow> ssl_globals \<Rightarrow> int" where
  "BIO_java_bytebuffer b static_table g =
     (if has_bio_methods b then bio_java_bytebuffer_methods g else static_table)"

section \<open>Locks for old versions of OpenSSL\<close>

datatype crypto_callback = THREADID_callback | Locking_callback | Dynlock_create | Dynlock_lock | Dynlock_destroy

record thread_statics =
  ssl_lock_cs :: "int list"
  ssl_lock_num_locks :: int
  dynlockpool :: int
  crypto_callbacks :: "crypto_callback set"

text \<open>\<open>mtx i\<close> is the mutex made for lock \<open>i\<close>. The result of \<^verbatim>\<open>apr_palloc\<close> is not checked.\<close>

definition ssl_thread_setup ::
  "int \<Rightarrow> nat \<Rightarrow> bool \<Rightarrow> (nat \<Rightarrow> int) \<Rightarrow> thread_statics \<Rightarrow> thread_statics cres" where
  "ssl_thread_setup p num_locks palloc_ok mtx st =
   (if num_locks > 0 \<and> \<not> palloc_ok then Inl (UB Null_Deref)
    else Inr (st\<lparr>ssl_lock_num_locks := int num_locks, ssl_lock_cs := map mtx [0..<num_locks], dynlockpool := p,
      crypto_callbacks := {THREADID_callback, Locking_callback, Dynlock_create, Dynlock_lock, Dynlock_destroy}\<rparr>))"

definition ssl_thread_cleanup :: "thread_statics \<Rightarrow> thread_statics" where
  "ssl_thread_cleanup st = st\<lparr>crypto_callbacks := {}, dynlockpool := 0\<rparr>"

definition ssl_thread_id :: "int \<Rightarrow> int" where "ssl_thread_id os_thread = os_thread mod 2 ^ 64"

text \<open>After the setup the library's lock \<open>i\<close> is the \<open>i\<close>-th mutex, for every type the library uses; the
  cleanup takes every callback back, so that the array, which dies with the pool, is not used again.\<close>

lemma thread_locks:
  assumes "ssl_thread_setup p n ok mtx st = Inr st'"
  shows "\<forall>i < n. ssl_thread_lock lock (int i) (ssl_lock_cs st') = Inr (Some (lock, mtx i))"
    "i \<ge> n \<Longrightarrow> ssl_thread_lock lock (int i) (ssl_lock_cs st') = Inr None"
    "crypto_callbacks (ssl_thread_cleanup st') = {}" "dynlockpool (ssl_thread_cleanup st') = 0"
  using assms by (auto simp: ssl_thread_setup_def ssl_thread_lock_def ssl_thread_cleanup_def split: if_splits)

end
