(* ===== verification/Handshake.thy ===== *)
theory Handshake
  imports Async_Keys
begin

text \<open>
  The callbacks of one connection together. Certificate verification (\<^verbatim>\<open>tcn_SSL_cert_custom_verify\<close>),
  certificate selection (\<^verbatim>\<open>certificate_cb\<close>) and the private key method share the one
  \<^verbatim>\<open>ssl_task\<close> slot of \<^verbatim>\<open>tcn_ssl_state_t\<close>, and so do \<^verbatim>\<open>SSL.getTask\<close> and the Java tasks.

  A handshake is a list of phases, one per callback that OpenSSL will invoke; which phases occur and
  in which order is up to the library, so the theorems hold for every list. A suspended callback is
  resumed as the library documents it: verification and certificate selection by calling the
  callback again, a private key operation by calling \<^verbatim>\<open>complete\<close>. A phase that fails ends the
  handshake. Java may fetch the task of the connection and run the task it holds at any time.

  The lemmas show that, over every interleaving, no callback reads the task of another callback and
  no reference is leaked, and that when Java runs the tasks it is handed, the handshake comes to its
  end with the outcomes that the answers of the Java callbacks give.
\<close>

section \<open>The joint state\<close>

datatype hs_task = VTask jtask | KTask ktask

datatype hs_phase =
    Verify_Phase verify_env
  | Certificate_Phase key_env cert_env
  | Sign_Phase key_env int "byte list" nat
  | Decrypt_Phase key_env "byte list" nat

datatype hs_outcome =
    Verify_Outcome ssl_verify_result
  | Certificate_Outcome int
  | Key_Outcome ssl_private_key_result "byte list option"

record hs_world =
  hs_state :: "tcn_ssl_state option"
  hs_refs :: "int list"
  hs_tasks :: "int \<Rightarrow> hs_task option"
  hs_alert :: "int option"
  hs_phases :: "hs_phase list"
  hs_suspended :: bool
  hs_outcomes :: "hs_outcome list"
  hs_held :: int

text \<open>What does not change during the handshake: the build, the context and the Java callbacks.\<close>

record hs_conf =
  hc_build :: build
  hc_alert :: "x509_result \<Rightarrow> int"
  hc_ctxt :: tcn_ssl_ctxt
  hc_verify :: java_verifier
  hc_handle :: "key_request \<Rightarrow> bool"
  hc_key :: "key_request \<Rightarrow> key_answer"

text \<open>
  The views of the two kinds of callbacks on the joint state. A task of the other kind is not
  visible, so reading one would be the error case of the callback.
\<close>

definition verify_view :: "hs_world \<Rightarrow> verify_world" where
  "verify_view w = \<lparr>vw_state = hs_state w, vw_refs = hs_refs w,
     vw_tasks = (\<lambda>r. case hs_tasks w r of Some (VTask t) \<Rightarrow> Some t | _ \<Rightarrow> None),
     vw_alert = hs_alert w\<rparr>"

definition put_verify :: "verify_world \<Rightarrow> hs_world \<Rightarrow> hs_world" where
  "put_verify v w = w\<lparr>hs_state := vw_state v, hs_refs := vw_refs v, hs_alert := vw_alert v,
     hs_tasks := (\<lambda>r. case vw_tasks v r of Some t \<Rightarrow> Some (VTask t)
                     | None \<Rightarrow> (case hs_tasks w r of Some (KTask k) \<Rightarrow> Some (KTask k) | _ \<Rightarrow> None))\<rparr>"

definition key_view :: "hs_world \<Rightarrow> key_world" where
  "key_view w = \<lparr>kw_state = hs_state w, kw_refs = hs_refs w,
     kw_tasks = (\<lambda>r. case hs_tasks w r of Some (KTask t) \<Rightarrow> Some t | _ \<Rightarrow> None)\<rparr>"

definition put_key :: "key_world \<Rightarrow> hs_world \<Rightarrow> hs_world" where
  "put_key v w = w\<lparr>hs_state := kw_state v, hs_refs := kw_refs v,
     hs_tasks := (\<lambda>r. case kw_tasks v r of Some t \<Rightarrow> Some (KTask t)
                     | None \<Rightarrow> (case hs_tasks w r of Some (VTask k) \<Rightarrow> Some (VTask k) | _ \<Rightarrow> None))\<rparr>"

section \<open>Steps\<close>

text \<open>The bytes of a direct call that correspond to the answer a task gets; a task that reports an
  error is completed with an empty array.\<close>

definition answer_bytes :: "key_answer \<Rightarrow> byte list option option" where
  "answer_bytes a = (case a of On_Success r \<Rightarrow> Some r | On_Error \<Rightarrow> Some (Some []) | No_Answer \<Rightarrow> None)"

definition invoke :: "hs_conf \<Rightarrow> bool \<Rightarrow> hs_phase \<Rightarrow> hs_world \<Rightarrow> (hs_outcome \<times> hs_world) cres" where
  "invoke cf resumed ph w =
   (case ph of
      Verify_Phase env \<Rightarrow>
        cbind (tcn_SSL_cert_custom_verify (hc_build cf) (hc_alert cf) (env\<lparr>java_verify := hc_verify cf\<rparr>)
                 (Some (hc_ctxt cf)) (verify_view w))
          (\<lambda>(r, v). Inr (Verify_Outcome r, put_verify v w))
    | Certificate_Phase env ce \<Rightarrow>
        cbind (certificate_cb (hc_build cf) env (ce\<lparr>ce_handle := hc_handle cf\<rparr>) (Some (hc_ctxt cf)) (key_view w))
          (\<lambda>(r, v). Inr (Certificate_Outcome r, put_key v w))
    | Sign_Phase env alg inp max_out \<Rightarrow>
        cbind (if resumed then tcn_private_key_complete_java env max_out (Some (hc_ctxt cf)) (key_view w)
               else tcn_private_key_sign_java env (\<lambda>q. answer_bytes (hc_key cf q)) alg inp max_out
                      (Some (hc_ctxt cf)) (key_view w))
          (\<lambda>(r, out, v). Inr (Key_Outcome r out, put_key v w))
    | Decrypt_Phase env inp max_out \<Rightarrow>
        cbind (if resumed then tcn_private_key_complete_java env max_out (Some (hc_ctxt cf)) (key_view w)
               else tcn_private_key_decrypt_java env (\<lambda>q. answer_bytes (hc_key cf q)) inp max_out
                      (Some (hc_ctxt cf)) (key_view w))
          (\<lambda>(r, out, v). Inr (Key_Outcome r out, put_key v w)))"

definition outcome_retry :: "hs_outcome \<Rightarrow> bool" where
  "outcome_retry oc = (case oc of Verify_Outcome r \<Rightarrow> r = ssl_verify_retry
     | Certificate_Outcome r \<Rightarrow> r < 0 | Key_Outcome r out \<Rightarrow> r = ssl_private_key_retry)"

definition outcome_ok :: "hs_outcome \<Rightarrow> bool" where
  "outcome_ok oc = (case oc of Verify_Outcome r \<Rightarrow> r = ssl_verify_ok
     | Certificate_Outcome r \<Rightarrow> r > 0 | Key_Outcome r out \<Rightarrow> r = ssl_private_key_success)"

definition after_callback :: "hs_outcome \<Rightarrow> hs_world \<Rightarrow> hs_world" where
  "after_callback oc w =
   (if outcome_retry oc then w\<lparr>hs_suspended := True\<rparr>
    else w\<lparr>hs_suspended := False, hs_outcomes := hs_outcomes w @ [oc],
           hs_phases := (if outcome_ok oc then tl (hs_phases w) else [])\<rparr>)"

definition run_hs_task :: "hs_conf \<Rightarrow> hs_task \<Rightarrow> hs_task" where
  "run_hs_task cf t =
   (case t of VTask jt \<Rightarrow> VTask (run_verifier_task (hc_verify cf) jt)
    | KTask kt \<Rightarrow> KTask (case kt_request kt of
          Certificate_Request ts ns \<Rightarrow> run_certificate_task (hc_handle cf) kt
        | _ \<Rightarrow> run_key_task (hc_key cf) kt))"

datatype hs_event = Do_Handshake | Fetch | Run

definition hs_step :: "hs_conf \<Rightarrow> hs_world \<Rightarrow> hs_event \<Rightarrow> hs_world cres" where
  "hs_step cf w e =
   (case e of
      Do_Handshake \<Rightarrow>
        (case hs_phases w of [] \<Rightarrow> Inr w
         | ph # rest \<Rightarrow> cbind (invoke cf (hs_suspended w) ph w) (\<lambda>(oc, w'). Inr (after_callback oc w')))
    | Fetch \<Rightarrow>
        (let (obj, st) = getTask (hs_state w) in
         Inr (w\<lparr>hs_state := st, hs_held := (if obj \<noteq> 0 then obj else hs_held w)\<rparr>))
    | Run \<Rightarrow> Inr (w\<lparr>hs_tasks := (hs_tasks w)(hs_held w := map_option (run_hs_task cf) (hs_tasks w (hs_held w)))\<rparr>))"

text \<open>The same handshake without tasks: every callback calls Java itself (private key operations are
  undefined then).\<close>

fun direct_run :: "hs_conf \<Rightarrow> hs_phase list \<Rightarrow> hs_world \<Rightarrow> (hs_outcome list \<times> hs_world) cres" where
  "direct_run cf [] w = Inr ([], w)"
| "direct_run cf (ph # rest) w =
     cbind (invoke (cf\<lparr>hc_ctxt := hc_ctxt cf\<lparr>use_tasks := False\<rparr>\<rparr>) False ph w) (\<lambda>(oc, w').
       if outcome_ok oc then cbind (direct_run cf rest w') (\<lambda>(ocs, w''). Inr (oc # ocs, w''))
       else Inr ([oc], w'))"

section \<open>What a phase gives without tasks\<close>

text \<open>What verification hands to Java: the certificates and the length of the whole chain, or the
  result when it does not get that far.\<close>

definition verify_request ::
  "verify_env \<Rightarrow> tcn_ssl_ctxt \<Rightarrow> tcn_ssl_verify_config \<Rightarrow> (byte list list \<times> nat) + x509_result" where
  "verify_request env c cfg =
   (case peer_chain env of None \<Rightarrow> Inr X509_V_ERR_UNSPECIFIED
    | Some chain \<Rightarrow>
      (case get_certs (verify_depth cfg) chain (array_ok env) (elem_ok env) of
         None \<Rightarrow> Inr X509_V_ERR_UNSPECIFIED
       | Some arr \<Rightarrow>
         if \<not> auth_string_ok env then Inr X509_V_ERR_UNSPECIFIED
         else if verifier c = 0
         then Inr (issuer_if_truncated X509_V_ERR_UNSPECIFIED (length arr) (length chain))
         else Inl (arr, length chain)))"

definition verify_verdict :: "hs_conf \<Rightarrow> tcn_ssl_verify_config \<Rightarrow> verify_env \<Rightarrow> x509_result" where
  "verify_verdict cf cfg env =
   (if \<not> java_env_ok env then X509_V_ERR_UNSPECIFIED
    else (case verify_request env (hc_ctxt cf) cfg of
       Inr x \<Rightarrow> x
     | Inl (arr, n) \<Rightarrow>
       (case hc_verify cf arr (authentication_method (hc_build cf) (env_ssl2 env) (env_cipher env)) of
          None \<Rightarrow> X509_V_ERR_UNSPECIFIED
        | Some r \<Rightarrow> issuer_if_truncated r (length arr) n)))"

text \<open>The outcome of a phase and the alert after it.\<close>

definition key_result :: "hs_conf \<Rightarrow> key_env \<Rightarrow> key_request \<Rightarrow> nat \<Rightarrow> hs_outcome" where
  "key_result cf env req max_out =
   (if ssl_private_key_method (hc_ctxt cf) = 0 \<or> \<not> k_java_ok env \<or> \<not> k_input_ok env
    then Key_Outcome ssl_private_key_failure None
    else (case answer_bytes (hc_key cf req) of
        None \<Rightarrow> Key_Outcome ssl_private_key_failure None
      | Some res \<Rightarrow> (case copy_result env max_out res of (r, out) \<Rightarrow> Key_Outcome r out)))"

definition phase_result ::
  "hs_conf \<Rightarrow> tcn_ssl_verify_config \<Rightarrow> hs_phase \<Rightarrow> int option \<Rightarrow> hs_outcome \<times> int option" where
  "phase_result cf cfg ph a =
   (case ph of
      Verify_Phase env \<Rightarrow>
        (let x = verify_verdict cf cfg env in
         if x = X509_V_OK then (Verify_Outcome ssl_verify_ok, a)
         else (Verify_Outcome ssl_verify_invalid, Some (hc_alert cf x)))
    | Certificate_Phase env ce \<Rightarrow>
        (Certificate_Outcome
           (if k_java_ok env \<and> hc_handle cf (cert_request_args (hc_build cf) ce (hc_ctxt cf)) then 1 else 0), a)
    | Sign_Phase env alg inp max_out \<Rightarrow> (key_result cf env (Sign_Request alg inp) max_out, a)
    | Decrypt_Phase env inp max_out \<Rightarrow> (key_result cf env (Decrypt_Request inp) max_out, a))"

fun handshake_result ::
  "hs_conf \<Rightarrow> tcn_ssl_verify_config \<Rightarrow> hs_phase list \<Rightarrow> int option \<Rightarrow> hs_outcome list \<times> int option" where
  "handshake_result cf cfg [] a = ([], a)"
| "handshake_result cf cfg (ph # rest) a =
     (let (oc, a') = phase_result cf cfg ph a in
      if outcome_ok oc then (let (ocs, a'') = handshake_result cf cfg rest a' in (oc # ocs, a''))
      else ([oc], a'))"

definition key_phase :: "hs_phase \<Rightarrow> bool" where
  "key_phase ph = (case ph of Verify_Phase env \<Rightarrow> False | Certificate_Phase env ce \<Rightarrow> False | _ \<Rightarrow> True)"

section \<open>Views\<close>

lemma view_simps [simp]:
  "vw_state (verify_view w) = hs_state w" "vw_refs (verify_view w) = hs_refs w"
  "vw_alert (verify_view w) = hs_alert w"
  "kw_state (key_view w) = hs_state w" "kw_refs (key_view w) = hs_refs w"
  by (simp_all add: verify_view_def key_view_def)

lemma view_tasks:
  "vw_tasks (verify_view w) r = Some jt \<longleftrightarrow> hs_tasks w r = Some (VTask jt)"
  "kw_tasks (key_view w) r = Some kt \<longleftrightarrow> hs_tasks w r = Some (KTask kt)"
  by (auto simp: verify_view_def key_view_def split: option.splits hs_task.splits)

lemma put_view [simp]: "put_verify (verify_view w) w = w" "put_key (key_view w) w = w"
  by (auto simp: put_verify_def verify_view_def put_key_def key_view_def fun_eq_iff
      intro!: hs_world.equality split: option.splits hs_task.splits)

lemma put_simps [simp]:
  "hs_state (put_verify v w) = vw_state v" "hs_refs (put_verify v w) = vw_refs v"
  "hs_alert (put_verify v w) = vw_alert v" "hs_phases (put_verify v w) = hs_phases w"
  "hs_suspended (put_verify v w) = hs_suspended w" "hs_outcomes (put_verify v w) = hs_outcomes w"
  "hs_held (put_verify v w) = hs_held w"
  "hs_state (put_key k w) = kw_state k" "hs_refs (put_key k w) = kw_refs k"
  "hs_alert (put_key k w) = hs_alert w" "hs_phases (put_key k w) = hs_phases w"
  "hs_suspended (put_key k w) = hs_suspended w" "hs_outcomes (put_key k w) = hs_outcomes w"
  "hs_held (put_key k w) = hs_held w"
  by (simp_all add: put_verify_def put_key_def)

lemma put_tasks:
  "vw_tasks v r = Some jt \<Longrightarrow> hs_tasks (put_verify v w) r = Some (VTask jt)"
  "kw_tasks k r = Some kt \<Longrightarrow> hs_tasks (put_key k w) r = Some (KTask kt)"
  by (simp_all add: put_verify_def put_key_def)

lemma put_verify_alert:
  "put_verify ((verify_view w)\<lparr>vw_alert := a\<rparr>) w = w\<lparr>hs_alert := a\<rparr>"
  by (auto simp: put_verify_def verify_view_def fun_eq_iff
      intro!: hs_world.equality split: option.splits hs_task.splits)

section \<open>Callbacks on an empty slot\<close>

lemma custom_verify_idle:
  assumes "vw_state w = Some s" "ssl_task s = None" "java_env_ok env"
  shows "tcn_SSL_cert_custom_verify b alert env (Some c) w =
   (let auth = authentication_method b (env_ssl2 env) (env_cipher env) in
    case verify_request env c (state_verify_config s) of
      Inr x \<Rightarrow> Inr (verify_finish alert x w)
    | Inl (arr, n) \<Rightarrow>
      if use_tasks c then
        (if \<not> task_class_ok env then Inr (verify_finish alert X509_V_ERR_UNSPECIFIED w)
         else (case tcn_ssl_task_new (new_task_obj env) (task_malloc_ok env) (new_task_ref env) (vw_refs w) of
             (None, _) \<Rightarrow> Inr (verify_finish alert X509_V_ERR_UNSPECIFIED w)
           | (Some tk, refs') \<Rightarrow>
             Inr (ssl_verify_retry,
                  w\<lparr>vw_refs := refs', vw_tasks := (vw_tasks w)(task tk \<mapsto> CertificateVerifierTask arr auth),
                    vw_state := Some (s\<lparr>ssl_task := Some tk, task_array_len := int (length arr),
                                       task_chain_num := int n\<rparr>)\<rparr>)))
      else (case java_verify env arr auth of
              None \<Rightarrow> Inr (verify_finish alert X509_V_ERR_UNSPECIFIED w)
            | Some r \<Rightarrow> Inr (verify_finish alert (issuer_if_truncated r (length arr) n) w)))"
  using assms by (auto simp: tcn_SSL_cert_custom_verify_def verify_request_def Let_def split: option.split)

lemma verify_request_cong [simp]:
  "verify_request (env\<lparr>java_verify := v\<rparr>) c cfg = verify_request env c cfg"
  "verify_request env (c\<lparr>use_tasks := u\<rparr>) cfg = verify_request env c cfg"
  by (simp_all add: verify_request_def split: option.split)

lemma cert_request_args_cong [simp]:
  "cert_request_args b (ce\<lparr>ce_handle := h\<rparr>) c = cert_request_args b ce c"
  "cert_request_args b ce (c\<lparr>use_tasks := u\<rparr>) = cert_request_args b ce c"
  by (simp_all add: cert_request_args_def)

lemma copy_result_not_retry: "copy_result env n res = (r, out) \<Longrightarrow> r \<noteq> ssl_private_key_retry"
  by (auto simp: copy_result_def split: option.splits if_splits)

lemma key_result_not_retry: "\<not> outcome_retry (key_result cf env req max_out)"
  by (auto simp: key_result_def outcome_retry_def split: option.split prod.split dest: copy_result_not_retry)

text \<open>Without tasks verification and certificate selection give the result of their phase and change only
  the alert. (Private key operations are undefined then, see \<open>direct_key_call_undefined\<close>.)\<close>

lemma invoke_direct:
  assumes "hs_state w = Some s" "ssl_task s = None" "\<not> use_tasks (hc_ctxt cf)" "\<not> key_phase ph"
    and "phase_result cf (state_verify_config s) ph (hs_alert w) = (oc, a)"
  shows "invoke cf False ph w = Inr (oc, w\<lparr>hs_alert := a\<rparr>)"
proof (cases ph)
  case (Verify_Phase env)
  have "tcn_SSL_cert_custom_verify (hc_build cf) (hc_alert cf) (env\<lparr>java_verify := hc_verify cf\<rparr>)
      (Some (hc_ctxt cf)) (verify_view w)
     = Inr (verify_finish (hc_alert cf) (verify_verdict cf (state_verify_config s) env) (verify_view w))"
  proof (cases "java_env_ok env")
    case True
    then show ?thesis using assms
      by (subst custom_verify_idle) (auto simp: verify_verdict_def Let_def split: sum.split option.split)
  next
    case False
    then show ?thesis using assms by (simp add: tcn_SSL_cert_custom_verify_def verify_verdict_def)
  qed
  then show ?thesis using assms(5) Verify_Phase
    by (auto simp: invoke_def phase_result_def verify_finish_def put_verify_alert Let_def split: if_splits)
next
  case (Certificate_Phase env ce)
  then show ?thesis using assms
    by (auto simp: invoke_def phase_result_def certificate_cb_def Let_def)
qed (use assms(4) in \<open>simp_all add: key_phase_def\<close>)

lemma phase_result_use_tasks [simp]:
  "phase_result (cf\<lparr>hc_ctxt := hc_ctxt cf\<lparr>use_tasks := u\<rparr>\<rparr>) cfg ph a = phase_result cf cfg ph a"
  by (simp add: phase_result_def verify_verdict_def key_result_def Let_def split: hs_phase.split sum.split option.split)

text \<open>The handshake without tasks is the fold of its phases.\<close>

lemma direct_run_result:
  assumes "hs_state w = Some s" "ssl_task s = None" "\<forall>ph\<in>set phs. \<not> key_phase ph"
  shows "direct_run cf phs w = (case handshake_result cf (state_verify_config s) phs (hs_alert w) of
     (ocs, a) \<Rightarrow> Inr (ocs, w\<lparr>hs_alert := a\<rparr>))"
  using assms
proof (induction phs arbitrary: w)
  case (Cons ph phs)
  obtain oc a where p: "phase_result cf (state_verify_config s) ph (hs_alert w) = (oc, a)" by fastforce
  have "invoke (cf\<lparr>hc_ctxt := hc_ctxt cf\<lparr>use_tasks := False\<rparr>\<rparr>) False ph w = Inr (oc, w\<lparr>hs_alert := a\<rparr>)"
    by (rule invoke_direct [OF Cons.prems(1,2)]) (use Cons.prems(3) in \<open>simp_all add: p\<close>)
  then show ?case using Cons.IH [of "w\<lparr>hs_alert := a\<rparr>"] Cons.prems p by (auto split: prod.split)
qed simp

section \<open>Callbacks and the slot\<close>

definition task_ran :: "hs_task \<Rightarrow> bool" where
  "task_ran tk = (case tk of VTask jt \<Rightarrow> didRun jt | KTask kt \<Rightarrow> kt_didRun kt)"

definition task_done :: "hs_task \<Rightarrow> bool" where
  "task_done tk = (case tk of VTask jt \<Rightarrow> complete jt | KTask kt \<Rightarrow> kt_complete kt)"

text \<open>
  The task of a suspended phase: it was made by this phase, for what the phase has to ask, and if it
  is complete it holds what the Java callback answers.
\<close>

definition pending_verify :: "hs_conf \<Rightarrow> tcn_ssl_state \<Rightarrow> verify_env \<Rightarrow> jtask \<Rightarrow> bool" where
  "pending_verify cf s env jt \<longleftrightarrow>
     (\<exists>n. verify_request env (hc_ctxt cf) (state_verify_config s) = Inl (jt_x509 jt, n)
        \<and> task_chain_num s = int n)
     \<and> task_array_len s = int (length (jt_x509 jt))
     \<and> jt_authAlgorithm jt = authentication_method (hc_build cf) (env_ssl2 env) (env_cipher env)
     \<and> (complete jt \<longrightarrow> hc_verify cf (jt_x509 jt) (jt_authAlgorithm jt) = Some (returnValue jt))"

definition pending_key :: "hs_conf \<Rightarrow> key_env \<Rightarrow> key_request \<Rightarrow> ktask \<Rightarrow> bool" where
  "pending_key cf env req kt \<longleftrightarrow>
     kt_request kt = req \<and> use_tasks (hc_ctxt cf) \<and> ssl_private_key_method (hc_ctxt cf) \<noteq> 0 \<and> k_input_ok env
     \<and> (kt_complete kt \<longrightarrow> answer_bytes (hc_key cf req) = Some (kt_resultBytes kt))"

definition pending :: "hs_conf \<Rightarrow> tcn_ssl_state \<Rightarrow> hs_phase \<Rightarrow> hs_task \<Rightarrow> bool" where
  "pending cf s ph tk =
   (case ph of
      Verify_Phase env \<Rightarrow> (\<exists>jt. tk = VTask jt \<and> pending_verify cf s env jt)
    | Certificate_Phase env ce \<Rightarrow>
        (let req = cert_request_args (hc_build cf) ce (hc_ctxt cf) in
         \<exists>kt. tk = KTask kt \<and> kt_request kt = req
           \<and> (kt_complete kt \<longrightarrow> kt_returnValue kt = (if hc_handle cf req then 1 else 0)))
    | Sign_Phase env alg inp max_out \<Rightarrow> (\<exists>kt. tk = KTask kt \<and> pending_key cf env (Sign_Request alg inp) kt)
    | Decrypt_Phase env inp max_out \<Rightarrow> (\<exists>kt. tk = KTask kt \<and> pending_key cf env (Decrypt_Request inp) kt))"

text \<open>The foreign calls that hand out a task succeed in this phase, and its Java callback answers.\<close>

definition key_env_ready :: "key_env \<Rightarrow> bool" where
  "key_env_ready env \<longleftrightarrow> k_java_ok env \<and> k_class_ok env \<and> k_task_obj env \<noteq> 0 \<and> k_malloc_ok env \<and> k_ref env \<noteq> 0"

definition phase_ready :: "hs_phase \<Rightarrow> bool" where
  "phase_ready ph =
   (case ph of
      Verify_Phase env \<Rightarrow> java_env_ok env \<and> task_class_ok env \<and> new_task_obj env \<noteq> 0 \<and> task_malloc_ok env
        \<and> new_task_ref env \<noteq> 0
    | Certificate_Phase env ce \<Rightarrow> key_env_ready env
    | Sign_Phase env alg inp max_out \<Rightarrow> key_env_ready env
    | Decrypt_Phase env inp max_out \<Rightarrow> key_env_ready env)"

definition java_answers :: "hs_conf \<Rightarrow> bool" where
  "java_answers cf \<longleftrightarrow> (\<forall>x a. hc_verify cf x a \<noteq> None) \<and> (\<forall>req. hc_key cf req \<noteq> No_Answer)"

definition same_rest :: "hs_world \<Rightarrow> hs_world \<Rightarrow> bool" where
  "same_rest w w' \<longleftrightarrow> hs_phases w' = hs_phases w \<and> hs_outcomes w' = hs_outcomes w \<and> hs_held w' = hs_held w"

text \<open>A callback that finds the slot empty finishes, or leaves a new task of its own in the slot.\<close>

definition finishes ::
  "hs_conf \<Rightarrow> hs_phase \<Rightarrow> tcn_ssl_state \<Rightarrow> hs_world \<Rightarrow> (hs_outcome \<times> hs_world) cres \<Rightarrow> bool" where
  "finishes cf ph s w res \<longleftrightarrow>
     (\<exists>oc a. res = Inr (oc, w\<lparr>hs_alert := a\<rparr>) \<and> \<not> outcome_retry oc
        \<and> (phase_ready ph \<and> java_answers cf \<longrightarrow> phase_result cf (state_verify_config s) ph (hs_alert w) = (oc, a)))"

definition suspends ::
  "hs_conf \<Rightarrow> hs_phase \<Rightarrow> tcn_ssl_state \<Rightarrow> hs_world \<Rightarrow> (hs_outcome \<times> hs_world) cres \<Rightarrow> bool" where
  "suspends cf ph s w res \<longleftrightarrow>
     (\<exists>oc w' s' t tk. res = Inr (oc, w') \<and> outcome_retry oc \<and> hs_state w' = Some s' \<and> ssl_task s' = Some t
        \<and> \<not> consumed t \<and> task t \<noteq> 0 \<and> hs_refs w' = task t # hs_refs w \<and> hs_tasks w' (task t) = Some tk
        \<and> pending cf s' ph tk \<and> \<not> task_ran tk \<and> \<not> task_done tk
        \<and> state_verify_config s' = state_verify_config s \<and> hs_alert w' = hs_alert w \<and> same_rest w w')"

lemma same_rest_put [simp]: "same_rest w (put_verify v w)" "same_rest w (put_key k w)"
  by (simp_all add: same_rest_def)

lemma pending_slot [simp]: "pending cf (s\<lparr>ssl_task := t\<rparr>) ph tk = pending cf s ph tk"
  by (simp add: pending_def pending_verify_def split: hs_phase.split)

lemma suspends_key:
  assumes "store_task env req s (key_view w) = (True, v)"
    and "outcome_retry oc" "pending cf s ph (KTask (new_ktask req))"
  shows "suspends cf ph s w (Inr (oc, put_key v w))"
proof -
  obtain r where r: "r \<noteq> 0" "v = (key_view w)\<lparr>kw_refs := r # hs_refs w,
      kw_state := Some (s\<lparr>ssl_task := Some \<lparr>consumed = False, task = r\<rparr>\<rparr>),
      kw_tasks := (kw_tasks (key_view w))(r \<mapsto> new_ktask req)\<rparr>"
    using store_task_ok [OF assms(1)] by auto
  then have "hs_tasks (put_key v w) r = Some (KTask (new_ktask req))" by (intro put_tasks) simp
  then show ?thesis using assms(2,3) r
    by (auto simp: suspends_def task_ran_def task_done_def new_ktask_def)
qed

lemma store_task_cases:
  obtains (stored) v where "store_task env req s w = (True, v)"
    | (failed) v where "store_task env req s w = (False, v)" "\<not> key_env_ready env"
        "v = w\<lparr>kw_state := Some (s\<lparr>ssl_task := None\<rparr>)\<rparr>"
  by (cases "fst (store_task env req s w)")
     (auto simp: store_task_def key_env_ready_def tcn_ssl_task_new_def Let_def split: if_splits)

lemma put_key_same_state:
  "hs_state w = Some s \<Longrightarrow> ssl_task s = None \<Longrightarrow>
   put_key ((key_view w)\<lparr>kw_state := Some (s\<lparr>ssl_task := None\<rparr>)\<rparr>) w = w"
proof -
  assume s: "hs_state w = Some s" "ssl_task s = None"
  then have "s\<lparr>ssl_task := None\<rparr> = s" by simp
  then have "(key_view w)\<lparr>kw_state := Some (s\<lparr>ssl_task := None\<rparr>)\<rparr> = key_view w"
    using s by (simp add: key_view_def)
  then show ?thesis by simp
qed

lemma finishesI:
  "res = Inr (oc, w\<lparr>hs_alert := a\<rparr>) \<Longrightarrow> \<not> outcome_retry oc \<Longrightarrow>
   (phase_ready ph \<Longrightarrow> java_answers cf \<Longrightarrow> phase_result cf (state_verify_config s) ph (hs_alert w) = (oc, a)) \<Longrightarrow>
   finishes cf ph s w res"
  by (auto simp: finishes_def)

lemma finishes_unchanged:
  "res = Inr (oc, w) \<Longrightarrow> \<not> outcome_retry oc \<Longrightarrow>
   (phase_ready ph \<Longrightarrow> java_answers cf \<Longrightarrow>
    phase_result cf (state_verify_config s) ph (hs_alert w) = (oc, hs_alert w)) \<Longrightarrow>
   finishes cf ph s w res"
  by (rule finishesI [where a = "hs_alert w"]) simp_all

lemma key_operation_idle:
  assumes st: "hs_state w = Some s" "ssl_task s = None" and tasks: "use_tasks (hc_ctxt cf)"
    and ph: "\<And>a. phase_result cf (state_verify_config s) ph a = (key_result cf env req max_out, a)"
      "\<And>tk. pending cf s ph tk \<longleftrightarrow> (\<exists>kt. tk = KTask kt \<and> pending_key cf env req kt)"
      "phase_ready ph = key_env_ready env"
  defines "res \<equiv> cbind (key_operation env (\<lambda>q. answer_bytes (hc_key cf q)) req max_out (Some (hc_ctxt cf)) (key_view w))
      (\<lambda>(r, out, v). Inr (Key_Outcome r out, put_key v w))"
  shows "finishes cf ph s w res \<or> suspends cf ph s w res"
proof (cases "ssl_private_key_method (hc_ctxt cf) \<noteq> 0 \<and> k_java_ok env \<and> k_input_ok env \<and> k_class_ok env")
  case True
  show ?thesis
  proof (cases rule: store_task_cases [of env req s "key_view w"])
    case (stored v)
    then have "res = Inr (Key_Outcome ssl_private_key_retry None, put_key v w)"
      using True tasks st by (simp add: res_def key_operation_def)
    moreover have "pending cf s ph (KTask (new_ktask req))" using True tasks ph(2) by (simp add: pending_key_def new_ktask_def)
    ultimately show ?thesis using suspends_key [OF stored] by (simp add: outcome_retry_def)
  next
    case (failed v)
    then have "res = Inr (Key_Outcome ssl_private_key_failure None, w)"
      using True tasks st by (simp add: res_def key_operation_def put_key_same_state)
    then show ?thesis using failed ph(3) by (intro disjI1 finishes_unchanged) (auto simp: outcome_retry_def)
  qed
next
  case False
  with tasks st have "res = Inr (Key_Outcome ssl_private_key_failure None, w)"
    by (auto simp: res_def key_operation_def)
  moreover have "key_env_ready env \<Longrightarrow> key_result cf env req max_out = Key_Outcome ssl_private_key_failure None"
    using False by (auto simp: key_env_ready_def key_result_def)
  ultimately show ?thesis using ph by (intro disjI1 finishes_unchanged) (auto simp: outcome_retry_def)
qed

lemma certificate_idle:
  assumes st: "hs_state w = Some s" "ssl_task s = None"
  shows "finishes cf (Certificate_Phase env ce) s w (invoke cf False (Certificate_Phase env ce) w)
     \<or> suspends cf (Certificate_Phase env ce) s w (invoke cf False (Certificate_Phase env ce) w)"
    (is "finishes cf ?ph s w ?res \<or> _")
proof (cases "use_tasks (hc_ctxt cf) \<and> k_java_ok env \<and> k_class_ok env")
  case True
  let ?req = "cert_request_args (hc_build cf) ce (hc_ctxt cf)"
  show ?thesis
  proof (cases rule: store_task_cases [of env ?req s "key_view w"])
    case (stored v)
    then have "?res = Inr (Certificate_Outcome (-1), put_key v w)"
      using True st by (simp add: invoke_def certificate_cb_def Let_def)
    moreover have "pending cf s ?ph (KTask (new_ktask ?req))" by (simp add: pending_def new_ktask_def Let_def)
    ultimately show ?thesis using suspends_key [OF stored] by (simp add: outcome_retry_def)
  next
    case (failed v)
    then have "?res = Inr (Certificate_Outcome 0, w)"
      using True st by (simp add: invoke_def certificate_cb_def Let_def put_key_same_state)
    then show ?thesis using failed by (intro disjI1 finishes_unchanged) (auto simp: outcome_retry_def phase_ready_def)
  qed
next
  case False
  then have "?res = Inr (Certificate_Outcome (if k_java_ok env \<and> \<not> use_tasks (hc_ctxt cf)
      \<and> hc_handle cf (cert_request_args (hc_build cf) ce (hc_ctxt cf)) then 1 else 0), w)"
    using st by (auto simp: invoke_def certificate_cb_def Let_def)
  then have "finishes cf ?ph s w ?res"
    by (rule finishes_unchanged)
       (use False in \<open>auto simp: outcome_retry_def phase_ready_def key_env_ready_def phase_result_def\<close>)
  then show ?thesis ..
qed

lemma verify_finish_put:
  "(case verify_finish alert x (verify_view w) of (r, v) \<Rightarrow> Inr (Verify_Outcome r, put_verify v w))
   = Inr (Verify_Outcome (if x = X509_V_OK then ssl_verify_ok else ssl_verify_invalid),
          w\<lparr>hs_alert := (if x = X509_V_OK then hs_alert w else Some (alert x))\<rparr>)"
  by (simp add: verify_finish_def put_verify_alert)

lemma verify_idle:
  assumes st: "hs_state w = Some s" "ssl_task s = None"
  shows "finishes cf (Verify_Phase env) s w (invoke cf False (Verify_Phase env) w)
     \<or> suspends cf (Verify_Phase env) s w (invoke cf False (Verify_Phase env) w)"
    (is "finishes cf ?ph s w ?res \<or> _")
proof -
  let ?v = "verify_view w"
  have fin: "finishes cf ?ph s w ?res"
    if "tcn_SSL_cert_custom_verify (hc_build cf) (hc_alert cf) (env\<lparr>java_verify := hc_verify cf\<rparr>)
          (Some (hc_ctxt cf)) ?v = Inr (verify_finish (hc_alert cf) x ?v)"
      and "phase_ready ?ph \<and> java_answers cf \<Longrightarrow> x = verify_verdict cf (state_verify_config s) env" for x
    by (rule finishesI) (use that in \<open>auto simp: invoke_def verify_finish_put outcome_retry_def phase_result_def Let_def
        split: if_split_asm\<close>)
  show ?thesis
  proof (cases "java_env_ok env")
    case False
    then show ?thesis using st fin [of X509_V_ERR_UNSPECIFIED]
      by (simp add: tcn_SSL_cert_custom_verify_def phase_ready_def)
  next
    case True
    note idle = custom_verify_idle [of ?v s "env\<lparr>java_verify := hc_verify cf\<rparr>" "hc_build cf" "hc_alert cf" "hc_ctxt cf"]
    let ?auth = "authentication_method (hc_build cf) (env_ssl2 env) (env_cipher env)"
    show ?thesis
    proof (cases "verify_request env (hc_ctxt cf) (state_verify_config s)")
      case (Inr x)
      then show ?thesis using True st fin [of x] idle by (simp add: verify_verdict_def)
    next
      case (Inl p)
      then obtain arr n where p: "verify_request env (hc_ctxt cf) (state_verify_config s) = Inl (arr, n)" by (cases p) simp
      show ?thesis
      proof (cases "use_tasks (hc_ctxt cf)")
        case False
        then show ?thesis using True st p idle
          fin [of "case hc_verify cf arr ?auth of None \<Rightarrow> X509_V_ERR_UNSPECIFIED | Some r \<Rightarrow> issuer_if_truncated r (length arr) n"]
          by (simp add: verify_verdict_def split: option.splits)
      next
        case tasks: True
        show ?thesis
        proof (cases "task_class_ok env \<and> new_task_obj env \<noteq> 0 \<and> task_malloc_ok env \<and> new_task_ref env \<noteq> 0")
          case False
          then show ?thesis using True tasks st p idle fin [of X509_V_ERR_UNSPECIFIED]
            by (auto simp: tcn_ssl_task_new_def phase_ready_def)
        next
          case created: True
          let ?t = "\<lparr>consumed = False, task = new_task_ref env\<rparr>"
          let ?jt = "CertificateVerifierTask arr ?auth"
          let ?s = "s\<lparr>ssl_task := Some ?t, task_array_len := int (length arr), task_chain_num := int n\<rparr>"
          let ?v' = "?v\<lparr>vw_refs := new_task_ref env # hs_refs w, vw_tasks := (vw_tasks ?v)(new_task_ref env \<mapsto> ?jt),
                       vw_state := Some ?s\<rparr>"
          have "?res = Inr (Verify_Outcome ssl_verify_retry, put_verify ?v' w)"
            using True tasks created st p idle by (simp add: invoke_def tcn_ssl_task_new_def)
          moreover have "hs_tasks (put_verify ?v' w) (new_task_ref env) = Some (VTask ?jt)"
            by (rule put_tasks) simp
          moreover have "pending cf ?s ?ph (VTask ?jt)" "\<not> task_ran (VTask ?jt)" "\<not> task_done (VTask ?jt)"
            using p by (simp_all add: pending_def pending_verify_def CertificateVerifierTask_def
                task_ran_def task_done_def)
          ultimately have "suspends cf ?ph s w ?res"
            using created unfolding suspends_def
            by (intro exI [of _ "Verify_Outcome ssl_verify_retry"] exI [of _ "put_verify ?v' w"] exI [of _ ?s]
                exI [of _ ?t] exI [of _ "VTask ?jt"]) (simp add: outcome_retry_def)
          then show ?thesis ..
        qed
      qed
    qed
  qed
qed

lemma invoke_idle:
  assumes "hs_state w = Some s" "ssl_task s = None" "use_tasks (hc_ctxt cf)"
  shows "finishes cf ph s w (invoke cf False ph w) \<or> suspends cf ph s w (invoke cf False ph w)"
proof (cases ph)
  case (Verify_Phase env)
  then show ?thesis using verify_idle [OF assms(1,2)] by simp
next
  case (Certificate_Phase env ce)
  then show ?thesis using certificate_idle [OF assms(1,2)] by simp
next
  case (Sign_Phase env alg inp max_out)
  then show ?thesis
    using key_operation_idle [OF assms, of ph env "Sign_Request alg inp" max_out]
    by (simp add: invoke_def tcn_private_key_sign_java_def phase_result_def pending_def phase_ready_def)
next
  case (Decrypt_Phase env inp max_out)
  then show ?thesis
    using key_operation_idle [OF assms, of ph env "Decrypt_Request inp" max_out]
    by (simp add: invoke_def tcn_private_key_decrypt_java_def phase_result_def pending_def phase_ready_def)
qed

section \<open>Callbacks on the slot of a suspended phase\<close>

text \<open>
  A resumed callback fails without touching the slot (only when a foreign call fails), waits for its
  task, or finishes with the result of its phase and empties the slot.
\<close>

definition resume_fails :: "hs_phase \<Rightarrow> hs_world \<Rightarrow> (hs_outcome \<times> hs_world) cres \<Rightarrow> bool" where
  "resume_fails ph w res \<longleftrightarrow>
     (\<exists>oc a. res = Inr (oc, w\<lparr>hs_alert := a\<rparr>) \<and> \<not> outcome_retry oc \<and> \<not> outcome_ok oc \<and> \<not> phase_ready ph)"

definition resume_waits :: "hs_task \<Rightarrow> hs_world \<Rightarrow> (hs_outcome \<times> hs_world) cres \<Rightarrow> bool" where
  "resume_waits tk w res \<longleftrightarrow> (\<exists>oc. res = Inr (oc, w) \<and> outcome_retry oc \<and> \<not> task_done tk)"

definition resume_ends ::
  "hs_conf \<Rightarrow> hs_phase \<Rightarrow> tcn_ssl_state \<Rightarrow> hs_task \<Rightarrow> int list \<Rightarrow> hs_world \<Rightarrow> (hs_outcome \<times> hs_world) cres \<Rightarrow> bool" where
  "resume_ends cf ph s tk base w res \<longleftrightarrow>
     (\<exists>oc w'. res = Inr (oc, w') \<and> \<not> outcome_retry oc \<and> task_done tk \<and> hs_state w' = Some (s\<lparr>ssl_task := None\<rparr>)
        \<and> hs_refs w' = base \<and> same_rest w w'
        \<and> (phase_ready ph \<longrightarrow> phase_result cf (state_verify_config s) ph (hs_alert w) = (oc, hs_alert w')))"

definition resumes ::
  "hs_conf \<Rightarrow> hs_phase \<Rightarrow> tcn_ssl_state \<Rightarrow> hs_task \<Rightarrow> int list \<Rightarrow> hs_world \<Rightarrow> (hs_outcome \<times> hs_world) cres \<Rightarrow> bool" where
  "resumes cf ph s tk base w res \<longleftrightarrow>
     resume_fails ph w res \<or> resume_waits tk w res \<or> resume_ends cf ph s tk base w res"

lemma resume_fails_unchanged:
  "res = Inr (oc, w) \<Longrightarrow> \<not> outcome_retry oc \<Longrightarrow> \<not> outcome_ok oc \<Longrightarrow> \<not> phase_ready ph \<Longrightarrow> resume_fails ph w res"
  unfolding resume_fails_def by (intro exI [of _ oc] exI [of _ "hs_alert w"]) simp

lemma drop_task_view [simp]:
  "hs_refs w = task t # base \<Longrightarrow> task t \<noteq> 0 \<Longrightarrow> kw_refs (drop_task s t (key_view w)) = base"
  "kw_state (drop_task s t v) = Some (s\<lparr>ssl_task := None\<rparr>)"
  by (simp_all add: drop_task_def tcn_ssl_task_free_def)

lemma key_complete_busy:
  assumes st: "hs_state w = Some s" "ssl_task s = Some t" "task t \<noteq> 0" "hs_refs w = task t # base"
    "hs_tasks w (task t) = Some (KTask kt)" "pending_key cf env req kt"
    and ph: "\<And>a. phase_result cf (state_verify_config s) ph a = (key_result cf env req max_out, a)"
      "phase_ready ph = key_env_ready env"
  shows "resumes cf ph s (KTask kt) base w
     (cbind (tcn_private_key_complete_java env max_out (Some (hc_ctxt cf)) (key_view w))
        (\<lambda>(r, out, v). Inr (Key_Outcome r out, put_key v w)))" (is "resumes _ _ _ _ _ _ ?res")
proof -
  have c: "use_tasks (hc_ctxt cf)" "ssl_private_key_method (hc_ctxt cf) \<noteq> 0" "k_input_ok env"
    using st(6) by (simp_all add: pending_key_def)
  have view: "kw_tasks (key_view w) (task t) = Some kt" using st(5) by (simp add: view_tasks)
  consider (nojava) "\<not> k_java_ok env" | (waits) "k_java_ok env" "\<not> kt_complete kt"
    | (ends) "k_java_ok env" "kt_complete kt" by blast
  then show ?thesis
  proof cases
    case nojava
    then have "?res = Inr (Key_Outcome ssl_private_key_failure None, w)"
      using st c by (simp add: tcn_private_key_complete_java_def)
    from resume_fails_unchanged [OF this, of ph] show ?thesis
      using nojava ph(2) by (simp add: resumes_def outcome_retry_def outcome_ok_def key_env_ready_def)
  next
    case waits
    then show ?thesis using st c view
      by (simp add: resumes_def resume_waits_def tcn_private_key_complete_java_def outcome_retry_def task_done_def)
  next
    case ends
    obtain r out where ro: "copy_result env max_out (kt_resultBytes kt) = (r, out)" by fastforce
    have "answer_bytes (hc_key cf req) = Some (kt_resultBytes kt)" using st(6) ends by (simp add: pending_key_def)
    then have "key_result cf env req max_out = Key_Outcome r out" using ro c ends by (simp add: key_result_def)
    then show ?thesis using st c view ends ro ph(1) copy_result_not_retry [OF ro]
      by (simp add: resumes_def resume_ends_def tcn_private_key_complete_java_def outcome_retry_def task_done_def)
  qed
qed

lemma certificate_busy:
  assumes st: "hs_state w = Some s" "ssl_task s = Some t" "task t \<noteq> 0" "hs_refs w = task t # base"
    "hs_tasks w (task t) = Some tk" "pending cf s (Certificate_Phase env ce) tk"
  shows "resumes cf (Certificate_Phase env ce) s tk base w (invoke cf True (Certificate_Phase env ce) w)"
    (is "resumes cf ?ph _ _ _ _ ?res")
proof -
  obtain kt where kt: "tk = KTask kt" "kt_complete kt \<longrightarrow>
      kt_returnValue kt = (if hc_handle cf (cert_request_args (hc_build cf) ce (hc_ctxt cf)) then 1 else 0)"
    using st(6) by (auto simp: pending_def Let_def)
  have view: "kw_tasks (key_view w) (task t) = Some kt" using st(5) kt by (simp add: view_tasks)
  consider (nojava) "\<not> k_java_ok env" | (waits) "k_java_ok env" "\<not> kt_complete kt"
    | (ends) "k_java_ok env" "kt_complete kt" by blast
  then show ?thesis
  proof cases
    case nojava
    then have "?res = Inr (Certificate_Outcome 0, w)" using st by (simp add: invoke_def certificate_cb_def)
    from resume_fails_unchanged [OF this, of ?ph] show ?thesis
      using nojava by (simp add: resumes_def outcome_retry_def outcome_ok_def phase_ready_def key_env_ready_def)
  next
    case waits
    then show ?thesis using st view kt
      by (simp add: resumes_def resume_waits_def invoke_def certificate_cb_def outcome_retry_def task_done_def)
  next
    case ends
    then show ?thesis using st view kt
      by (simp add: resumes_def resume_ends_def invoke_def certificate_cb_def outcome_retry_def task_done_def
          phase_result_def)
  qed
qed

lemma verify_busy:
  assumes st: "hs_state w = Some s" "ssl_task s = Some t" "task t \<noteq> 0" "hs_refs w = task t # base"
    "hs_tasks w (task t) = Some tk" "pending cf s (Verify_Phase env) tk"
  shows "resumes cf (Verify_Phase env) s tk base w (invoke cf True (Verify_Phase env) w)"
    (is "resumes cf ?ph _ _ _ _ ?res")
proof -
  obtain jt n where jt: "tk = VTask jt" "verify_request env (hc_ctxt cf) (state_verify_config s) = Inl (jt_x509 jt, n)"
      "task_chain_num s = int n" "task_array_len s = int (length (jt_x509 jt))"
      "jt_authAlgorithm jt = authentication_method (hc_build cf) (env_ssl2 env) (env_cipher env)"
      "complete jt \<Longrightarrow> hc_verify cf (jt_x509 jt) (jt_authAlgorithm jt) = Some (returnValue jt)"
    using st(6) by (auto simp: pending_def pending_verify_def)
  have view: "vw_tasks (verify_view w) (task t) = Some jt" using st(5) jt by (simp add: view_tasks)
  consider (nojava) "\<not> java_env_ok env" | (waits) "java_env_ok env" "\<not> complete jt"
    | (ends) "java_env_ok env" "complete jt" by blast
  then show ?thesis
  proof cases
    case nojava
    then show ?thesis using st
      by (auto simp: resumes_def resume_fails_def invoke_def tcn_SSL_cert_custom_verify_def verify_finish_put
          outcome_retry_def outcome_ok_def phase_ready_def)
  next
    case waits
    then show ?thesis using st view jt
      by (simp add: resumes_def resume_waits_def invoke_def tcn_SSL_cert_custom_verify_def outcome_retry_def
          task_done_def)
  next
    case ends
    let ?x = "issuer_if_truncated (returnValue jt) (length (jt_x509 jt)) n"
    have "verify_verdict cf (state_verify_config s) env = ?x"
      using ends jt by (simp add: verify_verdict_def)
    then show ?thesis using st view jt ends
      by (auto simp: resumes_def resume_ends_def invoke_def tcn_SSL_cert_custom_verify_def outcome_retry_def
          task_done_def phase_result_def Let_def verify_finish_def issuer_if_truncated_def tcn_ssl_task_free_def)
  qed
qed

lemma invoke_busy:
  assumes st: "hs_state w = Some s" "ssl_task s = Some t" "task t \<noteq> 0" "hs_refs w = task t # base"
    "hs_tasks w (task t) = Some tk" "pending cf s ph tk"
  shows "resumes cf ph s tk base w (invoke cf True ph w)"
proof (cases ph)
  case (Verify_Phase env)
  then show ?thesis using verify_busy [OF st(1-5)] st(6) by simp
next
  case (Certificate_Phase env ce)
  then show ?thesis using certificate_busy [OF st(1-5)] st(6) by simp
next
  case (Sign_Phase env alg inp max_out)
  then show ?thesis using st key_complete_busy [of w s t base _ cf env "Sign_Request alg inp" ph max_out]
    by (auto simp: invoke_def pending_def phase_result_def phase_ready_def)
next
  case (Decrypt_Phase env inp max_out)
  then show ?thesis using st key_complete_busy [of w s t base _ cf env "Decrypt_Request inp" ph max_out]
    by (auto simp: invoke_def pending_def phase_result_def phase_ready_def)
qed

section \<open>The invariant\<close>

text \<open>The task in the slot belongs to the phase that is suspended, and Java holds a task it has
  fetched; \<open>base\<close> are the global references that existed before.\<close>

definition hs_safe :: "hs_conf \<Rightarrow> int list \<Rightarrow> hs_world \<Rightarrow> bool" where
  "hs_safe cf base w \<longleftrightarrow>
   (case hs_state w of None \<Rightarrow> False
    | Some s \<Rightarrow>
      (case ssl_task s of
         None \<Rightarrow> hs_refs w = base \<and> \<not> hs_suspended w
       | Some t \<Rightarrow> task t \<noteq> 0 \<and> hs_refs w = task t # base \<and> (consumed t \<longrightarrow> hs_held w = task t)
           \<and> (case hs_tasks w (task t) of None \<Rightarrow> False
              | Some tk \<Rightarrow> (case hs_phases w of [] \<Rightarrow> True | ph # rest \<Rightarrow> hs_suspended w \<and> pending cf s ph tk))))"

text \<open>When Java answers, what happened so far and what is left make up the result of the handshake.\<close>

definition hs_agrees ::
  "hs_conf \<Rightarrow> tcn_ssl_verify_config \<Rightarrow> hs_outcome list \<times> int option \<Rightarrow> hs_world \<Rightarrow> bool" where
  "hs_agrees cf cfg fin w \<longleftrightarrow>
     java_answers cf \<and> (\<forall>ph\<in>set (hs_phases w). phase_ready ph)
     \<and> map_option state_verify_config (hs_state w) = Some cfg
     \<and> (case handshake_result cf cfg (hs_phases w) (hs_alert w) of (ocs, a) \<Rightarrow> (hs_outcomes w @ ocs, a) = fin)
     \<and> (\<forall>s t tk. hs_state w = Some s \<longrightarrow> ssl_task s = Some t \<longrightarrow>
          hs_phases w \<noteq> [] \<and> (hs_tasks w (task t) = Some tk \<longrightarrow> task_ran tk = task_done tk))"

definition hs_inv ::
  "hs_conf \<Rightarrow> bool \<Rightarrow> tcn_ssl_verify_config \<Rightarrow> hs_outcome list \<times> int option \<Rightarrow> int list \<Rightarrow> hs_world \<Rightarrow> bool" where
  "hs_inv cf good cfg fin base w \<longleftrightarrow>
     use_tasks (hc_ctxt cf) \<and> hs_safe cf base w \<and> (good \<longrightarrow> hs_agrees cf cfg fin w)"

lemma hs_safe_cases [consumes 1, case_names idle busy]:
  assumes "hs_safe cf base w"
    and "\<And>s. hs_state w = Some s \<Longrightarrow> ssl_task s = None \<Longrightarrow> hs_refs w = base \<Longrightarrow> \<not> hs_suspended w \<Longrightarrow> P"
    and "\<And>s t tk. hs_state w = Some s \<Longrightarrow> ssl_task s = Some t \<Longrightarrow> task t \<noteq> 0 \<Longrightarrow> hs_refs w = task t # base \<Longrightarrow>
      (consumed t \<longrightarrow> hs_held w = task t) \<Longrightarrow> hs_tasks w (task t) = Some tk \<Longrightarrow>
      (case hs_phases w of [] \<Rightarrow> True | ph # rest \<Rightarrow> hs_suspended w \<and> pending cf s ph tk) \<Longrightarrow> P"
  shows P
  using assms by (auto simp: hs_safe_def split: option.splits)

lemma after_callback_simps [simp]:
  "hs_state (after_callback oc w) = hs_state w" "hs_refs (after_callback oc w) = hs_refs w"
  "hs_tasks (after_callback oc w) = hs_tasks w" "hs_alert (after_callback oc w) = hs_alert w"
  "hs_held (after_callback oc w) = hs_held w" "hs_suspended (after_callback oc w) = outcome_retry oc"
  "hs_phases (after_callback oc w) =
     (if outcome_retry oc then hs_phases w else if outcome_ok oc then tl (hs_phases w) else [])"
  "hs_outcomes (after_callback oc w) = (if outcome_retry oc then hs_outcomes w else hs_outcomes w @ [oc])"
  by (simp_all add: after_callback_def)

subsection \<open>Java runs a task\<close>

lemma cert_request_args_kind: "\<exists>ts ns. cert_request_args b ce c = Certificate_Request ts ns"
  by (simp add: cert_request_args_def)

lemma pending_key_run: "pending_key cf env req kt \<Longrightarrow> pending_key cf env req (run_key_task (hc_key cf) kt)"
  by (auto simp: pending_key_def run_key_task_def answer_bytes_def split: key_answer.split)

lemma pending_key_request: "pending_key cf env req kt \<Longrightarrow> kt_request kt = req"
  by (simp add: pending_key_def)

lemma pending_run: "pending cf s ph tk \<Longrightarrow> pending cf s ph (run_hs_task cf tk)"
proof (cases ph)
  case (Verify_Phase env)
  moreover assume "pending cf s ph tk"
  ultimately show ?thesis
    by (auto simp: pending_def pending_verify_def run_hs_task_def run_verifier_task_def split: option.split)
next
  case (Certificate_Phase env ce)
  moreover assume "pending cf s ph tk"
  ultimately show ?thesis using cert_request_args_kind [of "hc_build cf" ce "hc_ctxt cf"]
    by (auto simp: pending_def run_hs_task_def run_certificate_task_def Let_def)
next
  case (Sign_Phase env alg inp max_out)
  moreover assume "pending cf s ph tk"
  ultimately obtain kt where "tk = KTask kt" "pending_key cf env (Sign_Request alg inp) kt"
    by (auto simp: pending_def)
  then show ?thesis using Sign_Phase pending_key_run [of cf env "Sign_Request alg inp" kt]
    by (simp add: pending_def run_hs_task_def pending_key_request)
next
  case (Decrypt_Phase env inp max_out)
  moreover assume "pending cf s ph tk"
  ultimately obtain kt where "tk = KTask kt" "pending_key cf env (Decrypt_Request inp) kt"
    by (auto simp: pending_def)
  then show ?thesis using Decrypt_Phase pending_key_run [of cf env "Decrypt_Request inp" kt]
    by (simp add: pending_def run_hs_task_def pending_key_request)
qed

lemma run_ends:
  "java_answers cf \<Longrightarrow> task_ran tk = task_done tk \<Longrightarrow>
   task_done (run_hs_task cf tk) \<and> task_ran (run_hs_task cf tk)"
  by (auto simp del: not_None_eq simp: java_answers_def task_ran_def task_done_def run_hs_task_def run_verifier_task_def
      run_certificate_task_def run_key_task_def
      split: hs_task.splits key_request.splits option.splits key_answer.splits)

subsection \<open>Every step keeps the invariant\<close>

lemma hs_agrees_next:
  assumes ag: "hs_agrees cf cfg fin w" and ph: "hs_phases w = ph # rest"
    and res: "phase_result cf cfg ph (hs_alert w) = (oc, a)"
    and w': "hs_state w' = Some s'" "ssl_task s' = None" "state_verify_config s' = cfg" "hs_alert w' = a"
      "hs_outcomes w' = hs_outcomes w @ [oc]" "hs_phases w' = (if outcome_ok oc then rest else [])"
  shows "hs_agrees cf cfg fin w'"
  using assms by (auto simp: hs_agrees_def split: prod.splits)

lemma step_idle:
  assumes inv: "hs_inv cf good cfg fin base w" and st: "hs_state w = Some s" "ssl_task s = None"
    "hs_refs w = base" "\<not> hs_suspended w" and ph: "hs_phases w = ph # rest"
  shows "\<exists>w'. hs_step cf w Do_Handshake = Inr w' \<and> hs_inv cf good cfg fin base w'
     \<and> (length (hs_phases w') < length (hs_phases w) \<or> hs_phases w' = hs_phases w
        \<and> (\<exists>s' t. hs_state w' = Some s' \<and> ssl_task s' = Some t))"
  using invoke_idle [OF st(1,2) inv [unfolded hs_inv_def, THEN conjunct1], of ph]
proof
  assume "finishes cf ph s w (invoke cf False ph w)"
  then obtain oc a where r: "invoke cf False ph w = Inr (oc, w\<lparr>hs_alert := a\<rparr>)" "\<not> outcome_retry oc"
      "phase_ready ph \<and> java_answers cf \<longrightarrow> phase_result cf (state_verify_config s) ph (hs_alert w) = (oc, a)"
    by (auto simp: finishes_def)
  let ?w' = "after_callback oc (w\<lparr>hs_alert := a\<rparr>)"
  have "hs_safe cf base ?w'" using st r(2) by (simp add: hs_safe_def)
  moreover have "hs_agrees cf cfg fin ?w'" if "hs_agrees cf cfg fin w"
    by (rule hs_agrees_next [OF that ph, where oc = oc and a = a and s' = s])
       (use that r ph st in \<open>auto simp: hs_agrees_def\<close>)
  ultimately show ?thesis using r ph st(4) inv by (auto simp: hs_step_def hs_inv_def)
next
  assume "suspends cf ph s w (invoke cf False ph w)"
  then obtain oc w' s' t tk where r: "invoke cf False ph w = Inr (oc, w')" "outcome_retry oc"
      and w': "hs_state w' = Some s'" "ssl_task s' = Some t" "\<not> consumed t" "task t \<noteq> 0"
      "hs_refs w' = task t # hs_refs w" "hs_tasks w' (task t) = Some tk" "pending cf s' ph tk"
      "\<not> task_ran tk" "\<not> task_done tk" "state_verify_config s' = state_verify_config s"
      "hs_alert w' = hs_alert w" "same_rest w w'"
    unfolding suspends_def by blast
  then have "hs_safe cf base (after_callback oc w')" using st ph by (simp add: hs_safe_def same_rest_def)
  moreover have "hs_agrees cf cfg fin (after_callback oc w')" if "hs_agrees cf cfg fin w"
    using that w' st ph r(2) by (auto simp: hs_agrees_def same_rest_def)
  ultimately show ?thesis using r w' st ph inv by (auto simp: hs_step_def hs_inv_def same_rest_def)
qed

lemma step_busy:
  assumes inv: "hs_inv cf good cfg fin base w" and st: "hs_state w = Some s" "ssl_task s = Some t" "task t \<noteq> 0"
    "hs_refs w = task t # base" "hs_tasks w (task t) = Some tk"
    and ph: "hs_phases w = ph # rest" "hs_suspended w" "pending cf s ph tk"
  shows "\<exists>w'. hs_step cf w Do_Handshake = Inr w' \<and> hs_inv cf good cfg fin base w'
     \<and> (length (hs_phases w') < length (hs_phases w) \<or> w' = w \<and> \<not> task_done tk)"
  using invoke_busy [OF st ph(3)] unfolding resumes_def
proof (elim disjE)
  assume "resume_fails ph w (invoke cf True ph w)"
  then obtain oc a where r: "invoke cf True ph w = Inr (oc, w\<lparr>hs_alert := a\<rparr>)" "\<not> outcome_retry oc"
      "\<not> outcome_ok oc" "\<not> phase_ready ph" by (auto simp: resume_fails_def)
  have "\<not> hs_agrees cf cfg fin w" using r(4) ph by (simp add: hs_agrees_def)
  moreover have "hs_safe cf base (after_callback oc (w\<lparr>hs_alert := a\<rparr>))"
    using inv r st ph by (auto simp: hs_inv_def hs_safe_def)
  ultimately show ?thesis using r ph inv by (auto simp: hs_step_def hs_inv_def)
next
  assume "resume_waits tk w (invoke cf True ph w)"
  then obtain oc where r: "invoke cf True ph w = Inr (oc, w)" "outcome_retry oc" "\<not> task_done tk"
    by (auto simp: resume_waits_def)
  then have "after_callback oc w = w" using ph(2) by (simp add: after_callback_def)
  then have "hs_step cf w Do_Handshake = Inr w" using r ph by (simp add: hs_step_def)
  then show ?thesis using r inv by blast
next
  assume "resume_ends cf ph s tk base w (invoke cf True ph w)"
  then obtain oc w' where r: "invoke cf True ph w = Inr (oc, w')" "\<not> outcome_retry oc"
      and w': "hs_state w' = Some (s\<lparr>ssl_task := None\<rparr>)" "hs_refs w' = base" "same_rest w w'"
      "phase_ready ph \<longrightarrow> phase_result cf (state_verify_config s) ph (hs_alert w) = (oc, hs_alert w')"
    by (auto simp: resume_ends_def)
  have "hs_safe cf base (after_callback oc w')" using r w' by (simp add: hs_safe_def)
  moreover have "hs_agrees cf cfg fin (after_callback oc w')" if "hs_agrees cf cfg fin w"
    by (rule hs_agrees_next [OF that ph(1), where oc = oc and a = "hs_alert w'"])
       (use that r ph st w' in \<open>auto simp: hs_agrees_def same_rest_def\<close>)
  ultimately show ?thesis using r w' ph inv by (auto simp: hs_step_def hs_inv_def same_rest_def)
qed

lemma java_fetch_keeps:
  assumes "hs_inv cf good cfg fin base w"
  shows "\<exists>w'. hs_step cf w Fetch = Inr w' \<and> hs_inv cf good cfg fin base w' \<and> hs_phases w' = hs_phases w
     \<and> (\<forall>s t. hs_state w = Some s \<longrightarrow> ssl_task s = Some t \<longrightarrow>
          (\<exists>s' t'. hs_state w' = Some s' \<and> ssl_task s' = Some t' \<and> hs_held w' = task t'))"
proof -
  have "hs_safe cf base w" using assms by (simp add: hs_inv_def)
  then show ?thesis
  proof (cases rule: hs_safe_cases)
    case (idle s)
    then have "hs_step cf w Fetch = Inr w" by (simp add: hs_step_def getTask_def)
    then show ?thesis using assms idle by auto
  next
    case (busy s t tk)
    show ?thesis
    proof (cases "consumed t")
      case True
      then have "hs_step cf w Fetch = Inr w" using busy by (simp add: hs_step_def getTask_def)
      then show ?thesis using assms busy True by auto
    next
      case False
      let ?w' = "w\<lparr>hs_state := Some (s\<lparr>ssl_task := Some (t\<lparr>consumed := True\<rparr>)\<rparr>), hs_held := task t\<rparr>"
      have "hs_step cf w Fetch = Inr ?w'" using busy False by (simp add: hs_step_def getTask_def)
      moreover have "hs_safe cf base ?w'" using busy by (simp add: hs_safe_def split: list.splits)
      moreover have "hs_agrees cf cfg fin w \<Longrightarrow> hs_agrees cf cfg fin ?w'" using busy by (auto simp: hs_agrees_def)
      ultimately show ?thesis using assms by (auto simp: hs_inv_def)
    qed
  qed
qed

definition resumable :: "hs_world \<Rightarrow> bool" where
  "resumable w \<longleftrightarrow> (\<exists>s t tk. hs_state w = Some s \<and> ssl_task s = Some t \<and> hs_tasks w (task t) = Some tk \<and> task_done tk)"

lemma java_run_keeps:
  assumes "hs_inv cf good cfg fin base w"
  shows "\<exists>w'. hs_step cf w Run = Inr w' \<and> hs_inv cf good cfg fin base w' \<and> hs_phases w' = hs_phases w
     \<and> (good \<longrightarrow> (\<forall>s t. hs_state w = Some s \<longrightarrow> ssl_task s = Some t \<longrightarrow> hs_held w = task t \<longrightarrow> resumable w'))"
proof -
  let ?w' = "w\<lparr>hs_tasks := (hs_tasks w)(hs_held w := map_option (run_hs_task cf) (hs_tasks w (hs_held w)))\<rparr>"
  have "hs_safe cf base w" using assms by (simp add: hs_inv_def)
  then have "hs_safe cf base ?w' \<and> (hs_agrees cf cfg fin w \<longrightarrow> hs_agrees cf cfg fin ?w'
      \<and> (\<forall>s t. hs_state w = Some s \<longrightarrow> ssl_task s = Some t \<longrightarrow> hs_held w = task t \<longrightarrow> resumable ?w'))"
  proof (cases rule: hs_safe_cases)
    case (idle s)
    then show ?thesis by (simp add: hs_safe_def hs_agrees_def)
  next
    case (busy s t tk)
    define tk' where "tk' = (if hs_held w = task t then run_hs_task cf tk else tk)"
    have tk': "hs_tasks ?w' (task t) = Some tk'" 
      using busy(6) by (cases "hs_held w = task t") (simp_all add: tk'_def)
    have "pending cf s ph tk'" if "pending cf s ph tk" for ph using that pending_run by (simp add: tk'_def)
    then have "hs_safe cf base ?w'" using busy tk' by (simp add: hs_safe_def del: fun_upd_apply split: list.splits)
    moreover have "hs_agrees cf cfg fin ?w'" "hs_held w = task t \<Longrightarrow> resumable ?w'" if ag: "hs_agrees cf cfg fin w"
    proof -
      have "task_ran tk = task_done tk" "java_answers cf" using busy ag unfolding hs_agrees_def by blast+
      then have "task_ran tk' = task_done tk'" "hs_held w = task t \<Longrightarrow> task_done tk'"
        using run_ends [of cf tk] by (auto simp: tk'_def)
      then show "hs_agrees cf cfg fin ?w'" "hs_held w = task t \<Longrightarrow> resumable ?w'"
        using busy ag tk' by (simp_all add: hs_agrees_def resumable_def del: fun_upd_apply)
    qed
    ultimately show ?thesis using busy by auto
  qed
  then show ?thesis using assms by (auto simp: hs_step_def hs_inv_def)
qed

lemma handshake_step:
  assumes inv: "hs_inv cf good cfg fin base w" and ph: "hs_phases w = ph # rest"
  shows "\<exists>w'. hs_step cf w Do_Handshake = Inr w' \<and> hs_inv cf good cfg fin base w'
     \<and> (length (hs_phases w') < length (hs_phases w)
        \<or> hs_phases w' = hs_phases w \<and> \<not> resumable w \<and> (\<exists>s' t. hs_state w' = Some s' \<and> ssl_task s' = Some t))"
proof -
  have "hs_safe cf base w" using inv by (simp add: hs_inv_def)
  then show ?thesis
  proof (cases rule: hs_safe_cases)
    case (idle s)
    then show ?thesis using step_idle [OF inv idle ph] by (auto simp: resumable_def)
  next
    case (busy s t tk)
    then have "hs_suspended w" "pending cf s ph tk" using ph by simp_all
    from step_busy [OF inv busy(1-4,6) ph this] busy show ?thesis by (auto simp: resumable_def)
  qed
qed

lemma hs_step_keeps:
  assumes inv: "hs_inv cf good cfg fin base w"
  shows "\<exists>w'. hs_step cf w e = Inr w' \<and> hs_inv cf good cfg fin base w'"
proof (cases e)
  case Do_Handshake
  show ?thesis
  proof (cases "hs_phases w")
    case Nil
    then show ?thesis using inv Do_Handshake by (simp add: hs_step_def)
  next
    case (Cons ph rest)
    then show ?thesis using handshake_step [OF inv Cons] Do_Handshake by blast
  qed
qed (use java_fetch_keeps [OF inv] java_run_keeps [OF inv] in auto)

interpretation hs_slot: resource_client "hs_inv cf good cfg fin" "hs_step cf"
  "\<lambda>w. free_ssl_state (hs_state w) (hs_refs w)" for cf good cfg fin
proof
  show "\<exists>w'. hs_step cf w op = Inr w' \<and> hs_inv cf good cfg fin base w'"
    if "hs_inv cf good cfg fin base w" for base w op
    using that by (rule hs_step_keeps)
next
  show "free_ssl_state (hs_state w) (hs_refs w) = base" if "hs_inv cf good cfg fin base w" for base w
    using that by (auto simp: hs_inv_def hs_safe_def free_ssl_state_def tcn_ssl_task_free_def split: option.splits)
qed

section \<open>Progress\<close>

text \<open>One turn: the library tries to go on, Java fetches the task of the connection and runs it.\<close>

definition turn :: "hs_event list" where
  "turn = [Do_Handshake, Fetch, Run]"

definition rank :: "hs_world \<Rightarrow> nat" where
  "rank w = 2 * length (hs_phases w) - (if resumable w then 1 else 0)"

lemma turn_decreases:
  assumes inv: "hs_inv cf True cfg fin base w" and ph: "hs_phases w \<noteq> []"
  shows "\<exists>w'. run_steps (hs_step cf) w turn = Inr w' \<and> hs_inv cf True cfg fin base w' \<and> rank w' < rank w"
proof -
  obtain p ps where "hs_phases w = p # ps" using ph by (cases "hs_phases w") auto
  from handshake_step [OF inv this] obtain w1 where w1: "hs_step cf w Do_Handshake = Inr w1"
      "hs_inv cf True cfg fin base w1" "length (hs_phases w1) < length (hs_phases w)
        \<or> hs_phases w1 = hs_phases w \<and> \<not> resumable w \<and> (\<exists>s' t. hs_state w1 = Some s' \<and> ssl_task s' = Some t)"
    by blast
  from java_fetch_keeps [OF w1(2)] obtain w2 where w2: "hs_step cf w1 Fetch = Inr w2" "hs_inv cf True cfg fin base w2"
      "hs_phases w2 = hs_phases w1" "\<And>s t. hs_state w1 = Some s \<Longrightarrow> ssl_task s = Some t \<Longrightarrow>
        \<exists>s' t'. hs_state w2 = Some s' \<and> ssl_task s' = Some t' \<and> hs_held w2 = task t'"
    by blast
  from java_run_keeps [OF w2(2)] obtain w3 where w3: "hs_step cf w2 Run = Inr w3" "hs_inv cf True cfg fin base w3"
      "hs_phases w3 = hs_phases w2" "\<And>s t. hs_state w2 = Some s \<Longrightarrow> ssl_task s = Some t \<Longrightarrow>
        hs_held w2 = task t \<Longrightarrow> resumable w3"
    by blast
  have "rank w3 < rank w" using w1(3)
  proof
    assume "length (hs_phases w1) < length (hs_phases w)"
    then show ?thesis using w2(3) w3(3) unfolding rank_def by (auto split: if_split)
  next
    assume *: "hs_phases w1 = hs_phases w \<and> \<not> resumable w \<and> (\<exists>s' t. hs_state w1 = Some s' \<and> ssl_task s' = Some t)"
    then have "resumable w3" using w2(4) w3(4) by blast
    then show ?thesis using * ph w2(3) w3(3) by (simp add: rank_def)
  qed
  then show ?thesis using w1(1) w2(1) w3(1,2) by (simp add: turn_def)
qed

lemma turn_ended: "hs_inv cf True cfg fin base w \<Longrightarrow> hs_phases w = [] \<Longrightarrow>
  \<exists>w'. run_steps (hs_step cf) w turn = Inr w' \<and> hs_inv cf True cfg fin base w' \<and> hs_phases w' = []"
proof -
  assume inv: "hs_inv cf True cfg fin base w" and ph: "hs_phases w = []"
  from java_fetch_keeps [OF inv] obtain w2 where w2: "hs_step cf w Fetch = Inr w2" "hs_inv cf True cfg fin base w2"
      "hs_phases w2 = []" using ph by auto
  from java_run_keeps [OF w2(2)] obtain w3 where "hs_step cf w2 Run = Inr w3" "hs_inv cf True cfg fin base w3"
      "hs_phases w3 = []" using w2(3) by auto
  with w2 ph show ?thesis by (simp add: turn_def hs_step_def [of cf w Do_Handshake])
qed

lemma turns_end:
  assumes "hs_inv cf True cfg fin base w" "rank w \<le> n"
  shows "\<exists>w'. run_steps (hs_step cf) w (concat (replicate n turn)) = Inr w'
    \<and> hs_inv cf True cfg fin base w' \<and> hs_phases w' = []"
  using assms
proof (induction n arbitrary: w)
  case 0
  then have "hs_phases w = []" by (cases "hs_phases w") (auto simp: rank_def split: if_splits)
  then show ?case using 0 by simp
next
  case (Suc n)
  show ?case
  proof (cases "hs_phases w = []")
    case True
    then obtain w1 where w1: "run_steps (hs_step cf) w turn = Inr w1" "hs_inv cf True cfg fin base w1"
        "hs_phases w1 = []" using turn_ended [OF Suc.prems(1)] by blast
    with Suc.IH [OF w1(2)] show ?thesis by (simp add: run_steps_append rank_def)
  next
    case False
    then obtain w1 where w1: "run_steps (hs_step cf) w turn = Inr w1" "hs_inv cf True cfg fin base w1"
        "rank w1 < rank w" using turn_decreases [OF Suc.prems(1)] by blast
    with Suc.IH [OF w1(2)] Suc.prems(2) show ?thesis by (simp add: run_steps_append)
  qed
qed

section \<open>Properties\<close>

text \<open>
  C18. With tasks, verification, certificate selection and private key operations share one slot: over any
  list of phases and any interleaving of handshake attempts, fetches and runs of tasks, and whichever
  foreign calls fail, no callback reads a task that another callback has made or that is gone, and
  freeing the connection leaves exactly the global references from before.
\<close>

theorem shared_task_slot_safe:
  assumes tasks: "use_tasks (hc_ctxt cf)" and new: "newSSL (Some (hc_ctxt cf)) caddr ssl malloc_ok server = Inr conn"
    and w: "hs_state w = app_state conn" "hs_refs w = base" "\<not> hs_suspended w"
  shows "\<exists>w'. run_steps (hs_step cf) w events = Inr w'
    \<and> freeSSL (Some (conn\<lparr>app_state := hs_state w'\<rparr>)) (hs_refs w') = Inr base"
proof -
  have "hs_inv cf False cfg fin base w" for cfg fin
    using tasks new w by (auto simp: newSSL_def new_ssl_state_def hs_inv_def hs_safe_def split: if_splits)
  from hs_slot.run_releases [OF this] show ?thesis by (simp add: freeSSL_def)
qed


definition demo_hs :: hs_conf where
  "demo_hs = \<lparr>hc_build = demo_build, hc_alert = (\<lambda>_. 40), hc_ctxt = (key_ctxt True)\<lparr>verifier := 3\<rparr>,
     hc_verify = (\<lambda>_ _. Some X509_V_OK), hc_handle = (\<lambda>_. True), hc_key = (\<lambda>_. On_Success (Some [1, 2]))\<rparr>"

definition demo_hs_world :: "tcn_ssl_state option \<Rightarrow> hs_world" where
  "demo_hs_world st = \<lparr>hs_state = st, hs_refs = [3], hs_tasks = (\<lambda>_. None), hs_alert = None,
     hs_phases = [Verify_Phase (demo_env (\<lambda>_ _. None)), Certificate_Phase key_env_ok (cert_env_ok False),
                  Sign_Phase key_env_ok 0 [9] 2],
     hs_suspended = False, hs_outcomes = [], hs_held = 0\<rparr>"

theorem shared_task_slot_safe_witness:
  "\<exists>conn w'. newSSL (Some (hc_ctxt demo_hs)) 9 5 True True = Inr conn
     \<and> run_steps (hs_step demo_hs) (demo_hs_world (app_state conn)) [Do_Handshake, Run, Fetch, Do_Handshake] = Inr w'
     \<and> freeSSL (Some (conn\<lparr>app_state := hs_state w'\<rparr>)) (hs_refs w') = Inr [3]"
proof -
  have t: "use_tasks (hc_ctxt demo_hs)" by (simp add: demo_hs_def key_ctxt_def)
  obtain conn where n: "newSSL (Some (hc_ctxt demo_hs)) 9 5 True True = Inr conn"
    by (simp add: newSSL_def new_ssl_state_def)
  have "hs_state (demo_hs_world (app_state conn)) = app_state conn" "hs_refs (demo_hs_world (app_state conn)) = [3]"
      "\<not> hs_suspended (demo_hs_world (app_state conn))"
    by (simp_all add: demo_hs_world_def)
  from shared_task_slot_safe [OF t n this] n show ?thesis by blast
qed


end
