(* ===== verification/Life_Cycle.thy ===== *)
theory Life_Cycle
  imports Verify Sessions Cert_Compress "HOL-Library.AList"
begin

text \<open>
  Contexts and connections together. \<^verbatim>\<open>newSSL\<close> stores the address of the context in the state of the
  connection, and the callbacks of the TLS library find the context there (\<^verbatim>\<open>TCN_GET_SSL_CTX\<close>). The library
  counts the users of its \<^verbatim>\<open>SSL_CTX\<close>, nothing counts the users of \<^verbatim>\<open>tcn_ssl_ctxt_t\<close>: \<^verbatim>\<open>SSLContext.free\<close> destroys
  it with its pool, whoever still points there.

  The step function below puts the operations of any number of contexts and connections together. The lemmas
  show what a Java program has to keep to, that this is enough, and what happens otherwise.
\<close>

section \<open>The state\<close>

text \<open>The contexts and connections that live, by address, the global references, and the results of callbacks.\<close>

datatype callback_result =
    New_Session_Result int
  | Get_Session_Result int "int option"
  | Compress_Result int "byte list"
  | Decompress_Result int "byte list option"

record lc_world =
  lc_ctxs :: "(int \<times> tcn_ssl_ctxt) list"
  lc_conns :: "(int \<times> SSL_obj) list"
  lc_refs :: "int list"
  lc_results :: "(int \<times> callback_result) list"

definition lc_start :: "int list \<Rightarrow> lc_world" where
  "lc_start refs = \<lparr>lc_ctxs = [], lc_conns = [], lc_refs = refs, lc_results = []\<rparr>"

text \<open>The address that the state of a connection has for its context.\<close>

definition TCN_GET_SSL_CTX :: "tcn_ssl_state option \<Rightarrow> int" where
  "TCN_GET_SSL_CTX sp = (case sp of None \<Rightarrow> 0 | Some s \<Rightarrow> state_ctx s)"

text \<open>What an access through an address finds: \<open>0\<close> is \<^verbatim>\<open>NULL\<close>, and memory that is gone is undefined behaviour.\<close>

definition ctx_at :: "lc_world \<Rightarrow> int \<Rightarrow> tcn_ssl_ctxt option cres" where
  "ctx_at w a =
   (if a = 0 then Inr None
    else (case map_of (lc_ctxs w) a of None \<Rightarrow> Inl (UB Use_After_Free) | Some c \<Rightarrow> Inr (Some c)))"

section \<open>The operations\<close>

text \<open>
  The session and certificate compression callbacks, with what Java and the libraries answer; the thread
  has an environment, so that each of them looks into its context.
\<close>

datatype callback =
    New_Session "int \<Rightarrow> int \<Rightarrow> bool option" int
  | Get_Session bool "int \<Rightarrow> byte list \<Rightarrow> int option" "byte list"
  | Compress_Certificate int compress_env compressor "byte list" "byte list"
  | Decompress_Certificate int compress_env decompressor "byte list option" nat "byte list"

fun run_callback :: "callback \<Rightarrow> int \<Rightarrow> tcn_ssl_ctxt option \<Rightarrow> callback_result cres" where
  "run_callback (New_Session created session) ssl cp =
     cbind (tcn_new_session_cb True created cp ssl session) (\<lambda>r. Inr (New_Session_Result r))"
| "run_callback (Get_Session arr_ok look i) ssl cp =
     cbind (tcn_get_session_cb True arr_ok look cp ssl i) (\<lambda>(r, cpy). Inr (Get_Session_Result r cpy))"
| "run_callback (Compress_Certificate aid env java out inb) ssl cp =
     cbind (compress_callback aid env java cp out inb) (\<lambda>(r, out'). Inr (Compress_Result r out'))"
| "run_callback (Decompress_Certificate aid env java out len inb) ssl cp =
     cbind (decompress_callback aid env java cp out len inb) (\<lambda>(r, out'). Inr (Decompress_Result r out'))"

text \<open>
  Calls from Java name a live context or connection, and a new object has an address that is not in use; an
  event of another kind does not happen. A callback comes from the library, for any live connection.
\<close>

datatype lc_event =
    Make_Context proto_build make_env int int int
  | Set_Context int ctx_op
  | Connect int int bool bool
  | Callback int callback
  | Close_Connection int
  | Free_Context int

definition add_context :: "int \<Rightarrow> (jexc + tcn_ssl_ctxt) \<Rightarrow> lc_world \<Rightarrow> lc_world" where
  "add_context a made w =
   (case made of Inl _ \<Rightarrow> w
    | Inr c \<Rightarrow> if a = 0 \<or> a \<in> fst ` set (lc_ctxs w) then w else w\<lparr>lc_ctxs := (a, c) # lc_ctxs w\<rparr>)"

definition add_connection :: "int \<Rightarrow> (jexc + SSL_obj) \<Rightarrow> lc_world \<Rightarrow> lc_world" where
  "add_connection s made w =
   (case made of Inl _ \<Rightarrow> w
    | Inr conn \<Rightarrow> if s \<in> fst ` set (lc_conns w) then w else w\<lparr>lc_conns := (s, conn) # lc_conns w\<rparr>)"

fun lc_step :: "build \<Rightarrow> lc_world \<Rightarrow> lc_event \<Rightarrow> lc_world cres" where
  "lc_step b w (Make_Context pb env prot m a) =
     Inr (add_context a (fst (SSLContext_make b pb env prot m)) w)"
| "lc_step b w (Set_Context a op) =
     (case map_of (lc_ctxs w) a of None \<Rightarrow> Inr w
      | Some c \<Rightarrow> cbind (ctx_step b (c, lc_refs w) op) (\<lambda>(c', refs').
          Inr (w\<lparr>lc_ctxs := (a, c') # AList.delete a (lc_ctxs w), lc_refs := refs'\<rparr>)))"
| "lc_step b w (Connect a s malloc_ok server) =
     (case map_of (lc_ctxs w) a of None \<Rightarrow> Inr w
      | Some c \<Rightarrow> Inr (add_connection s (newSSL (Some c) a s malloc_ok server) w))"
| "lc_step b w (Callback s cb) =
     (case map_of (lc_conns w) s of None \<Rightarrow> Inr w
      | Some conn \<Rightarrow>
          cbind (ctx_at w (TCN_GET_SSL_CTX (app_state conn))) (\<lambda>cp.
          cbind (run_callback cb s cp) (\<lambda>r. Inr (w\<lparr>lc_results := lc_results w @ [(s, r)]\<rparr>))))"
| "lc_step b w (Close_Connection s) =
     (case map_of (lc_conns w) s of None \<Rightarrow> Inr w
      | Some conn \<Rightarrow>
        (case freeSSL (Some conn) (lc_refs w) of Inl _ \<Rightarrow> Inr w
         | Inr refs' \<Rightarrow> Inr (w\<lparr>lc_conns := AList.delete s (lc_conns w), lc_refs := refs'\<rparr>)))"
| "lc_step b w (Free_Context a) =
     (case map_of (lc_ctxs w) a of None \<Rightarrow> Inr w
      | Some c \<Rightarrow>
        (case SSLContext_free b True (Some c) (lc_refs w) of Inl _ \<Rightarrow> Inr w
         | Inr (refs', evs, pl) \<Rightarrow> Inr (w\<lparr>lc_ctxs := AList.delete a (lc_ctxs w), lc_refs := refs'\<rparr>)))"

text \<open>What Java has to keep to: it frees a context after the connections made from it.\<close>

definition users :: "lc_world \<Rightarrow> int \<Rightarrow> (int \<times> SSL_obj) list" where
  "users w a = filter (\<lambda>(s, conn). TCN_GET_SSL_CTX (app_state conn) = a) (lc_conns w)"

fun orderly :: "lc_world \<Rightarrow> lc_event \<Rightarrow> bool" where
  "orderly w (Free_Context a) \<longleftrightarrow> users w a = []"
| "orderly w _ \<longleftrightarrow> True"

definition java_step :: "build \<Rightarrow> lc_world \<Rightarrow> lc_event \<Rightarrow> lc_world cres" where
  "java_step b w e = (if orderly w e then lc_step b w e else Inr w)"

text \<open>Closing every connection, then freeing every context.\<close>

definition shut_down :: "lc_world \<Rightarrow> lc_event list" where
  "shut_down w = map (Close_Connection \<circ> fst) (lc_conns w) @ map (Free_Context \<circ> fst) (lc_ctxs w)"

section \<open>The invariant\<close>

definition held_by :: "(int \<times> tcn_ssl_ctxt) list \<Rightarrow> int multiset" where
  "held_by xs = sum_list (map (held_refs \<circ> snd) xs)"

definition lc_inv :: "build \<Rightarrow> int multiset \<Rightarrow> lc_world \<Rightarrow> bool" where
  "lc_inv b base w \<longleftrightarrow>
     distinct (map fst (lc_ctxs w)) \<and> distinct (map fst (lc_conns w)) \<and> 0 \<notin> fst ` set (lc_ctxs w)
     \<and> mset (lc_refs w) = base + held_by (lc_ctxs w)
     \<and> (\<forall>(a, c)\<in>set (lc_ctxs w). \<not> boring b \<longrightarrow> boring_fields_zero c)
     \<and> (\<forall>(s, conn)\<in>set (lc_conns w). \<exists>st. app_state conn = Some st \<and> ssl_task st = None \<and> state_ctx st \<noteq> 0)"

text \<open>Every connection finds its context.\<close>

definition lc_ordered :: "lc_world \<Rightarrow> bool" where
  "lc_ordered w \<longleftrightarrow> (\<forall>(s, conn)\<in>set (lc_conns w). TCN_GET_SSL_CTX (app_state conn) \<in> fst ` set (lc_ctxs w))"

section \<open>Lemmas\<close>

lemma held_by_delete:
  "distinct (map fst xs) \<Longrightarrow> map_of xs a = Some c \<Longrightarrow> held_by xs = held_refs c + held_by (AList.delete a xs)"
  by (induction xs) (auto simp: held_by_def ac_simps split: if_splits)

lemma held_by_simps [simp]: "held_by [] = {#}" "held_by (x # xs) = held_refs (snd x) + held_by xs"
  by (simp_all add: held_by_def)

lemma set_delete: "x \<in> set (AList.delete a xs) \<Longrightarrow> x \<in> set xs"
  by (auto simp: AList.delete_eq)

lemma keys_delete: "fst ` set (AList.delete a xs) = fst ` set xs - {a}"
  by (auto simp: AList.delete_eq)

lemma distinct_keys_delete: "distinct (map fst xs) \<Longrightarrow> distinct (map fst (AList.delete a xs))"
  by (rule AList.distinct_delete)

text \<open>A live context and the references, seen alone, satisfy the invariant of a context.\<close>

lemma context_alone:
  assumes "lc_inv b base w" "map_of (lc_ctxs w) a = Some c"
  shows "ref_inv b (base + held_by (AList.delete a (lc_ctxs w))) (c, lc_refs w)"
  using assms held_by_delete [of "lc_ctxs w" a c] map_of_SomeD [OF assms(2)]
  by (auto simp: lc_inv_def ref_inv_def ac_simps)

lemma made_context:
  assumes "fst (SSLContext_make b pb env prot m) = Inr c"
  shows "held_refs c = {#} \<and> boring_fields_zero c"
  using assms
  by (cases rule: make_cases [of b pb env prot m])
    (auto simp: held_refs_def boring_fields_zero_def ctxt_zero_def)

lemma made_connection:
  assumes "newSSL (Some c) a s malloc_ok server = Inr conn"
  obtains st where "app_state conn = Some st" "ssl_task st = None" "state_ctx st = a"
  using assms by (auto simp: newSSL_def new_ssl_state_def split: if_splits)

lemma run_callback_returns: "\<exists>r. run_callback cb s (Some c) = Inr r"
  by (cases cb) (auto simp: tcn_new_session_cb_def tcn_get_session_cb_def compress_callback_defs
      decompress_callback_defs split: option.splits prod.splits)

lemma keep_context:
  assumes "lc_inv b base w" "map_of (lc_ctxs w) a = Some c"
    and "ref_inv b (base + held_by (AList.delete a (lc_ctxs w))) (c', refs')"
  shows "lc_inv b base (w\<lparr>lc_ctxs := (a, c') # AList.delete a (lc_ctxs w), lc_refs := refs'\<rparr>)"
  using assms map_of_SomeD [OF assms(2)]
  by (auto simp: lc_inv_def ref_inv_def keys_delete distinct_keys_delete ac_simps dest!: set_delete
      intro: rev_image_eqI)

lemma drop_context:
  assumes "lc_inv b base w" "mset refs' = base + held_by (AList.delete a (lc_ctxs w))"
  shows "lc_inv b base (w\<lparr>lc_ctxs := AList.delete a (lc_ctxs w), lc_refs := refs'\<rparr>)"
  using assms by (auto simp: lc_inv_def keys_delete distinct_keys_delete dest!: set_delete)

lemma drop_connection:
  "lc_inv b base w \<Longrightarrow> lc_inv b base (w\<lparr>lc_conns := AList.delete s (lc_conns w)\<rparr>)"
  by (auto simp: lc_inv_def distinct_keys_delete dest!: set_delete)

lemma close_returns:
  assumes "lc_inv b base w" "map_of (lc_conns w) s = Some conn"
  shows "freeSSL (Some conn) (lc_refs w) = Inr (lc_refs w)"
  using assms map_of_SomeD [OF assms(2)]
  by (auto simp: lc_inv_def freeSSL_def free_ssl_state_def tcn_ssl_task_free_def)

lemma free_returns:
  assumes "lc_inv b base w" "map_of (lc_ctxs w) a = Some c"
  obtains refs' evs pl where "SSLContext_free b True (Some c) (lc_refs w) = Inr (refs', evs, pl)"
    "mset refs' = base + held_by (AList.delete a (lc_ctxs w))"
proof -
  obtain c' refs' evs where f: "ssl_context_cleanup b True (Some c) (lc_refs w) = (c', refs', evs)"
    by (cases "ssl_context_cleanup b True (Some c) (lc_refs w)")
  have "mset refs' = base + held_by (AList.delete a (lc_ctxs w))"
    using ctx_refs.release_all [OF context_alone [OF assms]] by (simp add: release_ctx_def f)
  then show ?thesis using that f by (simp add: SSLContext_free_def)
qed

lemma add_context_keeps:
  assumes "lc_inv b base w"
  shows "lc_inv b base (add_context a (fst (SSLContext_make b pb env prot m)) w)"
  using assms made_context [of b pb env prot m]
  by (auto simp: add_context_def lc_inv_def split: sum.splits)

lemma add_connection_keeps:
  assumes "lc_inv b base w" "a \<noteq> 0"
  shows "lc_inv b base (add_connection s (newSSL (Some c) a s malloc_ok server) w)"
proof (cases "newSSL (Some c) a s malloc_ok server")
  case (Inr conn)
  then obtain st where "app_state conn = Some st" "ssl_task st = None" "state_ctx st = a"
    by (rule made_connection)
  then show ?thesis using assms by (simp add: add_connection_def lc_inv_def Inr)
qed (simp add: add_connection_def assms(1))

lemma live_nonzero:
  assumes "lc_inv b base w" "map_of (lc_ctxs w) a = Some c"
  shows "a \<noteq> 0"
proof -
  have "a \<in> fst ` set (lc_ctxs w)" using assms(2) by (metis map_of_eq_None_iff option.distinct(1))
  then show ?thesis using assms(1) unfolding lc_inv_def by metis
qed

lemma callback_step:
  assumes "lc_inv b base w" "map_of (lc_conns w) s = Some conn"
  shows "case map_of (lc_ctxs w) (TCN_GET_SSL_CTX (app_state conn)) of
      None \<Rightarrow> lc_step b w (Callback s cb) = Inl (UB Use_After_Free)
    | Some c \<Rightarrow> (\<exists>r. run_callback cb s (Some c) = Inr r
        \<and> lc_step b w (Callback s cb) = Inr (w\<lparr>lc_results := lc_results w @ [(s, r)]\<rparr>))"
proof -
  have nz: "TCN_GET_SSL_CTX (app_state conn) \<noteq> 0"
    using assms map_of_SomeD [OF assms(2)] by (auto simp: lc_inv_def TCN_GET_SSL_CTX_def)
  show ?thesis
  proof (cases "map_of (lc_ctxs w) (TCN_GET_SSL_CTX (app_state conn))")
    case None
    then show ?thesis using assms(2) nz by (simp add: ctx_at_def)
  next
    case (Some c)
    obtain r where "run_callback cb s (Some c) = Inr r" using run_callback_returns by blast
    then show ?thesis using assms(2) nz Some by (simp add: ctx_at_def)
  qed
qed

text \<open>Every step keeps the invariant, and only a callback on a context that is gone is undefined.\<close>

lemma lc_step_keeps:
  assumes inv: "lc_inv b base w"
  obtains (kept) w' where "lc_step b w e = Inr w'" "lc_inv b base w'"
    | (gone) s cb conn where "e = Callback s cb" "map_of (lc_conns w) s = Some conn"
        "map_of (lc_ctxs w) (TCN_GET_SSL_CTX (app_state conn)) = None"
proof (cases e)
  case (Make_Context pb env prot m a)
  then show ?thesis using kept add_context_keeps [OF inv] by simp
next
  case (Set_Context a op)
  show ?thesis
  proof (cases "map_of (lc_ctxs w) a")
    case None
    then show ?thesis using kept inv Set_Context by simp
  next
    case (Some c)
    from ctx_refs.step_returns [OF context_alone [OF inv Some]] obtain c' refs' where
      st: "ctx_step b (c, lc_refs w) op = Inr (c', refs')"
        "ref_inv b (base + held_by (AList.delete a (lc_ctxs w))) (c', refs')" by (metis prod.exhaust)
    show ?thesis
      by (rule kept [OF _ keep_context [OF inv Some st(2)]]) (simp add: Set_Context Some st(1))
  qed
next
  case (Connect a s malloc_ok server)
  then show ?thesis
    using kept inv live_nonzero [OF inv, of a] add_connection_keeps [OF inv]
    by (cases "map_of (lc_ctxs w) a") auto
next
  case (Callback s cb)
  show ?thesis
  proof (cases "map_of (lc_conns w) s")
    case None
    then show ?thesis using kept inv Callback by simp
  next
    case (Some conn)
    show ?thesis
    proof (cases "map_of (lc_ctxs w) (TCN_GET_SSL_CTX (app_state conn))")
      case None
      then show ?thesis using gone Callback Some by blast
    next
      case (Some c)
      with callback_step [OF inv \<open>map_of (lc_conns w) s = Some conn\<close>, of cb] Callback kept inv
      show ?thesis by (auto simp: lc_inv_def)
    qed
  qed
next
  case (Close_Connection s)
  show ?thesis
  proof (cases "map_of (lc_conns w) s")
    case None
    then show ?thesis using kept inv Close_Connection by simp
  next
    case (Some conn)
    then show ?thesis
      using kept [OF _ drop_connection [OF inv, of s]] Close_Connection close_returns [OF inv Some] by simp
  qed
next
  case (Free_Context a)
  show ?thesis
  proof (cases "map_of (lc_ctxs w) a")
    case None
    then show ?thesis using kept inv Free_Context by simp
  next
    case (Some c)
    obtain refs' evs pl where f: "SSLContext_free b True (Some c) (lc_refs w) = Inr (refs', evs, pl)"
        "mset refs' = base + held_by (AList.delete a (lc_ctxs w))"
      using free_returns [OF inv Some] .
    show ?thesis
      by (rule kept [OF _ drop_context [OF inv f(2)]]) (simp add: Free_Context Some f(1))
  qed
qed

lemma live_iff: "a \<in> fst ` set xs \<longleftrightarrow> (\<exists>c. map_of xs a = Some c)"
  by (metis map_of_eq_None_iff not_None_eq)

text \<open>A context goes away only by being freed, and a new connection belongs to a live context.\<close>

lemma step_contexts:
  assumes "lc_step b w e = Inr w'"
  shows "fst ` set (lc_ctxs w') \<supseteq> fst ` set (lc_ctxs w) - (case e of Free_Context a \<Rightarrow> {a} | _ \<Rightarrow> {})"
proof -
  have "fst ` set (lc_ctxs w') = fst ` set (lc_ctxs w) - {a}" if e: "e = Free_Context a" for a
  proof (cases "map_of (lc_ctxs w) a")
    case None
    moreover from this have "a \<notin> fst ` set (lc_ctxs w)" by (simp only: map_of_eq_None_iff not_False_eq_True)
    ultimately show ?thesis using assms e by simp
  next
    case (Some c)
    then obtain refs' where "w' = w\<lparr>lc_ctxs := AList.delete a (lc_ctxs w), lc_refs := refs'\<rparr>"
      using assms e by (auto simp: SSLContext_free_def split: prod.splits)
    then show ?thesis by (simp add: keys_delete)
  qed
  moreover have "fst ` set (lc_ctxs w') \<supseteq> fst ` set (lc_ctxs w)" if "\<nexists>a. e = Free_Context a"
    using assms that
    by (cases e) (auto simp: add_context_def add_connection_def cbind_eq_Inr keys_delete
        split: option.splits sum.splits if_splits intro: rev_image_eqI; force)+
  ultimately show ?thesis by (cases e) auto
qed

lemma step_connections:
  assumes "lc_step b w e = Inr w'" "(s, conn) \<in> set (lc_conns w')"
  shows "(s, conn) \<in> set (lc_conns w)
    \<or> (\<exists>a c malloc_ok server. e = Connect a s malloc_ok server \<and> map_of (lc_ctxs w) a = Some c
        \<and> lc_ctxs w' = lc_ctxs w \<and> newSSL (Some c) a s malloc_ok server = Inr conn)"
proof (cases e)
  case (Make_Context pb env prot m a)
  then show ?thesis using assms by (auto simp: add_context_def split: sum.splits if_splits)
next
  case (Set_Context a op)
  then show ?thesis using assms by (auto simp: cbind_eq_Inr split: option.splits)
next
  case (Connect a t malloc_ok server)
  then show ?thesis
    using assms by (auto simp: add_connection_def split: option.splits sum.splits if_splits)
next
  case (Callback t cb)
  then show ?thesis using assms by (auto simp: cbind_eq_Inr split: option.splits)
next
  case (Close_Connection t)
  then show ?thesis using assms by (auto dest: set_delete split: option.splits sum.splits)
next
  case (Free_Context a)
  then show ?thesis using assms by (auto split: option.splits sum.splits)
qed

lemma step_ordered:
  assumes "lc_step b w e = Inr w'" "orderly w e" "lc_ordered w"
  shows "lc_ordered w'"
proof -
  have "TCN_GET_SSL_CTX (app_state conn) \<in> fst ` set (lc_ctxs w')" if new: "(s, conn) \<in> set (lc_conns w')" for s conn
    using step_connections [OF assms(1) new]
  proof
    assume old: "(s, conn) \<in> set (lc_conns w)"
    then have "TCN_GET_SSL_CTX (app_state conn) \<in> fst ` set (lc_ctxs w)"
      using assms(3) by (auto simp: lc_ordered_def)
    moreover have "TCN_GET_SSL_CTX (app_state conn) \<notin> (case e of Free_Context a \<Rightarrow> {a} | _ \<Rightarrow> {})"
      using old assms(2) by (cases e) (auto simp: users_def filter_empty_conv)
    ultimately show ?thesis using step_contexts [OF assms(1)] by blast
  next
    assume "\<exists>a c malloc_ok server. e = Connect a s malloc_ok server \<and> map_of (lc_ctxs w) a = Some c
        \<and> lc_ctxs w' = lc_ctxs w \<and> newSSL (Some c) a s malloc_ok server = Inr conn"
    then obtain a c malloc_ok server where m: "map_of (lc_ctxs w) a = Some c" "lc_ctxs w' = lc_ctxs w"
        "newSSL (Some c) a s malloc_ok server = Inr conn" by blast
    obtain st where "app_state conn = Some st" "state_ctx st = a" using made_connection [OF m(3)] .
    then show ?thesis using m(1,2) by (auto simp: TCN_GET_SSL_CTX_def live_iff)
  qed
  then show ?thesis by (auto simp: lc_ordered_def)
qed

text \<open>Closing all connections changes no reference; freeing all contexts then releases theirs.\<close>

lemma close_all:
  assumes "lc_inv b base w"
  shows "run_steps (lc_step b) w (map (Close_Connection \<circ> fst) (lc_conns w)) = Inr (w\<lparr>lc_conns := []\<rparr>)"
  using assms
proof (induction "lc_conns w" arbitrary: w)
  case Nil
  then show ?case by simp
next
  case (Cons x xs)
  obtain s conn where x: "x = (s, conn)" by (cases x)
  have conns: "lc_conns w = (s, conn) # xs" using Cons.hyps(2) x by simp
  have found: "map_of (lc_conns w) s = Some conn" by (simp add: conns)
  have del: "AList.delete s (lc_conns w) = xs"
    using Cons.prems conns by (auto simp: lc_inv_def)
  let ?w = "w\<lparr>lc_conns := xs\<rparr>"
  have step: "lc_step b w (Close_Connection s) = Inr ?w"
    using found close_returns [OF Cons.prems found] by (simp add: del)
  have "lc_inv b base ?w" using drop_connection [OF Cons.prems, of s] by (simp add: del)
  from Cons.hyps(1) [OF _ this] show ?case using step by (simp add: conns)
qed

lemma free_all:
  assumes "lc_inv b base w"
  shows "\<exists>refs'. run_steps (lc_step b) w (map (Free_Context \<circ> fst) (lc_ctxs w))
      = Inr (w\<lparr>lc_ctxs := [], lc_refs := refs'\<rparr>) \<and> mset refs' = base"
  using assms
proof (induction "lc_ctxs w" arbitrary: w)
  case Nil
  then show ?case by (intro exI [of _ "lc_refs w"]) (simp add: lc_inv_def)
next
  case (Cons x xs)
  obtain a c where x: "x = (a, c)" by (cases x)
  have ctxs: "lc_ctxs w = (a, c) # xs" using Cons.hyps(2) x by simp
  have found: "map_of (lc_ctxs w) a = Some c" by (simp add: ctxs)
  have del: "AList.delete a (lc_ctxs w) = xs"
    using Cons.prems ctxs by (auto simp: lc_inv_def)
  obtain refs' evs pl where f: "SSLContext_free b True (Some c) (lc_refs w) = Inr (refs', evs, pl)"
      "mset refs' = base + held_by (AList.delete a (lc_ctxs w))"
    using free_returns [OF Cons.prems found] .
  let ?w = "w\<lparr>lc_ctxs := xs, lc_refs := refs'\<rparr>"
  have step: "lc_step b w (Free_Context a) = Inr ?w" using found f(1) by (simp add: del)
  have "lc_inv b base ?w" using drop_context [OF Cons.prems f(2)] by (simp add: del)
  from Cons.hyps(1) [OF _ this] show ?case using step by (simp add: ctxs)
qed

lemma shut_down_releases:
  assumes "lc_inv b base w"
  shows "\<exists>refs'. run_steps (lc_step b) w (shut_down w) = Inr (w\<lparr>lc_conns := [], lc_ctxs := [], lc_refs := refs'\<rparr>)
    \<and> mset refs' = base"
proof -
  have "lc_inv b base (w\<lparr>lc_conns := []\<rparr>)" using assms by (simp add: lc_inv_def)
  from free_all [OF this] show ?thesis
    by (auto simp: shut_down_def run_steps_append close_all [OF assms])
qed

definition released :: "build \<Rightarrow> lc_world \<Rightarrow> int multiset" where
  "released b w = (case run_steps (lc_step b) w (shut_down w) of Inl _ \<Rightarrow> {#} | Inr w' \<Rightarrow> mset (lc_refs w'))"

interpretation life: resource_client "\<lambda>base w. lc_inv b base w \<and> lc_ordered w" "java_step b" "released b" for b
proof
  fix base w e assume w: "lc_inv b base w \<and> lc_ordered w"
  show "\<exists>w'. java_step b w e = Inr w' \<and> lc_inv b base w' \<and> lc_ordered w'"
  proof (cases "orderly w e")
    case True
    have "\<exists>w'. lc_step b w e = Inr w' \<and> lc_inv b base w'"
    proof (rule lc_step_keeps [OF conjunct1 [OF w], of e])
      fix s cb conn
      assume "map_of (lc_conns w) s = Some conn" "map_of (lc_ctxs w) (TCN_GET_SSL_CTX (app_state conn)) = None"
      then have False using w map_of_SomeD [of "lc_conns w" s conn] by (auto simp: lc_ordered_def live_iff)
      then show ?thesis ..
    qed blast
    then show ?thesis using step_ordered [OF _ True] w True by (auto simp: java_step_def)
  qed (use w in \<open>simp add: java_step_def\<close>)
next
  fix base w assume "lc_inv b base w \<and> lc_ordered w"
  then show "released b w = base" using shut_down_releases [of b base w] by (auto simp: released_def)
qed

lemma start_inv: "lc_inv b (mset refs) (lc_start refs) \<and> lc_ordered (lc_start refs)"
  by (simp add: lc_inv_def lc_ordered_def lc_start_def)

lemma callback_after_free:
  assumes "lc_inv b base w" "map_of (lc_conns w) s = Some conn"
  shows "run_steps (lc_step b) w [Free_Context (TCN_GET_SSL_CTX (app_state conn)), Callback s cb]
      = Inl (UB Use_After_Free)"
proof -
  let ?a = "TCN_GET_SSL_CTX (app_state conn)"
  obtain w' where w': "lc_step b w (Free_Context ?a) = Inr w'" "lc_inv b base w'"
    by (cases rule: lc_step_keeps [OF assms(1), of "Free_Context ?a"]) auto
  have "lc_conns w' = lc_conns w" "map_of (lc_ctxs w') ?a = None"
    using w'(1) by (auto simp: AList.delete_conv' SSLContext_free_def split: option.splits sum.splits prod.splits)
  then show ?thesis using callback_step [OF w'(2), of s conn cb] assms(2) w'(1) by simp
qed

section \<open>Properties\<close>



end
