(* ===== verification/Jni_Tables.thy ===== *)
theory Jni_Tables
  imports Library_Load Jni_Types
begin

text \<open>
  The native methods of the seven Java classes, as Java declares them and as C registers them. A row
  of a C table holds a name, a descriptor and a function (\<^verbatim>\<open>TCN_METHOD_TABLE_ENTRY\<close> derives the function
  from the name); the row here has the parameters and the result of that function as its definition
  (\<^verbatim>\<open>TCN_IMPLEMENT_CALL\<close>) gives them, without the two of \<^verbatim>\<open>TCN_STDARGS\<close>.

  The lemmas show that registration finds every method and that every method ends up with a function
  of its own parameter and result types, for every package prefix.
\<close>

section \<open>Rows\<close>

type_synonym java_native = "string \<times> java_type list \<times> java_type"

type_synonym c_native = "string \<times> string \<times> jni_type list \<times> jni_type"


definition native_row :: "string \<Rightarrow> java_native \<Rightarrow> c_native" where
  "native_row p d = (fst d, method_descriptor p (snd d), map c_type (fst (snd d)), c_type (snd (snd d)))"

definition Buffer_java :: "java_native list" where
  "Buffer_java =
   [(''address'', [J_object ''java/nio/ByteBuffer''], J_long),
    (''size'', [J_object ''java/nio/ByteBuffer''], J_long)]"

definition Buffer_methods :: "c_native list" where
  "Buffer_methods =
   [(''address'', ''(Ljava/nio/ByteBuffer;)J'', [C_jobject], C_jlong),
    (''size'', ''(Ljava/nio/ByteBuffer;)J'', [C_jobject], C_jlong)]"

definition Library_java :: "java_native list" where
  "Library_java =
   [(''initialize0'', [], J_boolean), (''aprHasThreads'', [], J_boolean), (''aprMajorVersion'', [], J_int),
    (''aprVersionString'', [], J_String)]"

definition Library_methods :: "c_native list" where
  "Library_methods =
   [(''initialize0'', ''()Z'', [], C_jboolean), (''aprMajorVersion'', ''()I'', [], C_jint),
    (''aprVersionString'', ''()Ljava/lang/String;'', [], C_jstring),
    (''aprHasThreads'', ''()Z'', [], C_jboolean)]"

definition SSL_java :: "java_native list" where
  "SSL_java =
   [(''version'', [], J_int), (''versionString'', [], J_String), (''initialize'', [J_String], J_int),
    (''newMemBIO'', [], J_long), (''getLastError'', [], J_String), (''newSSL'', [J_long, J_boolean], J_long),
    (''getError'', [J_long, J_int], J_int), (''bioWrite'', [J_long, J_long, J_int], J_int),
    (''bioNewByteBuffer'', [J_long, J_int], J_long), (''bioSetFd'', [J_long, J_int], J_void),
    (''bioSetByteBuffer'', [J_long, J_long, J_int, J_boolean], J_void),
    (''bioClearByteBuffer'', [J_long], J_void), (''bioFlushByteBuffer'', [J_long], J_int),
    (''bioLengthByteBuffer'', [J_long], J_int), (''bioLengthNonApplication'', [J_long], J_int),
    (''sslPending'', [J_long], J_int), (''writeToSSL'', [J_long, J_long, J_int], J_int),
    (''readFromSSL'', [J_long, J_long, J_int], J_int), (''getShutdown'', [J_long], J_int),
    (''setShutdown'', [J_long, J_int], J_void), (''freeSSL'', [J_long], J_void),
    (''freeBIO'', [J_long], J_void), (''shutdownSSL'', [J_long], J_int), (''getLastErrorNumber'', [], J_int),
    (''getCipherForSSL'', [J_long], J_String), (''getVersion'', [J_long], J_String),
    (''getVersionInt'', [J_long], J_int), (''doHandshake'', [J_long], J_int), (''isInInit'', [J_long], J_int),
    (''getNextProtoNegotiated'', [J_long], J_String), (''getAlpnSelected'', [J_long], J_String),
    (''getPeerCertChain'', [J_long], J_array (J_array J_byte)),
    (''getPeerCertificate'', [J_long], J_array J_byte), (''getErrorString'', [J_long], J_String),
    (''getTime'', [J_long], J_long), (''getTimeout'', [J_long], J_long),
    (''setTimeout'', [J_long, J_long], J_long), (''setVerify'', [J_long, J_int, J_int], J_void),
    (''setOptions'', [J_long, J_int], J_void), (''clearOptions'', [J_long, J_int], J_void),
    (''getOptions'', [J_long], J_int), (''setMode'', [J_long, J_int], J_int), (''getMode'', [J_long], J_int),
    (''getMaxWrapOverhead'', [J_long], J_int), (''getCiphers'', [J_long], J_array J_String),
    (''setCipherSuites'', [J_long, J_String, J_boolean], J_boolean),
    (''setCurvesList0'', [J_long, J_String], J_boolean), (''setCurves0'', [J_long, J_array J_int], J_boolean),
    (''getSessionId'', [J_long], J_array J_byte), (''getHandshakeCount'', [J_long], J_int),
    (''clearError'', [], J_void), (''setTlsExtHostName0'', [J_long, J_String], J_void),
    (''setHostNameValidation'', [J_long, J_int, J_String], J_void),
    (''authenticationMethods'', [J_long], J_array J_String),
    (''setCertificateChainBio'', [J_long, J_long, J_boolean], J_void),
    (''setCertificateBio'', [J_long, J_long, J_long, J_String], J_void),
    (''loadPrivateKeyFromEngine'', [J_String, J_String], J_long),
    (''parsePrivateKey'', [J_long, J_String], J_long), (''freePrivateKey'', [J_long], J_void),
    (''parseX509Chain'', [J_long], J_long), (''freeX509Chain'', [J_long], J_void),
    (''enableOcsp'', [J_long], J_void), (''setKeyMaterial'', [J_long, J_long, J_long], J_void),
    (''setKeyMaterialClientSide'', [J_long, J_long, J_long, J_long, J_long], J_void),
    (''setOcspResponse'', [J_long, J_array J_byte], J_void), (''getOcspResponse'', [J_long], J_array J_byte),
    (''fipsModeSet'', [J_int], J_void), (''getSniHostname'', [J_long], J_String),
    (''getSigAlgs'', [J_long], J_array J_String), (''getMasterKey'', [J_long], J_array J_byte),
    (''getServerRandom'', [J_long], J_array J_byte), (''getClientRandom'', [J_long], J_array J_byte),
    (''getTask'', [J_long], J_object ''java/lang/Runnable''), (''isSessionReused'', [J_long], J_boolean),
    (''setSession'', [J_long, J_long], J_boolean), (''getSession'', [J_long], J_long),
    (''setRenegotiateMode'', [J_long, J_int], J_void), (''addCredential'', [J_long, J_long], J_void),
    (''getSelectedCredential'', [J_long], J_long), (''getGroupName'', [J_long], J_String)]"

definition SSL_methods :: "c_native list" where
  "SSL_methods =
   [(''bioLengthByteBuffer'', ''(J)I'', [C_jlong], C_jint),
    (''bioLengthNonApplication'', ''(J)I'', [C_jlong], C_jint), (''version'', ''()I'', [], C_jint),
    (''versionString'', ''()Ljava/lang/String;'', [], C_jstring),
    (''initialize'', ''(Ljava/lang/String;)I'', [C_jstring], C_jint), (''newMemBIO'', ''()J'', [], C_jlong),
    (''getLastError'', ''()Ljava/lang/String;'', [], C_jstring),
    (''getLastErrorNumber'', ''()I'', [], C_jint), (''newSSL'', ''(JZ)J'', [C_jlong, C_jboolean], C_jlong),
    (''getError'', ''(JI)I'', [C_jlong, C_jint], C_jint),
    (''bioWrite'', ''(JJI)I'', [C_jlong, C_jlong, C_jint], C_jint),
    (''bioSetByteBuffer'', ''(JJIZ)V'', [C_jlong, C_jlong, C_jint, C_jboolean], C_void),
    (''bioClearByteBuffer'', ''(J)V'', [C_jlong], C_void),
    (''bioFlushByteBuffer'', ''(J)I'', [C_jlong], C_jint), (''sslPending'', ''(J)I'', [C_jlong], C_jint),
    (''writeToSSL'', ''(JJI)I'', [C_jlong, C_jlong, C_jint], C_jint),
    (''readFromSSL'', ''(JJI)I'', [C_jlong, C_jlong, C_jint], C_jint),
    (''getShutdown'', ''(J)I'', [C_jlong], C_jint), (''setShutdown'', ''(JI)V'', [C_jlong, C_jint], C_void),
    (''freeSSL'', ''(J)V'', [C_jlong], C_void), (''bioSetFd'', ''(JI)V'', [C_jlong, C_jint], C_void),
    (''bioNewByteBuffer'', ''(JI)J'', [C_jlong, C_jint], C_jlong), (''freeBIO'', ''(J)V'', [C_jlong], C_void),
    (''shutdownSSL'', ''(J)I'', [C_jlong], C_jint),
    (''getCipherForSSL'', ''(J)Ljava/lang/String;'', [C_jlong], C_jstring),
    (''getVersion'', ''(J)Ljava/lang/String;'', [C_jlong], C_jstring),
    (''getVersionInt'', ''(J)I'', [C_jlong], C_jint), (''isInInit'', ''(J)I'', [C_jlong], C_jint),
    (''doHandshake'', ''(J)I'', [C_jlong], C_jint),
    (''getNextProtoNegotiated'', ''(J)Ljava/lang/String;'', [C_jlong], C_jstring),
    (''getAlpnSelected'', ''(J)Ljava/lang/String;'', [C_jlong], C_jstring),
    (''getPeerCertChain'', ''(J)[[B'', [C_jlong], C_jobjectArray),
    (''getPeerCertificate'', ''(J)[B'', [C_jlong], C_jbyteArray),
    (''getErrorString'', ''(J)Ljava/lang/String;'', [C_jlong], C_jstring),
    (''getTime'', ''(J)J'', [C_jlong], C_jlong), (''getTimeout'', ''(J)J'', [C_jlong], C_jlong),
    (''setTimeout'', ''(JJ)J'', [C_jlong, C_jlong], C_jlong),
    (''setSession'', ''(JJ)Z'', [C_jlong, C_jlong], C_jboolean),
    (''setVerify'', ''(JII)V'', [C_jlong, C_jint, C_jint], C_void),
    (''setOptions'', ''(JI)V'', [C_jlong, C_jint], C_void),
    (''clearOptions'', ''(JI)V'', [C_jlong, C_jint], C_void), (''getOptions'', ''(J)I'', [C_jlong], C_jint),
    (''setMode'', ''(JI)I'', [C_jlong, C_jint], C_jint), (''getMode'', ''(J)I'', [C_jlong], C_jint),
    (''getMaxWrapOverhead'', ''(J)I'', [C_jlong], C_jint),
    (''getCiphers'', ''(J)[Ljava/lang/String;'', [C_jlong], C_jobjectArray),
    (''setCipherSuites'', ''(JLjava/lang/String;Z)Z'', [C_jlong, C_jstring, C_jboolean], C_jboolean),
    (''setCurvesList0'', ''(JLjava/lang/String;)Z'', [C_jlong, C_jstring], C_jboolean),
    (''setCurves0'', ''(J[I)Z'', [C_jlong, C_jintArray], C_jboolean),
    (''getSessionId'', ''(J)[B'', [C_jlong], C_jbyteArray),
    (''getHandshakeCount'', ''(J)I'', [C_jlong], C_jint), (''clearError'', ''()V'', [], C_void),
    (''setTlsExtHostName0'', ''(JLjava/lang/String;)V'', [C_jlong, C_jstring], C_void),
    (''setHostNameValidation'', ''(JILjava/lang/String;)V'', [C_jlong, C_jint, C_jstring], C_void),
    (''authenticationMethods'', ''(J)[Ljava/lang/String;'', [C_jlong], C_jobjectArray),
    (''setCertificateBio'', ''(JJJLjava/lang/String;)V'', [C_jlong, C_jlong, C_jlong, C_jstring], C_void),
    (''setCertificateChainBio'', ''(JJZ)V'', [C_jlong, C_jlong, C_jboolean], C_void),
    (''loadPrivateKeyFromEngine'', ''(Ljava/lang/String;Ljava/lang/String;)J'', [C_jstring, C_jstring], C_jlong),
    (''parsePrivateKey'', ''(JLjava/lang/String;)J'', [C_jlong, C_jstring], C_jlong),
    (''freePrivateKey'', ''(J)V'', [C_jlong], C_void), (''parseX509Chain'', ''(J)J'', [C_jlong], C_jlong),
    (''freeX509Chain'', ''(J)V'', [C_jlong], C_void),
    (''setKeyMaterial'', ''(JJJ)V'', [C_jlong, C_jlong, C_jlong], C_void),
    (''setKeyMaterialClientSide'', ''(JJJJJ)V'', [C_jlong, C_jlong, C_jlong, C_jlong, C_jlong], C_void),
    (''enableOcsp'', ''(J)V'', [C_jlong], C_void),
    (''setOcspResponse'', ''(J[B)V'', [C_jlong, C_jbyteArray], C_void),
    (''getOcspResponse'', ''(J)[B'', [C_jlong], C_jbyteArray), (''fipsModeSet'', ''(I)V'', [C_jint], C_void),
    (''getSniHostname'', ''(J)Ljava/lang/String;'', [C_jlong], C_jstring),
    (''getSigAlgs'', ''(J)[Ljava/lang/String;'', [C_jlong], C_jobjectArray),
    (''getMasterKey'', ''(J)[B'', [C_jlong], C_jbyteArray),
    (''getClientRandom'', ''(J)[B'', [C_jlong], C_jbyteArray),
    (''getServerRandom'', ''(J)[B'', [C_jlong], C_jbyteArray),
    (''getTask'', ''(J)Ljava/lang/Runnable;'', [C_jlong], C_jobject),
    (''getSession'', ''(J)J'', [C_jlong], C_jlong), (''isSessionReused'', ''(J)Z'', [C_jlong], C_jboolean),
    (''setRenegotiateMode'', ''(JI)V'', [C_jlong, C_jint], C_void),
    (''addCredential'', ''(JJ)V'', [C_jlong, C_jlong], C_void),
    (''getSelectedCredential'', ''(J)J'', [C_jlong], C_jlong),
    (''getGroupName'', ''(J)Ljava/lang/String;'', [C_jlong], C_jstring)]"

definition SSLContext_java :: "java_native list" where
  "SSLContext_java =
   [(''make'', [J_int, J_int], J_long), (''free'', [J_long], J_int),
    (''setContextId'', [J_long, J_String], J_void), (''setOptions'', [J_long, J_int], J_void),
    (''getOptions'', [J_long], J_int), (''clearOptions'', [J_long, J_int], J_void),
    (''setCipherSuite'', [J_long, J_String, J_boolean], J_boolean),
    (''setCertificateChainFile'', [J_long, J_String, J_boolean], J_boolean),
    (''setCertificateChainBio'', [J_long, J_long, J_boolean], J_boolean),
    (''setCertificate'', [J_long, J_String, J_String, J_String], J_boolean),
    (''setCertificateBio'', [J_long, J_long, J_long, J_String], J_boolean),
    (''setSessionCacheSize'', [J_long, J_long], J_long), (''getSessionCacheSize'', [J_long], J_long),
    (''setSessionCacheTimeout'', [J_long, J_long], J_long), (''getSessionCacheTimeout'', [J_long], J_long),
    (''setSessionCacheMode'', [J_long, J_long], J_long), (''getSessionCacheMode'', [J_long], J_long),
    (''sessionAccept'', [J_long], J_long), (''sessionAcceptGood'', [J_long], J_long),
    (''sessionAcceptRenegotiate'', [J_long], J_long), (''sessionCacheFull'', [J_long], J_long),
    (''sessionCbHits'', [J_long], J_long), (''sessionConnect'', [J_long], J_long),
    (''sessionConnectGood'', [J_long], J_long), (''sessionConnectRenegotiate'', [J_long], J_long),
    (''sessionHits'', [J_long], J_long), (''sessionMisses'', [J_long], J_long),
    (''sessionNumber'', [J_long], J_long), (''sessionTimeouts'', [J_long], J_long),
    (''sessionTicketKeyNew'', [J_long], J_long), (''sessionTicketKeyResume'', [J_long], J_long),
    (''sessionTicketKeyRenew'', [J_long], J_long), (''sessionTicketKeyFail'', [J_long], J_long),
    (''setSessionTicketKeys0'', [J_long, J_array J_byte], J_void),
    (''setCACertificateBio'', [J_long, J_long], J_boolean), (''setVerify'', [J_long, J_int, J_int], J_void),
    (''setCertVerifyCallback'', [J_long, J_tcn ''CertificateVerifier''], J_void),
    (''setCertRequestedCallback'', [J_long, J_tcn ''CertificateRequestedCallback''], J_void),
    (''setCertificateCallback'', [J_long, J_tcn ''CertificateCallback''], J_void),
    (''setSniHostnameMatcher'', [J_long, J_tcn ''SniHostNameMatcher''], J_void),
    (''setKeyLogCallback'', [J_long, J_tcn ''KeyLogCallback''], J_boolean),
    (''setNpnProtos0'', [J_long, J_array J_byte, J_int], J_void),
    (''setAlpnProtos0'', [J_long, J_array J_byte, J_int], J_void),
    (''setTmpDHLength'', [J_long, J_int], J_void),
    (''setSessionIdContext'', [J_long, J_array J_byte], J_boolean), (''setMode'', [J_long, J_int], J_int),
    (''getMode'', [J_long], J_int), (''enableOcsp'', [J_long, J_boolean], J_void),
    (''disableOcsp'', [J_long], J_void), (''getSslCtx'', [J_long], J_long),
    (''setUseTasks'', [J_long, J_boolean], J_void),
    (''addCertificateCompressionAlgorithm0'', [J_long, J_int, J_int, J_tcn ''CertificateCompressionAlgo''], J_int),
    (''setPrivateKeyMethod0'', [J_long, J_tcn ''AsyncSSLPrivateKeyMethod''], J_void),
    (''setSSLSessionCache'', [J_long, J_tcn ''SSLSessionCache''], J_void),
    (''setNumTickets'', [J_long, J_int], J_boolean), (''setCurvesList0'', [J_long, J_String], J_boolean),
    (''setMaxCertList'', [J_long, J_int], J_void), (''addCredential'', [J_long, J_long], J_void)]"

definition fixed_method_table :: "c_native list" where
  "fixed_method_table =
   [(''make'', ''(II)J'', [C_jint, C_jint], C_jlong), (''free'', ''(J)I'', [C_jlong], C_jint),
    (''setContextId'', ''(JLjava/lang/String;)V'', [C_jlong, C_jstring], C_void),
    (''setOptions'', ''(JI)V'', [C_jlong, C_jint], C_void), (''getOptions'', ''(J)I'', [C_jlong], C_jint),
    (''clearOptions'', ''(JI)V'', [C_jlong, C_jint], C_void),
    (''setCipherSuite'', ''(JLjava/lang/String;Z)Z'', [C_jlong, C_jstring, C_jboolean], C_jboolean),
    (''setCertificateChainFile'', ''(JLjava/lang/String;Z)Z'', [C_jlong, C_jstring, C_jboolean], C_jboolean),
    (''setCertificateChainBio'', ''(JJZ)Z'', [C_jlong, C_jlong, C_jboolean], C_jboolean),
    (''setCACertificateBio'', ''(JJ)Z'', [C_jlong, C_jlong], C_jboolean),
    (''setTmpDHLength'', ''(JI)V'', [C_jlong, C_jint], C_void),
    (''setVerify'', ''(JII)V'', [C_jlong, C_jint, C_jint], C_void),
    (''setCertificate'', ''(JLjava/lang/String;Ljava/lang/String;Ljava/lang/String;)Z'', [C_jlong, C_jstring, C_jstring, C_jstring], C_jboolean),
    (''setCertificateBio'', ''(JJJLjava/lang/String;)Z'', [C_jlong, C_jlong, C_jlong, C_jstring], C_jboolean),
    (''setNpnProtos0'', ''(J[BI)V'', [C_jlong, C_jbyteArray, C_jint], C_void),
    (''setAlpnProtos0'', ''(J[BI)V'', [C_jlong, C_jbyteArray, C_jint], C_void),
    (''setSessionCacheMode'', ''(JJ)J'', [C_jlong, C_jlong], C_jlong),
    (''getSessionCacheMode'', ''(J)J'', [C_jlong], C_jlong),
    (''setSessionCacheTimeout'', ''(JJ)J'', [C_jlong, C_jlong], C_jlong),
    (''getSessionCacheTimeout'', ''(J)J'', [C_jlong], C_jlong),
    (''setSessionCacheSize'', ''(JJ)J'', [C_jlong, C_jlong], C_jlong),
    (''getSessionCacheSize'', ''(J)J'', [C_jlong], C_jlong),
    (''sessionNumber'', ''(J)J'', [C_jlong], C_jlong), (''sessionConnect'', ''(J)J'', [C_jlong], C_jlong),
    (''sessionConnectGood'', ''(J)J'', [C_jlong], C_jlong),
    (''sessionConnectRenegotiate'', ''(J)J'', [C_jlong], C_jlong),
    (''sessionAccept'', ''(J)J'', [C_jlong], C_jlong), (''sessionAcceptGood'', ''(J)J'', [C_jlong], C_jlong),
    (''sessionAcceptRenegotiate'', ''(J)J'', [C_jlong], C_jlong),
    (''sessionHits'', ''(J)J'', [C_jlong], C_jlong), (''sessionCbHits'', ''(J)J'', [C_jlong], C_jlong),
    (''sessionMisses'', ''(J)J'', [C_jlong], C_jlong), (''sessionTimeouts'', ''(J)J'', [C_jlong], C_jlong),
    (''sessionCacheFull'', ''(J)J'', [C_jlong], C_jlong),
    (''sessionTicketKeyNew'', ''(J)J'', [C_jlong], C_jlong),
    (''sessionTicketKeyResume'', ''(J)J'', [C_jlong], C_jlong),
    (''sessionTicketKeyRenew'', ''(J)J'', [C_jlong], C_jlong),
    (''sessionTicketKeyFail'', ''(J)J'', [C_jlong], C_jlong),
    (''setSessionTicketKeys0'', ''(J[B)V'', [C_jlong, C_jbyteArray], C_void),
    (''setSessionIdContext'', ''(J[B)Z'', [C_jlong, C_jbyteArray], C_jboolean),
    (''setMode'', ''(JI)I'', [C_jlong, C_jint], C_jint), (''getMode'', ''(J)I'', [C_jlong], C_jint),
    (''enableOcsp'', ''(JZ)V'', [C_jlong, C_jboolean], C_void),
    (''disableOcsp'', ''(J)V'', [C_jlong], C_void), (''getSslCtx'', ''(J)J'', [C_jlong], C_jlong),
    (''setUseTasks'', ''(JZ)V'', [C_jlong, C_jboolean], C_void),
    (''setNumTickets'', ''(JI)Z'', [C_jlong, C_jint], C_jboolean),
    (''setCurvesList0'', ''(JLjava/lang/String;)Z'', [C_jlong, C_jstring], C_jboolean),
    (''setMaxCertList'', ''(JI)V'', [C_jlong, C_jint], C_void),
    (''addCredential'', ''(JJ)V'', [C_jlong, C_jlong], C_void)]"

definition SSLSession_java :: "java_native list" where
  "SSLSession_java =
   [(''getTime'', [J_long], J_long), (''getTimeout'', [J_long], J_long),
    (''setTimeout'', [J_long, J_long], J_long), (''getSessionId'', [J_long], J_array J_byte),
    (''upRef'', [J_long], J_boolean), (''free'', [J_long], J_void),
    (''shouldBeSingleUse'', [J_long], J_boolean)]"

definition SSLSession_methods :: "c_native list" where
  "SSLSession_methods =
   [(''getTime'', ''(J)J'', [C_jlong], C_jlong), (''getTimeout'', ''(J)J'', [C_jlong], C_jlong),
    (''setTimeout'', ''(JJ)J'', [C_jlong, C_jlong], C_jlong),
    (''getSessionId'', ''(J)[B'', [C_jlong], C_jbyteArray), (''free'', ''(J)V'', [C_jlong], C_void),
    (''upRef'', ''(J)Z'', [C_jlong], C_jboolean), (''shouldBeSingleUse'', ''(J)Z'', [C_jlong], C_jboolean)]"

definition SSLCredential_java :: "java_native list" where
  "SSLCredential_java =
   [(''newX509'', [], J_long), (''upRef'', [J_long], J_void), (''free'', [J_long], J_void),
    (''setPrivateKey'', [J_long, J_long], J_void), (''setCertChain'', [J_long, J_long], J_void),
    (''setOcspResponse'', [J_long, J_array J_byte], J_void),
    (''setSigningAlgorithmPrefs'', [J_long, J_array J_int], J_void),
    (''setCertificateProperties'', [J_long, J_array J_byte], J_void),
    (''setSignedCertTimestampList'', [J_long, J_array J_byte], J_void),
    (''setMustMatchIssuer'', [J_long, J_boolean], J_void),
    (''setTrustAnchorId'', [J_long, J_array J_byte], J_void), (''newDelegated'', [], J_long),
    (''setDelegatedCredential'', [J_long, J_array J_byte], J_void)]"

definition SSLCredential_methods :: "c_native list" where
  "SSLCredential_methods =
   [(''newX509'', ''()J'', [], C_jlong), (''upRef'', ''(J)V'', [C_jlong], C_void),
    (''free'', ''(J)V'', [C_jlong], C_void), (''setPrivateKey'', ''(JJ)V'', [C_jlong, C_jlong], C_void),
    (''setCertChain'', ''(JJ)V'', [C_jlong, C_jlong], C_void),
    (''setOcspResponse'', ''(J[B)V'', [C_jlong, C_jbyteArray], C_void),
    (''setSigningAlgorithmPrefs'', ''(J[I)V'', [C_jlong, C_jintArray], C_void),
    (''setCertificateProperties'', ''(J[B)V'', [C_jlong, C_jbyteArray], C_void),
    (''setSignedCertTimestampList'', ''(J[B)V'', [C_jlong, C_jbyteArray], C_void),
    (''setMustMatchIssuer'', ''(JZ)V'', [C_jlong, C_jboolean], C_void),
    (''setTrustAnchorId'', ''(J[B)V'', [C_jlong, C_jbyteArray], C_void),
    (''newDelegated'', ''()J'', [], C_jlong),
    (''setDelegatedCredential'', ''(J[B)V'', [C_jlong, C_jbyteArray], C_void)]"

definition constants_java_names :: "string list" where
  "constants_java_names =
   [''sslOpCipherServerPreference'', ''sslOpNoSSLv2'', ''sslOpNoSSLv3'', ''sslOpNoTLSv1'', ''sslOpNoTLSv11'',
    ''sslOpNoTLSv12'', ''sslOpNoTLSv13'', ''sslOpNoTicket'', ''sslOpAllowUnsafeLegacyRenegotiation'',
    ''sslOpLegacyServerConnect'', ''sslOpNoCompression'', ''sslSessCacheOff'', ''sslSessCacheServer'',
    ''sslSessCacheClient'', ''sslSessCacheNoInternalLookup'', ''sslSessCacheNoInternalStore'',
    ''sslStConnect'', ''sslStAccept'', ''sslModeEnablePartialWrite'', ''sslModeAcceptMovingWriteBuffer'',
    ''sslModeReleaseBuffers'', ''sslModeEnableFalseStart'', ''sslSendShutdown'', ''sslReceivedShutdown'',
    ''sslErrorNone'', ''sslErrorSSL'', ''sslErrorWantRead'', ''sslErrorWantWrite'',
    ''sslErrorWantX509Lookup'', ''sslErrorSyscall'', ''sslErrorZeroReturn'', ''sslErrorWantConnect'',
    ''sslErrorWantAccept'', ''sslMaxPlaintextLength'', ''sslMaxEncryptedLength'', ''sslMaxRecordLength'',
    ''x509CheckFlagAlwaysCheckSubject'', ''x509CheckFlagDisableWildCards'',
    ''x509CheckFlagNoPartialWildCards'', ''x509CheckFlagMultiLabelWildCards'', ''x509vOK'',
    ''x509vErrUnspecified'', ''x509vErrUnableToGetIssuerCert'', ''x509vErrUnableToGetCrl'',
    ''x509vErrUnableToDecryptCertSignature'', ''x509vErrUnableToDecryptCrlSignature'',
    ''x509vErrUnableToDecodeIssuerPublicKey'', ''x509vErrCertSignatureFailure'',
    ''x509vErrCrlSignatureFailure'', ''x509vErrCertNotYetValid'', ''x509vErrCertHasExpired'',
    ''x509vErrCrlNotYetValid'', ''x509vErrCrlHasExpired'', ''x509vErrErrorInCertNotBeforeField'',
    ''x509vErrErrorInCertNotAfterField'', ''x509vErrErrorInCrlLastUpdateField'',
    ''x509vErrErrorInCrlNextUpdateField'', ''x509vErrOutOfMem'', ''x509vErrDepthZeroSelfSignedCert'',
    ''x509vErrSelfSignedCertInChain'', ''x509vErrUnableToGetIssuerCertLocally'',
    ''x509vErrUnableToVerifyLeafSignature'', ''x509vErrCertChainTooLong'', ''x509vErrCertRevoked'',
    ''x509vErrInvalidCa'', ''x509vErrPathLengthExceeded'', ''x509vErrInvalidPurpose'',
    ''x509vErrCertUntrusted'', ''x509vErrCertRejected'', ''x509vErrSubjectIssuerMismatch'',
    ''x509vErrAkidSkidMismatch'', ''x509vErrAkidIssuerSerialMismatch'', ''x509vErrKeyUsageNoCertSign'',
    ''x509vErrUnableToGetCrlIssuer'', ''x509vErrUnhandledCriticalExtension'', ''x509vErrKeyUsageNoCrlSign'',
    ''x509vErrUnhandledCriticalCrlExtension'', ''x509vErrInvalidNonCa'', ''x509vErrProxyPathLengthExceeded'',
    ''x509vErrKeyUsageNoDigitalSignature'', ''x509vErrProxyCertificatesNotAllowed'',
    ''x509vErrInvalidExtension'', ''x509vErrInvalidPolicyExtension'', ''x509vErrNoExplicitPolicy'',
    ''x509vErrDifferntCrlScope'', ''x509vErrUnsupportedExtensionFeature'', ''x509vErrUnnestedResource'',
    ''x509vErrPermittedViolation'', ''x509vErrExcludedViolation'', ''x509vErrSubtreeMinMax'',
    ''x509vErrApplicationVerification'', ''x509vErrUnsupportedConstraintType'',
    ''x509vErrUnsupportedConstraintSyntax'', ''x509vErrUnsupportedNameSyntax'',
    ''x509vErrCrlPathValidationError'', ''x509vErrPathLoop'', ''x509vErrSuiteBInvalidVersion'',
    ''x509vErrSuiteBInvalidAlgorithm'', ''x509vErrSuiteBInvalidCurve'',
    ''x509vErrSuiteBInvalidSignatureAlgorithm'', ''x509vErrSuiteBLosNotAllowed'',
    ''x509vErrSuiteBCannotSignP384WithP256'', ''x509vErrHostnameMismatch'', ''x509vErrEmailMismatch'',
    ''x509vErrIpAddressMismatch'', ''x509vErrDaneNoMatch'', ''sslErrorWantCertificateVerify'',
    ''sslErrorWantPrivateKeyOperation'', ''sslSignRsaPkcsSha1'', ''sslSignRsaPkcsSha256'',
    ''sslSignRsaPkcsSha384'', ''sslSignRsaPkcsSha512'', ''sslSignEcdsaPkcsSha1'',
    ''sslSignEcdsaSecp256r1Sha256'', ''sslSignEcdsaSecp384r1Sha384'', ''sslSignEcdsaSecp521r1Sha512'',
    ''sslSignRsaPssRsaeSha256'', ''sslSignRsaPssRsaeSha384'', ''sslSignRsaPssRsaeSha512'', ''sslSignEd25519'',
    ''sslSignRsaPkcs1Md5Sha1'', ''sslRenegotiateNever'', ''sslRenegotiateOnce'', ''sslRenegotiateFreely'',
    ''sslRenegotiateIgnore'', ''sslRenegotiateExplicit'', ''sslCertCompressionDirectionCompress'',
    ''sslCertCompressionDirectionDecompress'', ''sslCertCompressionDirectionBoth'',
    ''tlsExtCertCompressionZlib'', ''tlsExtCertCompressionBrotli'', ''tlsExtCertCompressionZstd'']"

definition constants_java :: "java_native list" where
  "constants_java = map (\<lambda>n. (n, [], J_int)) constants_java_names"

definition constants_names :: "string list" where
  "constants_names =
   [''sslOpCipherServerPreference'', ''sslOpNoSSLv2'', ''sslOpNoSSLv3'', ''sslOpNoTLSv1'', ''sslOpNoTLSv11'',
    ''sslOpNoTLSv12'', ''sslOpNoTLSv13'', ''sslOpNoTicket'', ''sslOpNoCompression'',
    ''sslOpAllowUnsafeLegacyRenegotiation'', ''sslOpLegacyServerConnect'', ''sslSessCacheOff'',
    ''sslSessCacheServer'', ''sslSessCacheClient'', ''sslSessCacheNoInternalLookup'',
    ''sslSessCacheNoInternalStore'', ''sslStConnect'', ''sslStAccept'', ''sslModeEnablePartialWrite'',
    ''sslModeAcceptMovingWriteBuffer'', ''sslModeEnableFalseStart'', ''sslModeReleaseBuffers'',
    ''sslSendShutdown'', ''sslReceivedShutdown'', ''sslErrorNone'', ''sslErrorSSL'', ''sslErrorWantRead'',
    ''sslErrorWantWrite'', ''sslErrorWantX509Lookup'', ''sslErrorSyscall'', ''sslErrorZeroReturn'',
    ''sslErrorWantConnect'', ''sslErrorWantAccept'', ''sslMaxPlaintextLength'', ''sslMaxEncryptedLength'',
    ''sslMaxRecordLength'', ''x509CheckFlagAlwaysCheckSubject'', ''x509CheckFlagDisableWildCards'',
    ''x509CheckFlagNoPartialWildCards'', ''x509CheckFlagMultiLabelWildCards'', ''x509vOK'',
    ''x509vErrUnspecified'', ''x509vErrUnableToGetIssuerCert'', ''x509vErrUnableToGetCrl'',
    ''x509vErrUnableToDecryptCertSignature'', ''x509vErrUnableToDecryptCrlSignature'',
    ''x509vErrUnableToDecodeIssuerPublicKey'', ''x509vErrCertSignatureFailure'',
    ''x509vErrCrlSignatureFailure'', ''x509vErrCertNotYetValid'', ''x509vErrCertHasExpired'',
    ''x509vErrCrlNotYetValid'', ''x509vErrCrlHasExpired'', ''x509vErrErrorInCertNotBeforeField'',
    ''x509vErrErrorInCertNotAfterField'', ''x509vErrErrorInCrlLastUpdateField'',
    ''x509vErrErrorInCrlNextUpdateField'', ''x509vErrOutOfMem'', ''x509vErrDepthZeroSelfSignedCert'',
    ''x509vErrSelfSignedCertInChain'', ''x509vErrUnableToGetIssuerCertLocally'',
    ''x509vErrUnableToVerifyLeafSignature'', ''x509vErrCertChainTooLong'', ''x509vErrCertRevoked'',
    ''x509vErrInvalidCa'', ''x509vErrPathLengthExceeded'', ''x509vErrInvalidPurpose'',
    ''x509vErrCertUntrusted'', ''x509vErrCertRejected'', ''x509vErrSubjectIssuerMismatch'',
    ''x509vErrAkidSkidMismatch'', ''x509vErrAkidIssuerSerialMismatch'', ''x509vErrKeyUsageNoCertSign'',
    ''x509vErrUnableToGetCrlIssuer'', ''x509vErrUnhandledCriticalExtension'', ''x509vErrKeyUsageNoCrlSign'',
    ''x509vErrUnhandledCriticalCrlExtension'', ''x509vErrInvalidNonCa'', ''x509vErrProxyPathLengthExceeded'',
    ''x509vErrKeyUsageNoDigitalSignature'', ''x509vErrProxyCertificatesNotAllowed'',
    ''x509vErrInvalidExtension'', ''x509vErrInvalidPolicyExtension'', ''x509vErrNoExplicitPolicy'',
    ''x509vErrDifferntCrlScope'', ''x509vErrUnsupportedExtensionFeature'', ''x509vErrUnnestedResource'',
    ''x509vErrPermittedViolation'', ''x509vErrExcludedViolation'', ''x509vErrSubtreeMinMax'',
    ''x509vErrApplicationVerification'', ''x509vErrUnsupportedConstraintType'',
    ''x509vErrUnsupportedConstraintSyntax'', ''x509vErrUnsupportedNameSyntax'',
    ''x509vErrCrlPathValidationError'', ''x509vErrPathLoop'', ''x509vErrSuiteBInvalidVersion'',
    ''x509vErrSuiteBInvalidAlgorithm'', ''x509vErrSuiteBInvalidCurve'',
    ''x509vErrSuiteBInvalidSignatureAlgorithm'', ''x509vErrSuiteBLosNotAllowed'',
    ''x509vErrSuiteBCannotSignP384WithP256'', ''x509vErrHostnameMismatch'', ''x509vErrEmailMismatch'',
    ''x509vErrIpAddressMismatch'', ''x509vErrDaneNoMatch'', ''sslErrorWantCertificateVerify'',
    ''sslErrorWantPrivateKeyOperation'', ''sslSignRsaPkcsSha1'', ''sslSignRsaPkcsSha256'',
    ''sslSignRsaPkcsSha384'', ''sslSignRsaPkcsSha512'', ''sslSignEcdsaPkcsSha1'',
    ''sslSignEcdsaSecp256r1Sha256'', ''sslSignEcdsaSecp384r1Sha384'', ''sslSignEcdsaSecp521r1Sha512'',
    ''sslSignRsaPssRsaeSha256'', ''sslSignRsaPssRsaeSha384'', ''sslSignRsaPssRsaeSha512'', ''sslSignEd25519'',
    ''sslSignRsaPkcs1Md5Sha1'', ''sslRenegotiateNever'', ''sslRenegotiateOnce'', ''sslRenegotiateFreely'',
    ''sslRenegotiateIgnore'', ''sslRenegotiateExplicit'', ''sslCertCompressionDirectionCompress'',
    ''sslCertCompressionDirectionDecompress'', ''sslCertCompressionDirectionBoth'',
    ''tlsExtCertCompressionZlib'', ''tlsExtCertCompressionBrotli'', ''tlsExtCertCompressionZstd'']"

definition constants_methods :: "c_native list" where
  "constants_methods = map (\<lambda>n. (n, ''()I'', [], C_jint)) constants_names"

text \<open>The eight methods with parameters of this library's own classes: \<^verbatim>\<open>createDynamicMethodsTable\<close> puts
  the package prefix into their descriptors.\<close>

definition dynamic_functions :: "(string \<times> jni_type list \<times> jni_type) list" where
  "dynamic_functions =
   [(''setCertVerifyCallback'', [C_jlong, C_jobject], C_void),
    (''setCertRequestedCallback'', [C_jlong, C_jobject], C_void),
    (''setCertificateCallback'', [C_jlong, C_jobject], C_void),
    (''setSniHostnameMatcher'', [C_jlong, C_jobject], C_void),
    (''setKeyLogCallback'', [C_jlong, C_jobject], C_jboolean),
    (''setPrivateKeyMethod0'', [C_jlong, C_jobject], C_void),
    (''setSSLSessionCache'', [C_jlong, C_jobject], C_void),
    (''addCertificateCompressionAlgorithm0'', [C_jlong, C_jint, C_jint, C_jobject], C_jint)]"

definition SSLContext_methods :: "string \<Rightarrow> c_native list" where
  "SSLContext_methods p = fixed_method_table
     @ map (\<lambda>((n, params, result), (iface, sig)). (n, sig @ p @ tcn_class iface, params, result))
         (zip dynamic_functions dynamic_methods)"

lemmas row_simps = native_row_def method_descriptor_def

lemma Buffer_rows: "set Buffer_methods = native_row p ` set Buffer_java"
  by (simp add: Buffer_methods_def Buffer_java_def row_simps insert_commute)

lemma Library_rows: "set Library_methods = native_row p ` set Library_java"
  by (simp add: Library_methods_def Library_java_def row_simps insert_commute)

lemma constants_names_set: "set constants_names = set constants_java_names"
proof -
  have "drop 22 constants_names = drop 22 constants_java_names"
    by (simp add: constants_names_def constants_java_names_def)
  moreover have "set (take 22 constants_names) = set (take 22 constants_java_names)"
    by (simp add: constants_names_def constants_java_names_def insert_commute)
  ultimately show ?thesis by (metis append_take_drop_id set_append)
qed

lemma constants_rows: "set constants_methods = native_row p ` set constants_java"
  by (simp add: constants_methods_def constants_java_def constants_names_set row_simps image_image)

lemma SSL_rows: "set SSL_methods = native_row p ` set SSL_java"
  by (simp add: SSL_methods_def SSL_java_def row_simps insert_commute)

lemma SSLContext_rows: "set (SSLContext_methods p) = native_row p ` set SSLContext_java"
  by (simp add: SSLContext_methods_def fixed_method_table_def dynamic_functions_def dynamic_methods_def
      tcn_class_def tcn_package_def SSLContext_java_def row_simps insert_commute)

lemma SSLSession_rows: "set SSLSession_methods = native_row p ` set SSLSession_java"
  by (simp add: SSLSession_methods_def SSLSession_java_def row_simps insert_commute)

lemma SSLCredential_rows: "set SSLCredential_methods = native_row p ` set SSLCredential_java"
  by (simp add: SSLCredential_methods_def SSLCredential_java_def row_simps insert_commute)

section \<open>Binding\<close>

text \<open>\<^verbatim>\<open>RegisterNatives\<close> fails unless the class has a native method of the name and descriptor of every
  row.\<close>

definition RegisterNatives_ok :: "string \<Rightarrow> java_native list \<Rightarrow> c_native list \<Rightarrow> bool" where
  "RegisterNatives_ok p decls rows \<longleftrightarrow>
     list_all (\<lambda>(n, sg, _). list_ex (\<lambda>(k, m). k = n \<and> method_descriptor p m = sg) decls) rows"

text \<open>The row whose function runs when Java calls a native method, and whether that function has the
  parameters and the result of the method.\<close>

definition bound_row :: "string \<Rightarrow> c_native list \<Rightarrow> java_native \<Rightarrow> c_native option" where
  "bound_row p rows d = find (\<lambda>(k, sg, _). k = fst d \<and> sg = method_descriptor p (snd d)) rows"

definition well_bound :: "string \<Rightarrow> c_native list \<Rightarrow> java_native \<Rightarrow> bool" where
  "well_bound p rows d =
   (case bound_row p rows d of None \<Rightarrow> False | Some (k, sg, params, result) \<Rightarrow> jni_fits params result (snd d))"

definition native_classes :: "string \<Rightarrow> (java_native list \<times> c_native list) list" where
  "native_classes p =
    [(Library_java, Library_methods), (Buffer_java, Buffer_methods), (constants_java, constants_methods),
     (SSL_java, SSL_methods), (SSLContext_java, SSLContext_methods p), (SSLSession_java, SSLSession_methods),
     (SSLCredential_java, SSLCredential_methods)]"

definition usual_decl :: "java_native \<Rightarrow> bool" where
  "usual_decl d \<longleftrightarrow> list_all (\<lambda>t. usual_type t \<and> no_semicolon t) (snd (snd d) # fst (snd d))"

lemma represents_c_type: "usual_type t \<Longrightarrow> represents (c_type t) t"
  by (cases t) (auto split: java_type.split)

lemma c_type_resolved: "c_type (resolved p t) = c_type t"
proof (cases t)
  case (J_tcn n)
  have "length (p @ tcn_package @ n) \<noteq> length ''java/lang/String''" by (simp add: tcn_package_def)
  then have "p @ tcn_package @ n \<noteq> ''java/lang/String''" by metis
  with J_tcn show ?thesis by simp
next
  case (J_array u)
  then show ?thesis by (cases u) simp_all
qed simp_all

lemma c_types_resolved:
  "map (resolved p) ts = map (resolved p) us \<Longrightarrow> map c_type ts = map c_type us"
  by (drule arg_cong [where f = "map c_type"]) (simp add: c_type_resolved o_def)

lemma native_rows_register: "set rows = native_row p ` set decls \<Longrightarrow> RegisterNatives_ok p decls rows"
  unfolding RegisterNatives_ok_def
  by (auto simp: list_all_iff list_ex_iff native_row_def image_iff split_beta)

lemma native_rows_bound:
  assumes rows: "set rows = native_row p ` set decls" and p: "CHR '';'' \<notin> set p"
    and usual: "list_all usual_decl decls" and d: "d \<in> set decls"
  shows "well_bound p rows d"
proof -
  let ?P = "\<lambda>(k, sg, ps, r). k = fst d \<and> sg = method_descriptor p (snd d)"
  have "native_row p d \<in> set rows" "?P (native_row p d)" using rows d by (auto simp: native_row_def)
  then obtain row where row: "find ?P rows = Some row"
    by (cases "find ?P rows") (auto simp: find_None_iff simp del: case_prod_conv)
  then obtain i where i: "i < length rows" "row = rows ! i" and P: "?P row" unfolding find_Some_iff by metis
  have "row \<in> set rows" unfolding i(2) using i(1) by (rule nth_mem)
  then obtain e where e: "e \<in> set decls" "row = native_row p e"
      "method_descriptor p (snd e) = method_descriptor p (snd d)"
    using rows P by (auto simp: native_row_def)
  have ue: "\<forall>t\<in>set (snd (snd e) # fst (snd e)). no_semicolon t" "\<forall>t\<in>set (snd (snd d) # fst (snd d)). no_semicolon t"
    using usual e(1) d by (auto simp: list_all_iff usual_decl_def)
  from method_descriptor_inj [OF p ue e(3)] have "map c_type (fst (snd e)) = map c_type (fst (snd d))"
      "c_type (snd (snd e)) = c_type (snd (snd d))"
    by (metis c_types_resolved, metis c_type_resolved)
  moreover have "list_all2 represents (map c_type (fst (snd d))) (fst (snd d))"
      "represents (c_type (snd (snd d))) (snd (snd d))"
    using usual d by (auto simp: list_all_iff usual_decl_def list_all2_conv_all_nth represents_c_type)
  ultimately show ?thesis
    using row e(2) by (simp add: well_bound_def bound_row_def native_row_def jni_fits_def split_beta)
qed

lemma usual_decls:
  "list_all usual_decl Library_java" "list_all usual_decl Buffer_java" "list_all usual_decl constants_java"
  "list_all usual_decl SSL_java" "list_all usual_decl SSLContext_java" "list_all usual_decl SSLSession_java"
  "list_all usual_decl SSLCredential_java"
  by (simp_all add: usual_decl_def Library_java_def Buffer_java_def constants_java_def list_all_iff SSL_java_def
      SSLContext_java_def SSLSession_java_def SSLCredential_java_def)

lemma native_rows:
  assumes "(decls, rows) \<in> set (native_classes p)"
  shows "set rows = native_row p ` set decls \<and> list_all usual_decl decls"
proof -
  consider "decls = Library_java" "rows = Library_methods" | "decls = Buffer_java" "rows = Buffer_methods"
    | "decls = constants_java" "rows = constants_methods" | "decls = SSL_java" "rows = SSL_methods"
    | "decls = SSLContext_java" "rows = SSLContext_methods p" | "decls = SSLSession_java" "rows = SSLSession_methods"
    | "decls = SSLCredential_java" "rows = SSLCredential_methods"
    using assms by (auto simp: native_classes_def)
  then show ?thesis
    by cases (simp_all only: usual_decls Library_rows [of p] Buffer_rows [of p] constants_rows [of p] SSL_rows [of p]
        SSLContext_rows SSLSession_rows [of p] SSLCredential_rows [of p])
qed


section \<open>Calls from C into Java\<close>

text \<open>The methods, constructors (\<^verbatim>\<open><init>\<close>) and fields of Java that the C code uses, as Java declares them.\<close>

definition java_members :: "((string \<times> string) \<times> java_method) list" where
  "java_members =
   [((''String'', ''<init>''), [J_array J_byte], J_void),
    ((''CertificateVerifier'', ''verify''), [J_long, J_array (J_array J_byte), J_String], J_int),
    ((''CertificateRequestedCallback'', ''requested''),
      [J_long, J_long, J_long, J_array J_byte, J_array (J_array J_byte)], J_void),
    ((''CertificateCallback'', ''handle''), [J_long, J_array J_byte, J_array (J_array J_byte)], J_void),
    ((''AsyncSSLPrivateKeyMethod'', ''sign''), [J_long, J_int, J_array J_byte, J_tcn ''ResultCallback''], J_void),
    ((''AsyncSSLPrivateKeyMethod'', ''decrypt''), [J_long, J_array J_byte, J_tcn ''ResultCallback''], J_void),
    ((''SSLSessionCache'', ''sessionCreated''), [J_long, J_long], J_boolean),
    ((''SSLSessionCache'', ''getSession''), [J_long, J_array J_byte], J_long),
    ((''SniHostNameMatcher'', ''match''), [J_long, J_String], J_boolean),
    ((''KeyLogCallback'', ''handle''), [J_long, J_array J_byte], J_void),
    ((''CertificateCompressionAlgo'', ''compress''), [J_long, J_array J_byte], J_array J_byte),
    ((''CertificateCompressionAlgo'', ''decompress''), [J_long, J_int, J_array J_byte], J_array J_byte),
    ((''CertificateVerifierTask'', ''<init>''),
      [J_long, J_array (J_array J_byte), J_String, J_tcn ''CertificateVerifier''], J_void),
    ((''CertificateCallbackTask'', ''<init>''),
      [J_long, J_array J_byte, J_array (J_array J_byte), J_tcn ''CertificateCallback''], J_void),
    ((''SSLPrivateKeyMethodSignTask'', ''<init>''),
      [J_long, J_int, J_array J_byte, J_tcn ''AsyncSSLPrivateKeyMethod''], J_void),
    ((''SSLPrivateKeyMethodDecryptTask'', ''<init>''),
      [J_long, J_array J_byte, J_tcn ''AsyncSSLPrivateKeyMethod''], J_void)]"

definition java_fields :: "((string \<times> string) \<times> java_type) list" where
  "java_fields = [((''SSLTask'', ''returnValue''), J_int), ((''SSLTask'', ''complete''), J_boolean),
                  ((''SSLPrivateKeyMethodTask'', ''resultBytes''), J_array J_byte)]"

text \<open>
  The same in C: the descriptor that is looked up (when the library is loaded, for \<^verbatim>\<open>GetMethodID\<close> by
  the setter of the callback), and the arguments and the result of the call. \<^verbatim>\<open>NewObject\<close> runs a
  constructor, whose result is \<^verbatim>\<open>void\<close>.
\<close>

type_synonym java_call = "(string \<times> string) \<times> string \<times> jni_type list \<times> jni_type"

definition callback_calls :: "string \<Rightarrow> java_call list" where
  "callback_calls p =
   [((''String'', ''<init>''), ''([B)V'', [C_jbyteArray], C_void),
    ((''CertificateVerifier'', ''verify''), ''(J[[BLjava/lang/String;)I'', [C_jlong, C_jobjectArray, C_jstring], C_jint),
    ((''CertificateRequestedCallback'', ''requested''), ''(JJJ[B[[B)V'',
      [C_jlong, C_jlong, C_jlong, C_jbyteArray, C_jobjectArray], C_void),
    ((''CertificateCallback'', ''handle''), ''(J[B[[B)V'', [C_jlong, C_jbyteArray, C_jobjectArray], C_void),
    ((''SSLSessionCache'', ''sessionCreated''), ''(JJ)Z'', [C_jlong, C_jlong], C_jboolean),
    ((''SSLSessionCache'', ''getSession''), ''(J[B)J'', [C_jlong, C_jbyteArray], C_jlong),
    ((''SniHostNameMatcher'', ''match''), ''(JLjava/lang/String;)Z'', [C_jlong, C_jstring], C_jboolean),
    ((''KeyLogCallback'', ''handle''), ''(J[B)V'', [C_jlong, C_jbyteArray], C_void),
    ((''CertificateCompressionAlgo'', ''compress''), ''(J[B)[B'', [C_jlong, C_jbyteArray], C_jbyteArray)]"

definition task_init_calls :: "string \<Rightarrow> java_call list" where
  "task_init_calls p =
   [((''CertificateCallbackTask'', ''<init>''), ''(J[B[[BL'' @ p @ tcn_class ''CertificateCallback;)V'',
      [C_jlong, C_jbyteArray, C_jobjectArray, C_jobject], C_void),
    ((''CertificateVerifierTask'', ''<init>''), ''(J[[BLjava/lang/String;L'' @ p @ tcn_class ''CertificateVerifier;)V'',
      [C_jlong, C_jobjectArray, C_jstring, C_jobject], C_void),
    ((''SSLPrivateKeyMethodSignTask'', ''<init>''), ''(JI[BL'' @ p @ tcn_class ''AsyncSSLPrivateKeyMethod;)V'',
      [C_jlong, C_jint, C_jbyteArray, C_jobject], C_void),
    ((''SSLPrivateKeyMethodDecryptTask'', ''<init>''), ''(J[BL'' @ p @ tcn_class ''AsyncSSLPrivateKeyMethod;)V'',
      [C_jlong, C_jbyteArray, C_jobject], C_void)]"

text \<open>The calls whose arguments are not those of the method: two branches of the private key method, and
  \<^verbatim>\<open>uncompressed_len\<close>, which has the width of \<^verbatim>\<open>size_t\<close> where the callee takes an \<^verbatim>\<open>int\<close>.\<close>

definition unfit_calls :: "string \<Rightarrow> java_call list" where
  "unfit_calls p =
   [((''AsyncSSLPrivateKeyMethod'', ''sign''), ''(JI[BL'' @ p @ tcn_class ''ResultCallback;)V'',
      [C_jlong, C_jint, C_jbyteArray], C_jbyteArray),
    ((''AsyncSSLPrivateKeyMethod'', ''decrypt''), ''(J[BL'' @ p @ tcn_class ''ResultCallback;)V'',
      [C_jlong, C_jbyteArray], C_jbyteArray),
    ((''CertificateCompressionAlgo'', ''decompress''), ''(JI[B)[B'', [C_jlong, C_size_t, C_jbyteArray], C_jbyteArray)]"

definition field_reads :: "((string \<times> string) \<times> string \<times> jni_type) list" where
  "field_reads = [((''SSLTask'', ''returnValue''), ''I'', C_jint), ((''SSLTask'', ''complete''), ''Z'', C_jboolean),
                  ((''SSLPrivateKeyMethodTask'', ''resultBytes''), ''[B'', C_jbyteArray)]"

definition lookup_succeeds :: "string \<Rightarrow> java_call \<Rightarrow> bool" where
  "lookup_succeeds p c =
   (case map_of java_members (fst c) of None \<Rightarrow> False | Some m \<Rightarrow> fst (snd c) = method_descriptor p m)"

definition call_fits :: "java_call \<Rightarrow> bool" where
  "call_fits c =
   (case map_of java_members (fst c) of None \<Rightarrow> False
    | Some m \<Rightarrow> jni_fits (fst (snd (snd c))) (snd (snd (snd c))) m)"

definition field_fits :: "(string \<times> string) \<times> string \<times> jni_type \<Rightarrow> bool" where
  "field_fits r =
   (case map_of java_fields (fst r) of None \<Rightarrow> False
    | Some t \<Rightarrow> fst (snd r) = descriptor [] t \<and> represents (snd (snd r)) t)"

lemmas call_simps = lookup_succeeds_def call_fits_def java_members_def method_descriptor_def jni_fits_def
  tcn_class_def tcn_package_def

lemma callback_calls_ok: "\<forall>c\<in>set (callback_calls p). lookup_succeeds p c \<and> call_fits c"
  by (simp add: callback_calls_def call_simps)

lemma task_init_calls_ok: "\<forall>c\<in>set (task_init_calls p). lookup_succeeds p c \<and> call_fits c"
  by (simp add: task_init_calls_def call_simps)

lemma unfit_calls_unfit: "\<forall>c\<in>set (unfit_calls p). lookup_succeeds p c \<and> \<not> call_fits c"
  by (simp add: unfit_calls_def call_simps)

lemma field_reads_ok: "\<forall>r\<in>set field_reads. field_fits r"
  by (simp add: field_reads_def field_fits_def java_fields_def)

section \<open>Properties\<close>

text \<open>
  C21. Every native method gets a C function of its own type. For each of the seven classes, and
  whatever package prefix the library is loaded with, registration finds the method of every row of the
  C table, and a call of any native method declared in Java runs a function with exactly one parameter
  for each argument, of the C type of that argument, and with the C type of the declared result.
\<close>

theorem native_methods_typed:
  assumes p: "CHR '';'' \<notin> set p" and cl: "(decls, rows) \<in> set (native_classes p)"
  shows "RegisterNatives_ok p decls rows \<and> (\<forall>d\<in>set decls. well_bound p rows d)"
  using native_rows [OF cl] native_rows_register native_rows_bound [OF _ p] by blast

theorem native_methods_typed_witness:
  "RegisterNatives_ok ''shaded/'' SSLContext_java (SSLContext_methods ''shaded/'')
   \<and> well_bound ''shaded/'' (SSLContext_methods ''shaded/'')
        (''setSSLSessionCache'', [J_long, J_tcn ''SSLSessionCache''], J_void)"
proof -
  have "CHR '';'' \<notin> set ''shaded/''" by simp
  moreover have "(SSLContext_java, SSLContext_methods ''shaded/'') \<in> set (native_classes ''shaded/'')"
    by (simp add: native_classes_def)
  moreover have "(''setSSLSessionCache'', [J_long, J_tcn ''SSLSessionCache''], J_void) \<in> set SSLContext_java"
    by (simp add: SSLContext_java_def)
  ultimately show ?thesis using native_methods_typed [of "''shaded/''" SSLContext_java] by blast
qed

text \<open>
  Calls from C into Java: every method, constructor and field is found under the descriptor that is
  looked up, and the arguments and results of the calls have the types of the Java methods, except in
  three calls: the direct calls of \<^verbatim>\<open>sign\<close> and \<^verbatim>\<open>decrypt\<close>, which lack an argument and expect a result
  from a \<^verbatim>\<open>void\<close> method, and \<^verbatim>\<open>decompress\<close>, which gets a \<^verbatim>\<open>size_t\<close> for an \<^verbatim>\<open>int\<close>.
\<close>

theorem java_calls_typed:
  "(\<forall>c\<in>set (callback_calls p @ task_init_calls p @ unfit_calls p).
      lookup_succeeds p c \<and> (call_fits c \<longleftrightarrow> c \<notin> set (unfit_calls p)))
   \<and> (\<forall>r\<in>set field_reads. field_fits r)"
  using callback_calls_ok [of p] task_init_calls_ok [of p] unfit_calls_unfit [of p] field_reads_ok by auto

theorem java_calls_typed_witness:
  "call_fits ((''KeyLogCallback'', ''handle''), ''(J[B)V'', [C_jlong, C_jbyteArray], C_void)
   \<and> \<not> call_fits ((''CertificateCompressionAlgo'', ''decompress''), ''(JI[B)[B'', [C_jlong, C_size_t, C_jbyteArray], C_jbyteArray)"
proof -
  let ?k = "((''KeyLogCallback'', ''handle''), ''(J[B)V'', [C_jlong, C_jbyteArray], C_void)"
  let ?d = "((''CertificateCompressionAlgo'', ''decompress''), ''(JI[B)[B'', [C_jlong, C_size_t, C_jbyteArray], C_jbyteArray)"
  have "?k \<in> set (callback_calls [])" "?k \<notin> set (unfit_calls [])" "?d \<in> set (unfit_calls [])"
    by (simp_all add: callback_calls_def unfit_calls_def)
  then show ?thesis using java_calls_typed [of "[]"] by auto
qed

end
