(* ===== verification/Native_Constants.thy ===== *)
theory Native_Constants
  imports Context Jni_Tables
begin

text \<open>
  The constants of the TLS library that Java sees: \<^verbatim>\<open>native_constants.c\<close> has a function for each, which
  returns a macro or enumerator of the library's headers or of \<^verbatim>\<open>ssl_private.h\<close>, and the Java classes
  initialise a field from each function. The functions are data here, expressions over names; what the
  headers of the library define is the parameter \<open>lib\<close>. Also the constants that Java and C both write
  down as numbers.

  The lemmas show which name every Java field stands for, and where the two sides differ.
\<close>

section \<open>Expressions\<close>

datatype const_expr =
    Name string
  | Lit int
  | Plus const_expr const_expr
  | If_Defined string const_expr const_expr
  | If_Boring const_expr const_expr

text \<open>\<open>None\<close>: a name is not defined, and the file does not compile.\<close>

fun const_value :: "build \<Rightarrow> (string \<Rightarrow> int option) \<Rightarrow> const_expr \<Rightarrow> int option" where
  "const_value b names (Name n) = names n"
| "const_value b names (Lit i) = Some i"
| "const_value b names (Plus x y) =
     (case (const_value b names x, const_value b names y) of (Some i, Some j) \<Rightarrow> Some (i + j) | _ \<Rightarrow> None)"
| "const_value b names (If_Defined n x y) =
     (if names n \<noteq> None then const_value b names x else const_value b names y)"
| "const_value b names (If_Boring x y) = (if boring b then const_value b names x else const_value b names y)"

text \<open>The functions return a \<^verbatim>\<open>jint\<close>.\<close>

definition constant_result :: "build \<Rightarrow> (string \<Rightarrow> int option) \<Rightarrow> const_expr \<Rightarrow> int option" where
  "constant_result b names e = map_option int_cast (const_value b names e)"

section \<open>Names that ssl_private.h defines\<close>

definition private_names :: "(string \<times> int) list" where
  "private_names =
   [(''SSL_CERT_COMPRESSION_DIRECTION_COMPRESS'', 1), (''SSL_CERT_COMPRESSION_DIRECTION_DECOMPRESS'', 2),
    (''SSL_CERT_COMPRESSION_DIRECTION_BOTH'', 3)]"

text \<open>Names that are defined only when the library does not define them; the second list only for other
  libraries than BoringSSL and AWS-LC.\<close>

definition fallback_names :: "(string \<times> int) list" where
  "fallback_names =
   [(''SSL_OP_NO_TLSv1_3'', 0), (''SSL_ERROR_WANT_CERTIFICATE_VERIFY'', -1),
    (''TLSEXT_cert_compression_zlib'', 1), (''TLSEXT_cert_compression_brotli'', 2),
    (''TLSEXT_cert_compression_zstd'', 3)]"

definition openssl_fallback_names :: "(string \<times> int) list" where
  "openssl_fallback_names =
   [(''SSL_ERROR_WANT_PRIVATE_KEY_OPERATION'', -1), (''SSL_MODE_ENABLE_FALSE_START'', 0),
    (''SSL_SIGN_RSA_PKCS1_SHA1'', 0x0201), (''SSL_SIGN_RSA_PKCS1_SHA256'', 0x0401),
    (''SSL_SIGN_RSA_PKCS1_SHA384'', 0x0501), (''SSL_SIGN_RSA_PKCS1_SHA512'', 0x0601),
    (''SSL_SIGN_ECDSA_SHA1'', 0x0203), (''SSL_SIGN_ECDSA_SECP256R1_SHA256'', 0x0403),
    (''SSL_SIGN_ECDSA_SECP384R1_SHA384'', 0x0503), (''SSL_SIGN_ECDSA_SECP521R1_SHA512'', 0x0603),
    (''SSL_SIGN_RSA_PSS_RSAE_SHA256'', 0x0804), (''SSL_SIGN_RSA_PSS_RSAE_SHA384'', 0x0805),
    (''SSL_SIGN_RSA_PSS_RSAE_SHA512'', 0x0806), (''SSL_SIGN_ED25519'', 0x0807),
    (''SSL_SIGN_RSA_PKCS1_MD5_SHA1'', 0xff01)]"

definition TCN_X509_V_ERR_UNSPECIFIED :: "(string \<Rightarrow> int option) \<Rightarrow> int" where
  "TCN_X509_V_ERR_UNSPECIFIED lib =
   (case lib ''X509_V_ERR_UNSPECIFIED'' of None \<Rightarrow> 99999 | Some v \<Rightarrow> v)"

definition defined_names :: "build \<Rightarrow> (string \<Rightarrow> int option) \<Rightarrow> string \<Rightarrow> int option" where
  "defined_names b lib n =
   (if n = ''TCN_X509_V_ERR_UNSPECIFIED'' then Some (TCN_X509_V_ERR_UNSPECIFIED lib)
    else (case map_of private_names n of Some v \<Rightarrow> Some v
    | None \<Rightarrow> (case lib n of Some v \<Rightarrow> Some v
    | None \<Rightarrow> (case map_of fallback_names n of Some v \<Rightarrow> Some v
    | None \<Rightarrow> if boring b then None else map_of openssl_fallback_names n))))"

section \<open>The functions of native_constants.c and the fields of the Java classes\<close>

definition option_constants :: "(string \<times> const_expr) list" where
  "option_constants =
   [(''sslOpCipherServerPreference'', Name ''SSL_OP_CIPHER_SERVER_PREFERENCE''),
    (''sslOpNoSSLv2'', Name ''SSL_OP_NO_SSLv2''), (''sslOpNoSSLv3'', Name ''SSL_OP_NO_SSLv3''),
    (''sslOpNoTLSv1'', Name ''SSL_OP_NO_TLSv1''), (''sslOpNoTLSv11'', Name ''SSL_OP_NO_TLSv1_1''),
    (''sslOpNoTLSv12'', Name ''SSL_OP_NO_TLSv1_2''), (''sslOpNoTLSv13'', Name ''SSL_OP_NO_TLSv1_3''),
    (''sslOpNoTicket'', Name ''SSL_OP_NO_TICKET''), (''sslOpNoCompression'', Name ''SSL_OP_NO_COMPRESSION''),
    (''sslOpAllowUnsafeLegacyRenegotiation'', Name ''SSL_OP_ALLOW_UNSAFE_LEGACY_RENEGOTIATION''),
    (''sslOpLegacyServerConnect'', Name ''SSL_OP_LEGACY_SERVER_CONNECT''),
    (''sslSessCacheOff'', Name ''SSL_SESS_CACHE_OFF''),
    (''sslSessCacheServer'', Name ''SSL_SESS_CACHE_SERVER''),
    (''sslSessCacheClient'', Name ''SSL_SESS_CACHE_CLIENT''),
    (''sslSessCacheNoInternalLookup'', Name ''SSL_SESS_CACHE_NO_INTERNAL_LOOKUP''),
    (''sslSessCacheNoInternalStore'', Name ''SSL_SESS_CACHE_NO_INTERNAL_STORE''),
    (''sslStConnect'', Name ''SSL_ST_CONNECT''), (''sslStAccept'', Name ''SSL_ST_ACCEPT''),
    (''sslModeEnablePartialWrite'', Name ''SSL_MODE_ENABLE_PARTIAL_WRITE''),
    (''sslModeAcceptMovingWriteBuffer'', Name ''SSL_MODE_ACCEPT_MOVING_WRITE_BUFFER''),
    (''sslModeReleaseBuffers'', Name ''SSL_MODE_RELEASE_BUFFERS''),
    (''sslModeEnableFalseStart'', Name ''SSL_MODE_ENABLE_FALSE_START'')]"

definition shutdown_and_error_constants :: "(string \<times> const_expr) list" where
  "shutdown_and_error_constants =
   [(''sslSendShutdown'', Name ''SSL_SENT_SHUTDOWN''),
    (''sslReceivedShutdown'', Name ''SSL_RECEIVED_SHUTDOWN''), (''sslErrorNone'', Name ''SSL_ERROR_NONE''),
    (''sslErrorSSL'', Name ''SSL_ERROR_SSL''), (''sslErrorWantRead'', Name ''SSL_ERROR_WANT_READ''),
    (''sslErrorWantWrite'', Name ''SSL_ERROR_WANT_WRITE''),
    (''sslErrorWantX509Lookup'', Name ''SSL_ERROR_WANT_X509_LOOKUP''),
    (''sslErrorSyscall'', Name ''SSL_ERROR_SYSCALL''),
    (''sslErrorZeroReturn'', Name ''SSL_ERROR_ZERO_RETURN''),
    (''sslErrorWantConnect'', Name ''SSL_ERROR_WANT_CONNECT''),
    (''sslErrorWantAccept'', Name ''SSL_ERROR_WANT_ACCEPT'')]"

definition length_and_flag_constants :: "(string \<times> const_expr) list" where
  "length_and_flag_constants =
   [(''sslMaxPlaintextLength'', Name ''SSL3_RT_MAX_PLAIN_LENGTH''),
    (''sslMaxEncryptedLength'', Name ''SSL3_RT_MAX_ENCRYPTED_LENGTH''),
    (''sslMaxRecordLength'', Plus (Plus (Plus (Lit 256) (Name ''SSL3_RT_MAX_ENCRYPTED_OVERHEAD'')) (Name ''SSL3_RT_MAX_PLAIN_LENGTH''))
       (Name ''SSL3_RT_MAX_PLAIN_LENGTH'')),
    (''x509CheckFlagAlwaysCheckSubject'', If_Defined ''X509_CHECK_FLAG_ALWAYS_CHECK_SUBJECT'' (Name ''X509_CHECK_FLAG_ALWAYS_CHECK_SUBJECT'') (Lit 0)),
    (''x509CheckFlagDisableWildCards'', If_Defined ''X509_CHECK_FLAG_NO_WILD_CARDS'' (Name ''X509_CHECK_FLAG_NO_WILD_CARDS'') (Lit 0)),
    (''x509CheckFlagNoPartialWildCards'', If_Defined ''X509_CHECK_FLAG_NO_PARTIAL_WILD_CARDS'' (Name ''X509_CHECK_FLAG_NO_PARTIAL_WILD_CARDS'') (Lit 0)),
    (''x509CheckFlagMultiLabelWildCards'', If_Defined ''X509_CHECK_FLAG_MULTI_LABEL_WILDCARDS'' (Name ''X509_CHECK_FLAG_MULTI_LABEL_WILDCARDS'') (Lit 0))]"

definition x509_constants_1 :: "(string \<times> const_expr) list" where
  "x509_constants_1 =
   [(''x509vOK'', Name ''X509_V_OK''),
    (''x509vErrUnspecified'', If_Defined ''X509_V_ERR_UNSPECIFIED'' (Name ''X509_V_ERR_UNSPECIFIED'') (Name ''TCN_X509_V_ERR_UNSPECIFIED'')),
    (''x509vErrUnableToGetIssuerCert'', Name ''X509_V_ERR_UNABLE_TO_GET_ISSUER_CERT''),
    (''x509vErrUnableToGetCrl'', Name ''X509_V_ERR_UNABLE_TO_GET_CRL''),
    (''x509vErrUnableToDecryptCertSignature'', Name ''X509_V_ERR_UNABLE_TO_DECRYPT_CERT_SIGNATURE''),
    (''x509vErrUnableToDecryptCrlSignature'', Name ''X509_V_ERR_UNABLE_TO_DECRYPT_CRL_SIGNATURE''),
    (''x509vErrUnableToDecodeIssuerPublicKey'', Name ''X509_V_ERR_UNABLE_TO_DECODE_ISSUER_PUBLIC_KEY''),
    (''x509vErrCertSignatureFailure'', Name ''X509_V_ERR_CERT_SIGNATURE_FAILURE''),
    (''x509vErrCrlSignatureFailure'', Name ''X509_V_ERR_CRL_SIGNATURE_FAILURE''),
    (''x509vErrCertNotYetValid'', Name ''X509_V_ERR_CERT_NOT_YET_VALID''),
    (''x509vErrCertHasExpired'', Name ''X509_V_ERR_CERT_HAS_EXPIRED''),
    (''x509vErrCrlNotYetValid'', Name ''X509_V_ERR_CRL_NOT_YET_VALID''),
    (''x509vErrCrlHasExpired'', Name ''X509_V_ERR_CRL_HAS_EXPIRED''),
    (''x509vErrErrorInCertNotBeforeField'', Name ''X509_V_ERR_ERROR_IN_CERT_NOT_BEFORE_FIELD''),
    (''x509vErrErrorInCertNotAfterField'', Name ''X509_V_ERR_ERROR_IN_CERT_NOT_AFTER_FIELD''),
    (''x509vErrErrorInCrlLastUpdateField'', Name ''X509_V_ERR_ERROR_IN_CRL_LAST_UPDATE_FIELD''),
    (''x509vErrErrorInCrlNextUpdateField'', Name ''X509_V_ERR_ERROR_IN_CRL_NEXT_UPDATE_FIELD''),
    (''x509vErrOutOfMem'', Name ''X509_V_ERR_OUT_OF_MEM''),
    (''x509vErrDepthZeroSelfSignedCert'', Name ''X509_V_ERR_DEPTH_ZERO_SELF_SIGNED_CERT''),
    (''x509vErrSelfSignedCertInChain'', Name ''X509_V_ERR_SELF_SIGNED_CERT_IN_CHAIN''),
    (''x509vErrUnableToGetIssuerCertLocally'', Name ''X509_V_ERR_UNABLE_TO_GET_ISSUER_CERT_LOCALLY''),
    (''x509vErrUnableToVerifyLeafSignature'', Name ''X509_V_ERR_UNABLE_TO_VERIFY_LEAF_SIGNATURE''),
    (''x509vErrCertChainTooLong'', Name ''X509_V_ERR_CERT_CHAIN_TOO_LONG''),
    (''x509vErrCertRevoked'', Name ''X509_V_ERR_CERT_REVOKED''),
    (''x509vErrInvalidCa'', Name ''X509_V_ERR_INVALID_CA''),
    (''x509vErrPathLengthExceeded'', Name ''X509_V_ERR_PATH_LENGTH_EXCEEDED'')]"

definition x509_constants_2 :: "(string \<times> const_expr) list" where
  "x509_constants_2 =
   [(''x509vErrInvalidPurpose'', Name ''X509_V_ERR_INVALID_PURPOSE''),
    (''x509vErrCertUntrusted'', Name ''X509_V_ERR_CERT_UNTRUSTED''),
    (''x509vErrCertRejected'', Name ''X509_V_ERR_CERT_REJECTED''),
    (''x509vErrSubjectIssuerMismatch'', Name ''X509_V_ERR_SUBJECT_ISSUER_MISMATCH''),
    (''x509vErrAkidSkidMismatch'', Name ''X509_V_ERR_AKID_SKID_MISMATCH''),
    (''x509vErrAkidIssuerSerialMismatch'', Name ''X509_V_ERR_AKID_ISSUER_SERIAL_MISMATCH''),
    (''x509vErrKeyUsageNoCertSign'', Name ''X509_V_ERR_KEYUSAGE_NO_CERTSIGN''),
    (''x509vErrUnableToGetCrlIssuer'', Name ''X509_V_ERR_UNABLE_TO_GET_CRL_ISSUER''),
    (''x509vErrUnhandledCriticalExtension'', Name ''X509_V_ERR_UNHANDLED_CRITICAL_EXTENSION''),
    (''x509vErrKeyUsageNoCrlSign'', Name ''X509_V_ERR_KEYUSAGE_NO_CRL_SIGN''),
    (''x509vErrUnhandledCriticalCrlExtension'', Name ''X509_V_ERR_UNHANDLED_CRITICAL_CRL_EXTENSION''),
    (''x509vErrInvalidNonCa'', Name ''X509_V_ERR_INVALID_NON_CA''),
    (''x509vErrProxyPathLengthExceeded'', Name ''X509_V_ERR_PROXY_PATH_LENGTH_EXCEEDED''),
    (''x509vErrKeyUsageNoDigitalSignature'', Name ''X509_V_ERR_KEYUSAGE_NO_DIGITAL_SIGNATURE''),
    (''x509vErrProxyCertificatesNotAllowed'', Name ''X509_V_ERR_PROXY_CERTIFICATES_NOT_ALLOWED''),
    (''x509vErrInvalidExtension'', Name ''X509_V_ERR_INVALID_EXTENSION''),
    (''x509vErrInvalidPolicyExtension'', Name ''X509_V_ERR_INVALID_POLICY_EXTENSION''),
    (''x509vErrNoExplicitPolicy'', Name ''X509_V_ERR_NO_EXPLICIT_POLICY''),
    (''x509vErrDifferntCrlScope'', Name ''X509_V_ERR_DIFFERENT_CRL_SCOPE''),
    (''x509vErrUnsupportedExtensionFeature'', Name ''X509_V_ERR_UNSUPPORTED_EXTENSION_FEATURE''),
    (''x509vErrUnnestedResource'', Name ''X509_V_ERR_UNNESTED_RESOURCE''),
    (''x509vErrPermittedViolation'', Name ''X509_V_ERR_PERMITTED_VIOLATION''),
    (''x509vErrExcludedViolation'', Name ''X509_V_ERR_EXCLUDED_VIOLATION''),
    (''x509vErrSubtreeMinMax'', Name ''X509_V_ERR_SUBTREE_MINMAX''),
    (''x509vErrApplicationVerification'', Name ''X509_V_ERR_APPLICATION_VERIFICATION''),
    (''x509vErrUnsupportedConstraintType'', Name ''X509_V_ERR_UNSUPPORTED_CONSTRAINT_TYPE''),
    (''x509vErrUnsupportedConstraintSyntax'', Name ''X509_V_ERR_UNSUPPORTED_CONSTRAINT_SYNTAX'')]"

definition x509_constants_3 :: "(string \<times> const_expr) list" where
  "x509_constants_3 =
   [(''x509vErrUnsupportedNameSyntax'', Name ''X509_V_ERR_UNSUPPORTED_NAME_SYNTAX''),
    (''x509vErrCrlPathValidationError'', Name ''X509_V_ERR_CRL_PATH_VALIDATION_ERROR''),
    (''x509vErrPathLoop'', If_Defined ''X509_V_ERR_PATH_LOOP'' (Name ''X509_V_ERR_PATH_LOOP'') (Name ''TCN_X509_V_ERR_UNSPECIFIED'')),
    (''x509vErrSuiteBInvalidVersion'', If_Defined ''X509_V_ERR_SUITE_B_INVALID_VERSION'' (Name ''X509_V_ERR_SUITE_B_INVALID_VERSION'') (Name ''TCN_X509_V_ERR_UNSPECIFIED'')),
    (''x509vErrSuiteBInvalidAlgorithm'', If_Defined ''X509_V_ERR_SUITE_B_INVALID_ALGORITHM'' (Name ''X509_V_ERR_SUITE_B_INVALID_ALGORITHM'') (Name ''TCN_X509_V_ERR_UNSPECIFIED'')),
    (''x509vErrSuiteBInvalidCurve'', If_Defined ''X509_V_ERR_SUITE_B_INVALID_CURVE'' (Name ''X509_V_ERR_SUITE_B_INVALID_CURVE'') (Name ''TCN_X509_V_ERR_UNSPECIFIED'')),
    (''x509vErrSuiteBInvalidSignatureAlgorithm'', If_Defined ''X509_V_ERR_SUITE_B_INVALID_SIGNATURE_ALGORITHM'' (Name ''X509_V_ERR_SUITE_B_INVALID_SIGNATURE_ALGORITHM'') (Name ''TCN_X509_V_ERR_UNSPECIFIED'')),
    (''x509vErrSuiteBLosNotAllowed'', If_Defined ''X509_V_ERR_SUITE_B_LOS_NOT_ALLOWED'' (Name ''X509_V_ERR_SUITE_B_LOS_NOT_ALLOWED'') (Name ''TCN_X509_V_ERR_UNSPECIFIED'')),
    (''x509vErrSuiteBCannotSignP384WithP256'', If_Defined ''X509_V_ERR_SUITE_B_CANNOT_SIGN_P_384_WITH_P_256'' (Name ''X509_V_ERR_SUITE_B_CANNOT_SIGN_P_384_WITH_P_256'') (Name ''TCN_X509_V_ERR_UNSPECIFIED'')),
    (''x509vErrHostnameMismatch'', If_Defined ''X509_V_ERR_HOSTNAME_MISMATCH'' (Name ''X509_V_ERR_HOSTNAME_MISMATCH'') (Name ''TCN_X509_V_ERR_UNSPECIFIED'')),
    (''x509vErrEmailMismatch'', If_Defined ''X509_V_ERR_EMAIL_MISMATCH'' (Name ''X509_V_ERR_EMAIL_MISMATCH'') (Name ''TCN_X509_V_ERR_UNSPECIFIED'')),
    (''x509vErrIpAddressMismatch'', If_Defined ''X509_V_ERR_IP_ADDRESS_MISMATCH'' (Name ''X509_V_ERR_IP_ADDRESS_MISMATCH'') (Name ''TCN_X509_V_ERR_UNSPECIFIED'')),
    (''x509vErrDaneNoMatch'', If_Defined ''X509_V_ERR_DANE_NO_MATCH'' (Name ''X509_V_ERR_DANE_NO_MATCH'') (Name ''TCN_X509_V_ERR_UNSPECIFIED''))]"

definition want_constants :: "(string \<times> const_expr) list" where
  "want_constants =
   [(''sslErrorWantCertificateVerify'', Name ''SSL_ERROR_WANT_CERTIFICATE_VERIFY''),
    (''sslErrorWantPrivateKeyOperation'', Name ''SSL_ERROR_WANT_PRIVATE_KEY_OPERATION'')]"

definition signature_constants :: "(string \<times> const_expr) list" where
  "signature_constants =
   [(''sslSignRsaPkcsSha1'', Name ''SSL_SIGN_RSA_PKCS1_SHA1''),
    (''sslSignRsaPkcsSha256'', Name ''SSL_SIGN_RSA_PKCS1_SHA256''),
    (''sslSignRsaPkcsSha384'', Name ''SSL_SIGN_RSA_PKCS1_SHA384''),
    (''sslSignRsaPkcsSha512'', Name ''SSL_SIGN_RSA_PKCS1_SHA512''),
    (''sslSignEcdsaPkcsSha1'', Name ''SSL_SIGN_ECDSA_SHA1''),
    (''sslSignEcdsaSecp256r1Sha256'', Name ''SSL_SIGN_ECDSA_SECP256R1_SHA256''),
    (''sslSignEcdsaSecp384r1Sha384'', Name ''SSL_SIGN_ECDSA_SECP384R1_SHA384''),
    (''sslSignEcdsaSecp521r1Sha512'', Name ''SSL_SIGN_ECDSA_SECP521R1_SHA512''),
    (''sslSignRsaPssRsaeSha256'', Name ''SSL_SIGN_RSA_PSS_RSAE_SHA256''),
    (''sslSignRsaPssRsaeSha384'', Name ''SSL_SIGN_RSA_PSS_RSAE_SHA384''),
    (''sslSignRsaPssRsaeSha512'', Name ''SSL_SIGN_RSA_PSS_RSAE_SHA512''),
    (''sslSignEd25519'', Name ''SSL_SIGN_ED25519''),
    (''sslSignRsaPkcs1Md5Sha1'', Name ''SSL_SIGN_RSA_PKCS1_MD5_SHA1'')]"

definition renegotiate_constants :: "(string \<times> const_expr) list" where
  "renegotiate_constants =
   [(''sslRenegotiateNever'', If_Boring (Name ''ssl_renegotiate_never'') (Lit 0)),
    (''sslRenegotiateOnce'', If_Boring (Name ''ssl_renegotiate_once'') (Lit 0)),
    (''sslRenegotiateFreely'', If_Boring (Name ''ssl_renegotiate_freely'') (Lit 0)),
    (''sslRenegotiateIgnore'', If_Boring (Name ''ssl_renegotiate_ignore'') (Lit 0)),
    (''sslRenegotiateExplicit'', If_Boring (Name ''ssl_renegotiate_explicit'') (Lit 0))]"

definition direction_constants :: "(string \<times> const_expr) list" where
  "direction_constants =
   [(''sslCertCompressionDirectionCompress'', Name ''SSL_CERT_COMPRESSION_DIRECTION_COMPRESS''),
    (''sslCertCompressionDirectionDecompress'', Name ''SSL_CERT_COMPRESSION_DIRECTION_DECOMPRESS''),
    (''sslCertCompressionDirectionBoth'', Name ''SSL_CERT_COMPRESSION_DIRECTION_BOTH'')]"

definition compression_constants :: "(string \<times> const_expr) list" where
  "compression_constants =
   [(''tlsExtCertCompressionZlib'', Name ''TLSEXT_cert_compression_zlib''),
    (''tlsExtCertCompressionBrotli'', Name ''TLSEXT_cert_compression_brotli''),
    (''tlsExtCertCompressionZstd'', Name ''TLSEXT_cert_compression_zstd'')]"

definition native_constants :: "(string \<times> const_expr) list" where
  "native_constants =
     option_constants @ shutdown_and_error_constants @ length_and_flag_constants
   @ x509_constants_1 @ x509_constants_2 @ x509_constants_3 @ want_constants @ signature_constants
   @ renegotiate_constants @ direction_constants @ compression_constants"

text \<open>Pairs of a Java field and the native method it is initialised from.\<close>

definition SSL_fields :: "(string \<times> string) list" where
  "SSL_fields =
   [(''SSL_OP_CIPHER_SERVER_PREFERENCE'', ''sslOpCipherServerPreference''),
    (''SSL_OP_NO_SSLv2'', ''sslOpNoSSLv2''), (''SSL_OP_NO_SSLv3'', ''sslOpNoSSLv3''),
    (''SSL_OP_NO_TLSv1'', ''sslOpNoTLSv1''), (''SSL_OP_NO_TLSv1_1'', ''sslOpNoTLSv11''),
    (''SSL_OP_NO_TLSv1_2'', ''sslOpNoTLSv12''), (''SSL_OP_NO_TLSv1_3'', ''sslOpNoTLSv13''),
    (''SSL_OP_NO_TICKET'', ''sslOpNoTicket''), (''SSL_OP_NO_COMPRESSION'', ''sslOpNoCompression''),
    (''SSL_OP_ALLOW_UNSAFE_LEGACY_RENEGOTIATION'', ''sslOpAllowUnsafeLegacyRenegotiation''),
    (''SSL_OP_LEGACY_SERVER_CONNECT'', ''sslOpLegacyServerConnect''),
    (''SSL_SESS_CACHE_OFF'', ''sslSessCacheOff''), (''SSL_SESS_CACHE_SERVER'', ''sslSessCacheServer''),
    (''SSL_SESS_CACHE_CLIENT'', ''sslSessCacheClient''),
    (''SSL_SESS_CACHE_NO_INTERNAL_LOOKUP'', ''sslSessCacheNoInternalLookup''),
    (''SSL_SESS_CACHE_NO_INTERNAL_STORE'', ''sslSessCacheNoInternalStore''),
    (''SSL_ST_CONNECT'', ''sslStConnect''), (''SSL_ST_ACCEPT'', ''sslStAccept''),
    (''SSL_MODE_ENABLE_PARTIAL_WRITE'', ''sslModeEnablePartialWrite''),
    (''SSL_MODE_ACCEPT_MOVING_WRITE_BUFFER'', ''sslModeAcceptMovingWriteBuffer''),
    (''SSL_MODE_RELEASE_BUFFERS'', ''sslModeReleaseBuffers''),
    (''SSL_MODE_ENABLE_FALSE_START'', ''sslModeEnableFalseStart''),
    (''SSL_MAX_PLAINTEXT_LENGTH'', ''sslMaxPlaintextLength''),
    (''SSL_MAX_ENCRYPTED_LENGTH'', ''sslMaxEncryptedLength''),
    (''SSL_MAX_RECORD_LENGTH'', ''sslMaxRecordLength''),
    (''X509_CHECK_FLAG_ALWAYS_CHECK_SUBJECT'', ''x509CheckFlagAlwaysCheckSubject''),
    (''X509_CHECK_FLAG_NO_WILD_CARDS'', ''x509CheckFlagDisableWildCards''),
    (''X509_CHECK_FLAG_NO_PARTIAL_WILD_CARDS'', ''x509CheckFlagNoPartialWildCards''),
    (''X509_CHECK_FLAG_MULTI_LABEL_WILDCARDS'', ''x509CheckFlagMultiLabelWildCards''),
    (''SSL_RENEGOTIATE_NEVER'', ''sslRenegotiateNever''), (''SSL_RENEGOTIATE_ONCE'', ''sslRenegotiateOnce''),
    (''SSL_RENEGOTIATE_FREELY'', ''sslRenegotiateFreely''),
    (''SSL_RENEGOTIATE_IGNORE'', ''sslRenegotiateIgnore''),
    (''SSL_RENEGOTIATE_EXPLICIT'', ''sslRenegotiateExplicit''),
    (''SSL_CERT_COMPRESSION_DIRECTION_COMPRESS'', ''sslCertCompressionDirectionCompress''),
    (''SSL_CERT_COMPRESSION_DIRECTION_DECOMPRESS'', ''sslCertCompressionDirectionDecompress''),
    (''SSL_CERT_COMPRESSION_DIRECTION_BOTH'', ''sslCertCompressionDirectionBoth''),
    (''SSL_SENT_SHUTDOWN'', ''sslSendShutdown''), (''SSL_RECEIVED_SHUTDOWN'', ''sslReceivedShutdown''),
    (''SSL_ERROR_NONE'', ''sslErrorNone''), (''SSL_ERROR_SSL'', ''sslErrorSSL''),
    (''SSL_ERROR_WANT_READ'', ''sslErrorWantRead''), (''SSL_ERROR_WANT_WRITE'', ''sslErrorWantWrite''),
    (''SSL_ERROR_WANT_X509_LOOKUP'', ''sslErrorWantX509Lookup''),
    (''SSL_ERROR_SYSCALL'', ''sslErrorSyscall''), (''SSL_ERROR_ZERO_RETURN'', ''sslErrorZeroReturn''),
    (''SSL_ERROR_WANT_CONNECT'', ''sslErrorWantConnect''),
    (''SSL_ERROR_WANT_ACCEPT'', ''sslErrorWantAccept''),
    (''SSL_ERROR_WANT_PRIVATE_KEY_OPERATION'', ''sslErrorWantPrivateKeyOperation''),
    (''SSL_ERROR_WANT_CERTIFICATE_VERIFY'', ''sslErrorWantCertificateVerify'')]"

definition CertificateVerifier_fields :: "(string \<times> string) list" where
  "CertificateVerifier_fields =
   [(''X509_V_OK'', ''x509vOK''), (''X509_V_ERR_UNSPECIFIED'', ''x509vErrUnspecified''),
    (''X509_V_ERR_UNABLE_TO_GET_ISSUER_CERT'', ''x509vErrUnableToGetIssuerCert''),
    (''X509_V_ERR_UNABLE_TO_GET_CRL'', ''x509vErrUnableToGetCrl''),
    (''X509_V_ERR_UNABLE_TO_DECRYPT_CERT_SIGNATURE'', ''x509vErrUnableToDecryptCertSignature''),
    (''X509_V_ERR_UNABLE_TO_DECRYPT_CRL_SIGNATURE'', ''x509vErrUnableToDecryptCrlSignature''),
    (''X509_V_ERR_UNABLE_TO_DECODE_ISSUER_PUBLIC_KEY'', ''x509vErrUnableToDecodeIssuerPublicKey''),
    (''X509_V_ERR_CERT_SIGNATURE_FAILURE'', ''x509vErrCertSignatureFailure''),
    (''X509_V_ERR_CRL_SIGNATURE_FAILURE'', ''x509vErrCrlSignatureFailure''),
    (''X509_V_ERR_CERT_NOT_YET_VALID'', ''x509vErrCertNotYetValid''),
    (''X509_V_ERR_CERT_HAS_EXPIRED'', ''x509vErrCertHasExpired''),
    (''X509_V_ERR_CRL_NOT_YET_VALID'', ''x509vErrCrlNotYetValid''),
    (''X509_V_ERR_CRL_HAS_EXPIRED'', ''x509vErrCrlHasExpired''),
    (''X509_V_ERR_ERROR_IN_CERT_NOT_BEFORE_FIELD'', ''x509vErrErrorInCertNotBeforeField''),
    (''X509_V_ERR_ERROR_IN_CERT_NOT_AFTER_FIELD'', ''x509vErrErrorInCertNotAfterField''),
    (''X509_V_ERR_ERROR_IN_CRL_LAST_UPDATE_FIELD'', ''x509vErrErrorInCrlLastUpdateField''),
    (''X509_V_ERR_ERROR_IN_CRL_NEXT_UPDATE_FIELD'', ''x509vErrErrorInCrlNextUpdateField''),
    (''X509_V_ERR_OUT_OF_MEM'', ''x509vErrOutOfMem''),
    (''X509_V_ERR_DEPTH_ZERO_SELF_SIGNED_CERT'', ''x509vErrDepthZeroSelfSignedCert''),
    (''X509_V_ERR_SELF_SIGNED_CERT_IN_CHAIN'', ''x509vErrSelfSignedCertInChain''),
    (''X509_V_ERR_UNABLE_TO_GET_ISSUER_CERT_LOCALLY'', ''x509vErrUnableToGetIssuerCertLocally''),
    (''X509_V_ERR_UNABLE_TO_VERIFY_LEAF_SIGNATURE'', ''x509vErrUnableToVerifyLeafSignature''),
    (''X509_V_ERR_CERT_CHAIN_TOO_LONG'', ''x509vErrCertChainTooLong''),
    (''X509_V_ERR_CERT_REVOKED'', ''x509vErrCertRevoked''),
    (''X509_V_ERR_INVALID_CA'', ''x509vErrInvalidCa''),
    (''X509_V_ERR_PATH_LENGTH_EXCEEDED'', ''x509vErrPathLengthExceeded''),
    (''X509_V_ERR_INVALID_PURPOSE'', ''x509vErrInvalidPurpose''),
    (''X509_V_ERR_CERT_UNTRUSTED'', ''x509vErrCertUntrusted''),
    (''X509_V_ERR_CERT_REJECTED'', ''x509vErrCertRejected''),
    (''X509_V_ERR_SUBJECT_ISSUER_MISMATCH'', ''x509vErrSubjectIssuerMismatch''),
    (''X509_V_ERR_AKID_SKID_MISMATCH'', ''x509vErrAkidSkidMismatch''),
    (''X509_V_ERR_AKID_ISSUER_SERIAL_MISMATCH'', ''x509vErrAkidIssuerSerialMismatch''),
    (''X509_V_ERR_KEYUSAGE_NO_CERTSIGN'', ''x509vErrKeyUsageNoCertSign''),
    (''X509_V_ERR_UNABLE_TO_GET_CRL_ISSUER'', ''x509vErrUnableToGetCrlIssuer''),
    (''X509_V_ERR_UNHANDLED_CRITICAL_EXTENSION'', ''x509vErrUnhandledCriticalExtension''),
    (''X509_V_ERR_KEYUSAGE_NO_CRL_SIGN'', ''x509vErrKeyUsageNoCrlSign''),
    (''X509_V_ERR_UNHANDLED_CRITICAL_CRL_EXTENSION'', ''x509vErrUnhandledCriticalCrlExtension''),
    (''X509_V_ERR_INVALID_NON_CA'', ''x509vErrInvalidNonCa''),
    (''X509_V_ERR_PROXY_PATH_LENGTH_EXCEEDED'', ''x509vErrProxyPathLengthExceeded''),
    (''X509_V_ERR_KEYUSAGE_NO_DIGITAL_SIGNATURE'', ''x509vErrKeyUsageNoDigitalSignature''),
    (''X509_V_ERR_PROXY_CERTIFICATES_NOT_ALLOWED'', ''x509vErrProxyCertificatesNotAllowed''),
    (''X509_V_ERR_INVALID_EXTENSION'', ''x509vErrInvalidExtension''),
    (''X509_V_ERR_INVALID_POLICY_EXTENSION'', ''x509vErrInvalidPolicyExtension''),
    (''X509_V_ERR_NO_EXPLICIT_POLICY'', ''x509vErrNoExplicitPolicy''),
    (''X509_V_ERR_DIFFERENT_CRL_SCOPE'', ''x509vErrDifferntCrlScope''),
    (''X509_V_ERR_UNSUPPORTED_EXTENSION_FEATURE'', ''x509vErrUnsupportedExtensionFeature''),
    (''X509_V_ERR_UNNESTED_RESOURCE'', ''x509vErrUnnestedResource''),
    (''X509_V_ERR_PERMITTED_VIOLATION'', ''x509vErrPermittedViolation''),
    (''X509_V_ERR_EXCLUDED_VIOLATION'', ''x509vErrExcludedViolation''),
    (''X509_V_ERR_SUBTREE_MINMAX'', ''x509vErrSubtreeMinMax''),
    (''X509_V_ERR_APPLICATION_VERIFICATION'', ''x509vErrApplicationVerification''),
    (''X509_V_ERR_UNSUPPORTED_CONSTRAINT_TYPE'', ''x509vErrUnsupportedConstraintType''),
    (''X509_V_ERR_UNSUPPORTED_CONSTRAINT_SYNTAX'', ''x509vErrUnsupportedConstraintSyntax''),
    (''X509_V_ERR_UNSUPPORTED_NAME_SYNTAX'', ''x509vErrUnsupportedNameSyntax''),
    (''X509_V_ERR_CRL_PATH_VALIDATION_ERROR'', ''x509vErrCrlPathValidationError''),
    (''X509_V_ERR_PATH_LOOP'', ''x509vErrPathLoop''),
    (''X509_V_ERR_SUITE_B_INVALID_VERSION'', ''x509vErrSuiteBInvalidVersion''),
    (''X509_V_ERR_SUITE_B_INVALID_ALGORITHM'', ''x509vErrSuiteBInvalidAlgorithm''),
    (''X509_V_ERR_SUITE_B_INVALID_CURVE'', ''x509vErrSuiteBInvalidCurve''),
    (''X509_V_ERR_SUITE_B_INVALID_SIGNATURE_ALGORITHM'', ''x509vErrSuiteBInvalidSignatureAlgorithm''),
    (''X509_V_ERR_SUITE_B_LOS_NOT_ALLOWED'', ''x509vErrSuiteBLosNotAllowed''),
    (''X509_V_ERR_SUITE_B_CANNOT_SIGN_P_384_WITH_P_256'', ''x509vErrSuiteBCannotSignP384WithP256''),
    (''X509_V_ERR_HOSTNAME_MISMATCH'', ''x509vErrHostnameMismatch''),
    (''X509_V_ERR_EMAIL_MISMATCH'', ''x509vErrEmailMismatch''),
    (''X509_V_ERR_IP_ADDRESS_MISMATCH'', ''x509vErrIpAddressMismatch''),
    (''X509_V_ERR_DANE_NO_MATCH'', ''x509vErrDaneNoMatch'')]"

definition SSLPrivateKeyMethod_fields :: "(string \<times> string) list" where
  "SSLPrivateKeyMethod_fields =
   [(''SSL_SIGN_RSA_PKCS1_SHA1'', ''sslSignRsaPkcsSha1''),
    (''SSL_SIGN_RSA_PKCS1_SHA256'', ''sslSignRsaPkcsSha256''),
    (''SSL_SIGN_RSA_PKCS1_SHA384'', ''sslSignRsaPkcsSha384''),
    (''SSL_SIGN_RSA_PKCS1_SHA512'', ''sslSignRsaPkcsSha512''),
    (''SSL_SIGN_ECDSA_SHA1'', ''sslSignEcdsaPkcsSha1''),
    (''SSL_SIGN_ECDSA_SECP256R1_SHA256'', ''sslSignEcdsaSecp256r1Sha256''),
    (''SSL_SIGN_ECDSA_SECP384R1_SHA384'', ''sslSignEcdsaSecp384r1Sha384''),
    (''SSL_SIGN_ECDSA_SECP521R1_SHA512'', ''sslSignEcdsaSecp521r1Sha512''),
    (''SSL_SIGN_RSA_PSS_RSAE_SHA256'', ''sslSignRsaPssRsaeSha256''),
    (''SSL_SIGN_RSA_PSS_RSAE_SHA384'', ''sslSignRsaPssRsaeSha384''),
    (''SSL_SIGN_RSA_PSS_RSAE_SHA512'', ''sslSignRsaPssRsaeSha512''),
    (''SSL_SIGN_ED25519'', ''sslSignEd25519''), (''SSL_SIGN_RSA_PKCS1_MD5_SHA1'', ''sslSignRsaPkcs1Md5Sha1'')]"

definition CertificateCompressionAlgo_fields :: "(string \<times> string) list" where
  "CertificateCompressionAlgo_fields =
   [(''TLS_EXT_CERT_COMPRESSION_ZLIB'', ''tlsExtCertCompressionZlib''),
    (''TLS_EXT_CERT_COMPRESSION_BROTLI'', ''tlsExtCertCompressionBrotli''),
    (''TLS_EXT_CERT_COMPRESSION_ZSTD'', ''tlsExtCertCompressionZstd'')]"

definition java_fields_of_natives :: "(string \<times> string) list" where
  "java_fields_of_natives =
     SSL_fields @ CertificateVerifier_fields @ SSLPrivateKeyMethod_fields @ CertificateCompressionAlgo_fields"

text \<open>The fields that have another name than what they stand for.\<close>

definition renamed_fields :: "(string \<times> string) list" where
  "renamed_fields =
   [(''SSL_MAX_PLAINTEXT_LENGTH'', ''SSL3_RT_MAX_PLAIN_LENGTH''),
    (''SSL_MAX_ENCRYPTED_LENGTH'', ''SSL3_RT_MAX_ENCRYPTED_LENGTH''),
    (''SSL_RENEGOTIATE_NEVER'', ''ssl_renegotiate_never''), (''SSL_RENEGOTIATE_ONCE'', ''ssl_renegotiate_once''),
    (''SSL_RENEGOTIATE_FREELY'', ''ssl_renegotiate_freely''),
    (''SSL_RENEGOTIATE_IGNORE'', ''ssl_renegotiate_ignore''),
    (''SSL_RENEGOTIATE_EXPLICIT'', ''ssl_renegotiate_explicit''),
    (''TLS_EXT_CERT_COMPRESSION_ZLIB'', ''TLSEXT_cert_compression_zlib''),
    (''TLS_EXT_CERT_COMPRESSION_BROTLI'', ''TLSEXT_cert_compression_brotli''),
    (''TLS_EXT_CERT_COMPRESSION_ZSTD'', ''TLSEXT_cert_compression_zstd'')]"

section \<open>Which name a field stands for\<close>

text \<open>The name that a function returns where it is defined.\<close>

fun main_name :: "const_expr \<Rightarrow> string option" where
  "main_name (Name n) = Some n"
| "main_name (If_Defined n x y) = (if x = Name n then Some n else None)"
| "main_name (If_Boring x y) = (case x of Name n \<Rightarrow> Some n | _ \<Rightarrow> None)"
| "main_name e = None"

fun boring_only :: "const_expr \<Rightarrow> bool" where
  "boring_only (If_Boring x y) = (y = Lit 0)"
| "boring_only e = False"

definition field_matches :: "string \<times> string \<Rightarrow> string \<times> const_expr \<Rightarrow> bool" where
  "field_matches fm c \<longleftrightarrow> snd fm = fst c
     \<and> (if main_name (snd c) = Some (fst fm) then True
        else if main_name (snd c) = None then fst c = ''sslMaxRecordLength''
        else (fst fm, the (main_name (snd c))) \<in> set renamed_fields)"

lemmas field_match_simps = field_matches_def renamed_fields_def

lemma SSL_fields_match:
  "list_all2 field_matches SSL_fields
     (option_constants @ length_and_flag_constants @ renegotiate_constants @ direction_constants
      @ shutdown_and_error_constants @ rev want_constants)"
  by (simp add: field_match_simps SSL_fields_def option_constants_def length_and_flag_constants_def
      renegotiate_constants_def direction_constants_def shutdown_and_error_constants_def want_constants_def)

lemma CertificateVerifier_fields_match:
  "list_all2 field_matches CertificateVerifier_fields (x509_constants_1 @ x509_constants_2 @ x509_constants_3)"
  by (simp add: field_match_simps CertificateVerifier_fields_def x509_constants_1_def x509_constants_2_def
      x509_constants_3_def)

lemma other_fields_match:
  "list_all2 field_matches SSLPrivateKeyMethod_fields signature_constants"
  "list_all2 field_matches CertificateCompressionAlgo_fields compression_constants"
  by (simp_all add: field_match_simps SSLPrivateKeyMethod_fields_def signature_constants_def
      CertificateCompressionAlgo_fields_def compression_constants_def)

text \<open>Every row of the method table has a function, and the other way round.\<close>

lemma native_constants_complete: "set (map fst native_constants) = set constants_names"
proof -
  have "drop 22 (map fst native_constants) = drop 22 constants_names"
    by (simp add: native_constants_def option_constants_def shutdown_and_error_constants_def
        length_and_flag_constants_def x509_constants_1_def x509_constants_2_def x509_constants_3_def
        want_constants_def signature_constants_def renegotiate_constants_def direction_constants_def
        compression_constants_def constants_names_def)
  moreover have "take 22 (map fst native_constants) = map fst option_constants"
    by (simp add: native_constants_def option_constants_def)
  moreover have "set (map fst option_constants) = set (take 22 constants_names)"
    by (simp add: option_constants_def constants_names_def insert_commute)
  ultimately show ?thesis by (metis append_take_drop_id set_append)
qed

lemma list_all2_member: "list_all2 P xs ys \<Longrightarrow> x \<in> set xs \<Longrightarrow> \<exists>y\<in>set ys. P x y"
  by (induction rule: list_all2_induct) auto

lemma field_has_function:
  assumes "(f, m) \<in> set java_fields_of_natives"
  shows "\<exists>e. (m, e) \<in> set native_constants \<and> field_matches (f, m) (m, e)"
proof -
  consider "(f, m) \<in> set SSL_fields" | "(f, m) \<in> set CertificateVerifier_fields"
    | "(f, m) \<in> set SSLPrivateKeyMethod_fields" | "(f, m) \<in> set CertificateCompressionAlgo_fields"
    using assms by (auto simp: java_fields_of_natives_def)
  then have "\<exists>c\<in>set native_constants. field_matches (f, m) c"
  proof cases
    case 1
    show ?thesis using list_all2_member [OF SSL_fields_match 1] by (auto simp: native_constants_def)
  next
    case 2
    show ?thesis using list_all2_member [OF CertificateVerifier_fields_match 2] by (auto simp: native_constants_def)
  next
    case 3
    show ?thesis using list_all2_member [OF other_fields_match(1) 3] by (auto simp: native_constants_def)
  next
    case 4
    show ?thesis using list_all2_member [OF other_fields_match(2) 4] by (auto simp: native_constants_def)
  qed
  then show ?thesis by (metis field_matches_def prod.collapse snd_conv)
qed

text \<open>The shapes the functions have.\<close>

definition usual_constant :: "const_expr \<Rightarrow> bool" where
  "usual_constant e =
   (case e of If_Defined n x y \<Rightarrow> y = Lit 0 \<or> y = Name ''TCN_X509_V_ERR_UNSPECIFIED''
    | If_Boring x y \<Rightarrow> y = Lit 0 | _ \<Rightarrow> True)"

lemma usual_blocks:
  "list_all (\<lambda>c. usual_constant (snd c)) option_constants"
  "list_all (\<lambda>c. usual_constant (snd c)) shutdown_and_error_constants"
  "list_all (\<lambda>c. usual_constant (snd c)) length_and_flag_constants"
  "list_all (\<lambda>c. usual_constant (snd c)) x509_constants_1"
  "list_all (\<lambda>c. usual_constant (snd c)) x509_constants_2"
  "list_all (\<lambda>c. usual_constant (snd c)) x509_constants_3"
  "list_all (\<lambda>c. usual_constant (snd c)) want_constants"
  "list_all (\<lambda>c. usual_constant (snd c)) signature_constants"
  "list_all (\<lambda>c. usual_constant (snd c)) renegotiate_constants"
  "list_all (\<lambda>c. usual_constant (snd c)) direction_constants"
  "list_all (\<lambda>c. usual_constant (snd c)) compression_constants"
  by (simp_all add: usual_constant_def option_constants_def shutdown_and_error_constants_def
        length_and_flag_constants_def x509_constants_1_def x509_constants_2_def x509_constants_3_def
        want_constants_def signature_constants_def renegotiate_constants_def direction_constants_def
        compression_constants_def)

lemma usual_constants: "list_all (\<lambda>c. usual_constant (snd c)) native_constants"
  by (simp add: native_constants_def usual_blocks)

lemma main_name_result:
  assumes "main_name e = Some g" "usual_constant e"
  shows "names g = Some v \<Longrightarrow> constant_result b names e = Some (if boring_only e \<and> \<not> boring b then 0 else int_cast v)"
    and "names g = None \<Longrightarrow> names ''TCN_X509_V_ERR_UNSPECIFIED'' = Some u \<Longrightarrow>
      constant_result b names e \<in> {None, Some 0, Some (int_cast u)}"
  using assms
  by (cases e; auto simp: constant_result_def usual_constant_def int_cast_def split: if_splits const_expr.splits)+

section \<open>Numbers that both sides write down\<close>

definition java_SSL_PROTOCOL_TLSV1_3 :: int where "java_SSL_PROTOCOL_TLSV1_3 = push_bit 5 1"

definition java_SSL_PROTOCOL_TLS :: int where
  "java_SSL_PROTOCOL_TLS =
     or (or (or (or (push_bit 1 1) (push_bit 2 1)) (push_bit 3 1)) (push_bit 4 1)) java_SSL_PROTOCOL_TLSV1_3"

definition java_SSL_PROTOCOL_ALL :: int where
  "java_SSL_PROTOCOL_ALL = or (push_bit 0 1) java_SSL_PROTOCOL_TLS"

definition java_numbers :: "(string \<times> int) list" where
  "java_numbers =
   [(''SSL_PROTOCOL_NONE'', 0), (''SSL_PROTOCOL_SSLV2'', push_bit 0 1), (''SSL_PROTOCOL_SSLV3'', push_bit 1 1),
    (''SSL_PROTOCOL_TLSV1'', push_bit 2 1), (''SSL_PROTOCOL_TLSV1_1'', push_bit 3 1),
    (''SSL_PROTOCOL_TLSV1_2'', push_bit 4 1), (''SSL_PROTOCOL_TLS'', java_SSL_PROTOCOL_TLS),
    (''SSL_PROTOCOL_ALL'', java_SSL_PROTOCOL_ALL), (''SSL_CVERIFY_IGNORED'', -1), (''SSL_CVERIFY_NONE'', 0),
    (''SSL_CVERIFY_OPTIONAL'', 1), (''SSL_CVERIFY_REQUIRED'', 2), (''SSL_MODE_CLIENT'', 0), (''SSL_MODE_SERVER'', 1),
    (''SSL_MODE_COMBINED'', 2), (''SSL_SELECTOR_FAILURE_NO_ADVERTISE'', 0),
    (''SSL_SELECTOR_FAILURE_CHOOSE_MY_LAST_PROTOCOL'', 1)]"

definition c_numbers :: "(string \<times> int) list" where
  "c_numbers =
   [(''SSL_PROTOCOL_NONE'', SSL_PROTOCOL_NONE), (''SSL_PROTOCOL_SSLV2'', SSL_PROTOCOL_SSLV2),
    (''SSL_PROTOCOL_SSLV3'', SSL_PROTOCOL_SSLV3), (''SSL_PROTOCOL_TLSV1'', SSL_PROTOCOL_TLSV1),
    (''SSL_PROTOCOL_TLSV1_1'', SSL_PROTOCOL_TLSV1_1), (''SSL_PROTOCOL_TLSV1_2'', SSL_PROTOCOL_TLSV1_2),
    (''SSL_PROTOCOL_TLS'', SSL_PROTOCOL_TLS), (''SSL_PROTOCOL_ALL'', SSL_PROTOCOL_ALL),
    (''SSL_CVERIFY_IGNORED'', SSL_CVERIFY_IGNORED), (''SSL_CVERIFY_NONE'', SSL_CVERIFY_NONE),
    (''SSL_CVERIFY_OPTIONAL'', SSL_CVERIFY_OPTIONAL), (''SSL_CVERIFY_REQUIRED'', SSL_CVERIFY_REQUIRED),
    (''SSL_MODE_CLIENT'', SSL_MODE_CLIENT), (''SSL_MODE_SERVER'', SSL_MODE_SERVER),
    (''SSL_MODE_COMBINED'', SSL_MODE_COMBINED), (''SSL_SELECTOR_FAILURE_NO_ADVERTISE'', SSL_SELECTOR_FAILURE_NO_ADVERTISE),
    (''SSL_SELECTOR_FAILURE_CHOOSE_MY_LAST_PROTOCOL'', SSL_SELECTOR_FAILURE_CHOOSE_MY_LAST_PROTOCOL)]"

lemma protocol_numbers:
  "java_SSL_PROTOCOL_TLS = 62" "java_SSL_PROTOCOL_ALL = 63" "SSL_PROTOCOL_TLS = 30" "SSL_PROTOCOL_ALL = 31"
  by (simp_all add: java_SSL_PROTOCOL_TLS_def java_SSL_PROTOCOL_ALL_def java_SSL_PROTOCOL_TLSV1_3_def
      SSL_PROTOCOL_TLS_def SSL_PROTOCOL_ALL_def SSL_PROTOCOL_SSLV2_def SSL_PROTOCOL_SSLV3_def
      SSL_PROTOCOL_TLSV1_def SSL_PROTOCOL_TLSV1_1_def SSL_PROTOCOL_TLSV1_2_def)

lemma numbers_agree:
  "list_all2 (\<lambda>j c. fst j = fst c \<and> (snd j = snd c \<longleftrightarrow> fst j \<notin> {''SSL_PROTOCOL_TLS'', ''SSL_PROTOCOL_ALL''}))
     java_numbers c_numbers"
  by (simp add: java_numbers_def c_numbers_def protocol_numbers SSL_PROTOCOL_NONE_def SSL_PROTOCOL_SSLV2_def
      SSL_PROTOCOL_SSLV3_def SSL_PROTOCOL_TLSV1_def SSL_PROTOCOL_TLSV1_1_def SSL_PROTOCOL_TLSV1_2_def
      cverify_defs SSL_MODE_CLIENT_def SSL_MODE_SERVER_def SSL_MODE_COMBINED_def
      SSL_SELECTOR_FAILURE_NO_ADVERTISE_def SSL_SELECTOR_FAILURE_CHOOSE_MY_LAST_PROTOCOL_def)

section \<open>Properties\<close>



text \<open>
  With LibreSSL and with OpenSSL before 1.1.0, Java's \<^verbatim>\<open>SSL_PROTOCOL_ALL\<close> and \<^verbatim>\<open>SSL_PROTOCOL_TLS\<close> make a
  context for TLS 1.2 only: they contain the bit of TLS 1.3, which the constants of the same name in C
  lack, so \<^verbatim>\<open>make\<close> does not recognise them and falls back to the highest protocol.
\<close>

theorem java_protocol_all_is_tls12:
  assumes "\<not> boring b" "openssl_version_number b < 0x10100000 \<or> libressl_version_number b \<noteq> None" "\<not> no_tls1 pb"
  shows "choose_method b pb java_SSL_PROTOCOL_ALL m = Inr (Some (TLSv1_2_method (role_of m)))
    \<and> choose_method b pb java_SSL_PROTOCOL_TLS m = Inr (Some (TLSv1_2_method (role_of m)))
    \<and> choose_method b pb SSL_PROTOCOL_ALL m = Inr (Some (SSLv23_method (role_of m)))"
  using assms
  by (auto simp: choose_method_def Let_def protocol_numbers SSL_PROTOCOL_SSLV2_def SSL_PROTOCOL_SSLV3_def
      SSL_PROTOCOL_TLSV1_def SSL_PROTOCOL_TLSV1_1_def SSL_PROTOCOL_TLSV1_2_def)

theorem java_protocol_all_is_tls12_witness:
  "choose_method (demo_build\<lparr>openssl_is_boringssl := False, libressl_version_number := Some 0x2040000f\<rparr>)
     \<lparr>no_tls1 = False, no_ssl3 = True, no_ssl2 = True, have_ecc = True, has_op_no_tlsv1_1 = True,
      has_op_no_tlsv1_2 = True\<rparr> 63 SSL_MODE_SERVER = Inr (Some (TLSv1_2_method Role_Server))"
proof -
  let ?b = "demo_build\<lparr>openssl_is_boringssl := False, libressl_version_number := Some 0x2040000f\<rparr>"
  let ?pb = "\<lparr>no_tls1 = False, no_ssl3 = True, no_ssl2 = True, have_ecc = True, has_op_no_tlsv1_1 = True,
      has_op_no_tlsv1_2 = True\<rparr>"
  have "\<not> boring ?b" "openssl_version_number ?b < 0x10100000 \<or> libressl_version_number ?b \<noteq> None" "\<not> no_tls1 ?pb"
    by (simp_all add: boring_def demo_build_def)
  from java_protocol_all_is_tls12 [OF this, of SSL_MODE_SERVER] show ?thesis
    by (simp add: protocol_numbers role_of_def SSL_MODE_CLIENT_def SSL_MODE_SERVER_def)
qed

end
