(* ===== verification/Native_Names.thy ===== *)
theory Native_Names
  imports Context Jni_Tables Library_Load
begin

text \<open>
  The strings in which \<^verbatim>\<open>sslcontext.c\<close> puts together class names and descriptors that contain the package
  prefix. \<^verbatim>\<open>NETTY_JNI_UTIL_PREPEND\<close> of netty-jni-util allocates the concatenation of two strings, or jumps to
  an error label; \<^verbatim>\<open>TCN_REASSIGN\<close> (\<^verbatim>\<open>tcn.h\<close>) frees one variable and moves another one into it.

  \<open>setPrivateKeyMethod0_names\<close> is \<^verbatim>\<open>setPrivateKeyMethod0\<close> with these strings. It refines the definition of
  \<open>Context\<close>, in which the two lookups are parameters; what it adds is the descriptors that are looked up and
  the strings that are never freed.
\<close>

section \<open>Strings on the heap\<close>

text \<open>\<open>0\<close> is \<^verbatim>\<open>NULL\<close>.\<close>

record names =
  nm_heap :: "int \<Rightarrow> string option"
  nm_name :: int
  nm_combined :: int

definition load_str :: "(int \<Rightarrow> string option) \<Rightarrow> int \<Rightarrow> string cres" where
  "load_str h a =
   (if a = 0 then Inl (UB Null_Deref)
    else (case h a of None \<Rightarrow> Inl (UB Use_After_Free) | Some s \<Rightarrow> Inr s))"

definition c_free :: "int \<Rightarrow> (int \<Rightarrow> string option) \<Rightarrow> (int \<Rightarrow> string option) cres" where
  "c_free a h =
   (if a = 0 then Inr h
    else (case h a of None \<Rightarrow> Inl (UB Use_After_Free) | Some _ \<Rightarrow> Inr (h(a := None))))"

text \<open>\<open>r\<close> is the address of the new string, and the prefix may be \<^verbatim>\<open>NULL\<close>.\<close>

definition prepend :: "int \<Rightarrow> string option \<Rightarrow> string \<Rightarrow> (int \<Rightarrow> string option) \<Rightarrow> (int \<Rightarrow> string option)" where
  "prepend r p s h =
   (if r = 0 then h else h(r \<mapsto> (case p of None \<Rightarrow> s | Some q \<Rightarrow> q @ s)))"

definition TCN_REASSIGN :: "names \<Rightarrow> names cres" where
  "TCN_REASSIGN s =
   cbind (c_free (nm_name s) (nm_heap s)) (\<lambda>h.
     Inr (s\<lparr>nm_heap := h, nm_name := nm_combined s, nm_combined := 0\<rparr>))"

text \<open>The two \<^verbatim>\<open>NETTY_JNI_UTIL_PREPEND\<close> and the \<^verbatim>\<open>TCN_REASSIGN\<close> that make a descriptor; \<open>False\<close>: jump to \<^verbatim>\<open>error\<close>.\<close>

definition build_name :: "int \<times> int \<Rightarrow> string option \<Rightarrow> string \<Rightarrow> string \<Rightarrow> names \<Rightarrow> (bool \<times> names) cres" where
  "build_name r pkg sig tail s =
   (let s1 = s\<lparr>nm_name := fst r, nm_heap := prepend (fst r) pkg tail (nm_heap s)\<rparr> in
    if fst r = 0 then Inr (False, s1)
    else cbind (load_str (nm_heap s1) (nm_name s1)) (\<lambda>n.
      let s2 = s1\<lparr>nm_combined := snd r, nm_heap := prepend (snd r) (Some sig) n (nm_heap s1)\<rparr> in
      if snd r = 0 then Inr (False, s2)
      else cbind (TCN_REASSIGN s2) (\<lambda>s3. Inr (True, s3))))"

definition free_names :: "names \<Rightarrow> (int \<Rightarrow> string option) cres" where
  "free_names s = cbind (c_free (nm_name s) (nm_heap s)) (c_free (nm_combined s))"

section \<open>setPrivateKeyMethod0\<close>

text \<open>
  What the JVM and the allocator answer: the class of the object, \<^verbatim>\<open>GetMethodID\<close> by name and descriptor, the new
  global reference, and the addresses of the strings of the two descriptors.
\<close>

record pk_env =
  pk_class :: int
  pk_method :: "string \<Rightarrow> string \<Rightarrow> int"
  pk_newref :: int
  pk_sign_strings :: "int \<times> int"
  pk_decrypt_strings :: "int \<times> int"

definition result_callback :: string where
  "result_callback = ''io/netty/internal/tcnative/ResultCallback;)V''"

definition setPrivateKeyMethod0_names ::
  "build \<Rightarrow> string option \<Rightarrow> pk_env \<Rightarrow> tcn_ssl_ctxt option \<Rightarrow> int \<Rightarrow> int list \<Rightarrow> (int \<Rightarrow> string option)
   \<Rightarrow> (setter_result \<times> (int \<Rightarrow> string option)) cres" where
  "setPrivateKeyMethod0_names b pkg env cp meth refs h =
   (case cp of None \<Rightarrow> Inr ((None, [], refs, Some (NullPointerException ''ctx'')), h)
    | Some c \<Rightarrow>
      if \<not> boring b then Inr ((cp, [], refs, Some (JException ''Requires BoringSSL'')), h)
      else
        let s = \<lparr>nm_heap = h, nm_name = 0, nm_combined = 0\<rparr>;
            oldMethod = ssl_private_key_method c
        in
        if meth = 0 then
          cbind (free_names s) (\<lambda>h'.
            Inr ((Some (c\<lparr>ssl_private_key_method := 0, ssl_private_key_sign_method := 0,
                          ssl_private_key_decrypt_method := 0\<rparr>),
                  [CTX_set_private_key_method False], delete_ref True oldMethod refs, None), h'))
        else if pk_class env = 0
        then Inr ((cp, [], refs, Some (JException ''Unable to retrieve method class'')), h)
        else
          cbind (build_name (pk_sign_strings env) pkg ''(JI[BL'' result_callback s) (\<lambda>(ok1, s1).
          if \<not> ok1 then cbind (free_names s1) (\<lambda>h'. Inr ((cp, [], refs, None), h'))
          else cbind (load_str (nm_heap s1) (nm_name s1)) (\<lambda>d1.
          let signMethod = pk_method env ''sign'' d1 in
          if signMethod = 0
          then Inr ((cp, [], refs, Some (IllegalArgumentException ''Unable to retrieve sign method'')), nm_heap s1)
          else
          cbind (build_name (pk_decrypt_strings env) pkg ''(J[BL'' result_callback s1) (\<lambda>(ok2, s2).
          if \<not> ok2 then cbind (free_names s2) (\<lambda>h'. Inr ((cp, [], refs, None), h'))
          else cbind (load_str (nm_heap s2) (nm_name s2)) (\<lambda>d2.
          let decryptMethod = pk_method env ''decrypt'' d2 in
          if decryptMethod = 0
          then Inr ((cp, [], refs, Some (IllegalArgumentException ''Unable to retrieve decrypt method'')), nm_heap s2)
          else if pk_newref env = 0 then Inr ((cp, [], refs, Some no_memory), nm_heap s2)
          else cbind (free_names s2) (\<lambda>h'.
            Inr ((Some (c\<lparr>ssl_private_key_method := pk_newref env, ssl_private_key_sign_method := signMethod,
                          ssl_private_key_decrypt_method := decryptMethod\<rparr>),
                  [CTX_set_private_key_method True],
                  delete_ref True oldMethod (pk_newref env # refs), None), h')))))))"

section \<open>Lemmas\<close>

definition prefix_of :: "string option \<Rightarrow> string" where
  "prefix_of pkg = (case pkg of None \<Rightarrow> [] | Some q \<Rightarrow> q)"

text \<open>\<open>malloc\<close> returns an address that is not in use.\<close>

definition unused :: "int \<times> int \<Rightarrow> (int \<Rightarrow> string option) \<Rightarrow> bool" where
  "unused r h \<longleftrightarrow> h (fst r) = None \<and> h (snd r) = None \<and> (fst r \<noteq> 0 \<longrightarrow> snd r \<noteq> fst r)"

lemma build_name_result:
  assumes "unused r (nm_heap s)"
  shows "build_name r pkg sig tail s =
    (if fst r = 0 then Inr (False, s\<lparr>nm_name := 0\<rparr>)
     else if snd r = 0 then
       Inr (False, s\<lparr>nm_name := fst r, nm_heap := (nm_heap s)(fst r \<mapsto> prefix_of pkg @ tail), nm_combined := 0\<rparr>)
     else Inr (True, s\<lparr>nm_name := snd r, nm_combined := 0,
                       nm_heap := (nm_heap s)(snd r \<mapsto> sig @ prefix_of pkg @ tail)\<rparr>))"
proof -
  have "((nm_heap s)(fst r \<mapsto> x, snd r \<mapsto> y))(fst r := None) = (nm_heap s)(snd r \<mapsto> y)" if "fst r \<noteq> 0" for x y
    using assms that by (auto simp: unused_def fun_eq_iff)
  then show ?thesis
    using assms
    by (auto simp: build_name_def prepend_def load_str_def TCN_REASSIGN_def c_free_def prefix_of_def unused_def Let_def
        split: option.splits)
qed

lemma free_names_result:
  "nm_combined s = 0 \<Longrightarrow> nm_name s = 0 \<or> nm_heap s (nm_name s) \<noteq> None \<Longrightarrow>
   free_names s = Inr (if nm_name s = 0 then nm_heap s else (nm_heap s)(nm_name s := None))"
  by (auto simp: free_names_def c_free_def)

lemma sign_descriptor:
  "map_of java_members (''AsyncSSLPrivateKeyMethod'', ''sign'') = Some m \<Longrightarrow>
   ''(JI[BL'' @ p @ result_callback = method_descriptor p m"
  by (auto simp: java_members_def method_descriptor_def result_callback_def tcn_package_def)

lemma decrypt_descriptor:
  "map_of java_members (''AsyncSSLPrivateKeyMethod'', ''decrypt'') = Some m \<Longrightarrow>
   ''(J[BL'' @ p @ result_callback = method_descriptor p m"
  by (auto simp: java_members_def method_descriptor_def result_callback_def tcn_package_def)

text \<open>The answers as the definition of \<open>Context\<close> takes them, for the descriptors \<open>d1\<close> and \<open>d2\<close>.\<close>

definition lookups :: "pk_env \<Rightarrow> string \<Rightarrow> string \<Rightarrow> ref_env" where
  "lookups env d1 d2 = \<lparr>obj_class = pk_class env, method1 = pk_method env ''sign'' d1,
     method2 = pk_method env ''decrypt'' d2, newref = pk_newref env\<rparr>"

definition allocated :: "int \<times> int \<Rightarrow> bool" where
  "allocated r \<longleftrightarrow> fst r \<noteq> 0 \<and> snd r \<noteq> 0"

text \<open>The strings that are still allocated afterwards.\<close>

definition names_left :: "build \<Rightarrow> pk_env \<Rightarrow> tcn_ssl_ctxt option \<Rightarrow> int \<Rightarrow> string \<Rightarrow> string \<Rightarrow> int set" where
  "names_left b env cp meth d1 d2 =
   (if cp = None \<or> \<not> boring b \<or> meth = 0 \<or> pk_class env = 0 \<or> \<not> allocated (pk_sign_strings env) then {}
    else if pk_method env ''sign'' d1 \<noteq> 0 \<and> allocated (pk_decrypt_strings env)
            \<and> (pk_method env ''decrypt'' d2 = 0 \<or> pk_newref env = 0)
    then {snd (pk_sign_strings env), snd (pk_decrypt_strings env)}
    else {snd (pk_sign_strings env)})"

section \<open>Loading the module\<close>

text \<open>
  The same variables in \<^verbatim>\<open>SSLContext_JNI_OnLoad\<close>, when every step succeeds: the steps are those of
  \<open>Library_Load\<close>, where \<open>Prepend\<close> stands for the second \<^verbatim>\<open>NETTY_JNI_UTIL_PREPEND\<close> with its \<^verbatim>\<open>TCN_REASSIGN\<close>, and
  the strings get the addresses 1, 2 and so on. At the end \<^verbatim>\<open>return\<close> leaves the variables as they are.
\<close>

fun names_step :: "string option \<Rightarrow> int \<times> names \<Rightarrow> lib_fn \<Rightarrow> (int \<times> names) cres" where
  "names_step pkg (n, s) (Prepend_Package tail) =
     Inr (n + 1, s\<lparr>nm_name := n, nm_heap := prepend n pkg tail (nm_heap s)\<rparr>)"
| "names_step pkg (n, s) (Prepend sig tail) =
     cbind (load_str (nm_heap s) (nm_name s)) (\<lambda>x.
     cbind (TCN_REASSIGN (s\<lparr>nm_combined := n, nm_heap := prepend n (Some sig) x (nm_heap s)\<rparr>)) (\<lambda>s'.
       Inr (n + 1, s')))"
| "names_step pkg (n, s) f = Inr (n, s)"

definition no_names :: names where
  "no_names = \<lparr>nm_heap = Map.empty, nm_name = 0, nm_combined = 0\<rparr>"

text \<open>Of the fourteen strings ten are left; the others are the ends that \<^verbatim>\<open>TCN_REASSIGN\<close> frees.\<close>

lemma load_leaves_strings:
  "\<exists>s. run_steps (names_step pkg) (1, no_names) SSLContext_steps = Inr (15, s)
     \<and> dom (nm_heap s) = {1, 2, 4, 5, 7, 8, 9, 11, 12, 14}"
  by (auto simp: SSLContext_steps_def load_task_class_def task_constructor_def prepend_def load_str_def TCN_REASSIGN_def
      c_free_def no_names_def dom_def split: if_splits)

section \<open>Properties\<close>

text \<open>
  C38. \<^verbatim>\<open>setPrivateKeyMethod0\<close> with its strings: it does what the definition without them does, with the two methods
  looked up under exactly the descriptors of the Java methods \<^verbatim>\<open>sign\<close> and \<^verbatim>\<open>decrypt\<close>, behind whatever prefix;
  no string is read or freed after it is gone. But the descriptor of \<^verbatim>\<open>sign\<close> is never freed, neither on success
  nor on any failure after it was made, and that of \<^verbatim>\<open>decrypt\<close> is not when the method is missing or the
  global reference cannot be made.
\<close>

theorem private_key_names:
  assumes sign: "map_of java_members (''AsyncSSLPrivateKeyMethod'', ''sign'') = Some sm"
    and decrypt: "map_of java_members (''AsyncSSLPrivateKeyMethod'', ''decrypt'') = Some dm"
    and d: "d1 = method_descriptor (prefix_of pkg) sm" "d2 = method_descriptor (prefix_of pkg) dm"
    and fresh: "unused (pk_sign_strings env) h"
      "unused (pk_decrypt_strings env) (h(snd (pk_sign_strings env) := Some d1))"
  shows "\<exists>h'. setPrivateKeyMethod0_names b pkg env cp meth refs h =
      Inr (setPrivateKeyMethod0 b (allocated (pk_sign_strings env), allocated (pk_decrypt_strings env))
             (lookups env d1 d2) cp meth refs, h')
    \<and> dom h' = dom h \<union> names_left b env cp meth d1 d2"
proof -
  let ?r = "pk_sign_strings env" and ?q = "pk_decrypt_strings env"
  let ?s = "\<lparr>nm_heap = h, nm_name = 0, nm_combined = 0\<rparr>"
  let ?s1 = "\<lparr>nm_heap = h(snd ?r \<mapsto> d1), nm_name = snd ?r, nm_combined = 0\<rparr>"
  have b1: "build_name ?r pkg ''(JI[BL'' result_callback ?s =
    (if fst ?r = 0 then Inr (False, ?s)
     else if snd ?r = 0 then Inr (False, ?s\<lparr>nm_name := fst ?r, nm_heap := h(fst ?r \<mapsto> prefix_of pkg @ result_callback)\<rparr>)
     else Inr (True, ?s1))"
    using fresh(1) by (subst build_name_result) (simp_all add: sign_descriptor [OF sign] d(1) del: append.simps)
  have b2: "build_name ?q pkg ''(J[BL'' result_callback ?s1 =
    (if fst ?q = 0 then Inr (False, ?s1\<lparr>nm_name := 0\<rparr>)
     else if snd ?q = 0 then
       Inr (False, ?s1\<lparr>nm_name := fst ?q, nm_heap := h(snd ?r \<mapsto> d1, fst ?q \<mapsto> prefix_of pkg @ result_callback)\<rparr>)
     else Inr (True, \<lparr>nm_heap = h(snd ?r \<mapsto> d1, snd ?q \<mapsto> d2), nm_name = snd ?q, nm_combined = 0\<rparr>))"
    using fresh(2) by (subst build_name_result) (simp_all add: decrypt_descriptor [OF decrypt] d(2) del: append.simps)
  have left: "(h(a \<mapsto> x))(a := None) = h" if "h a = None" for a x
    using that by (simp add: fun_upd_idem)
  note defs = setPrivateKeyMethod0_names_def setPrivateKeyMethod0_def lookups_def names_left_def
  consider (early) "cp = None \<or> \<not> boring b \<or> meth = 0 \<or> pk_class env = 0"
    | (none) c where "cp = Some c" "boring b" "meth \<noteq> 0" "pk_class env \<noteq> 0" "\<not> allocated ?r"
    | (named) c where "cp = Some c" "boring b" "meth \<noteq> 0" "pk_class env \<noteq> 0" "allocated ?r"
    by (cases cp) blast+
  then show ?thesis
  proof cases
    case early
    then show ?thesis
      by (auto simp: defs free_names_result Let_def split: option.split)
  next
    case none
    then show ?thesis
      using fresh(1) by (auto simp: defs b1 free_names_result allocated_def unused_def left Let_def)
  next
    case named
    then have r: "fst ?r \<noteq> 0" "snd ?r \<noteq> 0" by (simp_all add: allocated_def)
    have q: "(h(snd ?r \<mapsto> d1, x \<mapsto> y))(x := None) = h(snd ?r \<mapsto> d1)" if "x \<in> {fst ?q, snd ?q}" for x y
      using fresh(2) that by (auto simp: unused_def fun_eq_iff)
    note st = b1 b2 r load_str_def free_names_result q Let_def
    show ?thesis
    proof (cases "pk_method env ''sign'' d1 = 0 \<or> \<not> allocated ?q")
      case True
      then show ?thesis using named(1-4) fresh(2)
        by (auto simp: defs st allocated_def unused_def split: if_splits)
    next
      case False
      then have "fst ?q \<noteq> 0" "snd ?q \<noteq> 0" by (simp_all add: allocated_def)
      then show ?thesis using False named(1-4) fresh(2)
        by (auto simp: defs st allocated_def unused_def split: if_splits)
    qed
  qed
qed

text \<open>Addresses for the witness; the prefix is that of a shaded library.\<close>

definition shaded_env :: pk_env where
  "shaded_env = \<lparr>pk_class = 3, pk_method = (\<lambda>n d. if n = ''sign'' then 5 else 6), pk_newref = 7,
     pk_sign_strings = (10, 20), pk_decrypt_strings = (10, 30)\<rparr>"

theorem private_key_names_witness:
  "\<exists>h'. setPrivateKeyMethod0_names demo_build (Some ''shaded/'') shaded_env (Some ctxt_zero) 1 [9] Map.empty
     = Inr ((Some (ctxt_zero\<lparr>ssl_private_key_method := 7, ssl_private_key_sign_method := 5, ssl_private_key_decrypt_method := 6\<rparr>),
             [CTX_set_private_key_method True], [7, 9], None), h') \<and> dom h' = {20}"
proof -
  let ?sm = "([J_long, J_int, J_array J_byte, J_tcn ''ResultCallback''], J_void)"
  let ?dm = "([J_long, J_array J_byte, J_tcn ''ResultCallback''], J_void)"
  have m: "map_of java_members (''AsyncSSLPrivateKeyMethod'', ''sign'') = Some ?sm"
      "map_of java_members (''AsyncSSLPrivateKeyMethod'', ''decrypt'') = Some ?dm"
    by (simp_all add: java_members_def)
  have f: "unused (pk_sign_strings shaded_env) Map.empty"
      "unused (pk_decrypt_strings shaded_env) (Map.empty(snd (pk_sign_strings shaded_env) := Some d))" for d
    by (simp_all add: shaded_env_def unused_def)
  from private_key_names [OF m refl refl f, where pkg = "Some ''shaded/''" and b = demo_build and cp = "Some ctxt_zero" and meth = 1
      and refs = "[9]"]
  show ?thesis
    by (simp add: setPrivateKeyMethod0_def lookups_def names_left_def allocated_def shaded_env_def boring_def
        demo_build_def delete_ref_def ctxt_zero_def)
qed

end
