(* ===== verification/Callback_Race.thy ===== *)
theory Callback_Race
  imports Context
begin

text \<open>
  Two threads at one context: \<^verbatim>\<open>SSLContext.setCertVerifyCallback\<close> replaces or removes the verifier while a handshake
  of another thread runs \<^verbatim>\<open>tcn_SSL_cert_custom_verify\<close>. Object and method of the callback are two fields, the
  context has no lock for them, and the setter deletes the global reference of the object it has replaced.
  The other setters of \<^verbatim>\<open>sslcontext.c\<close> and the callbacks that call Java directly have the same accesses.

  The accesses to shared memory are the steps, and a run of both threads is an element of \<^verbatim>\<open>shuffles\<close>
  of the two lists. The theorem tells the runs that are safe from those that are not by the order of four pairs
  of accesses; a setter that runs before or after the whole callback is safe.
\<close>

section \<open>The accesses\<close>

datatype access =
    W_Read_Old | W_New_Ref | W_Store_Ref | W_Store_Method | W_Delete_Old
  | R_Check | R_Ref | R_Method | R_Call

text \<open>
  \<open>rc_live\<close> are the live global references. \<open>rc_old\<close> is \<^verbatim>\<open>oldVerifier\<close> of the setter; the last four fields are
  the callback's: whether it found a verifier, the arguments of \<^verbatim>\<open>CallIntMethod\<close>, and the object that was called.
\<close>

record race =
  rc_verifier :: int
  rc_method :: int
  rc_live :: "int set"
  rc_old :: int
  rc_active :: bool
  rc_obj :: int
  rc_id :: int
  rc_called :: "int option"

text \<open>The new reference and its method, or \<open>None\<close> to remove the verifier.\<close>

type_synonym new_verifier = "(int \<times> int) option"

definition setter_accesses :: "new_verifier \<Rightarrow> access list" where
  "setter_accesses n = (case n of
     None \<Rightarrow> [W_Read_Old, W_Store_Ref, W_Store_Method, W_Delete_Old]
   | Some _ \<Rightarrow> [W_Read_Old, W_New_Ref, W_Store_Ref, W_Store_Method, W_Delete_Old])"

text \<open>
  C leaves the order open in which the arguments of a call are evaluated. A callback that finds no verifier stops;
  the accesses after its check then change nothing that is observed.
\<close>

definition callback_accesses :: "bool \<Rightarrow> access list" where
  "callback_accesses swapped =
     [R_Check] @ (if swapped then [R_Method, R_Ref] else [R_Ref, R_Method]) @ [R_Call]"

text \<open>\<open>meth_of\<close> is the method \<^verbatim>\<open>verify\<close> of the class of an object.\<close>

fun run_access :: "(int \<Rightarrow> int) \<Rightarrow> new_verifier \<Rightarrow> race \<Rightarrow> access \<Rightarrow> race cres" where
  "run_access meth_of n s W_Read_Old = Inr (s\<lparr>rc_old := rc_verifier s\<rparr>)"
| "run_access meth_of n s W_New_Ref =
     Inr (case n of None \<Rightarrow> s | Some (r, m) \<Rightarrow> s\<lparr>rc_live := insert r (rc_live s)\<rparr>)"
| "run_access meth_of n s W_Store_Ref = Inr (s\<lparr>rc_verifier := (case n of None \<Rightarrow> 0 | Some (r, m) \<Rightarrow> r)\<rparr>)"
| "run_access meth_of n s W_Store_Method = Inr (s\<lparr>rc_method := (case n of None \<Rightarrow> 0 | Some (r, m) \<Rightarrow> m)\<rparr>)"
| "run_access meth_of n s W_Delete_Old =
     Inr (if rc_old s \<noteq> 0 then s\<lparr>rc_live := rc_live s - {rc_old s}\<rparr> else s)"
| "run_access meth_of n s R_Check = Inr (s\<lparr>rc_active := rc_verifier s \<noteq> 0\<rparr>)"
| "run_access meth_of n s R_Ref = Inr (s\<lparr>rc_obj := rc_verifier s\<rparr>)"
| "run_access meth_of n s R_Method = Inr (s\<lparr>rc_id := rc_method s\<rparr>)"
| "run_access meth_of n s R_Call =
     (if \<not> rc_active s then Inr s
      else if rc_obj s = 0 then Inl (UB Null_Deref)
      else if rc_obj s \<notin> rc_live s then Inl (UB Use_After_Free)
      else if rc_id s \<noteq> meth_of (rc_obj s) then Inl (UB Bad_Jni_Call)
      else Inr (s\<lparr>rc_called := Some (rc_obj s)\<rparr>))"

text \<open>A context at rest, seen by both threads.\<close>

definition race_of :: "tcn_ssl_ctxt \<Rightarrow> int list \<Rightarrow> race" where
  "race_of c refs = \<lparr>rc_verifier = verifier c, rc_method = verifier_method c, rc_live = set refs,
     rc_old = 0, rc_active = False, rc_obj = 0, rc_id = 0, rc_called = None\<rparr>"

section \<open>The setter alone\<close>

text \<open>Without another thread the accesses are those of \<open>setCertVerifyCallback\<close>.\<close>

lemma setter_alone:
  assumes "setCertVerifyCallback b (Some c) v m r refs = (Some c', regs, refs', None)"
    and "distinct refs" "r \<notin> set refs"
  defines "n \<equiv> (if v = 0 then None else Some (r, m))"
  shows "\<exists>s. run_steps (run_access meth_of n) (race_of c refs) (setter_accesses n) = Inr s
    \<and> rc_verifier s = verifier c' \<and> rc_method s = verifier_method c' \<and> rc_live s = set refs'"
  using assms(1-3) unfolding n_def
  by (cases "v = 0")
    (auto simp: setCertVerifyCallback_def setter_accesses_def race_of_def Let_def split: if_splits prod.splits)

section \<open>Orders of accesses\<close>

fun before :: "access \<Rightarrow> access \<Rightarrow> access list \<Rightarrow> bool" where
  "before a b [] \<longleftrightarrow> True"
| "before a b (x # xs) \<longleftrightarrow> x = a \<or> x \<noteq> b \<and> before a b xs"

text \<open>The callback calls the old verifier while it is there, or the new one, or finds that there is none.\<close>

definition sees_old :: "access list \<Rightarrow> bool" where
  "sees_old xs \<longleftrightarrow> before R_Ref W_Store_Ref xs \<and> before R_Method W_Store_Method xs \<and> before R_Call W_Delete_Old xs"

definition sees_new :: "new_verifier \<Rightarrow> access list \<Rightarrow> bool" where
  "sees_new n xs \<longleftrightarrow> (case n of None \<Rightarrow> before W_Store_Ref R_Check xs
     | Some _ \<Rightarrow> before W_Store_Ref R_Ref xs \<and> before W_Store_Method R_Method xs)"

lemma shuffle_Cons: "x \<in> shuffles (a # as) (b # bs) \<longleftrightarrow>
    (\<exists>y. x = a # y \<and> y \<in> shuffles as (b # bs)) \<or> (\<exists>y. x = b # y \<and> y \<in> shuffles (a # as) bs)"
  by (auto simp: shuffles.simps)

lemmas order_simps = shuffle_Cons sees_old_def sees_new_def

text \<open>All runs of the two threads.\<close>

lemma removal_runs:
  assumes "xs \<in> shuffles (setter_accesses None) (callback_accesses sw)" (is "_ \<in> shuffles ?w _")
    and "rc_verifier s = v" "rc_method s = meth_of v" "v \<noteq> 0" "v \<in> rc_live s" "rc_called s = None" "meth_of v \<noteq> 0"
  shows "case run_steps (run_access meth_of None) s xs of
      Inr s' \<Rightarrow> sees_old xs \<and> rc_called s' = Some v \<or> sees_new None xs \<and> rc_called s' = None
    | Inl e \<Rightarrow> \<not> sees_old xs \<and> \<not> sees_new None xs"
proof -
  have "xs \<in> shuffles ?w (callback_accesses True) \<or> xs \<in> shuffles ?w (callback_accesses False)"
    using assms(1) by (cases sw) auto
  then show ?thesis
    unfolding setter_accesses_def callback_accesses_def
    apply (simp add: shuffle_Cons)
    apply (elim disjE; hypsubst)
    apply (simp_all add: sees_old_def sees_new_def assms(2-) assms(7) [symmetric])
    done
qed

lemma replacement_runs:
  assumes "xs \<in> shuffles (setter_accesses (Some (r, meth_of r))) (callback_accesses sw)" (is "_ \<in> shuffles ?w _")
    and "rc_verifier s = v" "rc_method s = meth_of v" "v \<noteq> 0" "v \<in> rc_live s" "rc_called s = None"
    and "r \<noteq> 0" "r \<noteq> v" "meth_of r \<noteq> meth_of v"
  shows "case run_steps (run_access meth_of (Some (r, meth_of r))) s xs of
      Inr s' \<Rightarrow> sees_old xs \<and> rc_called s' = Some v \<or> sees_new (Some (r, meth_of r)) xs \<and> rc_called s' = Some r
    | Inl e \<Rightarrow> \<not> sees_old xs \<and> \<not> sees_new (Some (r, meth_of r)) xs"
proof -
  have "xs \<in> shuffles ?w (callback_accesses True) \<or> xs \<in> shuffles ?w (callback_accesses False)"
    using assms(1) by (cases sw) auto
  then show ?thesis
    unfolding setter_accesses_def callback_accesses_def
    apply (simp add: shuffle_Cons)
    apply (elim disjE; hypsubst)
    apply (simp_all add: sees_old_def sees_new_def assms(2-) assms(8,9) [symmetric])
    done
qed

text \<open>The runs in which the setter comes first or last as a whole.\<close>

lemma append_shuffles: "xs @ ys \<in> shuffles xs ys"
  by (induction xs) (auto simp: Cons_in_shuffles_iff)

lemma one_after_the_other:
  "setter_accesses n @ callback_accesses sw \<in> shuffles (setter_accesses n) (callback_accesses sw)"
  "callback_accesses sw @ setter_accesses n \<in> shuffles (setter_accesses n) (callback_accesses sw)"
  "sees_new n (setter_accesses n @ callback_accesses sw)" "sees_old (callback_accesses sw @ setter_accesses n)"
proof -
  show "setter_accesses n @ callback_accesses sw \<in> shuffles (setter_accesses n) (callback_accesses sw)"
    by (rule append_shuffles)
  show "callback_accesses sw @ setter_accesses n \<in> shuffles (setter_accesses n) (callback_accesses sw)"
    by (subst shuffles_commutes) (rule append_shuffles)
qed (auto simp: sees_new_def sees_old_def setter_accesses_def callback_accesses_def split: option.split)

section \<open>Properties\<close>



end
