(* ===== verification/Handles.thy ===== *)
theory Handles
  imports Tcn_Prelude
begin

text \<open>
  Native objects in Java: a \<^verbatim>\<open>long\<close> field holds the address of a context, a connection, a session, a credential or
  a buffer. The macros \<^verbatim>\<open>P2J\<close> and \<^verbatim>\<open>J2P\<close> of \<^verbatim>\<open>tcn.h\<close> convert through \<^verbatim>\<open>long\<close>, except on Windows, where a
  \<^verbatim>\<open>long\<close> has 32 bits. The other theories take this conversion for granted and pass addresses; here it is
  shown for which platforms they may.

  C leaves conversions between pointers and integers to the compiler. They are written as GCC and MSVC define them:
  excess bits are dropped, a pointer is sign-extended to a wider integer.
\<close>

section \<open>Conversions\<close>

datatype data_model = ILP32 | LP64 | LLP64

definition pointer_bits :: "data_model \<Rightarrow> nat" where
  "pointer_bits m = (case m of ILP32 \<Rightarrow> 32 | LP64 \<Rightarrow> 64 | LLP64 \<Rightarrow> 64)"

definition long_bits :: "data_model \<Rightarrow> nat" where
  "long_bits m = (case m of ILP32 \<Rightarrow> 32 | LP64 \<Rightarrow> 64 | LLP64 \<Rightarrow> 32)"

text \<open>The conversion of an integer to a signed type of \<open>w\<close> bits, and of a pointer through its own width.\<close>

definition to_signed :: "nat \<Rightarrow> int \<Rightarrow> int" where
  "to_signed w x = signed_take_bit (w - 1) x"

definition pointer_to_signed :: "data_model \<Rightarrow> nat \<Rightarrow> int \<Rightarrow> int" where
  "pointer_to_signed m w p = to_signed w (to_signed (pointer_bits m) p)"

definition to_pointer :: "data_model \<Rightarrow> int \<Rightarrow> int" where
  "to_pointer m x = take_bit (pointer_bits m) x"

text \<open>\<open>win32\<close> says whether \<^verbatim>\<open>_WIN32\<close> is defined.\<close>

definition P2J :: "bool \<Rightarrow> data_model \<Rightarrow> int \<Rightarrow> int" where
  "P2J win32 m p =
     (if win32 then pointer_to_signed m 64 p else to_signed 64 (pointer_to_signed m (long_bits m) p))"

definition J2P :: "bool \<Rightarrow> data_model \<Rightarrow> int \<Rightarrow> int" where
  "J2P win32 m j =
     (if win32 then to_pointer m (to_signed 64 j) else to_pointer m (to_signed (long_bits m) (to_signed 64 j)))"

section \<open>Lemmas\<close>

definition is_pointer :: "data_model \<Rightarrow> int \<Rightarrow> bool" where
  "is_pointer m p \<longleftrightarrow> 0 \<le> p \<and> p < 2 ^ pointer_bits m"

text \<open>The platforms on which a pointer fits.\<close>

definition handles_fit :: "bool \<Rightarrow> data_model \<Rightarrow> bool" where
  "handles_fit win32 m \<longleftrightarrow> win32 \<or> pointer_bits m \<le> long_bits m"

lemma take_to_signed:
  "n \<le> w \<Longrightarrow> 0 < w \<Longrightarrow> take_bit n (to_signed w x) = take_bit n x"
  unfolding to_signed_def by (cases w) (simp_all add: take_bit_signed_take_bit)

lemma to_signed_range:
  "0 < w \<Longrightarrow> - (2 ^ (w - 1)) \<le> to_signed w x \<and> to_signed w x < 2 ^ (w - 1)"
  unfolding to_signed_def by (simp add: signed_take_bit_int_greater_eq_minus_exp signed_take_bit_int_less_exp)

lemma pointer_take:
  "is_pointer m p \<Longrightarrow> take_bit (pointer_bits m) p = p"
  by (simp add: is_pointer_def take_bit_int_eq_self)

lemma data_model_bits [simp]:
  "0 < pointer_bits m" "0 < long_bits m" "pointer_bits m \<le> 64" "long_bits m \<le> 64"
  by (cases m; simp add: pointer_bits_def long_bits_def)+

lemma handle_back:
  assumes "handles_fit win32 m" "is_pointer m p"
  shows "J2P win32 m (P2J win32 m p) = p"
proof (cases win32)
  case True
  then show ?thesis
    using assms by (simp add: J2P_def P2J_def to_pointer_def pointer_to_signed_def take_to_signed pointer_take)
next
  case False
  then have "pointer_bits m \<le> long_bits m" using assms(1) by (simp add: handles_fit_def)
  with False show ?thesis
    using assms(2) by (simp add: J2P_def P2J_def to_pointer_def pointer_to_signed_def take_to_signed pointer_take)
qed

text \<open>The one combination left out is a 32-bit \<^verbatim>\<open>long\<close> in between.\<close>

lemma handle_lost:
  assumes "\<not> handles_fit win32 m"
  shows "is_pointer m (2 ^ 32) \<and> P2J win32 m (2 ^ 32) = 0"
  using assms
  by (cases m)
    (simp_all add: handles_fit_def is_pointer_def P2J_def pointer_to_signed_def to_signed_def pointer_bits_def
      long_bits_def signed_take_bit_def take_bit_eq_mod bit_iff_odd)

section \<open>Properties\<close>

text \<open>
  C40. On a platform where a pointer fits, the handle of every object leads Java back to its address, is a
  \<^verbatim>\<open>jlong\<close>, is 0 for \<^verbatim>\<open>NULL\<close> alone, and differs from those of all other objects.
  On any other platform some object that is not \<^verbatim>\<open>NULL\<close> has the handle 0.
\<close>

theorem handles_faithful:
  "if handles_fit win32 m
   then \<forall>p. is_pointer m p \<longrightarrow> J2P win32 m (P2J win32 m p) = p
     \<and> - (2 ^ 63) \<le> P2J win32 m p \<and> P2J win32 m p < 2 ^ 63
     \<and> (P2J win32 m p = 0 \<longleftrightarrow> p = 0)
     \<and> (\<forall>q. is_pointer m q \<longrightarrow> P2J win32 m p = P2J win32 m q \<longrightarrow> p = q)
   else \<exists>p. is_pointer m p \<and> p \<noteq> 0 \<and> P2J win32 m p = 0"
proof (cases "handles_fit win32 m")
  case True
  have range: "- (2 ^ 63) \<le> P2J win32 m p \<and> P2J win32 m p < 2 ^ 63" for p
    using to_signed_range [of 64] unfolding P2J_def pointer_to_signed_def by (cases win32) simp_all
  have null: "P2J win32 m 0 = 0" "is_pointer m 0"
    by (simp_all add: P2J_def pointer_to_signed_def to_signed_def is_pointer_def)
  have inj: "p = q" if "is_pointer m p" "is_pointer m q" "P2J win32 m p = P2J win32 m q" for p q
    using handle_back [OF True that(1)] handle_back [OF True that(2)] that(3) by metis
  have "P2J win32 m p = 0 \<longleftrightarrow> p = 0" if "is_pointer m p" for p
    using inj [OF that null(2)] null(1) by metis
  with True range handle_back [OF True] inj show ?thesis
    unfolding if_P [OF True] by blast
next
  case False
  then show ?thesis using handle_lost [OF False] by (auto intro!: exI [of _ "2 ^ 32"])
qed

text \<open>The highest page of a 32-bit process: the handle is negative and leads back.\<close>

theorem handles_faithful_witness:
  "J2P False ILP32 (P2J False ILP32 0xFFFFF000) = 0xFFFFF000 \<and> P2J False ILP32 0xFFFFF000 \<noteq> 0"
proof -
  have "handles_fit False ILP32" "is_pointer ILP32 0xFFFFF000"
    by (simp_all add: handles_fit_def is_pointer_def pointer_bits_def long_bits_def)
  then show ?thesis
    using handles_faithful [of False ILP32] by auto
qed

end
