(* ===== verification/Spec2Isabelle.thy ===== *)
theory Spec2Isabelle
  imports Byte_Buffer_Bio Alpn_Select Ticket_Keys Dh_Params Cipher_Auth Verify Context Async_Keys
    Cert_Compress Cert_Load Cert_Chain Key_Material Sessions Credentials Peer_Info Jni_Wrappers
    Cipher_Config Library_Load Ssl_Init Platform Handshake Life_Cycle Jni_Tables Native_Constants
    Native_Names Callback_Race Handles
begin

text \<open>
  A verification library for the C sources of netty-tcnative, the JNI layer between Netty and OpenSSL, LibreSSL, BoringSSL or
  AWS-LC. All files named below are under \<^verbatim>\<open>src/openssl-dynamic/src/main/c\<close>; the Java classes whose fields and return values
  the C code reads are under \<^verbatim>\<open>src/openssl-classes\<close>.

  \<^bold>\<open>The program and its parts.\<close> Java calls entry points of \<^verbatim>\<open>SSLContext\<close> (\<^verbatim>\<open>sslcontext.c\<close>), \<^verbatim>\<open>SSL\<close> (\<^verbatim>\<open>ssl.c\<close>), \<^verbatim>\<open>SSLSession\<close> and
  \<^verbatim>\<open>SSLCredential\<close> with addresses of native objects. A context owns an \<^verbatim>\<open>SSL_CTX\<close>, global references to Java callbacks, protocol
  lists, ticket keys and a password; a connection has a \<^verbatim>\<open>tcn_ssl_state_t\<close> with its verification settings and the task a suspended
  handshake waits for. The TLS library calls back into \<^verbatim>\<open>sslcontext.c\<close>, \<^verbatim>\<open>sslutils.c\<close> and \<^verbatim>\<open>cert_compress.c\<close>, which call Java directly or
  hand it a task. Records travel through a BIO that \<^verbatim>\<open>ssl.c\<close> implements itself over Java byte buffers.

  \<^bold>\<open>How the code is modelled.\<close> Structs are records with the fields of the source, enumerations datatypes, bytes 8-bit words, a
  \<^verbatim>\<open>jint\<close> an integer whose range is checked where the C code computes with it. A function that can run into undefined behaviour returns a
  \<open>cres\<close>: undefined behaviour, an exception with an immediate return, or a value. Addresses are integers and \<open>0\<close> is \<^verbatim>\<open>NULL\<close>. The preprocessor
  is the record \<open>build\<close>: one definition holds all variants of a function. The TLS library, APR, the JVM and netty-jni-util are not part
  of the repository: what they answer is an argument (a record \<open>..._env\<close>, or an answer to each recorded call), and a theorem that
  relies on more than that says so in its hypotheses.

  \<^bold>\<open>The theories.\<close>
  \<^item> \<open>Tcn_Prelude\<close>: C results, memory blocks, casts, foreign calls, the build, and the locales for channels
    (\<open>fifo_channel\<close>, \<open>progressing_channel\<close>) and for clients that own references (\<open>resource_client\<close>).
  \<^item> \<open>Ssl_Types\<close>: the structs and constants of \<^verbatim>\<open>ssl_private.h\<close>.
  \<^item> \<open>Byte_Buffer_Bio\<close> (\<^verbatim>\<open>ssl.c\<close>, the struct \<^verbatim>\<open>TCN_bio_bytebuffer\<close>, its BIO methods and \<^verbatim>\<open>bio...ByteBuffer\<close>): the BIO is a lossless queue
    (refinement), when it is free of undefined behaviour, exactly when it is not, and what reads and writes return.
  \<^item> \<open>Alpn_Select\<close> (\<^verbatim>\<open>setAlpnProtos0\<close>, \<^verbatim>\<open>select_next_proto\<close>): agreement with a reference definition of the first common protocol,
    soundness for arbitrary peers, wire format round trip, and the reads behind the list when there is none.
  \<^item> \<open>Ticket_Keys\<close> (\<^verbatim>\<open>setSessionTicketKeys0\<close>, \<^verbatim>\<open>ssl_tlsext_ticket_key_cb\<close>): memory safety over every sequence of installations and
    callbacks, round trip of a ticket, rotation, and the race from OpenSSL 3 on.
  \<^item> \<open>Dh_Params\<close>, \<open>Cipher_Auth\<close> (\<^verbatim>\<open>sslutils.c\<close>): the DH groups have the bits asked for, and the variants of the authentication method agree.
  \<^item> \<open>Verify\<close> (\<^verbatim>\<open>tcn_SSL_cert_custom_verify\<close>, \<^verbatim>\<open>SSL_cert_verify\<close>, \<^verbatim>\<open>newSSL\<close>, \<^verbatim>\<open>getTask\<close>, \<^verbatim>\<open>freeSSL\<close>): verification fails closed, the path through a
    task agrees with the direct call, and tasks are neither used after deletion nor leaked.
  \<^item> \<open>Context\<close> (\<^verbatim>\<open>make\<close>, \<^verbatim>\<open>free\<close>, \<^verbatim>\<open>ssl_context_cleanup\<close>, the callback setters): global references and resources are balanced over any
    sequence of setters; the protocols a context switches off.
  \<^item> \<open>Async_Keys\<close> (\<^verbatim>\<open>certificate_cb\<close>, \<^verbatim>\<open>cert_requested\<close>, the private key method): outputs stay in their buffer, what a signature through a
    task gives, certificate selection through a task agrees with the direct call, and the direct call of a private key operation is
    undefined, because the Java method it names has another signature.
  \<^item> \<open>Handshake\<close>: verification, certificate selection and private key operations on the one task slot of a connection, driven by the library
    (retry, or \<^verbatim>\<open>complete\<close>) and by Java (\<^verbatim>\<open>getTask\<close>, run). Safety over every interleaving; when Java answers, a handshake ends within two turns
    per phase with the outcome of the answers. There is no fuel: the number of turns is bounded by the phases that are left.
  \<^item> \<open>Cert_Compress\<close> (\<^verbatim>\<open>cert_compress.c\<close>): round trip through the registered object, failures leave the output alone.
  \<^item> \<open>Cert_Load\<close>, \<open>Cert_Chain\<close>, \<open>Key_Material\<close>, \<open>Credentials\<close>: certificates, chains, keys and credentials with the native references they own.
    The loops over a PEM BIO are partial functions; their termination is proved for every BIO that gets shorter with each
    certificate read, so no fuel is involved.
  \<^item> \<open>Sessions\<close> (\<^verbatim>\<open>sslsession.c\<close>, session, key log and server name callbacks): the reference count of a session is the number of its holders in
    every reachable state.
  \<^item> \<open>Peer_Info\<close> (peer certificates, secrets, OCSP): what Java sees does not depend on the library built against.
  \<^item> \<open>Jni_Wrappers\<close> (the thin entry points) and \<open>Cipher_Config\<close> (cipher suites, groups, host names, arrays of names): arguments are checked before
    the library is entered, pinned Java data is released, the two ways to set cipher suites agree.
  \<^item> \<open>Library_Load\<close> (\<^verbatim>\<open>jnilib.c\<close> and the \<^verbatim>\<open>JNI_OnLoad\<close> functions; the contract of a module is the locale \<open>jni_module\<close>) and \<open>Ssl_Init\<close>
    (\<^verbatim>\<open>SSL.initialize\<close>, its cleanup, engines): loading and starting unwind what they did when they fail.
  \<^item> \<open>Life_Cycle\<close> (\<^verbatim>\<open>TCN_GET_SSL_CTX\<close>, with \<open>Context\<close>, \<open>Verify\<close>, \<open>Sessions\<close> and \<open>Cert_Compress\<close>): any number of contexts and connections; freeing
    contexts after their connections is all that Java has to keep to, and it is necessary.
  \<^item> \<open>Platform\<close>: the throwing functions of \<^verbatim>\<open>error.c\<close>, \<^verbatim>\<open>bb.c\<close>, the VM pointer and APR versions of \<^verbatim>\<open>jnilib.c\<close>; from \<^verbatim>\<open>ssl.c\<close> version and error
    strings, the table of the Java BIO and the lock callbacks for OpenSSL before 1.1.
  \<^item> \<open>Jni_Types\<close> and \<open>Jni_Tables\<close>: Java types and their descriptors, all \<^verbatim>\<open>method_table\<close>s with the C types of their functions, the
    \<^verbatim>\<open>native\<close> declarations of the Java classes, and the methods and fields of Java that C uses. Every native method runs a function of its
    own type; all calls into Java but three fit the method they name.
  \<^item> \<open>Native_Constants\<close> (\<^verbatim>\<open>native_constants.c\<close>, the names \<^verbatim>\<open>ssl_private.h\<close> supplies, the constants of the Java classes): each function as the
    expression it returns, over the library's headers as a parameter; a Java constant has the value of the constant it is named after.
  \<^item> \<open>Native_Names\<close> (\<^verbatim>\<open>TCN_REASSIGN\<close>, the strings of \<^verbatim>\<open>setPrivateKeyMethod0\<close> and of \<^verbatim>\<open>SSLContext_JNI_OnLoad\<close>): the descriptors put together
    are those of the Java methods, nothing is read after it was freed, and which strings are never freed.
  \<^item> \<open>Callback_Race\<close> (\<^verbatim>\<open>setCertVerifyCallback\<close> and \<^verbatim>\<open>tcn_SSL_cert_custom_verify\<close> in two threads): the orders of their accesses that are safe,
    over all shuffles of the two lists; every other order is undefined.
  \<^item> \<open>Handles\<close> (\<^verbatim>\<open>P2J\<close>, \<^verbatim>\<open>J2P\<close>): on which platforms Java may keep addresses as it does. The other theories pass addresses.

  This theory adds the properties that span components: start-up with the DH parameters, and a PEM chain on its way to a connection.

  \<^bold>\<open>Interfaces.\<close> Each locale is interpreted on the definitions above: the channel locales on the BIO, \<open>resource_client\<close> on the context, the
  verification task and the key task, \<open>field_setter\<close> on five setters of a credential, \<open>checked_entries\<close> on the tables of \<^verbatim>\<open>SSL\<close> and
  \<^verbatim>\<open>SSLContext\<close> calls, \<open>jni_module\<close> on the eight modules. The task slot of a connection is also a \<open>resource_client\<close>
  for all its callbacks together (\<open>hs_slot\<close>), and so is the whole of
  contexts and connections (\<open>life\<close>).

  \<^bold>\<open>Not modelled.\<close> The numbers in the headers of the TLS library, and which callbacks it invokes in a handshake, are parameters. The
  Java classes are modelled as far as C sees them: their native methods, callbacks, tasks and constants. Text that the library puts into an
  error message is a parameter or left out; so are the addresses of functions, for which their names stand. Maven and autoconf files,
  the accessor macros for OpenSSL 1.0 and the declarations of weak symbols have no behaviour of their own.
  Of several threads only the rotation of ticket keys and the replacement of a verifier are modelled; the setters of the other Java
  callbacks have the same accesses as the latter. Entry points of one connection are taken as atomic, as Netty serialises them.
\<close>

section \<open>Start-up and temporary DH parameters\<close>

text \<open>
  C31. After a start of the library that reported success, with a library before OpenSSL 3, the callback that
  \<^verbatim>\<open>SSLContext.setTmpDHLength\<close> registers for a supported length hands out, for every key length the peer
  asks for, a group whose modulus is odd and has exactly the configured number of bits.
\<close>

theorem dh_group_after_start:
  assumes init: "SSL_initialize b fips env g = Inr (APR_SUCCESS, g', ex)" "ssl_initialized g = 0"
    and version: "openssl_version_number b < 0x30000000"
    and set: "setTmpDHLength b (Some c) len = (Some cb, exc)"
  shows "\<exists>d. dh_callback_fun cb (SSL_temp_keys g') keylen = Some d
    \<and> 2 ^ (nat len - 1) \<le> bn (dh_p d) \<and> bn (dh_p d) < 2 ^ nat len \<and> odd (bn (dh_p d))"
  using initialize_makes_keys [OF init version] tmp_dh_has_requested_length [OF _ set] by blast

theorem dh_group_after_start_witness:
  "\<exists>g' ex d. SSL_initialize ossl111_build False plain_env (globals_zero\<lparr>tcn_global_pool := 1\<rparr>) = Inr (APR_SUCCESS, g', ex)
     \<and> dh_callback_fun Callback_DH_2048 (SSL_temp_keys g') 512 = Some d \<and> bn (dh_p d) < 2 ^ 2048"
proof -
  have some: "tcn_SSL_dh_get_tmp_param ossl111_build dh_all_ok n \<noteq> None" for n
    by (simp add: tcn_SSL_dh_get_tmp_param_def get_dh_def dh_all_ok_def dh_modulus_def tmp_key_defs)
  obtain ks' where ks: "SSL_TMP_KEYS_INIT ossl111_build (dh_all_ok, dh_all_ok, dh_all_ok, dh_all_ok)
      (\<lambda>_. None) = (ks', False)"
    using some by (simp add: SSL_TMP_KEYS_INIT_def ssl_tmp_key_init_dh_def Let_def)
  have "\<exists>g' ex. SSL_initialize ossl111_build False plain_env (globals_zero\<lparr>tcn_global_pool := 1\<rparr>) = Inr (APR_SUCCESS, g', ex)"
    using ks
    by (simp add: SSL_initialize_def finish_start_def plain_env_def globals_zero_def init_engine_def has_bio_methods_def
        init_bio_methods_def log_call_def tcn_init_app_state_idx_def ossl111_build_def Let_def)
  then obtain g' ex where i: "SSL_initialize ossl111_build False plain_env (globals_zero\<lparr>tcn_global_pool := 1\<rparr>)
      = Inr (APR_SUCCESS, g', ex)" by blast
  have s: "setTmpDHLength ossl111_build (Some ctxt_zero) 2048 = (Some Callback_DH_2048, None)"
    by (simp add: setTmpDHLength_def ossl111_build_def)
  have "ssl_initialized (globals_zero\<lparr>tcn_global_pool := 1\<rparr>) = 0" "openssl_version_number ossl111_build < 0x30000000"
    by (simp_all add: globals_zero_def ossl111_build_def)
  from dh_group_after_start [OF i this s, of 512] i show ?thesis by auto
qed

section \<open>From a PEM file to the key material of a connection\<close>

text \<open>
  C32. Parsing the certificates \<open>xs\<close> of a BIO, setting them with a key on a connection and freeing the parsed
  chain, with a library that accepts each step: the connection ends up with the first
  certificate as its leaf, the others as its chain and the key, no exception is thrown, and every native
  reference taken on the way is released. With BoringSSL the certificates are the buffers made from
  the PEM blocks.
\<close>

theorem pem_chain_to_connection:
  assumes "reads (read_X509 env) s xs s'" "stack_new env \<noteq> 0" "\<not> chain_error env s'"
    and "\<And>x. x \<in> set xs \<Longrightarrow> f x \<noteq> 0 \<and> 0 < sk_push env (f x)"
    and "f = (if boring b then buffer_new env else id)"
    and "\<not> libressl_before b 0x2090200f" "ssl \<noteq> 0" "key_material_accepted b kenv (map f xs) pkey"
  shows "\<exists>h w' w''. parseX509Chain b env (Some s) w = Some (Inr (h, w', None))
     \<and> setKeyMaterial b kenv ssl (Some (cw_stack w')) pkey c =
         (c\<lparr>conn_cert := hd (map f xs),
            conn_key := (if boring b \<or> pkey \<noteq> 0 then pkey else conn_key c),
            conn_chain := (if boring b \<or> openssl_version_number b \<ge> 0x10002000 then [] else conn_chain c)
                          @ tl (map f xs)\<rparr>, [])
     \<and> freeX509Chain h w' = Inr w'' \<and> cw_owned w'' = cw_owned w"
proof -
  obtain w' where p: "parseX509Chain b env (Some s) w = Some (Inr (stack_new env, w', None))"
    and st: "cw_stack w' = map f xs" and inv: "stack_inv (stack_new env) (cw_owned w) w'"
    using parse_chain_stack [OF assms(1-5)] by blast
  show ?thesis
    using p key_material_installed [OF assms(6,7), of kenv "map f xs" pkey c] assms(8) pop_free_stack [OF inv]
    by (auto simp: st freeX509Chain_def prod_eq_iff)
qed

theorem pem_chain_to_connection_witness:
  "\<exists>h w' w''. parseX509Chain openssl_build list_env (Some [4, 5]) chain_world0 = Some (Inr (h, w', None))
     \<and> setKeyMaterial openssl_build willing_env 9 (Some (cw_stack w')) 4
          \<lparr>conn_cert = 1, conn_key = 2, conn_chain = [6]\<rparr>
        = (\<lparr>conn_cert = 4, conn_key = 4, conn_chain = [5]\<rparr>, [])
     \<and> freeX509Chain h w' = Inr w'' \<and> cw_owned w'' = {#3#}"
proof -
  have "reads (read_X509 list_env) [4, 5] [4, 5] []"
    by (rule reads.intros | simp add: list_env_def)+
  moreover have "stack_new list_env \<noteq> 0" "\<not> chain_error list_env []" "\<not> boring openssl_build"
    "\<And>x. x \<in> set [4, 5] \<Longrightarrow> id x \<noteq> 0 \<and> 0 < sk_push list_env (id x)"
    "\<not> libressl_before openssl_build 0x2090200f"
    "key_material_accepted openssl_build willing_env (map id [4, 5]) 4"
    by (auto simp: list_env_def chain_error_def openssl_build_def boring_def libressl_before_def
        key_material_accepted_def willing_env_def)
  ultimately show ?thesis
    using pem_chain_to_connection [of list_env "[4, 5]" "[4, 5]" "[]" id openssl_build 9 willing_env 4 chain_world0
        "\<lparr>conn_cert = 1, conn_key = 2, conn_chain = [6]\<rparr>"]
    by (simp add: chain_world0_def openssl_build_def)
qed

end
